(* ===== verification/Prelude.thy ===== *)
theory Prelude
  imports Main "HOL-Library.Sublist" "HOL-Library.Multiset"
begin

text \<open>
  What every component shares: Go's error values and gRPC status codes, the string and integer
  operations of the Go standard library that the source calls, and the generic lemmas on lists
  and association lists that the component proofs rest on.

  Conventions. A Go \<^verbatim>\<open>string\<close> and a Go \<^verbatim>\<open>[]byte\<close> are both \<open>string\<close>: a \<open>char\<close> of HOL is a byte,
  and \<^verbatim>\<open>len(s)\<close> counts bytes. A function \<^verbatim>\<open>f(...) (T, error)\<close> returns \<open>go_error + T\<close>, \<open>Inl\<close>
  being a non-nil error. \<^verbatim>\<open>time.Time\<close> is the \<open>int\<close> number of nanoseconds since the Unix epoch
  and \<^verbatim>\<open>time.Duration\<close> an \<open>int\<close> number of nanoseconds. \<^verbatim>\<open>int32\<close> values are \<open>int\<close>, and every
  conversion or addition that can leave the 32-bit range goes through \<open>int32\<close>.
\<close>

section \<open>Errors\<close>

type_synonym bytes = string
type_synonym time = int
type_synonym duration = int

datatype code = OK | Unknown | InvalidArgument | NotFound | AlreadyExists
  | FailedPrecondition | Internal | Unauthenticated

datatype go_error =
    Status code string       \<comment> \<open>\<^verbatim>\<open>status.Errorf(codes.c, ...)\<close>\<close>
  | ErrRecordNotFound        \<comment> \<open>\<^verbatim>\<open>gorm.ErrRecordNotFound\<close>\<close>
  | ErrConcurrentUpdate      \<comment> \<open>\<^verbatim>\<open>store.ErrConcurrentUpdate\<close>\<close>
  | Errorf string            \<comment> \<open>\<^verbatim>\<open>fmt.Errorf(...)\<close> with no \<^verbatim>\<open>%w\<close>\<close>
  | Wrapf string go_error    \<comment> \<open>\<^verbatim>\<open>fmt.Errorf("...: %w", err)\<close>\<close>

fun code_string :: "code \<Rightarrow> string" where
  "code_string OK = ''OK''"
| "code_string Unknown = ''Unknown''"
| "code_string InvalidArgument = ''InvalidArgument''"
| "code_string NotFound = ''NotFound''"
| "code_string AlreadyExists = ''AlreadyExists''"
| "code_string FailedPrecondition = ''FailedPrecondition''"
| "code_string Internal = ''Internal''"
| "code_string Unauthenticated = ''Unauthenticated''"

text \<open>\<^verbatim>\<open>err.Error()\<close>, which \<^verbatim>\<open>%s\<close> prints.\<close>

fun Error :: "go_error \<Rightarrow> string" where
  "Error (Status c m) = ''rpc error: code = '' @ code_string c @ '' desc = '' @ m"
| "Error ErrRecordNotFound = ''record not found''"
| "Error ErrConcurrentUpdate = ''store: concurrent update''"
| "Error (Errorf m) = m"
| "Error (Wrapf p e) = p @ Error e"

text \<open>\<^verbatim>\<open>errors.Is(err, target)\<close> follows the chain of wrapped errors.\<close>

fun errors_Is :: "go_error \<Rightarrow> go_error \<Rightarrow> bool" where
  "errors_Is (Wrapf p e) t = (Wrapf p e = t \<or> errors_Is e t)"
| "errors_Is e t = (e = t)"

text \<open>\<^verbatim>\<open>status.Code(err)\<close>: the code of a status error, \<^verbatim>\<open>Unknown\<close> for any other error.\<close>

fun status_Code :: "go_error \<Rightarrow> code" where
  "status_Code (Status c m) = c"
| "status_Code (Wrapf p e) = status_Code e"
| "status_Code _ = Unknown"

text \<open>A sequence of guards \<^verbatim>\<open>if cond { return err }\<close>: the error of the first condition that holds.\<close>

fun guards :: "(bool \<times> go_error) list \<Rightarrow> go_error + unit" where
  "guards [] = Inr ()"
| "guards ((c, e) # gs) = (if c then Inl e else guards gs)"

text \<open>A nested validation whose error is prefixed, as a guard.\<close>

definition nested :: "string \<Rightarrow> go_error + unit \<Rightarrow> bool \<times> go_error" where
  "nested what r = (case r of Inl e \<Rightarrow> (True, Errorf (what @ Error e)) | Inr _ \<Rightarrow> (False, Errorf []))"

text \<open>A loop that converts the elements of a slice and returns at the first error.\<close>

fun collect :: "('a \<Rightarrow> go_error + 'b) \<Rightarrow> 'a list \<Rightarrow> go_error + 'b list" where
  "collect f [] = Inr []"
| "collect f (x # xs) = (case f x of Inl e \<Rightarrow> Inl e
     | Inr y \<Rightarrow> (case collect f xs of Inl e \<Rightarrow> Inl e | Inr ys \<Rightarrow> Inr (y # ys)))"

section \<open>Strings and integers of the Go standard library\<close>

definition int32 :: "int \<Rightarrow> int" where
  "int32 x = (x + 2 ^ 31) mod 2 ^ 32 - 2 ^ 31"

definition is_int32 :: "int \<Rightarrow> bool" where
  "is_int32 x \<longleftrightarrow> - (2 ^ 31) \<le> x \<and> x < 2 ^ 31"

text \<open>\<^verbatim>\<open>t.UTC().Unix()\<close>: whole seconds since the epoch.\<close>

definition Unix :: "time \<Rightarrow> int" where
  "Unix t = t div 1000000000"

definition upper :: "char \<Rightarrow> char" where
  "upper c = (let n = of_char c :: nat in if 97 \<le> n \<and> n \<le> 122 then char_of (n - 32) else c)"

definition lower :: "char \<Rightarrow> char" where
  "lower c = (let n = of_char c :: nat in if 65 \<le> n \<and> n \<le> 90 then char_of (n + 32) else c)"

definition ToUpper :: "string \<Rightarrow> string" where
  "ToUpper s = map upper s"

definition ToLower :: "string \<Rightarrow> string" where
  "ToLower s = map lower s"

definition HasPrefix :: "string \<Rightarrow> string \<Rightarrow> bool" where
  "HasPrefix s p \<longleftrightarrow> take (length p) s = p"

fun Contains :: "string \<Rightarrow> string \<Rightarrow> bool" where
  "Contains [] p = (p = [])"
| "Contains (c # s) p = (HasPrefix (c # s) p \<or> Contains s p)"

definition TrimPrefix :: "string \<Rightarrow> string \<Rightarrow> string" where
  "TrimPrefix s p = (if HasPrefix s p then drop (length p) s else s)"

text \<open>\<^verbatim>\<open>strings.Split(s, sep)\<close> for a separator of one byte: always at least one piece.\<close>

fun Split :: "string \<Rightarrow> char \<Rightarrow> string list" where
  "Split [] d = [[]]"
| "Split (c # s) d = (if c = d then [] # Split s d
     else (case Split s d of [] \<Rightarrow> [[c]] | x # xs \<Rightarrow> (c # x) # xs))"

fun Join :: "string list \<Rightarrow> string \<Rightarrow> string" where
  "Join [] d = []"
| "Join [x] d = x"
| "Join (x # y # xs) d = x @ d @ Join (y # xs) d"

definition digit :: "nat \<Rightarrow> char" where
  "digit n = char_of (48 + n)"

fun nat_string :: "nat \<Rightarrow> string" where
  "nat_string n = (if n < 10 then [digit n] else nat_string (n div 10) @ [digit (n mod 10)])"

declare nat_string.simps [simp del]

text \<open>\<^verbatim>\<open>%d\<close> of an integer.\<close>

definition Itoa :: "int \<Rightarrow> string" where
  "Itoa x = (if x < 0 then CHR ''-'' # nat_string (nat (- x)) else nat_string (nat x))"

text \<open>\<^verbatim>\<open>%q\<close>: the quoted string with quotation marks and backslashes escaped. Control characters
  are written by Go as escapes as well; the identifiers the source prints have none.\<close>

definition Quote :: "string \<Rightarrow> string" where
  "Quote s = CHR 0x22 # concat (map (\<lambda>c. if c = CHR 0x22 \<or> c = CHR 0x5C then [CHR 0x5C, c] else [c]) s) @ [CHR 0x22]"

definition is_digit :: "char \<Rightarrow> bool" where
  "is_digit c \<longleftrightarrow> 48 \<le> (of_char c :: nat) \<and> (of_char c :: nat) \<le> 57"

definition digits_value :: "string \<Rightarrow> int" where
  "digits_value s = foldl (\<lambda>a c. 10 * a + (int (of_char c) - 48)) 0 s"

text \<open>\<^verbatim>\<open>strconv.ParseInt(s, 10, 32)\<close>: \<open>None\<close> on a syntax or range error.\<close>

definition ParseInt32 :: "string \<Rightarrow> int option" where
  "ParseInt32 s =
    (let neg = (s \<noteq> [] \<and> hd s = CHR ''-'');
         body = (if s \<noteq> [] \<and> (hd s = CHR ''-'' \<or> hd s = CHR ''+'') then tl s else s)
     in if body = [] \<or> \<not> list_all is_digit body then None
        else let v = (if neg then - digits_value body else digits_value body)
             in if is_int32 v then Some v else None)"

section \<open>Go maps that the source ranges over\<close>

text \<open>
  A Go map the source iterates over is an association list with distinct keys; the position of an
  entry carries no meaning. \<open>map_of\<close> reads it, \<open>map_put\<close> is \<^verbatim>\<open>m[k] = v\<close>.
\<close>

fun map_put :: "'k \<Rightarrow> 'v \<Rightarrow> ('k \<times> 'v) list \<Rightarrow> ('k \<times> 'v) list" where
  "map_put k v [] = [(k, v)]"
| "map_put k v ((k', v') # m) = (if k = k' then (k, v) # m else (k', v') # map_put k v m)"

abbreviation keys :: "('k \<times> 'v) list \<Rightarrow> 'k list" where
  "keys m \<equiv> map fst m"

section \<open>Shared lemmas\<close>

named_theorems go_simps \<open>unfolding of the small library operations\<close>

lemma is_int32_int32 [simp]: "is_int32 (int32 x)"
proof -
  have "0 \<le> (x + 2 ^ 31) mod 2 ^ 32" "(x + 2 ^ 31) mod 2 ^ 32 < (2 ^ 32 :: int)"
    by simp_all
  then show ?thesis by (simp add: is_int32_def int32_def)
qed

lemma int32_id [simp]: "is_int32 x \<Longrightarrow> int32 x = x"
  by (simp add: is_int32_def int32_def)

lemma ParseInt32_range: "ParseInt32 s = Some v \<Longrightarrow> is_int32 v"
  by (auto simp: ParseInt32_def Let_def split: if_splits)

lemma HasPrefix_iff_prefix: "HasPrefix s p \<longleftrightarrow> prefix p s"
  unfolding HasPrefix_def prefix_def by (metis append_eq_conv_conj append_take_drop_id)

lemma Contains_iff_sublist: "Contains s p \<longleftrightarrow> sublist p s"
  by (induction s) (auto simp: HasPrefix_iff_prefix sublist_Cons_right)

lemma Split_nonempty [simp]: "Split s d \<noteq> []"
  by (induction s) (auto split: list.splits)

lemma Join_Cons: "xs \<noteq> [] \<Longrightarrow> Join (x # xs) d = x @ d @ Join xs d"
  by (cases xs) auto

lemma Join_Split [simp]: "Join (Split s d) [d] = s"
proof (induction s)
  case Nil
  then show ?case by simp
next
  case (Cons c s)
  obtain y ys where ys: "Split s d = y # ys"
    by (cases "Split s d") auto
  then show ?case
    using Cons by (cases ys) auto
qed

lemma map_of_map_put [simp]: "map_of (map_put k v m) = (map_of m)(k \<mapsto> v)"
  by (induction m) (auto simp: fun_eq_iff)

lemma keys_map_put: "keys (map_put k v m) = (if k \<in> set (keys m) then keys m else keys m @ [k])"
  by (induction m) (force simp: image_iff)+

lemma set_keys_map_put [simp]: "set (keys (map_put k v m)) = insert k (set (keys m))"
  unfolding keys_map_put by auto

lemma distinct_map_put [simp]: "distinct (keys m) \<Longrightarrow> distinct (keys (map_put k v m))"
  unfolding keys_map_put by auto

lemma set_map_put: "set (map_put k v m) \<subseteq> insert (k, v) (set m)"
  by (induction m) (auto split: if_splits)

lemma map_put_fresh: "k \<notin> set (keys m) \<Longrightarrow> map_put k v m = m @ [(k, v)]"
  by (induction m) auto

lemma distinct_key_inj:
  "distinct (map key t) \<Longrightarrow> x \<in> set t \<Longrightarrow> y \<in> set t \<Longrightarrow> key x = key y \<Longrightarrow> x = y"
  by (meson distinct_map inj_onD)

lemma filter_key_unique:
  assumes "distinct (map key t)" and "r \<in> set t"
  shows "filter (\<lambda>x. key x = key r) t = [r]"
  using assms
proof (induction t)
  case (Cons a t)
  show ?case
  proof (cases "a = r")
    case True
    then have "\<forall>x \<in> set t. key x \<noteq> key r"
      using Cons.prems(1) by (force simp: image_iff)
    then show ?thesis using True by (simp add: filter_empty_conv)
  next
    case False
    then have "r \<in> set t" using Cons.prems(2) by simp
    then have "key a \<noteq> key r" using Cons.prems(1) by (force simp: image_iff)
    then show ?thesis using Cons False by simp
  qed
qed simp

lemma sum_list_map_put:
  fixes f :: "'v \<Rightarrow> int"
  assumes "distinct (keys m)"
  shows "sum_list (map (f \<circ> snd) (map_put k v m)) =
    sum_list (map (f \<circ> snd) m) + f v - (case map_of m k of None \<Rightarrow> 0 | Some w \<Rightarrow> f w)"
  using assms
proof (induction m)
  case (Cons a m)
  then show ?case by (cases a) (auto split: option.splits)
qed simp

lemma map_of_mem_distinct:
  "distinct (keys m) \<Longrightarrow> (k, v) \<in> set m \<longleftrightarrow> map_of m k = Some v"
  by simp

lemma guards_ok: "guards gs = Inr u \<longleftrightarrow> (\<forall>(c, e) \<in> set gs. \<not> c)"
  by (induction gs) (auto split: if_splits)

lemma nested_ok [simp]: "fst (nested p r) \<longleftrightarrow> (\<forall>u. r \<noteq> Inr u)"
  by (auto simp: nested_def split: sum.split)

lemma guards_ok_fst: "guards gs = Inr u \<longleftrightarrow> (\<forall>g \<in> set gs. \<not> fst g)"
  by (auto simp: guards_ok)

lemma collect_ok: "collect f xs = Inr ys \<Longrightarrow> list_all2 (\<lambda>x y. f x = Inr y) xs ys"
  by (induction xs arbitrary: ys) (auto split: sum.splits)

lemma collect_total: "(\<And>x. x \<in> set xs \<Longrightarrow> \<exists>y. f x = Inr y) \<Longrightarrow> \<exists>ys. collect f xs = Inr ys"
  by (induction xs) (fastforce split: sum.splits)+

lemma distinct_map_mset: "mset xs = mset ys \<Longrightarrow> distinct (map f ys) \<Longrightarrow> distinct (map f xs)"
  by (metis mset_map mset_eq_imp_distinct_iff)

end
