(* ===== verification/Api.thy ===== *)
theory Api
  imports Complex_Main Prelude
begin

text \<open>
  The messages and enumerations of \<^verbatim>\<open>api/v1\<close> that the components exchange, with the fields of the
  generated Go structs. A pointer to a message is an \<open>option\<close>, a Go map an association list, a
  repeated field a list. A protobuf enumeration is an open \<^verbatim>\<open>int32\<close>: it is an \<open>int\<close> with one
  abbreviation per declared value and the generated name table.

  \<^verbatim>\<open>proto.Marshal\<close> and \<^verbatim>\<open>proto.Unmarshal\<close> are third-party: a \<open>codec\<close> is a pair of functions, and the locale
  \<open>proto_codec\<close> states that unmarshalling returns what was marshalled and that no bytes decode to
  the empty message.
\<close>

section \<open>Marshalling\<close>

record 'p codec =
  Marshal :: "'p \<Rightarrow> go_error + bytes"
  Unmarshal :: "bytes \<Rightarrow> go_error + 'p"

locale proto_codec =
  fixes C :: "'p codec" and empty :: 'p
  assumes unmarshal_marshal: "Marshal C p = Inr b \<Longrightarrow> Unmarshal C b = Inr p"
    and unmarshal_nil: "Unmarshal C [] = Inr empty"

text \<open>An executable codec over a given list of messages.\<close>

fun index_of :: "'p \<Rightarrow> 'p list \<Rightarrow> nat option" where
  "index_of p [] = None"
| "index_of p (q # ps) = (if p = q then Some 0 else map_option Suc (index_of p ps))"

definition dict_codec :: "'p \<Rightarrow> 'p list \<Rightarrow> 'p codec" where
  "dict_codec z ps = \<lparr>
     Marshal = (\<lambda>p. case index_of p ps of
        None \<Rightarrow> Inl (Errorf ''marshal'') | Some i \<Rightarrow> Inr (replicate (Suc i) CHR ''m'')),
     Unmarshal = (\<lambda>b. if b = [] then Inr z
        else if length b \<le> length ps then Inr (ps ! (length b - 1)) else Inl (Errorf ''unmarshal''))\<rparr>"

lemma index_of_Some: "index_of p ps = Some i \<Longrightarrow> i < length ps \<and> ps ! i = p"
  by (induction ps arbitrary: i) (auto split: if_splits)

interpretation dict: proto_codec "dict_codec z ps" z for z :: 'p and ps
  by unfold_locales (auto simp: dict_codec_def dest: index_of_Some split: option.splits)

section \<open>Enumerations\<close>

definition enum_String :: "(int \<times> string) list \<Rightarrow> int \<Rightarrow> string" where
  "enum_String names n = (case map_of names n of Some s \<Rightarrow> s | None \<Rightarrow> Itoa n)"

definition enum_value :: "(int \<times> string) list \<Rightarrow> string \<Rightarrow> int option" where
  "enum_value names s = map_of (map (\<lambda>(n, x). (x, n)) names) s"

abbreviation (input) InternalJob_STATE_UNSPECIFIED :: int where "InternalJob_STATE_UNSPECIFIED \<equiv> 0"
abbreviation (input) InternalJob_QUEUED :: int where "InternalJob_QUEUED \<equiv> 1"
abbreviation (input) InternalJob_RUNNING :: int where "InternalJob_RUNNING \<equiv> 2"
abbreviation (input) InternalJob_FAILED :: int where "InternalJob_FAILED \<equiv> 3"
abbreviation (input) InternalJob_SUCCEEDED :: int where "InternalJob_SUCCEEDED \<equiv> 4"
abbreviation (input) InternalJob_CANCELED :: int where "InternalJob_CANCELED \<equiv> 5"

definition InternalJob_State_name :: "(int \<times> string) list" where
  "InternalJob_State_name = [(0, ''STATE_UNSPECIFIED''), (1, ''QUEUED''), (2, ''RUNNING''),
     (3, ''FAILED''), (4, ''SUCCEEDED''), (5, ''CANCELED'')]"

abbreviation (input) InternalJob_ACTION_UNSPECIFIED :: int where "InternalJob_ACTION_UNSPECIFIED \<equiv> 0"
abbreviation (input) InternalJob_CREATING :: int where "InternalJob_CREATING \<equiv> 1"
abbreviation (input) InternalJob_CANCELING :: int where "InternalJob_CANCELING \<equiv> 2"

definition InternalJob_Action_name :: "(int \<times> string) list" where
  "InternalJob_Action_name = [(0, ''ACTION_UNSPECIFIED''), (1, ''CREATING''), (2, ''CANCELING'')]"

abbreviation (input) PHASE_UNSPECIFIED :: int where "PHASE_UNSPECIFIED \<equiv> 0"
abbreviation (input) PHASE_PREPROCESSED :: int where "PHASE_PREPROCESSED \<equiv> 1"
abbreviation (input) PHASE_JOB_CREATED :: int where "PHASE_JOB_CREATED \<equiv> 2"
abbreviation (input) PHASE_FINETUNED :: int where "PHASE_FINETUNED \<equiv> 3"
abbreviation (input) PHASE_FAILED :: int where "PHASE_FAILED \<equiv> 4"
abbreviation (input) PHASE_RECREATE :: int where "PHASE_RECREATE \<equiv> 5"
abbreviation (input) PHASE_CANCELED :: int where "PHASE_CANCELED \<equiv> 6"

abbreviation (input) NotebookState_STATE_UNSPECIFIED :: int where "NotebookState_STATE_UNSPECIFIED \<equiv> 0"
abbreviation (input) NotebookState_QUEUED :: int where "NotebookState_QUEUED \<equiv> 1"
abbreviation (input) NotebookState_INITIALIZING :: int where "NotebookState_INITIALIZING \<equiv> 2"
abbreviation (input) NotebookState_RUNNING :: int where "NotebookState_RUNNING \<equiv> 3"
abbreviation (input) NotebookState_STOPPED :: int where "NotebookState_STOPPED \<equiv> 4"
abbreviation (input) NotebookState_FAILED :: int where "NotebookState_FAILED \<equiv> 5"
abbreviation (input) NotebookState_DELETED :: int where "NotebookState_DELETED \<equiv> 6"
abbreviation (input) NotebookState_REQUEUED :: int where "NotebookState_REQUEUED \<equiv> 7"

definition NotebookState_name :: "(int \<times> string) list" where
  "NotebookState_name = [(0, ''STATE_UNSPECIFIED''), (1, ''QUEUED''), (2, ''INITIALIZING''), (3, ''RUNNING''),
     (4, ''STOPPED''), (5, ''FAILED''), (6, ''DELETED''), (7, ''REQUEUED'')]"

abbreviation (input) NotebookQueuedAction_ACTION_UNSPECIFIED :: int where "NotebookQueuedAction_ACTION_UNSPECIFIED \<equiv> 0"
abbreviation (input) NotebookQueuedAction_STARTING :: int where "NotebookQueuedAction_STARTING \<equiv> 1"
abbreviation (input) NotebookQueuedAction_STOPPING :: int where "NotebookQueuedAction_STOPPING \<equiv> 2"
abbreviation (input) NotebookQueuedAction_DELETING :: int where "NotebookQueuedAction_DELETING \<equiv> 3"
abbreviation (input) NotebookQueuedAction_REQUEUEING :: int where "NotebookQueuedAction_REQUEUEING \<equiv> 4"

definition NotebookQueuedAction_name :: "(int \<times> string) list" where
  "NotebookQueuedAction_name = [(0, ''ACTION_UNSPECIFIED''), (1, ''STARTING''), (2, ''STOPPING''),
     (3, ''DELETING''), (4, ''REQUEUEING'')]"

abbreviation (input) InternalBatchJob_STATE_UNSPECIFIED :: int where "InternalBatchJob_STATE_UNSPECIFIED \<equiv> 0"
abbreviation (input) InternalBatchJob_QUEUED :: int where "InternalBatchJob_QUEUED \<equiv> 1"
abbreviation (input) InternalBatchJob_RUNNING :: int where "InternalBatchJob_RUNNING \<equiv> 2"
abbreviation (input) InternalBatchJob_SUCCEEDED :: int where "InternalBatchJob_SUCCEEDED \<equiv> 3"
abbreviation (input) InternalBatchJob_FAILED :: int where "InternalBatchJob_FAILED \<equiv> 4"
abbreviation (input) InternalBatchJob_CANCELED :: int where "InternalBatchJob_CANCELED \<equiv> 5"
abbreviation (input) InternalBatchJob_DELETED :: int where "InternalBatchJob_DELETED \<equiv> 6"

definition InternalBatchJob_State_name :: "(int \<times> string) list" where
  "InternalBatchJob_State_name = [(0, ''STATE_UNSPECIFIED''), (1, ''QUEUED''), (2, ''RUNNING''),
     (3, ''SUCCEEDED''), (4, ''FAILED''), (5, ''CANCELED''), (6, ''DELETED'')]"

abbreviation (input) InternalBatchJob_ACTION_UNSPECIFIED :: int where "InternalBatchJob_ACTION_UNSPECIFIED \<equiv> 0"
abbreviation (input) InternalBatchJob_CREATING :: int where "InternalBatchJob_CREATING \<equiv> 1"
abbreviation (input) InternalBatchJob_CANCELING :: int where "InternalBatchJob_CANCELING \<equiv> 2"
abbreviation (input) InternalBatchJob_DELETING :: int where "InternalBatchJob_DELETING \<equiv> 3"

definition InternalBatchJob_Action_name :: "(int \<times> string) list" where
  "InternalBatchJob_Action_name = [(0, ''ACTION_UNSPECIFIED''), (1, ''CREATING''), (2, ''CANCELING''),
     (3, ''DELETING'')]"

abbreviation (input) JobType_UNSPECIFIED :: int where "JobType_UNSPECIFIED \<equiv> 0"
abbreviation (input) JobType_BATCH :: int where "JobType_BATCH \<equiv> 1"
abbreviation (input) JobType_FINE_TUNING :: int where "JobType_FINE_TUNING \<equiv> 2"
abbreviation (input) JobType_NOTEBOOK :: int where "JobType_NOTEBOOK \<equiv> 3"

section \<open>Fine-tuning jobs\<close>

record Job_Error =
  Job_Error_Code :: string
  Job_Error_Message :: string
  Job_Error_Param :: string

record Job_Hyperparameters =
  Job_HP_BatchSize :: int
  Job_HP_LearningRateMultiplier :: real
  Job_HP_NEpochs :: int

record FineTuningJobMethod_Hyperparameters =
  Method_HP_BatchSize :: int
  Method_HP_Beta :: real
  Method_HP_LearningRateMultiplier :: real
  Method_HP_NEpochs :: int

record FineTuningJobMethod =
  Method_Type :: string
  Method_Hyperparameters :: "FineTuningJobMethod_Hyperparameters option"

record Integration_Wandb =
  Wandb_Project :: string
  Wandb_Name :: string
  Wandb_Entity :: string
  Wandb_Tags :: "string list"

record Integration =
  Integration_Type :: string
  Integration_Wandb_field :: "Integration_Wandb option"

text \<open>\<^verbatim>\<open>Job_Resources\<close> and \<^verbatim>\<open>BatchJob_Resources\<close> hold one \<^verbatim>\<open>int32\<close>, the GPU count.\<close>

record v1_job =
  Job_Id :: string
  Job_CreatedAt :: int
  Job_Error_field :: "Job_Error option"
  Job_FineTunedModel :: string
  Job_FinishedAt :: int
  Job_Hyperparameters_field :: "Job_Hyperparameters option"
  Job_Method :: "FineTuningJobMethod option"
  Job_Model :: string
  Job_Object :: string
  Job_OrganizationId :: string
  Job_ResultFiles :: "string list"
  Job_Status :: string
  Job_TrainedTokens :: int
  Job_TrainingFile :: string
  Job_ValidationFile :: string
  Job_Integrations :: "Integration list"
  Job_Seed :: int
  Job_ProjectId :: string
  Job_KubernetesNamespace :: string
  Job_ClusterId :: string
  Job_OrganizationTitle :: string
  Job_ProjectTitle :: string
  Job_ClusterName :: string
  Job_Resources :: "int option"

definition empty_v1_job :: v1_job where
  "empty_v1_job = \<lparr>Job_Id = [], Job_CreatedAt = 0, Job_Error_field = None, Job_FineTunedModel = [],
     Job_FinishedAt = 0, Job_Hyperparameters_field = None, Job_Method = None, Job_Model = [], Job_Object = [],
     Job_OrganizationId = [], Job_ResultFiles = [], Job_Status = [], Job_TrainedTokens = 0,
     Job_TrainingFile = [], Job_ValidationFile = [], Job_Integrations = [], Job_Seed = 0,
     Job_ProjectId = [], Job_KubernetesNamespace = [], Job_ClusterId = [], Job_OrganizationTitle = [],
     Job_ProjectTitle = [], Job_ClusterName = [], Job_Resources = None\<rparr>"

record CreateJobRequest_Hyperparameters =
  Req_HP_BatchSize :: int
  Req_HP_LearningRateMultiplier :: real
  Req_HP_NEpochs :: int

record CreateJobRequest =
  CJR_Model :: string
  CJR_TrainingFile :: string
  CJR_Hyperparameters :: "CreateJobRequest_Hyperparameters option"
  CJR_Method :: "FineTuningJobMethod option"
  CJR_Suffix :: string
  CJR_ValidationFile :: string
  CJR_Integrations :: "Integration list"
  CJR_Seed :: int
  CJR_Resources :: "int option"
  CJR_Metadata :: "(string \<times> string) list"

text \<open>\<^verbatim>\<open>ListJobsRequest\<close>, \<^verbatim>\<open>ListNotebooksRequest\<close> and \<^verbatim>\<open>ListBatchJobsRequest\<close> have the same fields.\<close>

record ListRequest =
  LR_After :: string
  LR_Limit :: int

record ListJobsResponse =
  LJR_Object :: string
  LJR_Data :: "v1_job list"
  LJR_HasMore :: bool
  LJR_TotalItems :: int

record InternalJob =
  IJ_Job :: v1_job
  IJ_OutputModelId :: string
  IJ_Suffix :: string
  IJ_State :: int
  IJ_QueuedAction :: int

record UpdateJobPhaseRequest =
  UJP_Id :: string
  UJP_Phase :: int
  UJP_Message :: string
  UJP_ModelId :: string

section \<open>Notebooks\<close>

record Resources_Quantity =
  Quantity_Requests :: int
  Quantity_Limits :: int

record Resources =
  Res_CpuMilicore :: "Resources_Quantity option"
  Res_MemoryMegabytes :: "Resources_Quantity option"
  Res_StorageMegabytes :: "Resources_Quantity option"
  Res_GpuCount :: int

record Notebook_Error =
  Notebook_Error_Code :: string
  Notebook_Error_Message :: string

record v1_notebook =
  Notebook_Id :: string
  Notebook_Name :: string
  Notebook_CreatedAt :: int
  Notebook_StartedAt :: int
  Notebook_StoppedAt :: int
  Notebook_Image :: string
  Notebook_Resources :: "Resources option"
  Notebook_Envs :: "(string \<times> string) list"
  Notebook_Error_field :: "Notebook_Error option"
  Notebook_Status :: string
  Notebook_Token :: string
  Notebook_ProjectId :: string
  Notebook_OrganizationId :: string
  Notebook_KubernetesNamespace :: string
  Notebook_ClusterId :: string
  Notebook_OrganizationTitle :: string
  Notebook_ProjectTitle :: string
  Notebook_ClusterName :: string
  Notebook_AdditionalExposedPorts :: "int list"

definition empty_v1_notebook :: v1_notebook where
  "empty_v1_notebook = \<lparr>Notebook_Id = [], Notebook_Name = [], Notebook_CreatedAt = 0, Notebook_StartedAt = 0,
     Notebook_StoppedAt = 0, Notebook_Image = [], Notebook_Resources = None, Notebook_Envs = [],
     Notebook_Error_field = None, Notebook_Status = [], Notebook_Token = [], Notebook_ProjectId = [],
     Notebook_OrganizationId = [], Notebook_KubernetesNamespace = [], Notebook_ClusterId = [],
     Notebook_OrganizationTitle = [], Notebook_ProjectTitle = [], Notebook_ClusterName = [],
     Notebook_AdditionalExposedPorts = []\<rparr>"

datatype CreateNotebookRequest_Image = Image_None | Image_Type string | Image_Uri string

record CreateNotebookRequest =
  CNR_Name :: string
  CNR_Image :: "CreateNotebookRequest_Image option"
  CNR_Resources :: "Resources option"
  CNR_Envs :: "(string \<times> string) list"
  CNR_AdditionalExposedPorts :: "int list"

record ListNotebooksResponse =
  LNR_Notebooks :: "v1_notebook list"
  LNR_HasMore :: bool
  LNR_TotalItems :: int

record InternalNotebook =
  IN_Notebook :: v1_notebook
  IN_State :: int
  IN_QueuedAction :: int

record UpdateNotebookStateRequest =
  UNS_Id :: string
  UNS_State :: int
  UNS_Reason :: string

section \<open>Batch jobs\<close>

record BatchJob_Error =
  BatchJob_Error_Code :: string
  BatchJob_Error_Message :: string

text \<open>\<^verbatim>\<open>BatchJob_Kind\<close> wraps a oneof with the single alternative \<^verbatim>\<open>pytorch\<close>, which holds the worker count.\<close>

datatype BatchJob_Kind = Kind_None | Kind_Pytorch int

record v1_batch_job =
  BatchJob_Id :: string
  BatchJob_CreatedAt :: int
  BatchJob_FinishedAt :: int
  BatchJob_Error_field :: "BatchJob_Error option"
  BatchJob_Status :: string
  BatchJob_Image :: string
  BatchJob_Command :: string
  BatchJob_Resources :: "int option"
  BatchJob_Envs :: "(string \<times> string) list"
  BatchJob_DataFiles :: "string list"
  BatchJob_ProjectId :: string
  BatchJob_KubernetesNamespace :: string
  BatchJob_ClusterId :: string
  BatchJob_Kind_field :: "BatchJob_Kind option"
  BatchJob_OrganizationTitle :: string
  BatchJob_ProjectTitle :: string
  BatchJob_ClusterName :: string

definition empty_v1_batch_job :: v1_batch_job where
  "empty_v1_batch_job = \<lparr>BatchJob_Id = [], BatchJob_CreatedAt = 0, BatchJob_FinishedAt = 0,
     BatchJob_Error_field = None, BatchJob_Status = [], BatchJob_Image = [], BatchJob_Command = [],
     BatchJob_Resources = None, BatchJob_Envs = [], BatchJob_DataFiles = [], BatchJob_ProjectId = [],
     BatchJob_KubernetesNamespace = [], BatchJob_ClusterId = [], BatchJob_Kind_field = None,
     BatchJob_OrganizationTitle = [], BatchJob_ProjectTitle = [], BatchJob_ClusterName = []\<rparr>"

record CreateBatchJobRequest =
  CBR_Image :: string
  CBR_Command :: string
  CBR_Scripts :: "(string \<times> bytes) list"
  CBR_Resources :: "int option"
  CBR_Envs :: "(string \<times> string) list"
  CBR_DataFiles :: "string list"
  CBR_Kind :: "BatchJob_Kind option"

record ListBatchJobsResponse =
  LBR_Jobs :: "v1_batch_job list"
  LBR_HasMore :: bool
  LBR_TotalItems :: int

record InternalBatchJob =
  IB_Job :: v1_batch_job
  IB_State :: int
  IB_QueuedAction :: int

record UpdateBatchJobStateRequest =
  UBS_Id :: string
  UBS_State :: int
  UBS_Reason :: string
  UBS_Message :: string

section \<open>Clusters, summaries and the syncer service\<close>

record GpuNode =
  GpuNode_ResourceName :: string
  GpuNode_AllocatableCount :: int

record GpuPod =
  GpuPod_ResourceName :: string
  GpuPod_AllocatedCount :: int
  GpuPod_NamespacedName :: string

record ProvisionableResource =
  PR_InstanceFamily :: string
  PR_InstanceType :: string

record ClusterStatus =
  CS_GpuNodes :: "GpuNode list"
  CS_ProvisionableResources :: "ProvisionableResource list"
  CS_GpuPods :: "GpuPod list"

definition empty_ClusterStatus :: ClusterStatus where
  "empty_ClusterStatus = \<lparr>CS_GpuNodes = [], CS_ProvisionableResources = [], CS_GpuPods = []\<rparr>"

record Cluster_Summary =
  Summary_GpuCapacity :: int
  Summary_GpuAllocated :: int
  Summary_GpuPodCount :: int

record v1_cluster =
  Cluster_Id :: string
  Cluster_Name :: string
  Cluster_Status :: ClusterStatus
  Cluster_Summary_field :: Cluster_Summary
  Cluster_LastUpdatedAt :: int

record RequestFilter =
  RF_StartTimestamp :: int
  RF_EndTimestamp :: int
  RF_Duration :: "duration option"

record JobSummaryValue =
  V_JobType :: int
  V_TotalCreated :: int
  V_TotalCompleted :: int
  V_TotalCancelled :: int
  V_TotalFailed :: int
  V_TotalDeleted :: int
  V_TotalRunning :: int
  V_TotalQueued :: int
  V_TotalStopped :: int
  V_TotalUnfinished :: int

record JobSummaryDatapoint =
  DP_Timestamp :: int
  DP_Values :: "JobSummaryValue list"

record PatchKubernetesObjectRequest =
  PKO_Namespace :: string
  PKO_Name :: string
  PKO_Group :: string
  PKO_Version :: string
  PKO_Resource :: string
  PKO_Resources :: "int option"
  PKO_Data :: bytes

record PatchKubernetesObjectResponse =
  PKR_ClusterId :: string
  PKR_Uid :: string

record DeleteKubernetesObjectRequest =
  DKO_ClusterId :: string
  DKO_Namespace :: string
  DKO_Name :: string
  DKO_Group :: string
  DKO_Version :: string
  DKO_Resource :: string

end
