(* ===== verification/Gorm.thy ===== *)
theory Gorm
  imports Prelude
begin

text \<open>
  The database interface. \<^verbatim>\<open>gorm.DB\<close> is a third-party library: what the source calls of it is a
  record of functions, an argument of every store operation, and what the source relies on are the
  laws of the locale \<open>gorm\<close>. A table is the list of its committed rows.

  \<^item> \<open>gTake now P t\<close> is \<^verbatim>\<open>db.Where(P).Take(&row)\<close>;
  \<^item> \<open>gFind now q t\<close> is \<^verbatim>\<open>db.Where(..).Order(..).Limit(..).Find(&rows)\<close>;
  \<^item> \<open>gFirst now q t\<close> is \<^verbatim>\<open>db.Order(..).First(&row)\<close>;
  \<^item> \<open>gCount now P t\<close> is \<^verbatim>\<open>db.Model(..).Where(P).Count(&n)\<close>;
  \<^item> \<open>gGroup now P k t\<close> is a \<^verbatim>\<open>Select(.., COUNT( * ))\<close> with \<^verbatim>\<open>Where(P)\<close> and \<^verbatim>\<open>Group(k)\<close>; \<open>k\<close> gives \<open>None\<close> for a
    row on which the database cannot evaluate the grouping expression;
  \<^item> \<open>gCreate now r t\<close> is \<^verbatim>\<open>db.Create(&r)\<close>, \<open>gSave now r t\<close> is \<^verbatim>\<open>db.Save(&r)\<close>;
  \<^item> \<open>gUpdates now z P f t\<close> is \<^verbatim>\<open>db.Model(&z).Where(P).Updates(map)\<close>, where \<open>f\<close> assigns the columns of
    the map; it returns \<^verbatim>\<open>RowsAffected\<close> and the struct \<open>z\<close> as the call leaves it.

  Every call takes the time it is made at, so that it may fail at one time and not at another. The
  locale \<open>reliable_gorm\<close> adds that calls do not fail for reasons of their own; \<open>sql_gorm\<close> is an
  executable engine with the SQL meaning of the calls, on which both locales are interpreted.
\<close>

section \<open>The interface\<close>

record 'r db_query =
  q_where :: "'r \<Rightarrow> bool"
  q_order :: "'r \<Rightarrow> 'r \<Rightarrow> bool"
  q_limit :: "int option"

type_synonym group_key = "string \<times> string \<times> string \<times> string \<times> int"

record 'r gorm =
  gTake :: "time \<Rightarrow> ('r \<Rightarrow> bool) \<Rightarrow> 'r list \<Rightarrow> go_error + 'r"
  gFind :: "time \<Rightarrow> 'r db_query \<Rightarrow> 'r list \<Rightarrow> go_error + 'r list"
  gFirst :: "time \<Rightarrow> 'r db_query \<Rightarrow> 'r list \<Rightarrow> go_error + 'r"
  gCount :: "time \<Rightarrow> ('r \<Rightarrow> bool) \<Rightarrow> 'r list \<Rightarrow> go_error + int"
  gGroup :: "time \<Rightarrow> ('r \<Rightarrow> bool) \<Rightarrow> ('r \<Rightarrow> group_key option) \<Rightarrow> 'r list \<Rightarrow> go_error + (group_key \<times> int) list"
  gCreate :: "time \<Rightarrow> 'r \<Rightarrow> 'r list \<Rightarrow> (go_error + 'r) \<times> 'r list"
  gSave :: "time \<Rightarrow> 'r \<Rightarrow> 'r list \<Rightarrow> (go_error + 'r) \<times> 'r list"
  gUpdates :: "time \<Rightarrow> 'r \<Rightarrow> ('r \<Rightarrow> bool) \<Rightarrow> ('r \<Rightarrow> 'r) \<Rightarrow> 'r list \<Rightarrow> (go_error + int \<times> 'r) \<times> 'r list"

text \<open>No \<^verbatim>\<open>Order\<close> clause: any order of the rows is allowed.\<close>

definition unordered :: "'r \<Rightarrow> 'r \<Rightarrow> bool" where
  "unordered x y = True"

definition is_order :: "('r \<Rightarrow> 'r \<Rightarrow> bool) \<Rightarrow> bool" where
  "is_order le \<longleftrightarrow> (\<forall>x y. le x y \<or> le y x) \<and> (\<forall>x y z. le x y \<longrightarrow> le y z \<longrightarrow> le x z)"

text \<open>\<^verbatim>\<open>Limit(n)\<close>: gorm drops the clause for a negative \<open>n\<close>.\<close>

definition limited :: "int option \<Rightarrow> 'r list \<Rightarrow> 'r list" where
  "limited l xs = (case l of None \<Rightarrow> xs | Some n \<Rightarrow> if n < 0 then xs else take (nat n) xs)"

text \<open>The outcome of an ordered query: an ordered permutation of the matching rows, cut at the limit.\<close>

definition find_result :: "'r db_query \<Rightarrow> 'r list \<Rightarrow> 'r list \<Rightarrow> bool" where
  "find_result q t rs \<longleftrightarrow> (\<exists>qs. mset qs = mset (filter (q_where q) t) \<and>
     sorted_wrt (q_order q) qs \<and> rs = limited (q_limit q) qs)"

definition set_rows :: "('r \<Rightarrow> bool) \<Rightarrow> ('r \<Rightarrow> 'r) \<Rightarrow> 'r list \<Rightarrow> 'r list" where
  "set_rows P f t = map (\<lambda>r. if P r then f r else r) t"

section \<open>Rows guarded by a version\<close>

text \<open>
  Every \<^verbatim>\<open>Updates\<close> of the store is guarded by \<^verbatim>\<open>Where("job_id = ?").Where("version = ?")\<close> and turns
  \<^verbatim>\<open>RowsAffected == 0\<close> into \<^verbatim>\<open>ErrConcurrentUpdate\<close>. \<open>updates_versioned\<close> is this pattern: \<open>what\<close> is the
  text the error is wrapped with, \<open>k\<close> the identifier, \<open>v\<close> the expected version.
\<close>

definition updates_versioned ::
  "'r gorm \<Rightarrow> ('r \<Rightarrow> string) \<Rightarrow> ('r \<Rightarrow> int) \<Rightarrow> string \<Rightarrow> time \<Rightarrow> 'r \<Rightarrow> string \<Rightarrow> int \<Rightarrow> ('r \<Rightarrow> 'r) \<Rightarrow>
   'r list \<Rightarrow> (go_error + 'r) \<times> 'r list" where
  "updates_versioned G key ver what now z k v f t =
    (case gUpdates G now z (\<lambda>r. key r = k \<and> ver r = v) f t of
       (Inl e, t') \<Rightarrow> (Inl e, t')
     | (Inr (n, m), t') \<Rightarrow>
         if n = 0 then (Inl (Wrapf what ErrConcurrentUpdate), t') else (Inr m, t'))"

section \<open>Laws\<close>

locale gorm =
  fixes G :: "'r gorm"
    and rid :: "'r \<Rightarrow> nat"
    and key :: "'r \<Rightarrow> string"
    and touch :: "time \<Rightarrow> 'r \<Rightarrow> 'r"
    and stamp :: "nat \<Rightarrow> time \<Rightarrow> 'r \<Rightarrow> 'r"
  assumes take_found: "gTake G now P t = Inr r \<Longrightarrow> r \<in> set t \<and> P r"
    and take_not_found: "gTake G now P t = Inl e \<Longrightarrow> errors_Is e ErrRecordNotFound \<Longrightarrow> \<forall>r \<in> set t. \<not> P r"
    and find_found: "gFind G now q t = Inr rs \<Longrightarrow> is_order (q_order q) \<Longrightarrow> find_result q t rs"
    and first_found: "gFirst G now q t = Inr r \<Longrightarrow> is_order (q_order q) \<Longrightarrow>
      r \<in> set t \<and> q_where q r \<and> (\<forall>x \<in> set t. q_where q x \<longrightarrow> q_order q r x)"
    and count_found: "gCount G now P t = Inr n \<Longrightarrow> n = int (length (filter P t))"
    and group_found: "gGroup G now P k t = Inr gs \<Longrightarrow>
      distinct (map fst gs) \<and> (\<forall>r \<in> set (filter P t). k r \<noteq> None) \<and>
      set gs = {(g, n). n = int (length (filter (\<lambda>r. k r = Some g) (filter P t))) \<and> n > 0}"
    and create_ok: "gCreate G now r t = (Inr r', t') \<Longrightarrow>
      t' = t @ [r'] \<and> key r \<notin> key ` set t \<and> (\<exists>i. r' = stamp i now r \<and> 0 < i \<and> (\<forall>x \<in> set t. rid x < i))"
    and create_err: "gCreate G now r t = (Inl e, t') \<Longrightarrow> t' = t"
    and save_ok: "gSave G now r t = (Inr r', t') \<Longrightarrow> rid r \<in> rid ` set t \<Longrightarrow>
      r' = touch now r \<and> t' = set_rows (\<lambda>x. rid x = rid r) (\<lambda>_. r') t"
    and save_err: "gSave G now r t = (Inl e, t') \<Longrightarrow> t' = t"
    and updates_ok: "gUpdates G now z P f t = (Inr (n, m), t') \<Longrightarrow>
      n = int (length (filter P t)) \<and> m = touch now (f z) \<and> t' = set_rows P (touch now \<circ> f) t"
    and updates_err: "gUpdates G now z P f t = (Inl e, t') \<Longrightarrow> t' = t \<and> \<not> errors_Is e ErrConcurrentUpdate"
    and key_touch [simp]: "key (touch now r) = key r"
    and rid_touch [simp]: "rid (touch now r) = rid r"
    and key_stamp [simp]: "key (stamp i now r) = key r"
    and rid_stamp [simp]: "rid (stamp i now r) = i"

locale reliable_gorm = gorm +
  assumes take_reliable: "gTake G now P t = Inl e \<Longrightarrow> errors_Is e ErrRecordNotFound"
    and find_reliable: "\<exists>rs. gFind G now q t = Inr rs"
    and count_reliable: "\<exists>n. gCount G now P t = Inr n"
    and create_reliable: "key r \<notin> key ` set t \<Longrightarrow> \<exists>r'. fst (gCreate G now r t) = Inr r'"
    and save_reliable: "\<exists>r'. fst (gSave G now r t) = Inr r'"
    and updates_reliable: "\<exists>n m. fst (gUpdates G now z P f t) = Inr (n, m)"

section \<open>An executable engine\<close>

fun insert_by :: "('r \<Rightarrow> 'r \<Rightarrow> bool) \<Rightarrow> 'r \<Rightarrow> 'r list \<Rightarrow> 'r list" where
  "insert_by le x [] = [x]"
| "insert_by le x (y # ys) = (if le x y then x # y # ys else y # insert_by le x ys)"

definition sort_by :: "('r \<Rightarrow> 'r \<Rightarrow> bool) \<Rightarrow> 'r list \<Rightarrow> 'r list" where
  "sort_by le xs = foldr (insert_by le) xs []"

definition group_rows :: "('r \<Rightarrow> group_key option) \<Rightarrow> 'r list \<Rightarrow> (group_key \<times> int) list" where
  "group_rows k rs = map (\<lambda>g. (g, int (length (filter (\<lambda>r. k r = Some g) rs))))
     (remdups (map (\<lambda>r. the (k r)) rs))"

definition next_id :: "('r \<Rightarrow> nat) \<Rightarrow> 'r list \<Rightarrow> nat" where
  "next_id rid t = Suc (foldr max (map rid t) 0)"

definition sql_gorm ::
  "('r \<Rightarrow> nat) \<Rightarrow> ('r \<Rightarrow> string) \<Rightarrow> (time \<Rightarrow> 'r \<Rightarrow> 'r) \<Rightarrow> (nat \<Rightarrow> time \<Rightarrow> 'r \<Rightarrow> 'r) \<Rightarrow> 'r gorm" where
  "sql_gorm rid key touch stamp = \<lparr>
     gTake = (\<lambda>now P t. case find P t of None \<Rightarrow> Inl ErrRecordNotFound | Some r \<Rightarrow> Inr r),
     gFind = (\<lambda>now q t. Inr (limited (q_limit q) (sort_by (q_order q) (filter (q_where q) t)))),
     gFirst = (\<lambda>now q t. case sort_by (q_order q) (filter (q_where q) t) of
        [] \<Rightarrow> Inl ErrRecordNotFound | r # _ \<Rightarrow> Inr r),
     gCount = (\<lambda>now P t. Inr (int (length (filter P t)))),
     gGroup = (\<lambda>now P k t. if list_all (\<lambda>r. k r \<noteq> None) (filter P t)
        then Inr (group_rows k (filter P t)) else Inl (Errorf ''division by zero'')),
     gCreate = (\<lambda>now r t. if list_ex (\<lambda>x. key x = key r) t then (Inl (Errorf ''duplicate key''), t)
        else let r' = stamp (next_id rid t) now r in (Inr r', t @ [r'])),
     gSave = (\<lambda>now r t. let r' = touch now r in
        (Inr r', if list_ex (\<lambda>x. rid x = rid r) t then set_rows (\<lambda>x. rid x = rid r) (\<lambda>_. r') t else t @ [r'])),
     gUpdates = (\<lambda>now z P f t. (Inr (int (length (filter P t)), touch now (f z)), set_rows P (touch now \<circ> f) t))
   \<rparr>"

section \<open>Lemmas on rows and queries\<close>

lemma is_order_unordered [simp]: "is_order unordered"
  by (simp add: is_order_def unordered_def)

lemma is_order_key: "is_order (\<lambda>x y. (f x :: 'a :: linorder) \<le> f y)" "is_order (\<lambda>x y. (f x :: 'a :: linorder) \<ge> f y)"
  by (auto simp: is_order_def)

lemma mset_insert_by [simp]: "mset (insert_by le x xs) = add_mset x (mset xs)"
  by (induction xs) auto

lemma mset_sort_by [simp]: "mset (sort_by le xs) = mset xs"
  by (induction xs) (auto simp: sort_by_def)

lemma set_sort_by [simp]: "set (sort_by le xs) = set xs"
  by (metis mset_sort_by set_mset_mset)

lemma set_insert_by [simp]: "set (insert_by le x xs) = insert x (set xs)"
  by (metis mset_insert_by set_mset_add_mset_insert set_mset_mset)

lemma sorted_insert_by:
  assumes "is_order le" and "sorted_wrt le xs"
  shows "sorted_wrt le (insert_by le x xs)"
  using assms(2)
proof (induction xs)
  case (Cons y ys)
  have tot: "le x y \<or> le y x" and tr: "\<And>z. le x y \<Longrightarrow> le y z \<Longrightarrow> le x z"
    using assms(1) by (auto simp: is_order_def)
  show ?case using Cons tot tr by auto
qed simp

lemma sorted_sort_by: "is_order le \<Longrightarrow> sorted_wrt le (sort_by le xs)"
  by (induction xs) (auto simp: sort_by_def sorted_insert_by)

lemma find_result_set: "find_result q t rs \<Longrightarrow> set rs \<subseteq> set (filter (q_where q) t)"
proof -
  assume "find_result q t rs"
  then obtain qs where qs: "mset qs = mset (filter (q_where q) t)" and rs: "rs = limited (q_limit q) qs"
    by (auto simp: find_result_def)
  have "set rs \<subseteq> set qs"
    using rs by (auto simp: limited_def dest: in_set_takeD split: option.splits)
  also have "set qs = set (filter (q_where q) t)"
    using qs by (rule mset_eq_setD)
  finally show ?thesis .
qed

lemma find_result_mset:
  "find_result q t rs \<Longrightarrow> q_limit q = None \<Longrightarrow> mset rs = mset (filter (q_where q) t)"
  by (auto simp: find_result_def limited_def)

lemma set_rows_length [simp]: "length (set_rows P f t) = length t"
  by (simp add: set_rows_def)

lemma set_rows_none: "\<forall>r \<in> set t. \<not> P r \<Longrightarrow> set_rows P f t = t"
  by (simp add: set_rows_def map_idI)

lemma map_set_rows: "(\<And>r. g (f r) = g r) \<Longrightarrow> map g (set_rows P f t) = map g t"
  by (simp add: set_rows_def)

lemma set_rows_cong: "(\<And>r. r \<in> set t \<Longrightarrow> P r = Q r) \<Longrightarrow> set_rows P f t = set_rows Q f t"
  by (simp add: set_rows_def)

lemma set_set_rows: "x \<in> set (set_rows P f t) \<Longrightarrow> x \<in> set t \<and> \<not> P x \<or> (\<exists>r \<in> set t. P r \<and> x = f r)"
  by (auto simp: set_rows_def split: if_splits)

lemma foldr_max_ge: "x \<in> set xs \<Longrightarrow> x \<le> foldr max xs (0::nat)"
  by (induction xs) auto

lemma next_id_fresh: "x \<in> set t \<Longrightarrow> rid x < next_id rid t"
  by (simp add: next_id_def less_Suc_eq_le foldr_max_ge)

lemma group_rows_spec:
  assumes "\<forall>r \<in> set rs. k r \<noteq> None"
  shows "set (group_rows k rs) = {(g, n). n = int (length (filter (\<lambda>r. k r = Some g) rs)) \<and> n > 0}"
proof -
  have grp: "(\<lambda>r. the (k r)) ` set rs = {g. 0 < length (filter (\<lambda>r. k r = Some g) rs)}"
    using assms by (force simp: filter_empty_conv)
  have "set (group_rows k rs) =
      (\<lambda>g. (g, int (length (filter (\<lambda>r. k r = Some g) rs)))) ` ((\<lambda>r. the (k r)) ` set rs)"
    by (simp add: group_rows_def)
  then show ?thesis unfolding grp by auto
qed

lemma sum_length_filter:
  "finite A \<Longrightarrow> f ` set xs \<subseteq> A \<Longrightarrow> (\<Sum>y\<in>A. int (length (filter (\<lambda>x. f x = y) xs))) = int (length xs)"
proof (induction xs)
  case (Cons x xs)
  have "(\<Sum>y\<in>A. int (length (filter (\<lambda>z. f z = y) (x # xs)))) =
      (\<Sum>y\<in>A. (if y = f x then 1 else 0) + int (length (filter (\<lambda>z. f z = y) xs)))"
    by (rule sum.cong) auto
  also have "\<dots> = 1 + int (length xs)" using Cons by (simp add: sum.distrib)
  finally show ?case by simp
qed simp

section \<open>Lookup by key\<close>

text \<open>The abstract view of a table: a finite map from identifiers to rows.\<close>

definition row_of :: "('r \<Rightarrow> string) \<Rightarrow> 'r list \<Rightarrow> string \<Rightarrow> 'r option" where
  "row_of key t k = find (\<lambda>r. key r = k) t"

lemma row_of_Some: "row_of key t k = Some r \<Longrightarrow> r \<in> set t \<and> key r = k"
  by (auto simp: row_of_def find_Some_iff)

lemma row_of_None: "row_of key t k = None \<longleftrightarrow> k \<notin> key ` set t"
  by (auto simp: row_of_def find_None_iff)

lemma row_of_distinct:
  assumes "distinct (map key t)" and "r \<in> set t"
  shows "row_of key t (key r) = Some r"
proof -
  obtain x where x: "row_of key t (key r) = Some x"
    using assms(2) row_of_None [of key t "key r"] by (cases "row_of key t (key r)") auto
  then have "x \<in> set t" and "key x = key r"
    by (auto dest: row_of_Some)
  then have "x = r"
    using assms distinct_key_inj by metis
  with x show ?thesis by simp
qed

lemma row_of_set_rows:
  assumes "\<And>r. key (f r) = key r"
  shows "row_of key (set_rows (\<lambda>x. key x = k) f t) = (row_of key t)(k := map_option f (row_of key t k))"
proof
  fix j
  show "row_of key (set_rows (\<lambda>x. key x = k) f t) j =
      ((row_of key t)(k := map_option f (row_of key t k))) j"
    by (induction t) (auto simp: row_of_def set_rows_def assms)
qed

lemma row_of_append:
  "k \<notin> key ` set t \<Longrightarrow> key r = k \<Longrightarrow> row_of key (t @ [r]) = (row_of key t)(k \<mapsto> r)"
  by (induction t) (auto simp: row_of_def fun_eq_iff)

lemma row_of_filter:
  assumes "distinct (map key t)" and "mset rs = mset (filter P t)"
  shows "row_of key rs k = (case row_of key t k of Some r \<Rightarrow> if P r then Some r else None | None \<Rightarrow> None)"
proof -
  have st: "set rs = set (filter P t)" using assms(2) by (rule mset_eq_setD)
  have "distinct (map key (filter P t))" using assms(1) by (rule distinct_map_filter)
  then have dist: "distinct (map key rs)" by (rule distinct_map_mset [OF assms(2)])
  show ?thesis
  proof (cases "row_of key rs k")
    case None
    then have "\<forall>r \<in> set t. P r \<longrightarrow> key r \<noteq> k" using st by (auto simp: row_of_None)
    then show ?thesis using None by (auto dest: row_of_Some split: option.splits)
  next
    case (Some r)
    then have r: "r \<in> set t" "P r" "key r = k" using st by (auto dest: row_of_Some)
    then show ?thesis using Some row_of_distinct [OF assms(1) r(1)] by simp
  qed
qed

section \<open>Consequences of the laws\<close>

context gorm
begin

lemma updates_versioned_ok:
  assumes "updates_versioned G key ver what now z k v f t = (Inr m, t')"
    and "distinct (map key t)" and "\<And>r. key (f r) = key r"
  shows "\<exists>r. row_of key t k = Some r \<and> ver r = v \<and>
    t' = set_rows (\<lambda>x. key x = k) (touch now \<circ> f) t \<and> m = touch now (f z)"
proof -
  let ?P = "\<lambda>r. key r = k \<and> ver r = v"
  from assms(1) obtain n where n: "gUpdates G now z ?P f t = (Inr (n, m), t')" "n \<noteq> 0"
    by (auto simp: updates_versioned_def split: prod.splits sum.splits if_splits)
  from updates_ok [OF n(1)]
  have len: "n = int (length (filter ?P t))" and m: "m = touch now (f z)"
    and t': "t' = set_rows ?P (touch now \<circ> f) t" by auto
  from len n(2) obtain r where r: "r \<in> set t" "key r = k" "ver r = v"
    by (auto simp: filter_empty_conv)
  have row: "row_of key t k = Some r"
    using row_of_distinct [OF assms(2) r(1)] r(2) by simp
  have uniq: "x = r" if "x \<in> set t" "key x = k" for x
    by (rule distinct_key_inj [OF assms(2)]) (use that r in simp_all)
  have "t' = set_rows (\<lambda>x. key x = k) (touch now \<circ> f) t"
    unfolding t' by (rule set_rows_cong) (metis uniq r(3))
  with row r m show ?thesis by blast
qed

lemma updates_versioned_err:
  assumes "updates_versioned G key ver what now z k v f t = (Inl e, t')"
  shows "t' = t \<and> (errors_Is e ErrConcurrentUpdate \<longrightarrow> (\<forall>r \<in> set t. key r = k \<longrightarrow> ver r \<noteq> v))"
proof -
  let ?P = "\<lambda>r. key r = k \<and> ver r = v"
  consider "gUpdates G now z ?P f t = (Inl e, t')"
    | m where "gUpdates G now z ?P f t = (Inr (0, m), t')"
    using assms by (auto simp: updates_versioned_def split: prod.splits sum.splits if_splits)
  then show ?thesis
  proof cases
    case 1
    then show ?thesis using updates_err by blast
  next
    case 2
    then have "\<forall>r \<in> set t. \<not> ?P r" and "t' = set_rows ?P (touch now \<circ> f) t"
      using updates_ok by (fastforce simp: filter_empty_conv)+
    then show ?thesis by (auto simp: set_rows_none)
  qed
qed

lemma updates_versioned_frame:
  assumes "updates_versioned G key ver what now z k v f t = (res, t')"
    and "distinct (map key t)" and "\<And>r. key (f r) = key r" and "j \<noteq> k"
  shows "row_of key t' j = row_of key t j"
proof (cases res)
  case (Inl e)
  then show ?thesis using updates_versioned_err assms(1) by metis
next
  case (Inr m)
  have "t' = set_rows (\<lambda>x. key x = k) (touch now \<circ> f) t"
    using updates_versioned_ok [OF assms(1) [unfolded Inr] assms(2,3)] by auto
  then show ?thesis using assms(3,4) by (simp add: row_of_set_rows)
qed

text \<open>The groups a grouping query returns add up to the rows it selects.\<close>

lemma group_total:
  assumes "gGroup G now P k t = Inr gs"
  shows "sum_list (map snd (filter (\<lambda>(g, n). Q g) gs)) = int (length (filter (\<lambda>r. P r \<and> Q (the (k r))) t))"
proof -
  note law = group_found [OF assms]
  let ?rs = "filter P t" and ?fs = "filter (\<lambda>(g, n). Q g) gs"
  let ?cnt = "\<lambda>g. int (length (filter (\<lambda>r. k r = Some g) ?rs))"
  let ?qs = "filter (\<lambda>r. Q (the (k r))) ?rs"
  have some: "\<And>r. r \<in> set ?rs \<Longrightarrow> k r = Some (the (k r))" using law by auto
  have dist: "distinct (map fst ?fs)" using law by (simp add: distinct_map_filter)
  have mem: "(g, n) \<in> set gs \<longleftrightarrow> n = ?cnt g \<and> n > 0" for g n using law by auto
  have "sum_list (map snd ?fs) = sum_list (map (?cnt \<circ> fst) ?fs)"
    by (rule arg_cong [where f = sum_list], rule map_cong [OF refl]) (use mem in auto)
  also have "\<dots> = (\<Sum>g \<in> set (map fst ?fs). ?cnt g)"
    using sum_list_distinct_conv_sum_set [OF dist, of ?cnt] by (simp add: comp_def)
  also have "\<dots> = (\<Sum>g \<in> set (map fst ?fs). int (length (filter (\<lambda>r. the (k r) = g) ?qs)))"
  proof (rule sum.cong [OF refl])
    fix g assume "g \<in> set (map fst ?fs)"
    then have "Q g" by auto
    then have "filter (\<lambda>r. k r = Some g) ?rs = filter (\<lambda>r. the (k r) = g) ?qs"
      unfolding filter_filter using some by (intro filter_cong) force+
    then show "?cnt g = int (length (filter (\<lambda>r. the (k r) = g) ?qs))" by simp
  qed
  also have "\<dots> = int (length ?qs)"
  proof (rule sum_length_filter)
    have "the (k r) \<in> set (map fst ?fs)" if "r \<in> set ?qs" for r
    proof -
      from that have r: "r \<in> set ?rs" "Q (the (k r))" by auto
      then have "?cnt (the (k r)) > 0" using some by (fastforce simp: filter_empty_conv)
      then have "(the (k r), ?cnt (the (k r))) \<in> set ?fs" using mem r(2) by simp
      then show ?thesis by force
    qed
    then show "(\<lambda>r. the (k r)) ` set ?qs \<subseteq> set (map fst ?fs)" by blast
  qed simp
  finally show ?thesis by (simp add: conj_commute)
qed

lemma create_distinct:
  assumes "gCreate G now r t = (Inr r', t')" and "distinct (map key t)" and "distinct (map rid t)"
  shows "distinct (map key t') \<and> distinct (map rid t')"
  using create_ok [OF assms(1)] assms(2,3) by (auto simp: image_iff)

end

context reliable_gorm
begin

lemma updates_versioned_current:
  assumes "row_of key t k = Some r" and "ver r = v"
  shows "\<exists>m. fst (updates_versioned G key ver what now z k v f t) = Inr m"
proof -
  let ?P = "\<lambda>r. key r = k \<and> ver r = v"
  obtain n m t' where upd: "gUpdates G now z ?P f t = (Inr (n, m), t')"
    using updates_reliable [of now z ?P f t] by (metis fst_conv surj_pair)
  have "r \<in> set t" "key r = k" using assms(1) by (auto dest: row_of_Some)
  then have "n \<noteq> 0" using updates_ok [OF upd] assms(2) by (auto simp: filter_empty_conv)
  with upd show ?thesis by (simp add: updates_versioned_def)
qed

lemma updates_versioned_current_rows:
  assumes "distinct (map key t)" and "row_of key t k = Some r" and "ver r = v" and "\<And>r. key (f r) = key r"
  shows "updates_versioned G key ver what now z k v f t =
    (Inr (touch now (f z)), set_rows (\<lambda>x. key x = k) (touch now \<circ> f) t)"
proof -
  obtain m where m: "fst (updates_versioned G key ver what now z k v f t) = Inr m"
    using updates_versioned_current [where ver = ver, OF assms(2,3)] by blast
  then obtain t' where run: "updates_versioned G key ver what now z k v f t = (Inr m, t')" by (metis prod.collapse)
  from updates_versioned_ok [OF run assms(1,4)] run show ?thesis by auto
qed

lemma updates_versioned_stale:
  assumes "\<forall>r \<in> set t. key r = k \<longrightarrow> ver r \<noteq> v"
  shows "updates_versioned G key ver what now z k v f t = (Inl (Wrapf what ErrConcurrentUpdate), t)"
proof -
  let ?P = "\<lambda>r. key r = k \<and> ver r = v"
  obtain n m t' where upd: "gUpdates G now z ?P f t = (Inr (n, m), t')"
    using updates_reliable [of now z ?P f t] by (metis fst_conv surj_pair)
  have "n = 0" using updates_ok [OF upd] assms by (simp add: filter_empty_conv)
  moreover have "t' = t" using updates_ok [OF upd] assms by (simp add: set_rows_none)
  ultimately show ?thesis using upd by (simp add: updates_versioned_def)
qed

lemma take_present: "\<exists>r \<in> set t. P r \<Longrightarrow> \<exists>r. gTake G now P t = Inr r"
  by (cases "gTake G now P t") (use take_reliable take_not_found in blast)+

lemma take_missing:
  assumes "\<forall>r \<in> set t. \<not> P r"
  shows "\<exists>e. gTake G now P t = Inl e \<and> errors_Is e ErrRecordNotFound"
proof (cases "gTake G now P t")
  case (Inl e)
  then show ?thesis using take_reliable by blast
qed (use take_found assms in blast)

lemma take_key:
  assumes "distinct (map key t)" and "row_of key t k = Some r" and "P r"
    and "\<And>x. P x \<Longrightarrow> key x = k"
  shows "gTake G now P t = Inr r"
proof -
  have r: "r \<in> set t" "key r = k" using assms(2) by (auto dest: row_of_Some)
  obtain x where x: "gTake G now P t = Inr x" using take_present r assms(3) by blast
  then have "x \<in> set t" "P x" using take_found by blast+
  then have "x = r" by (intro distinct_key_inj [OF assms(1)]) (use r assms(4) in simp_all)
  with x show ?thesis by simp
qed

end

section \<open>The engine satisfies the laws\<close>

lemma sql_gorm_laws:
  assumes "\<And>now r. key (touch now r) = key r" and "\<And>now r. rid (touch now r) = rid r"
    and "\<And>i now r. key (stamp i now r) = key r" and "\<And>i now r. rid (stamp i now r) = i"
  shows "reliable_gorm (sql_gorm rid key touch stamp) rid key touch stamp"
proof (unfold_locales, goal_cases)
  case (3 now q t rs)
  then show ?case
    by (auto simp: sql_gorm_def find_result_def sorted_sort_by intro!: exI [of _ "sort_by (q_order q) (filter (q_where q) t)"])
next
  case (4 now q t r)
  then obtain rs where rs: "sort_by (q_order q) (filter (q_where q) t) = r # rs"
    by (auto simp: sql_gorm_def split: list.splits)
  have srt: "sorted_wrt (q_order q) (r # rs)"
    using sorted_sort_by [OF 4(2), of "filter (q_where q) t"] by (simp add: rs)
  have st: "set (r # rs) = set (filter (q_where q) t)"
    using set_sort_by [of "q_order q" "filter (q_where q) t"] by (simp add: rs)
  have rr: "q_order q r r" using 4(2) by (auto simp: is_order_def)
  show ?case using srt st rr by auto
next
  case (6 now P k t gs)
  then have ok: "\<forall>r \<in> set (filter P t). k r \<noteq> None" and gs: "gs = group_rows k (filter P t)"
    by (auto simp: sql_gorm_def list_all_iff split: if_splits)
  have "map fst gs = remdups (map (\<lambda>r. the (k r)) (filter P t))"
    unfolding gs group_rows_def by (simp add: comp_def)
  then have "distinct (map fst gs)" by simp
  then show ?case using ok group_rows_spec [OF ok] unfolding gs by (intro conjI)
next
  case (7 now r t r' t')
  then have "r' = stamp (next_id rid t) now r" and "t' = t @ [r']" and "key r \<notin> key ` set t"
    by (auto simp: sql_gorm_def Let_def list_ex_iff image_iff split: if_splits)
  then show ?case using next_id_fresh [of _ t rid]
    by (auto intro!: exI [of _ "next_id rid t"] simp: next_id_def)
qed (auto simp: sql_gorm_def assms find_Some_iff find_None_iff list_ex_iff Let_def image_iff next_id_fresh next_id_def
      split: option.splits if_splits list.splits)

end
