(* ===== verification/Lifecycle.thy ===== *)
theory Lifecycle
  imports Gorm
begin

text \<open>
  The abstract specification the three workload tables share. A table evolves by inserting a fresh row
  in an initial state or by moving one row along a transition relation; \<open>table_step\<close> is this step. The
  locale \<open>lifecycle\<close> holds what follows from an inductive row invariant: well-formedness of every
  reachable table, and that the history of each row is a path of its transition relation. The job,
  notebook and batch job theories interpret it with the transitions their handlers make, and prove
  that every handler implements \<open>table_step\<close>.
\<close>

definition table_wf :: "('r \<Rightarrow> string) \<Rightarrow> ('r \<Rightarrow> nat) \<Rightarrow> ('r \<Rightarrow> bool) \<Rightarrow> 'r list \<Rightarrow> bool" where
  "table_wf key rid rinv t \<longleftrightarrow> distinct (map key t) \<and> distinct (map rid t) \<and> list_all rinv t"

inductive table_step ::
  "('r \<Rightarrow> string) \<Rightarrow> ('r \<Rightarrow> nat) \<Rightarrow> ('r \<Rightarrow> bool) \<Rightarrow> ('r \<Rightarrow> 'r \<Rightarrow> bool) \<Rightarrow> 'r list \<Rightarrow> 'r list \<Rightarrow> bool"
  for key rid init moves where
  stay: "table_step key rid init moves t t"
| insert: "init r \<Longrightarrow> key r \<notin> key ` set t \<Longrightarrow> \<forall>x \<in> set t. rid x < rid r \<Longrightarrow>
     table_step key rid init moves t (t @ [r])"
| move: "row_of key t k = Some r \<Longrightarrow> moves r (f r) \<Longrightarrow> \<forall>x. key (f x) = key x \<and> rid (f x) = rid x \<Longrightarrow>
     table_step key rid init moves t (set_rows (\<lambda>x. key x = k) f t)"

inductive_cases table_stepE: "table_step key rid init moves t t'"

abbreviation table_steps where
  "table_steps key rid init moves \<equiv> (table_step key rid init moves)\<^sup>*\<^sup>*"

locale lifecycle =
  fixes key :: "'r \<Rightarrow> string"
    and rid :: "'r \<Rightarrow> nat"
    and init :: "'r \<Rightarrow> bool"
    and moves :: "'r \<Rightarrow> 'r \<Rightarrow> bool"
    and rinv :: "'r \<Rightarrow> bool"
  assumes init_inv: "init r \<Longrightarrow> rinv r"
    and trans_inv: "moves r r' \<Longrightarrow> rinv r \<Longrightarrow> rinv r'"
begin

lemma step_wf:
  assumes "table_step key rid init moves t t'" and "table_wf key rid rinv t"
  shows "table_wf key rid rinv t'"
  using assms(1)
proof (rule table_stepE)
  assume "t' = t"
  then show ?thesis using assms(2) by simp
next
  fix r
  assume "t' = t @ [r]" "init r" "key r \<notin> key ` set t" "\<forall>x \<in> set t. rid x < rid r"
  then show ?thesis
    using assms(2) by (auto simp: table_wf_def init_inv image_iff)
next
  fix k r f
  assume t': "t' = set_rows (\<lambda>x. key x = k) f t" and r: "row_of key t k = Some r" "moves r (f r)"
    and f: "\<forall>x. key (f x) = key x \<and> rid (f x) = rid x"
  have uniq: "x = r" if "x \<in> set t" "key x = k" for x
    by (rule distinct_key_inj [of key t]) (use that assms(2) row_of_Some [OF r(1)] in \<open>auto simp: table_wf_def\<close>)
  have "rinv x" if "x \<in> set t'" for x
    using set_set_rows [OF that [unfolded t']]
  proof
    assume "\<exists>y \<in> set t. key y = k \<and> x = f y"
    then have "x = f r" and "r \<in> set t" using uniq by blast+
    then show ?thesis using r(2) assms(2) trans_inv by (auto simp: table_wf_def list_all_iff)
  qed (use assms(2) in \<open>auto simp: table_wf_def list_all_iff\<close>)
  then show ?thesis
    using assms(2) f unfolding t' by (simp add: table_wf_def map_set_rows list_all_iff)
qed

lemma steps_wf:
  assumes "table_steps key rid init moves t t'" and "table_wf key rid rinv t"
  shows "table_wf key rid rinv t'"
  using assms by (induction rule: rtranclp_induct) (auto intro: step_wf)

lemma reachable_wf: "table_steps key rid init moves [] t \<Longrightarrow> table_wf key rid rinv t"
  using steps_wf [of "[]" t] by (simp add: table_wf_def)

lemma step_row:
  assumes "table_step key rid init moves t t'" and "row_of key t k = Some r"
  shows "\<exists>r'. row_of key t' k = Some r' \<and> (r' = r \<or> moves r r')"
  using assms(1)
proof (rule table_stepE)
  assume "t' = t"
  then show ?thesis using assms(2) by simp
next
  fix r'
  assume t': "t' = t @ [r']" and fresh: "key r' \<notin> key ` set t"
  then have "row_of key t' = (row_of key t)(key r' \<mapsto> r')" by (simp add: row_of_append)
  moreover have "k \<noteq> key r'" using fresh row_of_Some [OF assms(2)] by (metis image_eqI)
  ultimately show ?thesis using assms(2) by simp
next
  fix k' x f
  assume "t' = set_rows (\<lambda>x. key x = k') f t" "row_of key t k' = Some x" "moves x (f x)"
    "\<forall>x. key (f x) = key x \<and> rid (f x) = rid x"
  then show ?thesis using assms(2) by (auto simp: row_of_set_rows)
qed

text \<open>No row is ever lost, and its history follows the transition relation.\<close>

lemma steps_row:
  assumes "table_steps key rid init moves t t'" and "row_of key t k = Some r"
  shows "\<exists>r'. row_of key t' k = Some r' \<and> moves\<^sup>*\<^sup>* r r'"
  using assms
proof (induction rule: rtranclp_induct)
  case (step u v)
  then obtain s where s: "row_of key u k = Some s" "moves\<^sup>*\<^sup>* r s" by blast
  from step_row [OF step.hyps(2) s(1)] s(2) show ?case
    by (meson rtranclp.rtrancl_into_rtrancl)
qed blast

end

text \<open>A lifecycle in which every move increments a version: a row that still has the version it was read with is
  the row that was read, whatever other steps were made in between.\<close>

locale versioned_lifecycle = lifecycle +
  fixes ver :: "'a \<Rightarrow> int"
  assumes trans_ver: "moves r r' \<Longrightarrow> ver r' = ver r + 1"
begin

lemma moves_ver: "moves\<^sup>*\<^sup>* r r' \<Longrightarrow> r' = r \<or> ver r < ver r'"
  by (induction rule: rtranclp_induct) (auto dest: trans_ver)

lemma same_version_same_row:
  assumes "table_steps key rid init moves t t'" and "row_of key t k = Some r"
    and "row_of key t' k = Some r'" and "ver r' = ver r"
  shows "r' = r"
  using steps_row [OF assms(1,2)] assms(3,4) moves_ver by fastforce

lemma version_grows:
  assumes "table_steps key rid init moves t t'" and "row_of key t k = Some r" and "row_of key t' k = Some r'"
  shows "ver r \<le> ver r'"
  using steps_row [OF assms(1,2)] assms(3) moves_ver by fastforce

end

section \<open>How the database calls make steps\<close>

context gorm
begin

lemma updates_versioned_step:
  assumes "updates_versioned G key ver what now z k v f t = (res, t')"
    and "distinct (map key t)"
    and "\<And>r. key (f r) = key r" and "\<And>r. rid (f r) = rid r"
    and "\<And>r. row_of key t k = Some r \<Longrightarrow> ver r = v \<Longrightarrow> moves r (touch now (f r))"
  shows "table_step key rid init moves t t'"
proof (cases res)
  case (Inl e)
  then show ?thesis
    using updates_versioned_err assms(1) by (blast intro: table_step.stay)
next
  case (Inr m)
  with updates_versioned_ok [OF assms(1) [unfolded Inr] assms(2,3)] assms(5)
  obtain r where "row_of key t k = Some r" "moves r ((touch now \<circ> f) r)"
    "t' = set_rows (\<lambda>x. key x = k) (touch now \<circ> f) t" by auto
  then show ?thesis
    using assms(3,4) by (auto intro!: table_step.move)
qed

lemma create_step:
  assumes "gCreate G now r t = (res, t')" and "\<And>i. 0 < i \<Longrightarrow> init (stamp i now r)"
  shows "table_step key rid init moves t t'"
proof (cases res)
  case (Inl e)
  then show ?thesis using create_err assms(1) by (blast intro: table_step.stay)
next
  case (Inr r')
  then show ?thesis
    using create_ok [of now r t r' t'] assms by (auto intro!: table_step.insert)
qed

end

end
