(* ===== verification/Pagination.thy ===== *)
theory Pagination
  imports Gorm
begin

text \<open>
  Cursor pagination as the three listing operations of the store do it: rows of descending identifier
  below the cursor, one row more than the limit is fetched to tell whether there are more. The locale
  \<open>pager\<close> is the contract of such an operation, and its client is the loop that follows the cursor:
  it ends, and returns every selected row once, in descending order of identifiers.
\<close>

text \<open>\<^verbatim>\<open>q.Where("id < ?").Order("id DESC").Limit(limit + 1).Find(..)\<close> and the cut of the extra row.\<close>

definition list_page ::
  "'r gorm \<Rightarrow> ('r \<Rightarrow> nat) \<Rightarrow> ('r \<Rightarrow> bool) \<Rightarrow> time \<Rightarrow> nat \<Rightarrow> int \<Rightarrow> 'r list \<Rightarrow> go_error + ('r list \<times> bool)" where
  "list_page G rid sel now afterID limit t =
    (case gFind G now \<lparr>q_where = (\<lambda>r. sel r \<and> (afterID > 0 \<longrightarrow> rid r < afterID)),
                        q_order = (\<lambda>x y. rid x \<ge> rid y), q_limit = Some (limit + 1)\<rparr> t of
       Inl e \<Rightarrow> Inl e
     | Inr rs \<Rightarrow> if int (length rs) > limit then Inr (take (nat limit) rs, True) else Inr (rs, False))"

text \<open>The selected rows in the order the pages present them.\<close>

definition descending :: "('r \<Rightarrow> nat) \<Rightarrow> ('r \<Rightarrow> bool) \<Rightarrow> 'r list \<Rightarrow> 'r list" where
  "descending rid sel t = rev (sort_key rid (filter sel t))"

definition below :: "('r \<Rightarrow> nat) \<Rightarrow> nat \<Rightarrow> 'r list \<Rightarrow> 'r list" where
  "below rid a rs = filter (\<lambda>r. a > 0 \<longrightarrow> rid r < a) rs"

text \<open>The client: fetch a page, continue after its last row while there are more.\<close>

fun walk :: "(nat \<Rightarrow> go_error + ('r list \<times> bool)) \<Rightarrow> ('r \<Rightarrow> nat) \<Rightarrow> nat \<Rightarrow> nat \<Rightarrow> 'r list option" where
  "walk page rid 0 a = None"
| "walk page rid (Suc fuel) a = (case page a of Inl e \<Rightarrow> None
     | Inr (rs, hasMore) \<Rightarrow> if hasMore then map_option (append rs) (walk page rid fuel (rid (last rs))) else Some rs)"

definition ids_ok :: "('r \<Rightarrow> nat) \<Rightarrow> 'r list \<Rightarrow> bool" where
  "ids_ok rid t \<longleftrightarrow> distinct (map rid t) \<and> (\<forall>r \<in> set t. 0 < rid r)"

locale pager =
  fixes page :: "'r list \<Rightarrow> nat \<Rightarrow> go_error + ('r list \<times> bool)"
    and rid :: "'r \<Rightarrow> nat"
    and sel :: "'r \<Rightarrow> bool"
    and limit :: nat
  assumes limit_pos: "0 < limit"
    and page_law: "ids_ok rid t \<Longrightarrow>
      page t a = Inr (take limit (below rid a (descending rid sel t)), limit < length (below rid a (descending rid sel t)))"

section \<open>Descending lists\<close>

lemma set_descending [simp]: "set (descending rid sel t) = {r \<in> set t. sel r}"
  by (auto simp: descending_def)

lemma mset_descending: "mset (descending rid sel t) = mset (filter sel t)"
  by (simp add: descending_def)

lemma length_descending [simp]: "length (descending rid sel t) = length (filter sel t)"
  by (simp add: descending_def)

lemma sorted_descending:
  assumes "distinct (map rid t)"
  shows "sorted_wrt (\<lambda>x y. rid y < rid x) (descending rid sel t)"
proof -
  let ?s = "sort_key rid (filter sel t)"
  have "distinct (map rid (filter sel t))" using assms by (rule distinct_map_filter)
  then have "distinct (map rid ?s)"
    by (metis mset_map mset_sort mset_eq_imp_distinct_iff)
  then have "sorted_wrt (<) (map rid ?s)"
    using strict_sorted_iff sorted_sort_key by blast
  then show ?thesis
    by (simp add: descending_def sorted_wrt_rev sorted_wrt_map)
qed

lemma sorted_desc_unique:
  assumes "mset xs = mset ys" and "sorted_wrt (\<lambda>x y. rid x \<ge> rid y) xs"
    and "sorted_wrt (\<lambda>x y. rid y < (rid x :: nat)) ys"
  shows "xs = ys"
  using assms
proof (induction ys arbitrary: xs)
  case (Cons y ys)
  then obtain x zs where xs: "xs = x # zs" by (cases xs) auto
  have "x \<in> set (y # ys)" using Cons.prems(1) xs by (metis list.set_intros(1) mset_eq_setD)
  moreover have "y \<in> set (x # zs)" using Cons.prems(1) xs by (metis list.set_intros(1) mset_eq_setD)
  ultimately have "x = y"
    using Cons.prems(2,3) unfolding xs by (metis leD set_ConsD sorted_wrt.simps(2))
  then show ?case using Cons xs by simp
qed simp

lemma below_descending:
  "below rid a (descending rid sel t) = descending rid (\<lambda>r. sel r \<and> (a > 0 \<longrightarrow> rid r < a)) t"
  by (simp add: below_def descending_def filter_sort conj_commute flip: rev_filter)

text \<open>After the last row of a page, the rows still to come are those the page cut off.\<close>

lemma below_last:
  assumes "sorted_wrt (\<lambda>x y. rid y < (rid x :: nat)) rs" and "\<forall>r \<in> set rs. 0 < rid r"
    and "0 < n" and "n < length rs"
  shows "below rid (rid (last (take n rs))) rs = drop n rs"
proof -
  let ?a = "rid (last (take n rs))"
  have ne: "take n rs \<noteq> []" using assms(3,4) by (cases rs) auto
  have last: "last (take n rs) \<in> set (take n rs)" using ne by simp
  have apart: "\<forall>x \<in> set (take n rs). \<forall>y \<in> set (drop n rs). rid y < rid x"
    using assms(1) by (metis append_take_drop_id sorted_wrt_append)
  have srt: "sorted_wrt (\<lambda>x y. rid y < rid x) (butlast (take n rs) @ [last (take n rs)])"
    using sorted_wrt_take [OF assms(1), of n] ne by simp
  have "\<forall>x \<in> set (take n rs). ?a \<le> rid x"
  proof
    fix x assume "x \<in> set (take n rs)"
    then have "x \<in> set (butlast (take n rs) @ [last (take n rs)])" using ne by simp
    then show "?a \<le> rid x" using srt by (auto simp: sorted_wrt_append)
  qed
  then have hi: "filter (\<lambda>r. rid r < ?a) (take n rs) = []"
    by (simp add: filter_empty_conv leD not_less)
  have lo: "filter (\<lambda>r. rid r < ?a) (drop n rs) = drop n rs"
    using apart last by (simp add: filter_True)
  have "0 < ?a" using assms(2) last by (meson in_set_takeD)
  then have "below rid ?a rs = filter (\<lambda>r. rid r < ?a) (take n rs @ drop n rs)"
    by (simp add: below_def)
  then show ?thesis unfolding filter_append hi lo by simp
qed

lemma below_below: "below rid b (below rid a rs) = below rid b rs"
  if "0 < b" "\<And>r. a > 0 \<Longrightarrow> rid r < b \<Longrightarrow> rid r < a"
  using that by (auto simp: below_def intro!: filter_cong)

section \<open>Following the cursor\<close>

context pager
begin

lemma walk_from:
  assumes "ids_ok rid t" and "length (below rid a (descending rid sel t)) < fuel"
  shows "walk (page t) rid fuel a = Some (below rid a (descending rid sel t))"
  using assms(2)
proof (induction fuel arbitrary: a)
  case (Suc fuel)
  let ?rs = "below rid a (descending rid sel t)"
  have srt: "sorted_wrt (\<lambda>x y. rid y < rid x) ?rs"
    using assms(1) by (simp add: below_descending sorted_descending ids_ok_def)
  have pos: "\<forall>r \<in> set ?rs. 0 < rid r" using assms(1) by (auto simp: below_def ids_ok_def)
  show ?case
  proof (cases "limit < length ?rs")
    case False
    then show ?thesis by (simp add: page_law [OF assms(1)])
  next
    case True
    let ?b = "rid (last (take limit ?rs))"
    have "take limit ?rs \<noteq> []" using True limit_pos by (cases ?rs) auto
    then have mem: "last (take limit ?rs) \<in> set ?rs" by (meson in_set_takeD last_in_set)
    have "below rid ?b ?rs = below rid ?b (descending rid sel t)"
      by (rule below_below) (use mem pos in \<open>auto simp: below_def\<close>)
    moreover have "below rid ?b ?rs = drop limit ?rs"
      by (rule below_last [OF srt pos limit_pos True])
    ultimately have nxt: "below rid ?b (descending rid sel t) = drop limit ?rs" by simp
    then have "walk (page t) rid fuel ?b = Some (drop limit ?rs)"
      using Suc.IH [of ?b] Suc.prems limit_pos True by simp
    then show ?thesis
      using True page_law [OF assms(1), of a] by simp
  qed
qed simp

lemma walk_all:
  assumes "ids_ok rid t" and "length (filter sel t) < fuel"
  shows "walk (page t) rid fuel 0 = Some (descending rid sel t)"
  using walk_from [OF assms(1), of 0 fuel] assms(2) by (simp add: below_def)

end

section \<open>The listing operations of a reliable database are pagers\<close>

context reliable_gorm
begin

lemma list_page_result:
  assumes "ids_ok rid t" and "0 < limit"
  shows "list_page G rid sel now a (int limit) t =
    Inr (take limit (below rid a (descending rid sel t)), limit < length (below rid a (descending rid sel t)))"
proof -
  let ?sel = "\<lambda>r. sel r \<and> (a > 0 \<longrightarrow> rid r < a)"
  let ?q = "\<lparr>q_where = ?sel, q_order = (\<lambda>x y. rid x \<ge> rid y), q_limit = Some (int limit + 1)\<rparr>"
  obtain rs where rs: "gFind G now ?q t = Inr rs" using find_reliable by blast
  have "is_order (q_order ?q)" by (simp add: is_order_key)
  then obtain qs where qs: "mset qs = mset (filter ?sel t)" "sorted_wrt (\<lambda>x y. rid x \<ge> rid y) qs"
    and cut: "rs = limited (Some (int limit + 1)) qs"
    using find_found [OF rs] by (auto simp: find_result_def)
  have "qs = descending rid ?sel t"
    using assms(1) qs by (intro sorted_desc_unique) (auto simp: mset_descending ids_ok_def intro: sorted_descending)
  then have "rs = take (Suc limit) (below rid a (descending rid sel t))"
    using cut by (simp add: limited_def below_descending nat_add_distrib)
  then show ?thesis
    using rs by (auto simp: list_page_def min_def)
qed

lemma list_page_pager:
  "0 < limit \<Longrightarrow> pager (\<lambda>t a. list_page G rid sel now a (int limit) t) rid sel limit"
  by unfold_locales (simp_all add: list_page_result)

end

end
