(* ===== verification/StoreJob.thy ===== *)
theory StoreJob
  imports Api Lifecycle Pagination
begin

text \<open>
  \<^verbatim>\<open>server/internal/store/job.go\<close>: the rows of fine-tuning jobs, their conversion to the messages of the
  API, and every store operation on the jobs table. The table is the list of committed rows; the
  database is the parameter \<open>G\<close>, the protobuf codec of \<^verbatim>\<open>v1.Job\<close> the parameter \<open>C\<close>, the collation by
  which the database orders strings the parameter \<open>coll\<close>.
\<close>

section \<open>Rows\<close>

type_synonym JobState = string
type_synonym JobQueuedAction = string

abbreviation (input) JobStateQueued :: JobState where "JobStateQueued \<equiv> ''queued''"
abbreviation (input) JobStateRunning :: JobState where "JobStateRunning \<equiv> ''running''"
abbreviation (input) JobStateFailed :: JobState where "JobStateFailed \<equiv> ''failed''"
abbreviation (input) JobStateSucceeded :: JobState where "JobStateSucceeded \<equiv> ''succeeded''"
abbreviation (input) JobStateCanceled :: JobState where "JobStateCanceled \<equiv> ''canceled''"

abbreviation (input) JobQueuedActionCreate :: JobQueuedAction where "JobQueuedActionCreate \<equiv> ''creating''"
abbreviation (input) JobQueuedActionCancel :: JobQueuedAction where "JobQueuedActionCancel \<equiv> ''canceling''"

record Job =
  jID :: nat
  jCreatedAt :: time
  jUpdatedAt :: time
  jCreated :: int
  jJobID :: string
  jProjectID :: string
  jTenantID :: string
  jClusterID :: string
  jMessage :: bytes
  jState :: JobState
  jQueuedAction :: JobQueuedAction
  jSuffix :: string
  jOutputModelID :: string
  jVersion :: int

definition zero_job :: Job where
  "zero_job = \<lparr>jID = 0, jCreatedAt = 0, jUpdatedAt = 0, jCreated = 0, jJobID = [], jProjectID = [],
     jTenantID = [], jClusterID = [], jMessage = [], jState = [], jQueuedAction = [], jSuffix = [],
     jOutputModelID = [], jVersion = 0\<rparr>"

text \<open>The columns gorm maintains: the primary key and the timestamps.\<close>

definition job_touch :: "time \<Rightarrow> Job \<Rightarrow> Job" where
  "job_touch now j = j\<lparr>jUpdatedAt := now\<rparr>"

definition job_stamp :: "nat \<Rightarrow> time \<Rightarrow> Job \<Rightarrow> Job" where
  "job_stamp i now j = j\<lparr>jID := i, jCreatedAt := now, jUpdatedAt := now,
     jCreated := (if jCreated j = 0 then now else jCreated j)\<rparr>"

abbreviation job_db :: "Job gorm \<Rightarrow> bool" where
  "job_db G \<equiv> gorm G jID jJobID job_touch job_stamp"

abbreviation reliable_job_db :: "Job gorm \<Rightarrow> bool" where
  "reliable_job_db G \<equiv> reliable_gorm G jID jJobID job_touch job_stamp"

abbreviation sql_jobs :: "Job gorm" where
  "sql_jobs \<equiv> sql_gorm jID jJobID job_touch job_stamp"

section \<open>Conversions\<close>

definition V1Job :: "v1_job codec \<Rightarrow> Job \<Rightarrow> go_error + v1_job" where
  "V1Job C j = (case Unmarshal C (jMessage j) of Inl e \<Rightarrow> Inl e
     | Inr jobProto \<Rightarrow>
         if jState j = JobStateQueued then Inr (jobProto\<lparr>Job_Status := jQueuedAction j\<rparr>)
         else Inr (jobProto\<lparr>Job_Status := jState j\<rparr>))"

definition convertToV1JobState :: "JobState \<Rightarrow> go_error + int" where
  "convertToV1JobState s = (case enum_value InternalJob_State_name (ToUpper s) of
       None \<Rightarrow> Inl (Errorf (''unknown job state: '' @ s)) | Some v \<Rightarrow> Inr v)"

definition convertToV1JobQueuedAction :: "JobQueuedAction \<Rightarrow> go_error + int" where
  "convertToV1JobQueuedAction a =
     (if a = [] then Inr InternalJob_ACTION_UNSPECIFIED
      else case enum_value InternalJob_Action_name (ToUpper a) of
        None \<Rightarrow> Inl (Errorf (''unknown job queued action: '' @ a)) | Some v \<Rightarrow> Inr v)"

definition V1InternalJob :: "v1_job codec \<Rightarrow> Job \<Rightarrow> go_error + InternalJob" where
  "V1InternalJob C j = (case V1Job C j of Inl e \<Rightarrow> Inl e
     | Inr job \<Rightarrow> (case convertToV1JobState (jState j) of Inl e \<Rightarrow> Inl e
     | Inr state \<Rightarrow> (case convertToV1JobQueuedAction (jQueuedAction j) of Inl e \<Rightarrow> Inl e
     | Inr action \<Rightarrow> Inr \<lparr>IJ_Job = job, IJ_OutputModelId = jOutputModelID j, IJ_Suffix = jSuffix j,
                       IJ_State = state, IJ_QueuedAction = action\<rparr>)))"

definition Job_MutateMessage :: "v1_job codec \<Rightarrow> (v1_job \<Rightarrow> v1_job) \<Rightarrow> Job \<Rightarrow> go_error + Job" where
  "Job_MutateMessage C mutateFn j = (case V1Job C j of Inl e \<Rightarrow> Inl e
     | Inr jobProto \<Rightarrow> (case Marshal C (mutateFn jobProto) of Inl e \<Rightarrow> Inl e
     | Inr msg \<Rightarrow> Inr (j\<lparr>jMessage := msg\<rparr>)))"

section \<open>Operations\<close>

definition store_CreateJob :: "Job gorm \<Rightarrow> time \<Rightarrow> Job \<Rightarrow> Job list \<Rightarrow> (go_error + Job) \<times> Job list" where
  "store_CreateJob G now job t = gCreate G now job t"

definition GetJobByJobID :: "Job gorm \<Rightarrow> time \<Rightarrow> string \<Rightarrow> Job list \<Rightarrow> go_error + Job" where
  "GetJobByJobID G now jobID t = gTake G now (\<lambda>j. jJobID j = jobID) t"

definition GetJobByJobIDAndProjectID :: "Job gorm \<Rightarrow> time \<Rightarrow> string \<Rightarrow> string \<Rightarrow> Job list \<Rightarrow> go_error + Job" where
  "GetJobByJobIDAndProjectID G now jobID projectID t =
     gTake G now (\<lambda>j. jJobID j = jobID \<and> jProjectID j = projectID) t"

definition ListQueuedJobs :: "Job gorm \<Rightarrow> (string \<Rightarrow> string \<Rightarrow> bool) \<Rightarrow> time \<Rightarrow> Job list \<Rightarrow> go_error + Job list" where
  "ListQueuedJobs G coll now t = gFind G now
     \<lparr>q_where = (\<lambda>j. jState j = JobStateQueued), q_order = (\<lambda>x y. coll (jJobID x) (jJobID y)), q_limit = None\<rparr> t"

definition ListQueuedJobsByTenantIDAndClusterID ::
  "Job gorm \<Rightarrow> (string \<Rightarrow> string \<Rightarrow> bool) \<Rightarrow> time \<Rightarrow> string \<Rightarrow> string \<Rightarrow> Job list \<Rightarrow> go_error + Job list" where
  "ListQueuedJobsByTenantIDAndClusterID G coll now tenantID clusterID t = gFind G now
     \<lparr>q_where = (\<lambda>j. jTenantID j = tenantID \<and> jClusterID j = clusterID \<and> jState j = JobStateQueued),
      q_order = (\<lambda>x y. coll (jJobID x) (jJobID y)), q_limit = None\<rparr> t"

definition ListJobsByTenantID :: "Job gorm \<Rightarrow> time \<Rightarrow> string \<Rightarrow> Job list \<Rightarrow> go_error + Job list" where
  "ListJobsByTenantID G now tenantID t = gFind G now
     \<lparr>q_where = (\<lambda>j. jTenantID j = tenantID), q_order = unordered, q_limit = None\<rparr> t"

definition ListJobsByProjectIDWithPagination ::
  "Job gorm \<Rightarrow> time \<Rightarrow> string \<Rightarrow> nat \<Rightarrow> int \<Rightarrow> Job list \<Rightarrow> go_error + (Job list \<times> bool)" where
  "ListJobsByProjectIDWithPagination G now projectID afterID limit t =
     list_page G jID (\<lambda>j. jProjectID j = projectID) now afterID limit t"

definition UpdateJobState ::
  "Job gorm \<Rightarrow> time \<Rightarrow> string \<Rightarrow> int \<Rightarrow> JobState \<Rightarrow> JobQueuedAction \<Rightarrow> Job list \<Rightarrow> (go_error + Job) \<times> Job list" where
  "UpdateJobState G now jobID currentVersion newState newAction t =
     updates_versioned G jJobID jVersion ''update job: '' now zero_job jobID currentVersion
       (\<lambda>j. j\<lparr>jState := newState, jQueuedAction := newAction, jVersion := currentVersion + 1\<rparr>) t"

definition UpdateJobStateAndMessage ::
  "Job gorm \<Rightarrow> time \<Rightarrow> string \<Rightarrow> int \<Rightarrow> JobState \<Rightarrow> bytes \<Rightarrow> Job list \<Rightarrow> (go_error + Job) \<times> Job list" where
  "UpdateJobStateAndMessage G now jobID currentVersion newState message t =
     updates_versioned G jJobID jVersion ''update job: '' now zero_job jobID currentVersion
       (\<lambda>j. j\<lparr>jState := newState, jQueuedAction := [], jMessage := message, jVersion := currentVersion + 1\<rparr>) t"

definition UpdateOutputModelID ::
  "Job gorm \<Rightarrow> time \<Rightarrow> string \<Rightarrow> int \<Rightarrow> string \<Rightarrow> Job list \<Rightarrow> (go_error + Job) \<times> Job list" where
  "UpdateOutputModelID G now jobID currentVersion outputModelID t =
     updates_versioned G jJobID jVersion ''update job: '' now zero_job jobID currentVersion
       (\<lambda>j. j\<lparr>jOutputModelID := outputModelID, jVersion := currentVersion + 1\<rparr>) t"

definition CountJobsByProjectID :: "Job gorm \<Rightarrow> time \<Rightarrow> string \<Rightarrow> Job list \<Rightarrow> go_error + int" where
  "CountJobsByProjectID G now projectID t = gCount G now (\<lambda>j. jProjectID j = projectID) t"

section \<open>Lemmas\<close>

lemma job_touch_sel [simp]:
  "jID (job_touch now j) = jID j" "jJobID (job_touch now j) = jJobID j" "jState (job_touch now j) = jState j"
  "jQueuedAction (job_touch now j) = jQueuedAction j" "jVersion (job_touch now j) = jVersion j"
  "jProjectID (job_touch now j) = jProjectID j" "jTenantID (job_touch now j) = jTenantID j"
  "jClusterID (job_touch now j) = jClusterID j" "jMessage (job_touch now j) = jMessage j"
  "jOutputModelID (job_touch now j) = jOutputModelID j" "jSuffix (job_touch now j) = jSuffix j"
  "jUpdatedAt (job_touch now j) = now" "jCreated (job_touch now j) = jCreated j"
  by (simp_all add: job_touch_def)

lemma job_stamp_sel [simp]:
  "jID (job_stamp i now j) = i" "jJobID (job_stamp i now j) = jJobID j" "jState (job_stamp i now j) = jState j"
  "jQueuedAction (job_stamp i now j) = jQueuedAction j" "jVersion (job_stamp i now j) = jVersion j"
  "jProjectID (job_stamp i now j) = jProjectID j" "jTenantID (job_stamp i now j) = jTenantID j"
  "jClusterID (job_stamp i now j) = jClusterID j" "jMessage (job_stamp i now j) = jMessage j"
  by (simp_all add: job_stamp_def)

lemma sql_job_db: "reliable_job_db sql_jobs"
  by (rule sql_gorm_laws) simp_all

interpretation sql_job: reliable_gorm sql_jobs jID jJobID job_touch job_stamp
  by (rule sql_job_db)

lemma jobs_pager:
  assumes "reliable_job_db G" and "0 < limit"
  shows "pager (\<lambda>t a. ListJobsByProjectIDWithPagination G now p a (int limit) t) jID (\<lambda>j. jProjectID j = p) limit"
  using reliable_gorm.list_page_pager [OF assms]
  by (simp add: ListJobsByProjectIDWithPagination_def)

interpretation sql_job_pages: pager "\<lambda>t a. ListJobsByProjectIDWithPagination sql_jobs now p a (int (Suc n)) t"
  jID "\<lambda>j. jProjectID j = p" "Suc n" for now p n
  by (rule jobs_pager [OF sql_job_db]) simp

lemma enum_values [simp]:
  "convertToV1JobState JobStateQueued = Inr InternalJob_QUEUED"
  "convertToV1JobState JobStateRunning = Inr InternalJob_RUNNING"
  "convertToV1JobState JobStateFailed = Inr InternalJob_FAILED"
  "convertToV1JobState JobStateSucceeded = Inr InternalJob_SUCCEEDED"
  "convertToV1JobState JobStateCanceled = Inr InternalJob_CANCELED"
  "convertToV1JobQueuedAction [] = Inr InternalJob_ACTION_UNSPECIFIED"
  "convertToV1JobQueuedAction JobQueuedActionCreate = Inr InternalJob_CREATING"
  "convertToV1JobQueuedAction JobQueuedActionCancel = Inr InternalJob_CANCELING"
  by code_simp+

lemma V1Job_status:
  "V1Job C j = Inr p \<Longrightarrow> Job_Status p = (if jState j = JobStateQueued then jQueuedAction j else jState j)"
  by (auto simp: V1Job_def split: sum.splits if_splits)

lemma Job_MutateMessage_frame:
  "Job_MutateMessage C f j = Inr j' \<Longrightarrow> j' = j\<lparr>jMessage := jMessage j'\<rparr>"
  by (auto simp: Job_MutateMessage_def split: sum.splits)

end
