(* ===== verification/Auth.thy ===== *)
theory Auth
  imports Prelude
begin

text \<open>
  What the handlers read from the request context. The authentication interceptors of
  \<^verbatim>\<open>rbac-manager\<close> put a user (or, for workers, a cluster) into the context; both are third-party, so a
  context is the record of what \<^verbatim>\<open>auth.Extract...FromContext\<close> returns for it. \<^verbatim>\<open>fakeAuthInto\<close>
  (\<^verbatim>\<open>server/internal/server/server.go\<close>) and \<^verbatim>\<open>extractClusterInfoFromContext\<close> (\<^verbatim>\<open>ws_server.go\<close>) are the source's own.
\<close>

record AssignedKubernetesEnv =
  ake_ClusterID :: string
  ake_ClusterName :: string
  ake_Namespace :: string

record UserInfo =
  ui_OrganizationID :: string
  ui_OrganizationTitle :: string
  ui_ProjectID :: string
  ui_ProjectTitle :: string
  ui_TenantID :: string
  ui_AssignedKubernetesEnvs :: "AssignedKubernetesEnv list"

record ClusterInfo =
  ci_ClusterID :: string
  ci_ClusterName :: string
  ci_TenantID :: string

record context_info =
  ExtractUserInfo :: "UserInfo option"
  ExtractToken :: "go_error + string"
  ExtractClusterInfo :: "ClusterInfo option"

abbreviation (input) defaultProjectID :: string where "defaultProjectID \<equiv> ''default''"
abbreviation (input) defaultTenantID :: string where "defaultTenantID \<equiv> ''default-tenant-id''"
abbreviation (input) defaultClusterID :: string where "defaultClusterID \<equiv> ''default''"

definition fakeAuthInto :: "context_info \<Rightarrow> context_info" where
  "fakeAuthInto ctx = ctx\<lparr>
     ExtractUserInfo := Some \<lparr>ui_OrganizationID = ''default'', ui_OrganizationTitle = [],
        ui_ProjectID = defaultProjectID, ui_ProjectTitle = [], ui_TenantID = defaultTenantID,
        ui_AssignedKubernetesEnvs = [\<lparr>ake_ClusterID = defaultClusterID, ake_ClusterName = [],
           ake_Namespace = ''default''\<rparr>]\<rparr>,
     ExtractToken := Inr ''token''\<rparr>"

definition extractClusterInfoFromContext :: "bool \<Rightarrow> context_info \<Rightarrow> go_error + ClusterInfo" where
  "extractClusterInfoFromContext enableAuth ctx =
     (if \<not> enableAuth then
        Inr \<lparr>ci_ClusterID = defaultClusterID, ci_ClusterName = [], ci_TenantID = defaultTenantID\<rparr>
      else case ExtractClusterInfo ctx of
        None \<Rightarrow> Inl (Status Unauthenticated ''cluster info not found'')
      | Some clusterInfo \<Rightarrow> Inr clusterInfo)"

abbreviation unauthenticated :: go_error where
  "unauthenticated \<equiv> Status Unauthenticated ''failed to extract user info from context''"

end
