(* ===== verification/StoreNotebook.thy ===== *)
theory StoreNotebook
  imports Api Auth Lifecycle Pagination
begin

text \<open>
  \<^verbatim>\<open>server/internal/store/notebook.go\<close>: notebook rows, the encryption of their secrets, their conversion to
  the messages of the API, and every store operation on the notebooks table. \<^verbatim>\<open>aws.Encrypt\<close> and
  \<^verbatim>\<open>aws.Decrypt\<close> are third-party and parameters; the locale \<open>cipher\<close> states that decrypting with the same
  context and key returns the plain text.
\<close>

section \<open>Rows\<close>

type_synonym NotebookState = string
type_synonym NotebookQueuedAction = string

abbreviation (input) NotebookStateQueued :: NotebookState where "NotebookStateQueued \<equiv> ''queued''"
abbreviation (input) NotebookStateInitializing :: NotebookState where "NotebookStateInitializing \<equiv> ''initializing''"
abbreviation (input) NotebookStateRunning :: NotebookState where "NotebookStateRunning \<equiv> ''running''"
abbreviation (input) NotebookStateStopped :: NotebookState where "NotebookStateStopped \<equiv> ''stopped''"
abbreviation (input) NotebookStateFailed :: NotebookState where "NotebookStateFailed \<equiv> ''failed''"
abbreviation (input) NotebookStateDeleted :: NotebookState where "NotebookStateDeleted \<equiv> ''deleted''"
abbreviation (input) NotebookStateRequeued :: NotebookState where "NotebookStateRequeued \<equiv> ''requeued''"

abbreviation (input) NotebookQueuedActionStart :: NotebookQueuedAction where "NotebookQueuedActionStart \<equiv> ''starting''"
abbreviation (input) NotebookQueuedActionStop :: NotebookQueuedAction where "NotebookQueuedActionStop \<equiv> ''stopping''"
abbreviation (input) NotebookQueuedActionDelete :: NotebookQueuedAction where "NotebookQueuedActionDelete \<equiv> ''deleting''"
abbreviation (input) NotebookQueuedActionRequeue :: NotebookQueuedAction where "NotebookQueuedActionRequeue \<equiv> ''requeueing''"

record Notebook =
  nID :: nat
  nCreatedAt :: time
  nUpdatedAt :: time
  nCreated :: int
  nNotebookID :: string
  nName :: string
  nProjectID :: string
  nTenantID :: string
  nClusterID :: string
  nMessage :: bytes
  nProjectMessage :: bytes
  nAPIKey :: string
  nToken :: string
  nEncryptedAPIKey :: bytes
  nEncryptedToken :: bytes
  nState :: NotebookState
  nQueuedAction :: NotebookQueuedAction
  nReason :: string
  nVersion :: int

definition zero_notebook :: Notebook where
  "zero_notebook = \<lparr>nID = 0, nCreatedAt = 0, nUpdatedAt = 0, nCreated = 0, nNotebookID = [], nName = [],
     nProjectID = [], nTenantID = [], nClusterID = [], nMessage = [], nProjectMessage = [], nAPIKey = [],
     nToken = [], nEncryptedAPIKey = [], nEncryptedToken = [], nState = [], nQueuedAction = [], nReason = [],
     nVersion = 0\<rparr>"

definition notebook_touch :: "time \<Rightarrow> Notebook \<Rightarrow> Notebook" where
  "notebook_touch now n = n\<lparr>nUpdatedAt := now\<rparr>"

definition notebook_stamp :: "nat \<Rightarrow> time \<Rightarrow> Notebook \<Rightarrow> Notebook" where
  "notebook_stamp i now n = n\<lparr>nID := i, nCreatedAt := now, nUpdatedAt := now,
     nCreated := (if nCreated n = 0 then now else nCreated n)\<rparr>"

abbreviation notebook_db :: "Notebook gorm \<Rightarrow> bool" where
  "notebook_db G \<equiv> gorm G nID nNotebookID notebook_touch notebook_stamp"

abbreviation reliable_notebook_db :: "Notebook gorm \<Rightarrow> bool" where
  "reliable_notebook_db G \<equiv> reliable_gorm G nID nNotebookID notebook_touch notebook_stamp"

abbreviation sql_notebooks :: "Notebook gorm" where
  "sql_notebooks \<equiv> sql_gorm nID nNotebookID notebook_touch notebook_stamp"

text \<open>The fields of \<^verbatim>\<open>rbacv1.Project\<close> that the source writes and reads.\<close>

record rbac_Project =
  Project_Id :: string
  Project_AssignedKubernetesEnvs :: "AssignedKubernetesEnv list"

section \<open>Secrets\<close>

text \<open>\<open>enc text context key\<close> and \<open>dec bytes context key\<close> stand for \<^verbatim>\<open>aws.Encrypt\<close> and \<^verbatim>\<open>aws.Decrypt\<close>.\<close>

type_synonym encryptor = "string \<Rightarrow> string \<Rightarrow> bytes \<Rightarrow> go_error + bytes"
type_synonym decryptor = "bytes \<Rightarrow> string \<Rightarrow> bytes \<Rightarrow> go_error + string"

locale cipher =
  fixes enc :: encryptor and dec :: decryptor
  assumes dec_enc: "enc s c k = Inr b \<Longrightarrow> dec b c k = Inr s"
    and enc_nonempty: "enc s c k = Inr b \<Longrightarrow> b \<noteq> []"

definition GetAPIKey :: "decryptor \<Rightarrow> bytes \<Rightarrow> Notebook \<Rightarrow> go_error + string" where
  "GetAPIKey dec dataKey n =
     (if 0 < length dataKey \<and> 0 < length (nEncryptedAPIKey n) then
        (case dec (nEncryptedAPIKey n) (nNotebookID n) dataKey of
           Inl e \<Rightarrow> Inl (Wrapf ''decrypt api key: '' e) | Inr decrypted \<Rightarrow> Inr decrypted)
      else Inr (nAPIKey n))"

definition GetToken :: "decryptor \<Rightarrow> bytes \<Rightarrow> Notebook \<Rightarrow> go_error + string" where
  "GetToken dec dataKey n =
     (if 0 < length dataKey \<and> 0 < length (nEncryptedToken n) then
        (case dec (nEncryptedToken n) (nNotebookID n) dataKey of
           Inl e \<Rightarrow> Inl (Wrapf ''decrypt token: '' e) | Inr decrypted \<Rightarrow> Inr decrypted)
      else Inr (nToken n))"

definition SetAPIKey :: "encryptor \<Rightarrow> string \<Rightarrow> bytes \<Rightarrow> Notebook \<Rightarrow> go_error + Notebook" where
  "SetAPIKey enc apiKey dataKey n =
     (if 0 < length dataKey then
        (case enc apiKey (nNotebookID n) dataKey of
           Inl e \<Rightarrow> Inl (Wrapf ''encrypt api key: '' e)
         | Inr encrypted \<Rightarrow> Inr (n\<lparr>nEncryptedAPIKey := encrypted, nAPIKey := []\<rparr>))
      else Inr (n\<lparr>nAPIKey := apiKey\<rparr>))"

definition SetToken :: "encryptor \<Rightarrow> string \<Rightarrow> bytes \<Rightarrow> Notebook \<Rightarrow> go_error + Notebook" where
  "SetToken enc token dataKey n =
     (if 0 < length dataKey then
        (case enc token (nNotebookID n) dataKey of
           Inl e \<Rightarrow> Inl (Wrapf ''encrypt token: '' e)
         | Inr encrypted \<Rightarrow> Inr (n\<lparr>nEncryptedToken := encrypted, nToken := []\<rparr>))
      else Inr (n\<lparr>nToken := token\<rparr>))"

section \<open>Conversions\<close>

definition V1Notebook :: "v1_notebook codec \<Rightarrow> Notebook \<Rightarrow> go_error + v1_notebook" where
  "V1Notebook C n = (case Unmarshal C (nMessage n) of Inl e \<Rightarrow> Inl e
     | Inr nbProto \<Rightarrow>
         if nState n = NotebookStateQueued then Inr (nbProto\<lparr>Notebook_Status := nQueuedAction n\<rparr>)
         else Inr (nbProto\<lparr>Notebook_Status := nState n\<rparr>))"

definition convertToV1NotebookState :: "NotebookState \<Rightarrow> go_error + int" where
  "convertToV1NotebookState s = (case enum_value NotebookState_name (ToUpper s) of
       None \<Rightarrow> Inl (Errorf (''unknown notebook state: '' @ s)) | Some v \<Rightarrow> Inr v)"

definition convertToNotebookQueuedAction :: "NotebookQueuedAction \<Rightarrow> go_error + int" where
  "convertToNotebookQueuedAction a =
     (if a = [] then Inr NotebookQueuedAction_ACTION_UNSPECIFIED
      else case enum_value NotebookQueuedAction_name (ToUpper a) of
        None \<Rightarrow> Inl (Errorf (''unknown notebook queued action: '' @ a)) | Some v \<Rightarrow> Inr v)"

definition V1InternalNotebook :: "v1_notebook codec \<Rightarrow> Notebook \<Rightarrow> go_error + InternalNotebook" where
  "V1InternalNotebook C n = (case V1Notebook C n of Inl e \<Rightarrow> Inl e
     | Inr nbProto \<Rightarrow> (case convertToV1NotebookState (nState n) of Inl e \<Rightarrow> Inl e
     | Inr state \<Rightarrow> (case convertToNotebookQueuedAction (nQueuedAction n) of Inl e \<Rightarrow> Inl e
     | Inr action \<Rightarrow> Inr \<lparr>IN_Notebook = nbProto, IN_State = state, IN_QueuedAction = action\<rparr>)))"

definition Notebook_MutateMessage ::
  "v1_notebook codec \<Rightarrow> (v1_notebook \<Rightarrow> v1_notebook) \<Rightarrow> Notebook \<Rightarrow> go_error + Notebook" where
  "Notebook_MutateMessage C mutateFn n = (case V1Notebook C n of Inl e \<Rightarrow> Inl e
     | Inr nbProto \<Rightarrow> (case Marshal C (mutateFn nbProto) of Inl e \<Rightarrow> Inl e
     | Inr msg \<Rightarrow> Inr (n\<lparr>nMessage := msg\<rparr>)))"

definition RebuildUserInfo :: "rbac_Project codec \<Rightarrow> Notebook \<Rightarrow> go_error + UserInfo" where
  "RebuildUserInfo C n = (case Unmarshal C (nProjectMessage n) of Inl e \<Rightarrow> Inl e
     | Inr pProto \<Rightarrow>
         let akes = map (\<lambda>a. \<lparr>ake_ClusterID = ake_ClusterID a, ake_ClusterName = ake_ClusterName a,
                           ake_Namespace = ake_Namespace a\<rparr>) (Project_AssignedKubernetesEnvs pProto)
         in Inr \<lparr>ui_OrganizationID = [], ui_OrganizationTitle = [], ui_ProjectID = nProjectID n,
                 ui_ProjectTitle = [], ui_TenantID = nTenantID n, ui_AssignedKubernetesEnvs = akes\<rparr>)"

section \<open>Operations\<close>

definition store_CreateNotebook :: "Notebook gorm \<Rightarrow> time \<Rightarrow> Notebook \<Rightarrow> Notebook list \<Rightarrow> (go_error + Notebook) \<times> Notebook list" where
  "store_CreateNotebook G now nb t = gCreate G now nb t"

definition GetNotebookByID :: "Notebook gorm \<Rightarrow> time \<Rightarrow> string \<Rightarrow> Notebook list \<Rightarrow> go_error + Notebook" where
  "GetNotebookByID G now i t = gTake G now (\<lambda>n. nNotebookID n = i) t"

definition GetNotebookByIDAndProjectID :: "Notebook gorm \<Rightarrow> time \<Rightarrow> string \<Rightarrow> string \<Rightarrow> Notebook list \<Rightarrow> go_error + Notebook" where
  "GetNotebookByIDAndProjectID G now i projectID t =
     gTake G now (\<lambda>n. nNotebookID n = i \<and> nProjectID n = projectID) t"

definition GetActiveNotebookByNameAndProjectID ::
  "Notebook gorm \<Rightarrow> time \<Rightarrow> string \<Rightarrow> string \<Rightarrow> Notebook list \<Rightarrow> go_error + Notebook" where
  "GetActiveNotebookByNameAndProjectID G now name projectID t =
     gTake G now (\<lambda>n. nName n = name \<and> nProjectID n = projectID \<and> nState n \<noteq> NotebookStateDeleted) t"

definition ListActiveNotebooksByProjectIDWithPagination ::
  "Notebook gorm \<Rightarrow> time \<Rightarrow> string \<Rightarrow> nat \<Rightarrow> int \<Rightarrow> Notebook list \<Rightarrow> go_error + (Notebook list \<times> bool)" where
  "ListActiveNotebooksByProjectIDWithPagination G now projectID afterID limit t =
     list_page G nID (\<lambda>n. nProjectID n = projectID \<and> nState n \<noteq> NotebookStateDeleted) now afterID limit t"

definition ListQueuedNotebooksByTenantIDAndClusterID ::
  "Notebook gorm \<Rightarrow> time \<Rightarrow> string \<Rightarrow> string \<Rightarrow> Notebook list \<Rightarrow> go_error + Notebook list" where
  "ListQueuedNotebooksByTenantIDAndClusterID G now tenantID clusterID t = gFind G now
     \<lparr>q_where = (\<lambda>n. nTenantID n = tenantID \<and> nClusterID n = clusterID \<and> nState n = NotebookStateQueued),
      q_order = unordered, q_limit = None\<rparr> t"

definition ListNotebooksByState :: "Notebook gorm \<Rightarrow> time \<Rightarrow> NotebookState \<Rightarrow> Notebook list \<Rightarrow> go_error + Notebook list" where
  "ListNotebooksByState G now state t = gFind G now
     \<lparr>q_where = (\<lambda>n. nState n = state), q_order = unordered, q_limit = None\<rparr> t"

definition SetNotebookQueuedAction ::
  "Notebook gorm \<Rightarrow> time \<Rightarrow> string \<Rightarrow> int \<Rightarrow> NotebookQueuedAction \<Rightarrow> Notebook list \<Rightarrow> (go_error + Notebook) \<times> Notebook list" where
  "SetNotebookQueuedAction G now i currentVersion newAction t =
     updates_versioned G nNotebookID nVersion ''update notebook: '' now zero_notebook i currentVersion
       (\<lambda>n. n\<lparr>nState := NotebookStateQueued, nQueuedAction := newAction, nReason := [], nVersion := currentVersion + 1\<rparr>) t"

definition SetState ::
  "Notebook gorm \<Rightarrow> time \<Rightarrow> string \<Rightarrow> int \<Rightarrow> NotebookState \<Rightarrow> Notebook list \<Rightarrow> (go_error + Notebook) \<times> Notebook list" where
  "SetState G now i currentVersion newState t =
     updates_versioned G nNotebookID nVersion ''update notebook: '' now zero_notebook i currentVersion
       (\<lambda>n. n\<lparr>nState := newState, nReason := [], nVersion := currentVersion + 1\<rparr>) t"

definition SetNonQueuedStateAndMessage ::
  "Notebook gorm \<Rightarrow> time \<Rightarrow> string \<Rightarrow> int \<Rightarrow> NotebookState \<Rightarrow> bytes \<Rightarrow> string \<Rightarrow> Notebook list \<Rightarrow>
   (go_error + Notebook) \<times> Notebook list" where
  "SetNonQueuedStateAndMessage G now i currentVersion newState message reason t =
     updates_versioned G nNotebookID nVersion ''update notebook: '' now zero_notebook i currentVersion
       (\<lambda>n. n\<lparr>nState := newState, nQueuedAction := [], nMessage := message, nReason := reason,
             nVersion := currentVersion + 1\<rparr>) t"

definition UpdateNotebookForRescheduling ::
  "Notebook gorm \<Rightarrow> time \<Rightarrow> Notebook \<Rightarrow> Notebook list \<Rightarrow> (go_error + Notebook) \<times> Notebook list" where
  "UpdateNotebookForRescheduling G now nb t =
     updates_versioned G nNotebookID nVersion ''update notebook: '' now zero_notebook (nNotebookID nb) (nVersion nb)
       (\<lambda>n. n\<lparr>nClusterID := nClusterID nb, nState := nState nb, nQueuedAction := nQueuedAction nb,
             nMessage := nMessage nb, nReason := nReason nb, nVersion := nVersion nb + 1\<rparr>) t"

definition CountActiveNotebooksByProjectID :: "Notebook gorm \<Rightarrow> time \<Rightarrow> string \<Rightarrow> Notebook list \<Rightarrow> go_error + int" where
  "CountActiveNotebooksByProjectID G now projectID t =
     gCount G now (\<lambda>n. nProjectID n = projectID \<and> nState n \<noteq> NotebookStateDeleted) t"

section \<open>Lemmas\<close>

lemma notebook_touch_sel [simp]:
  "nID (notebook_touch now n) = nID n" "nNotebookID (notebook_touch now n) = nNotebookID n"
  "nState (notebook_touch now n) = nState n" "nQueuedAction (notebook_touch now n) = nQueuedAction n"
  "nVersion (notebook_touch now n) = nVersion n" "nProjectID (notebook_touch now n) = nProjectID n"
  "nTenantID (notebook_touch now n) = nTenantID n" "nClusterID (notebook_touch now n) = nClusterID n"
  "nMessage (notebook_touch now n) = nMessage n" "nName (notebook_touch now n) = nName n"
  "nProjectMessage (notebook_touch now n) = nProjectMessage n" "nReason (notebook_touch now n) = nReason n"
  "nUpdatedAt (notebook_touch now n) = now" "nCreated (notebook_touch now n) = nCreated n"
  by (simp_all add: notebook_touch_def)

lemma notebook_stamp_sel [simp]:
  "nID (notebook_stamp i now n) = i" "nNotebookID (notebook_stamp i now n) = nNotebookID n"
  "nState (notebook_stamp i now n) = nState n" "nQueuedAction (notebook_stamp i now n) = nQueuedAction n"
  "nVersion (notebook_stamp i now n) = nVersion n" "nProjectID (notebook_stamp i now n) = nProjectID n"
  "nTenantID (notebook_stamp i now n) = nTenantID n" "nClusterID (notebook_stamp i now n) = nClusterID n"
  "nName (notebook_stamp i now n) = nName n" "nMessage (notebook_stamp i now n) = nMessage n"
  by (simp_all add: notebook_stamp_def)

lemma sql_notebook_db: "reliable_notebook_db sql_notebooks"
  by (rule sql_gorm_laws) simp_all

interpretation sql_notebook: reliable_gorm sql_notebooks nID nNotebookID notebook_touch notebook_stamp
  by (rule sql_notebook_db)

lemma notebooks_pager:
  assumes "reliable_notebook_db G" and "0 < limit"
  shows "pager (\<lambda>t a. ListActiveNotebooksByProjectIDWithPagination G now p a (int limit) t) nID
    (\<lambda>n. nProjectID n = p \<and> nState n \<noteq> NotebookStateDeleted) limit"
  using reliable_gorm.list_page_pager [OF assms]
  by (simp add: ListActiveNotebooksByProjectIDWithPagination_def)

interpretation sql_notebook_pages: pager
  "\<lambda>t a. ListActiveNotebooksByProjectIDWithPagination sql_notebooks now p a (int (Suc n)) t"
  nID "\<lambda>n. nProjectID n = p \<and> nState n \<noteq> NotebookStateDeleted" "Suc n" for now p n
  by (rule notebooks_pager [OF sql_notebook_db]) simp

lemma notebook_enum_values [simp]:
  "convertToV1NotebookState NotebookStateQueued = Inr NotebookState_QUEUED"
  "convertToV1NotebookState NotebookStateInitializing = Inr NotebookState_INITIALIZING"
  "convertToV1NotebookState NotebookStateRunning = Inr NotebookState_RUNNING"
  "convertToV1NotebookState NotebookStateStopped = Inr NotebookState_STOPPED"
  "convertToV1NotebookState NotebookStateFailed = Inr NotebookState_FAILED"
  "convertToV1NotebookState NotebookStateDeleted = Inr NotebookState_DELETED"
  "convertToV1NotebookState NotebookStateRequeued = Inr NotebookState_REQUEUED"
  "convertToNotebookQueuedAction [] = Inr NotebookQueuedAction_ACTION_UNSPECIFIED"
  "convertToNotebookQueuedAction NotebookQueuedActionStart = Inr NotebookQueuedAction_STARTING"
  "convertToNotebookQueuedAction NotebookQueuedActionStop = Inr NotebookQueuedAction_STOPPING"
  "convertToNotebookQueuedAction NotebookQueuedActionDelete = Inr NotebookQueuedAction_DELETING"
  "convertToNotebookQueuedAction NotebookQueuedActionRequeue = Inr NotebookQueuedAction_REQUEUEING"
  by code_simp+

lemma Notebook_MutateMessage_frame:
  "Notebook_MutateMessage C f n = Inr n' \<Longrightarrow> n' = n\<lparr>nMessage := nMessage n'\<rparr>"
  by (auto simp: Notebook_MutateMessage_def split: sum.splits)

text \<open>A cipher for evaluation: the text behind its context and key.\<close>

definition tag_enc :: encryptor where
  "tag_enc s c k = Inr (CHR ''#'' # s)"

definition tag_dec :: decryptor where
  "tag_dec b c k = (case b of [] \<Rightarrow> Inl (Errorf ''short'') | _ # s \<Rightarrow> Inr s)"

interpretation tag_cipher: cipher tag_enc tag_dec
  by unfold_locales (auto simp: tag_enc_def tag_dec_def)

context cipher
begin

lemma get_set_api_key: "SetAPIKey enc k d n = Inr n' \<Longrightarrow> nEncryptedAPIKey n = [] \<Longrightarrow> GetAPIKey dec d n' = Inr k"
  using dec_enc enc_nonempty by (auto simp: SetAPIKey_def GetAPIKey_def split: if_splits sum.splits)

lemma get_set_token: "SetToken enc k d n = Inr n' \<Longrightarrow> nEncryptedToken n = [] \<Longrightarrow> GetToken dec d n' = Inr k"
  using dec_enc enc_nonempty by (auto simp: SetToken_def GetToken_def split: if_splits sum.splits)

end

end
