(* ===== verification/StoreBatch.thy ===== *)
theory StoreBatch
  imports Api Lifecycle Pagination
begin

text \<open>
  \<^verbatim>\<open>server/internal/store/batchjob.go\<close>: batch job rows, their conversion to the messages of the API, and
  every store operation on the batch jobs table. The database is the parameter \<open>G\<close>, the codec of
  \<^verbatim>\<open>v1.BatchJob\<close> the parameter \<open>C\<close>. An operation that returns only an error returns \<open>Inr\<close> of the
  struct handed to gorm for the nil error; its callers ignore it.
\<close>

section \<open>Rows\<close>

type_synonym BatchJobState = string
type_synonym BatchJobQueuedAction = string

abbreviation (input) BatchJobStateQueued :: BatchJobState where "BatchJobStateQueued \<equiv> ''queued''"
abbreviation (input) BatchJobStateRunning :: BatchJobState where "BatchJobStateRunning \<equiv> ''running''"
abbreviation (input) BatchJobStateSucceeded :: BatchJobState where "BatchJobStateSucceeded \<equiv> ''succeeded''"
abbreviation (input) BatchJobStateFailed :: BatchJobState where "BatchJobStateFailed \<equiv> ''failed''"
abbreviation (input) BatchJobStateCanceled :: BatchJobState where "BatchJobStateCanceled \<equiv> ''canceled''"
abbreviation (input) BatchJobStateDeleted :: BatchJobState where "BatchJobStateDeleted \<equiv> ''deleted''"

abbreviation (input) BatchJobQueuedActionCreate :: BatchJobQueuedAction where "BatchJobQueuedActionCreate \<equiv> ''creating''"
abbreviation (input) BatchJobQueuedActionCancel :: BatchJobQueuedAction where "BatchJobQueuedActionCancel \<equiv> ''canceling''"
abbreviation (input) BatchJobQueuedActionDelete :: BatchJobQueuedAction where "BatchJobQueuedActionDelete \<equiv> ''deleting''"

record BatchJob =
  bID :: nat
  bCreatedAt :: time
  bUpdatedAt :: time
  bCreated :: int
  bJobID :: string
  bProjectID :: string
  bTenantID :: string
  bClusterID :: string
  bMessage :: bytes
  bState :: BatchJobState
  bQueuedAction :: BatchJobQueuedAction
  bVersion :: int

definition zero_batch_job :: BatchJob where
  "zero_batch_job = \<lparr>bID = 0, bCreatedAt = 0, bUpdatedAt = 0, bCreated = 0, bJobID = [], bProjectID = [],
     bTenantID = [], bClusterID = [], bMessage = [], bState = [], bQueuedAction = [], bVersion = 0\<rparr>"

definition batch_touch :: "time \<Rightarrow> BatchJob \<Rightarrow> BatchJob" where
  "batch_touch now j = j\<lparr>bUpdatedAt := now\<rparr>"

definition batch_stamp :: "nat \<Rightarrow> time \<Rightarrow> BatchJob \<Rightarrow> BatchJob" where
  "batch_stamp i now j = j\<lparr>bID := i, bCreatedAt := now, bUpdatedAt := now,
     bCreated := (if bCreated j = 0 then now else bCreated j)\<rparr>"

abbreviation batch_db :: "BatchJob gorm \<Rightarrow> bool" where
  "batch_db G \<equiv> gorm G bID bJobID batch_touch batch_stamp"

abbreviation reliable_batch_db :: "BatchJob gorm \<Rightarrow> bool" where
  "reliable_batch_db G \<equiv> reliable_gorm G bID bJobID batch_touch batch_stamp"

abbreviation sql_batch_jobs :: "BatchJob gorm" where
  "sql_batch_jobs \<equiv> sql_gorm bID bJobID batch_touch batch_stamp"

section \<open>Conversions\<close>

definition V1BatchJob :: "v1_batch_job codec \<Rightarrow> BatchJob \<Rightarrow> go_error + v1_batch_job" where
  "V1BatchJob C j = (case Unmarshal C (bMessage j) of Inl e \<Rightarrow> Inl e
     | Inr jobProto \<Rightarrow>
         if bState j = BatchJobStateQueued then Inr (jobProto\<lparr>BatchJob_Status := bQueuedAction j\<rparr>)
         else Inr (jobProto\<lparr>BatchJob_Status := bState j\<rparr>))"

definition convertToV1BatchJobState :: "BatchJobState \<Rightarrow> go_error + int" where
  "convertToV1BatchJobState s = (case enum_value InternalBatchJob_State_name (ToUpper s) of
       None \<Rightarrow> Inl (Errorf (''unknown notebook state: '' @ s)) | Some v \<Rightarrow> Inr v)"

definition convertToBatchJobQueuedAction :: "BatchJobQueuedAction \<Rightarrow> go_error + int" where
  "convertToBatchJobQueuedAction a =
     (if a = [] then Inr InternalBatchJob_ACTION_UNSPECIFIED
      else case enum_value InternalBatchJob_Action_name (ToUpper a) of
        None \<Rightarrow> Inl (Errorf (''unknown notebook queued action: '' @ a)) | Some v \<Rightarrow> Inr v)"

definition V1InternalBatchJob :: "v1_batch_job codec \<Rightarrow> BatchJob \<Rightarrow> go_error + InternalBatchJob" where
  "V1InternalBatchJob C j = (case V1BatchJob C j of Inl e \<Rightarrow> Inl e
     | Inr jobProto \<Rightarrow> (case convertToV1BatchJobState (bState j) of Inl e \<Rightarrow> Inl e
     | Inr state \<Rightarrow> (case convertToBatchJobQueuedAction (bQueuedAction j) of Inl e \<Rightarrow> Inl e
     | Inr action \<Rightarrow> Inr \<lparr>IB_Job = jobProto, IB_State = state, IB_QueuedAction = action\<rparr>)))"

definition BatchJob_MutateMessage ::
  "v1_batch_job codec \<Rightarrow> (v1_batch_job \<Rightarrow> v1_batch_job) \<Rightarrow> BatchJob \<Rightarrow> go_error + BatchJob" where
  "BatchJob_MutateMessage C mutateFn j = (case V1BatchJob C j of Inl e \<Rightarrow> Inl e
     | Inr jobProto \<Rightarrow> (case Marshal C (mutateFn jobProto) of Inl e \<Rightarrow> Inl e
     | Inr msg \<Rightarrow> Inr (j\<lparr>bMessage := msg\<rparr>)))"

section \<open>Operations\<close>

definition store_CreateBatchJob :: "BatchJob gorm \<Rightarrow> time \<Rightarrow> BatchJob \<Rightarrow> BatchJob list \<Rightarrow> (go_error + BatchJob) \<times> BatchJob list" where
  "store_CreateBatchJob G now job t = gCreate G now job t"

definition GetBatchJobByID :: "BatchJob gorm \<Rightarrow> time \<Rightarrow> string \<Rightarrow> BatchJob list \<Rightarrow> go_error + BatchJob" where
  "GetBatchJobByID G now i t = gTake G now (\<lambda>j. bJobID j = i) t"

definition GetActiveBatchJobByIDAndProjectID ::
  "BatchJob gorm \<Rightarrow> time \<Rightarrow> string \<Rightarrow> string \<Rightarrow> BatchJob list \<Rightarrow> go_error + BatchJob" where
  "GetActiveBatchJobByIDAndProjectID G now i projectID t =
     gTake G now (\<lambda>j. bJobID j = i \<and> bProjectID j = projectID \<and> bState j \<noteq> BatchJobStateDeleted) t"

definition ListActiveBatchJobsByProjectIDWithPagination ::
  "BatchJob gorm \<Rightarrow> time \<Rightarrow> string \<Rightarrow> nat \<Rightarrow> int \<Rightarrow> BatchJob list \<Rightarrow> go_error + (BatchJob list \<times> bool)" where
  "ListActiveBatchJobsByProjectIDWithPagination G now projectID afterID limit t =
     list_page G bID (\<lambda>j. bProjectID j = projectID \<and> bState j \<noteq> BatchJobStateDeleted) now afterID limit t"

definition ListQueuedBatchJobsByTenantIDAndClusterID ::
  "BatchJob gorm \<Rightarrow> time \<Rightarrow> string \<Rightarrow> string \<Rightarrow> BatchJob list \<Rightarrow> go_error + BatchJob list" where
  "ListQueuedBatchJobsByTenantIDAndClusterID G now tenantID clusterID t = gFind G now
     \<lparr>q_where = (\<lambda>j. bTenantID j = tenantID \<and> bClusterID j = clusterID \<and> bState j = BatchJobStateQueued),
      q_order = unordered, q_limit = None\<rparr> t"

definition SetBatchJobQueuedAction ::
  "BatchJob gorm \<Rightarrow> time \<Rightarrow> string \<Rightarrow> int \<Rightarrow> BatchJobQueuedAction \<Rightarrow> BatchJob list \<Rightarrow> (go_error + BatchJob) \<times> BatchJob list" where
  "SetBatchJobQueuedAction G now i currentVersion newAction t =
     updates_versioned G bJobID bVersion ''update batch job: '' now zero_batch_job i currentVersion
       (\<lambda>j. j\<lparr>bState := BatchJobStateQueued, bQueuedAction := newAction, bVersion := currentVersion + 1\<rparr>) t"

definition SetBatchJobState ::
  "BatchJob gorm \<Rightarrow> time \<Rightarrow> string \<Rightarrow> int \<Rightarrow> BatchJobState \<Rightarrow> BatchJob list \<Rightarrow> (go_error + BatchJob) \<times> BatchJob list" where
  "SetBatchJobState G now i currentVersion newState t =
     updates_versioned G bJobID bVersion ''update batch job: '' now zero_batch_job i currentVersion
       (\<lambda>j. j\<lparr>bState := newState, bQueuedAction := [], bVersion := currentVersion + 1\<rparr>) t"

definition SetNonQueuedBatchJobStateAndMessage ::
  "BatchJob gorm \<Rightarrow> time \<Rightarrow> string \<Rightarrow> int \<Rightarrow> BatchJobState \<Rightarrow> bytes \<Rightarrow> BatchJob list \<Rightarrow> (go_error + BatchJob) \<times> BatchJob list" where
  "SetNonQueuedBatchJobStateAndMessage G now i currentVersion newState message t =
     updates_versioned G bJobID bVersion ''update batch job: '' now zero_batch_job i currentVersion
       (\<lambda>j. j\<lparr>bState := newState, bQueuedAction := [], bMessage := message, bVersion := currentVersion + 1\<rparr>) t"

definition CountActiveBatchJobsByProjectID :: "BatchJob gorm \<Rightarrow> time \<Rightarrow> string \<Rightarrow> BatchJob list \<Rightarrow> go_error + int" where
  "CountActiveBatchJobsByProjectID G now projectID t =
     gCount G now (\<lambda>j. bProjectID j = projectID \<and> bState j \<noteq> BatchJobStateDeleted) t"

section \<open>Lemmas\<close>

lemma batch_touch_sel [simp]:
  "bID (batch_touch now j) = bID j" "bJobID (batch_touch now j) = bJobID j" "bState (batch_touch now j) = bState j"
  "bQueuedAction (batch_touch now j) = bQueuedAction j" "bVersion (batch_touch now j) = bVersion j"
  "bProjectID (batch_touch now j) = bProjectID j" "bTenantID (batch_touch now j) = bTenantID j"
  "bClusterID (batch_touch now j) = bClusterID j" "bMessage (batch_touch now j) = bMessage j"
  "bUpdatedAt (batch_touch now j) = now" "bCreated (batch_touch now j) = bCreated j"
  by (simp_all add: batch_touch_def)

lemma batch_stamp_sel [simp]:
  "bID (batch_stamp i now j) = i" "bJobID (batch_stamp i now j) = bJobID j" "bState (batch_stamp i now j) = bState j"
  "bQueuedAction (batch_stamp i now j) = bQueuedAction j" "bVersion (batch_stamp i now j) = bVersion j"
  "bProjectID (batch_stamp i now j) = bProjectID j" "bTenantID (batch_stamp i now j) = bTenantID j"
  "bClusterID (batch_stamp i now j) = bClusterID j" "bMessage (batch_stamp i now j) = bMessage j"
  by (simp_all add: batch_stamp_def)

lemma sql_batch_db: "reliable_batch_db sql_batch_jobs"
  by (rule sql_gorm_laws) simp_all

interpretation sql_batch: reliable_gorm sql_batch_jobs bID bJobID batch_touch batch_stamp
  by (rule sql_batch_db)

lemma batch_jobs_pager:
  assumes "reliable_batch_db G" and "0 < limit"
  shows "pager (\<lambda>t a. ListActiveBatchJobsByProjectIDWithPagination G now p a (int limit) t) bID
    (\<lambda>j. bProjectID j = p \<and> bState j \<noteq> BatchJobStateDeleted) limit"
  using reliable_gorm.list_page_pager [OF assms]
  by (simp add: ListActiveBatchJobsByProjectIDWithPagination_def)

interpretation sql_batch_pages: pager
  "\<lambda>t a. ListActiveBatchJobsByProjectIDWithPagination sql_batch_jobs now p a (int (Suc n)) t"
  bID "\<lambda>j. bProjectID j = p \<and> bState j \<noteq> BatchJobStateDeleted" "Suc n" for now p n
  by (rule batch_jobs_pager [OF sql_batch_db]) simp

lemma batch_enum_values [simp]:
  "convertToV1BatchJobState BatchJobStateQueued = Inr InternalBatchJob_QUEUED"
  "convertToV1BatchJobState BatchJobStateRunning = Inr InternalBatchJob_RUNNING"
  "convertToV1BatchJobState BatchJobStateSucceeded = Inr InternalBatchJob_SUCCEEDED"
  "convertToV1BatchJobState BatchJobStateFailed = Inr InternalBatchJob_FAILED"
  "convertToV1BatchJobState BatchJobStateCanceled = Inr InternalBatchJob_CANCELED"
  "convertToV1BatchJobState BatchJobStateDeleted = Inr InternalBatchJob_DELETED"
  "convertToBatchJobQueuedAction [] = Inr InternalBatchJob_ACTION_UNSPECIFIED"
  "convertToBatchJobQueuedAction BatchJobQueuedActionCreate = Inr InternalBatchJob_CREATING"
  "convertToBatchJobQueuedAction BatchJobQueuedActionCancel = Inr InternalBatchJob_CANCELING"
  "convertToBatchJobQueuedAction BatchJobQueuedActionDelete = Inr InternalBatchJob_DELETING"
  by code_simp+

lemma BatchJob_MutateMessage_frame:
  "BatchJob_MutateMessage C f j = Inr j' \<Longrightarrow> j' = j\<lparr>bMessage := bMessage j'\<rparr>"
  by (auto simp: BatchJob_MutateMessage_def split: sum.splits)

end
