(* ===== verification/StoreCluster.thy ===== *)
theory StoreCluster
  imports Api Gorm
begin

text \<open>
  \<^verbatim>\<open>server/internal/store/cluster.go\<close> and \<^verbatim>\<open>data_key.go\<close>: the clusters table, which keeps the last status a
  cluster reported, and the data keys. \<^verbatim>\<open>DataKeyManagementClient\<close> (AWS KMS) is an interface and a record of
  functions here.
\<close>

section \<open>Clusters\<close>

record store_Cluster =
  cID :: nat
  cCreatedAt :: time
  cUpdatedAt :: time
  cClusterID :: string
  cName :: string
  cTenantID :: string
  cStatus :: bytes

definition cluster_touch :: "time \<Rightarrow> store_Cluster \<Rightarrow> store_Cluster" where
  "cluster_touch now c = c\<lparr>cUpdatedAt := now\<rparr>"

definition cluster_stamp :: "nat \<Rightarrow> time \<Rightarrow> store_Cluster \<Rightarrow> store_Cluster" where
  "cluster_stamp i now c = c\<lparr>cID := i, cCreatedAt := now, cUpdatedAt := now\<rparr>"

abbreviation cluster_db :: "store_Cluster gorm \<Rightarrow> bool" where
  "cluster_db G \<equiv> gorm G cID cClusterID cluster_touch cluster_stamp"

abbreviation reliable_cluster_db :: "store_Cluster gorm \<Rightarrow> bool" where
  "reliable_cluster_db G \<equiv> reliable_gorm G cID cClusterID cluster_touch cluster_stamp"

abbreviation sql_clusters :: "store_Cluster gorm" where
  "sql_clusters \<equiv> sql_gorm cID cClusterID cluster_touch cluster_stamp"

definition CreateOrUpdateCluster ::
  "store_Cluster gorm \<Rightarrow> time \<Rightarrow> store_Cluster \<Rightarrow> store_Cluster list \<Rightarrow> (go_error + store_Cluster) \<times> store_Cluster list" where
  "CreateOrUpdateCluster G now c t =
     (case gTake G now (\<lambda>x. cClusterID x = cClusterID c) t of
        Inl e \<Rightarrow> if \<not> errors_Is e ErrRecordNotFound then (Inl e, t) else gCreate G now c t
      | Inr existing \<Rightarrow> gSave G now (existing\<lparr>cStatus := cStatus c\<rparr>) t)"

definition GetClusterByID :: "store_Cluster gorm \<Rightarrow> time \<Rightarrow> string \<Rightarrow> store_Cluster list \<Rightarrow> go_error + store_Cluster" where
  "GetClusterByID G now clusterID t = gTake G now (\<lambda>c. cClusterID c = clusterID) t"

definition store_ListClustersByTenantID ::
  "store_Cluster gorm \<Rightarrow> time \<Rightarrow> string \<Rightarrow> store_Cluster list \<Rightarrow> go_error + store_Cluster list" where
  "store_ListClustersByTenantID G now tenantID t = gFind G now
     \<lparr>q_where = (\<lambda>c. cTenantID c = tenantID), q_order = unordered, q_limit = None\<rparr> t"

section \<open>Data keys\<close>

record DataKey =
  dkID :: nat
  dkCreatedAt :: time
  dkEncryptedDataKey :: bytes

record DataKeyManagementClient =
  kms_CreateDataKey :: "go_error + (bytes \<times> bytes)"
  kms_DecryptDataKey :: "bytes \<Rightarrow> go_error + bytes"

definition CreateDataKey :: "DataKey gorm \<Rightarrow> time \<Rightarrow> DataKeyManagementClient \<Rightarrow> DataKey list \<Rightarrow> (go_error + bytes) \<times> DataKey list" where
  "CreateDataKey G now kmsClient t = (case kms_CreateDataKey kmsClient of Inl e \<Rightarrow> (Inl e, t)
     | Inr (dataKey, encryptedDataKey) \<Rightarrow>
         (case gCreate G now \<lparr>dkID = 0, dkCreatedAt = 0, dkEncryptedDataKey = encryptedDataKey\<rparr> t of
            (Inl e, t') \<Rightarrow> (Inl e, t') | (Inr k, t') \<Rightarrow> (Inr dataKey, t')))"

definition GetDataKey :: "DataKey gorm \<Rightarrow> time \<Rightarrow> DataKeyManagementClient \<Rightarrow> DataKey list \<Rightarrow> go_error + bytes" where
  "GetDataKey G now kmsClient t =
     (case gFirst G now \<lparr>q_where = (\<lambda>_. True), q_order = (\<lambda>x y. dkCreatedAt x \<ge> dkCreatedAt y), q_limit = None\<rparr> t of
        Inl e \<Rightarrow> Inl e | Inr k \<Rightarrow> kms_DecryptDataKey kmsClient (dkEncryptedDataKey k))"

section \<open>Lemmas\<close>

lemma cluster_touch_sel [simp]:
  "cID (cluster_touch now c) = cID c" "cClusterID (cluster_touch now c) = cClusterID c"
  "cName (cluster_touch now c) = cName c" "cTenantID (cluster_touch now c) = cTenantID c"
  "cStatus (cluster_touch now c) = cStatus c" "cUpdatedAt (cluster_touch now c) = now"
  by (simp_all add: cluster_touch_def)

lemma cluster_stamp_sel [simp]:
  "cID (cluster_stamp i now c) = i" "cClusterID (cluster_stamp i now c) = cClusterID c"
  "cName (cluster_stamp i now c) = cName c" "cTenantID (cluster_stamp i now c) = cTenantID c"
  "cStatus (cluster_stamp i now c) = cStatus c" "cUpdatedAt (cluster_stamp i now c) = now"
  by (simp_all add: cluster_stamp_def)

lemma sql_cluster_db: "reliable_cluster_db sql_clusters"
  by (rule sql_gorm_laws) simp_all

interpretation sql_cluster: reliable_gorm sql_clusters cID cClusterID cluster_touch cluster_stamp
  by (rule sql_cluster_db)

text \<open>A report of a cluster is stored under its identifier: the row keeps its name and tenant when it
  existed, and only its status changes; the other rows are as they were.\<close>

lemma create_or_update_cluster:
  assumes db: "cluster_db G" and ids: "distinct (map cClusterID t)" "distinct (map cID t)"
    and run: "CreateOrUpdateCluster G now c t = (Inr r, t')"
  shows "row_of cClusterID t' = (row_of cClusterID t)(cClusterID c \<mapsto> r) \<and> cStatus r = cStatus c \<and> cUpdatedAt r = now \<and>
    (case row_of cClusterID t (cClusterID c) of
       None \<Rightarrow> cName r = cName c \<and> cTenantID r = cTenantID c
     | Some old \<Rightarrow> cName r = cName old \<and> cTenantID r = cTenantID old) \<and>
    distinct (map cClusterID t') \<and> distinct (map cID t')"
proof (cases "gTake G now (\<lambda>x. cClusterID x = cClusterID c) t")
  case (Inl e)
  then have nf: "errors_Is e ErrRecordNotFound" and cr: "gCreate G now c t = (Inr r, t')"
    using run by (auto simp: CreateOrUpdateCluster_def split: if_splits)
  from gorm.create_ok [OF db cr] obtain i where i: "t' = t @ [r]" "r = cluster_stamp i now c" "cClusterID c \<notin> cClusterID ` set t"
    by blast
  have none: "row_of cClusterID t (cClusterID c) = None" using i(3) by (simp add: row_of_None)
  have "row_of cClusterID t' = (row_of cClusterID t)(cClusterID c \<mapsto> r)"
    unfolding i(1) using i(2,3) by (intro row_of_append) simp_all
  then show ?thesis using none i gorm.create_distinct [OF db cr ids] by simp
next
  case (Inr old)
  then have sv: "gSave G now (old\<lparr>cStatus := cStatus c\<rparr>) t = (Inr r, t')"
    using run by (simp add: CreateOrUpdateCluster_def)
  have old: "old \<in> set t" "cClusterID old = cClusterID c"
    using gorm.take_found [OF db Inr] by auto
  have row: "row_of cClusterID t (cClusterID c) = Some old"
    using row_of_distinct [OF ids(1) old(1)] old(2) by simp
  from gorm.save_ok [OF db sv] old(1)
  have r: "r = cluster_touch now (old\<lparr>cStatus := cStatus c\<rparr>)"
    and t': "t' = set_rows (\<lambda>x. cID x = cID old) (\<lambda>_. r) t" by auto
  have same: "(cID x = cID old) = (cClusterID x = cClusterID c)" if "x \<in> set t" for x
    using that old ids by (metis distinct_key_inj)
  let ?f = "\<lambda>x. r\<lparr>cClusterID := cClusterID x, cID := cID x\<rparr>"
  have fo: "?f old = r" by (simp add: r cluster_touch_def flip: old(2))
  have t'': "t' = set_rows (\<lambda>x. cClusterID x = cClusterID c) ?f t"
    unfolding t' set_rows_def
  proof (rule map_cong [OF refl])
    fix x assume x: "x \<in> set t"
    show "(if cID x = cID old then r else x) = (if cClusterID x = cClusterID c then ?f x else x)"
    proof (cases "cClusterID x = cClusterID c")
      case True
      then have "x = old" using x old distinct_key_inj [OF ids(1)] by metis
      then show ?thesis using fo old(2) by simp
    qed (use same [OF x] in simp)
  qed
  have "row_of cClusterID t' = (row_of cClusterID t)(cClusterID c \<mapsto> r)"
    unfolding t'' using fo by (subst row_of_set_rows) (simp_all add: row)
  then show ?thesis
    using row r ids unfolding t'' by (simp add: map_set_rows)
qed

end
