(* ===== verification/Cache.thy ===== *)
theory Cache
  imports StoreCluster
begin

text \<open>
  \<^verbatim>\<open>server/internal/cache/cluster.go\<close>: the in-memory view of the clusters of each tenant, with the GPU pods
  the scheduler has placed but no cluster has reported yet. The cache is a map from tenants to maps from
  cluster identifiers; the clusters of a tenant are an association list since the scheduler ranges over
  them. The store behind it is the parameter \<open>G\<close> with the committed rows \<open>db\<close>.

  Every operation is split where the source releases its lock: \<open>getCluster\<close> is the read section and
  \<open>put_cluster\<close> the write section of \<^verbatim>\<open>AddAssumedPod\<close> and \<^verbatim>\<open>AddOrUpdateCluster\<close>. In Go the cache hands out clones
  (or, right after a miss, the stored objects themselves, which only the same call then changes): records of
  HOL are values, so a clone is the record itself.
\<close>

section \<open>State\<close>

record AssumedGPUPod =
  ap_AllocatedCount :: int
  ap_AddedAt :: time

record cache_Cluster =
  cc_ClusterID :: string
  cc_ClusterName :: string
  cc_UpdatedAt :: time
  cc_GPUNodes :: "GpuNode list"
  cc_ProvisionableResources :: "ProvisionableResource list"
  cc_GPUPods :: "GpuPod list"
  cc_AssumedGPUPodsByKey :: "(string \<times> AssumedGPUPod) list"

type_synonym Clusters = "(string \<times> cache_Cluster) list"
type_synonym cache = "string \<Rightarrow> Clusters option"

definition Cluster_Clone :: "cache_Cluster \<Rightarrow> cache_Cluster" where
  "Cluster_Clone c = \<lparr>cc_ClusterID = cc_ClusterID c, cc_ClusterName = cc_ClusterName c,
     cc_UpdatedAt = cc_UpdatedAt c, cc_GPUNodes = cc_GPUNodes c,
     cc_ProvisionableResources = cc_ProvisionableResources c, cc_GPUPods = cc_GPUPods c,
     cc_AssumedGPUPodsByKey = foldl (\<lambda>m (k, v). map_put k v m) [] (cc_AssumedGPUPodsByKey c)\<rparr>"

definition Clusters_Clone :: "Clusters \<Rightarrow> Clusters" where
  "Clusters_Clone cls = foldl (\<lambda>m (k, v). map_put k (Cluster_Clone v) m) [] cls"

definition NewStore :: cache where
  "NewStore = (\<lambda>_. None)"

section \<open>Operations\<close>

definition convertToCacheCluster :: "ClusterStatus codec \<Rightarrow> store_Cluster \<Rightarrow> go_error + cache_Cluster" where
  "convertToCacheCluster C c = (case Unmarshal C (cStatus c) of
       Inl e \<Rightarrow> Inl (Errorf (''failed to unmarshal cluster status: '' @ Error e))
     | Inr status \<Rightarrow> Inr \<lparr>cc_ClusterID = cClusterID c, cc_ClusterName = cName c, cc_UpdatedAt = cUpdatedAt c,
         cc_GPUNodes = CS_GpuNodes status, cc_ProvisionableResources = CS_ProvisionableResources status,
         cc_GPUPods = CS_GpuPods status, cc_AssumedGPUPodsByKey = []\<rparr>)"

fun convert_rows :: "ClusterStatus codec \<Rightarrow> store_Cluster list \<Rightarrow> Clusters \<Rightarrow> go_error + Clusters" where
  "convert_rows C [] cls = Inr cls"
| "convert_rows C (scl # scls) cls = (case convertToCacheCluster C scl of
       Inl e \<Rightarrow> Inl (Errorf (''failed to convert to cache cluster: '' @ Error e))
     | Inr cl \<Rightarrow> convert_rows C scls (map_put (cClusterID scl) cl cls))"

definition ListClustersByTenantID ::
  "store_Cluster gorm \<Rightarrow> ClusterStatus codec \<Rightarrow> time \<Rightarrow> string \<Rightarrow> store_Cluster list \<Rightarrow> cache \<Rightarrow> (go_error + Clusters) \<times> cache" where
  "ListClustersByTenantID G C now tenantID db cs = (case cs tenantID of
       Some cls \<Rightarrow> (Inr (Clusters_Clone cls), cs)
     | None \<Rightarrow> (case store_ListClustersByTenantID G now tenantID db of
           Inl e \<Rightarrow> (Inl (Errorf (''failed to list clusters by tenant ID: '' @ Error e)), cs)
         | Inr scls \<Rightarrow> (case convert_rows C scls [] of
               Inl e \<Rightarrow> (Inl e, cs)
             | Inr cls \<Rightarrow> (Inr cls, cs(tenantID \<mapsto> cls)))))"

definition getCluster ::
  "store_Cluster gorm \<Rightarrow> ClusterStatus codec \<Rightarrow> time \<Rightarrow> string \<Rightarrow> string \<Rightarrow> store_Cluster list \<Rightarrow> cache \<Rightarrow>
   (go_error + cache_Cluster option) \<times> cache" where
  "getCluster G C now tenantID clusterID db cs = (case cs tenantID of
       Some cls \<Rightarrow> (Inr (map_option Cluster_Clone (map_of cls clusterID)), cs)
     | None \<Rightarrow> (case ListClustersByTenantID G C now tenantID db cs of
           (Inl e, cs') \<Rightarrow> (Inl (Errorf (''failed to list clusters by tenant ID: '' @ Error e)), cs')
         | (Inr cls, cs') \<Rightarrow> (Inr (map_of cls clusterID), cs')))"

text \<open>\<^verbatim>\<open>c.clusters[tenantID][clusterID] = cl\<close> under the write lock; \<open>getCluster_cached\<close> below shows that the tenant
  is in the cache whenever the source gets there.\<close>

definition put_cluster :: "string \<Rightarrow> string \<Rightarrow> cache_Cluster \<Rightarrow> cache \<Rightarrow> cache" where
  "put_cluster tenantID clusterID cl cs = (case cs tenantID of None \<Rightarrow> cs
     | Some cls \<Rightarrow> cs(tenantID \<mapsto> map_put clusterID cl cls))"

definition assumedPodExpiration :: duration where
  "assumedPodExpiration = 60 * 1000000000"

fun nnHasPrefix :: "GpuPod list \<Rightarrow> string \<Rightarrow> bool" where
  "nnHasPrefix [] key = False"
| "nnHasPrefix (p # pods) key = (if HasPrefix (GpuPod_NamespacedName p) key then True else nnHasPrefix pods key)"

fun keep_assumed :: "time \<Rightarrow> (string \<times> AssumedGPUPod) list \<Rightarrow> cache_Cluster \<Rightarrow> cache_Cluster" where
  "keep_assumed now [] cl = cl"
| "keep_assumed now ((key, pod) # ps) cl = keep_assumed now ps
     (if now - ap_AddedAt pod < assumedPodExpiration \<and> \<not> nnHasPrefix (cc_GPUPods cl) key
      then cl\<lparr>cc_AssumedGPUPodsByKey := map_put key pod (cc_AssumedGPUPodsByKey cl)\<rparr> else cl)"

definition AddOrUpdateCluster ::
  "store_Cluster gorm \<Rightarrow> ClusterStatus codec \<Rightarrow> time \<Rightarrow> store_Cluster \<Rightarrow> store_Cluster list \<Rightarrow> cache \<Rightarrow> (go_error + unit) \<times> cache" where
  "AddOrUpdateCluster G C now cluster db cs = (case convertToCacheCluster C cluster of
       Inl e \<Rightarrow> (Inl (Errorf (''failed to convert to cache cluster: '' @ Error e)), cs)
     | Inr cl \<Rightarrow> (case getCluster G C now (cTenantID cluster) (cClusterID cluster) db cs of
           (Inl e, cs') \<Rightarrow> (Inl (Errorf (''failed to get cluster: '' @ Error e)), cs')
         | (Inr old, cs') \<Rightarrow>
             let cl' = (case old of None \<Rightarrow> cl | Some oldCl \<Rightarrow> keep_assumed now (cc_AssumedGPUPodsByKey oldCl) cl)
             in (Inr (), put_cluster (cTenantID cluster) (cc_ClusterID cl') cl' cs')))"

definition assume_pod :: "time \<Rightarrow> string \<Rightarrow> int \<Rightarrow> cache_Cluster \<Rightarrow> cache_Cluster" where
  "assume_pod now key gpuCount cl = cl\<lparr>cc_AssumedGPUPodsByKey := map_put key
     \<lparr>ap_AllocatedCount = int32 gpuCount, ap_AddedAt = now\<rparr> (cc_AssumedGPUPodsByKey cl)\<rparr>"

definition AddAssumedPod ::
  "store_Cluster gorm \<Rightarrow> ClusterStatus codec \<Rightarrow> time \<Rightarrow> string \<Rightarrow> string \<Rightarrow> string \<Rightarrow> int \<Rightarrow> store_Cluster list \<Rightarrow> cache \<Rightarrow>
   (go_error + unit) \<times> cache" where
  "AddAssumedPod G C now tenantID clusterID key gpuCount db cs =
     (if gpuCount = 0 then (Inr (), cs)
      else case getCluster G C now tenantID clusterID db cs of
        (Inl e, cs') \<Rightarrow> (Inl (Errorf (''failed to get cluster: '' @ Error e)), cs')
      | (Inr None, cs') \<Rightarrow> (Inl (Errorf (''cluster not found: '' @ clusterID)), cs')
      | (Inr (Some cls), cs') \<Rightarrow> (Inr (), put_cluster tenantID clusterID (assume_pod now key gpuCount cls) cs'))"

section \<open>Invariant\<close>

text \<open>
  Coherence with the store: for every tenant in the cache, the cached clusters are the stored rows of the
  tenant as \<^verbatim>\<open>convertToCacheCluster\<close> reads them, apart from the assumed pods; and the keys of the Go maps are
  distinct.
\<close>

definition unassumed :: "cache_Cluster \<Rightarrow> cache_Cluster" where
  "unassumed c = c\<lparr>cc_AssumedGPUPodsByKey := []\<rparr>"

definition stored_cluster :: "ClusterStatus codec \<Rightarrow> store_Cluster list \<Rightarrow> string \<Rightarrow> string \<Rightarrow> cache_Cluster option" where
  "stored_cluster C db tenantID k = (case row_of cClusterID db k of
       Some r \<Rightarrow> if cTenantID r = tenantID then (case convertToCacheCluster C r of Inl _ \<Rightarrow> None | Inr c \<Rightarrow> Some c) else None
     | None \<Rightarrow> None)"

definition clusters_ok :: "Clusters \<Rightarrow> bool" where
  "clusters_ok cls \<longleftrightarrow> distinct (keys cls) \<and>
     (\<forall>(k, c) \<in> set cls. cc_ClusterID c = k \<and> distinct (keys (cc_AssumedGPUPodsByKey c)))"

definition coherent_at :: "ClusterStatus codec \<Rightarrow> store_Cluster list \<Rightarrow> string \<Rightarrow> Clusters \<Rightarrow> bool" where
  "coherent_at C db tenantID cls \<longleftrightarrow> clusters_ok cls \<and>
     (\<forall>k. map_option unassumed (map_of cls k) = stored_cluster C db tenantID k)"

definition coherent :: "ClusterStatus codec \<Rightarrow> store_Cluster list \<Rightarrow> cache \<Rightarrow> bool" where
  "coherent C db cs \<longleftrightarrow> (\<forall>tenantID cls. cs tenantID = Some cls \<longrightarrow> coherent_at C db tenantID cls)"

definition clusters_table_ok :: "store_Cluster list \<Rightarrow> bool" where
  "clusters_table_ok db \<longleftrightarrow> distinct (map cClusterID db) \<and> distinct (map cID db)"

section \<open>Lemmas\<close>

lemma foldl_map_put:
  "distinct (keys acc @ keys m) \<Longrightarrow> foldl (\<lambda>m (k, v). map_put k (f v) m) acc m = acc @ map (\<lambda>(k, v). (k, f v)) m"
  by (induction m arbitrary: acc) (auto simp: map_put_fresh)

lemma Cluster_Clone_id: "distinct (keys (cc_AssumedGPUPodsByKey c)) \<Longrightarrow> Cluster_Clone c = c"
  using foldl_map_put [of "[]" "cc_AssumedGPUPodsByKey c" id] by (simp add: Cluster_Clone_def)

lemma clusters_okD:
  assumes "clusters_ok cls" and "map_of cls k = Some c"
  shows "cc_ClusterID c = k" and "distinct (keys (cc_AssumedGPUPodsByKey c))"
  using assms by (auto simp: clusters_ok_def dest!: map_of_SomeD)

lemma Clusters_Clone_id:
  assumes "clusters_ok cls"
  shows "Clusters_Clone cls = cls"
proof -
  have "Clusters_Clone cls = map (\<lambda>(k, v). (k, Cluster_Clone v)) cls"
    using foldl_map_put [of "[]" cls Cluster_Clone] assms by (simp add: Clusters_Clone_def clusters_ok_def)
  also have "\<dots> = cls"
    using assms by (intro map_idI) (auto simp: clusters_ok_def Cluster_Clone_id)
  finally show ?thesis .
qed

lemma clusters_ok_put:
  "clusters_ok cls \<Longrightarrow> cc_ClusterID c = k \<Longrightarrow> distinct (keys (cc_AssumedGPUPodsByKey c)) \<Longrightarrow> clusters_ok (map_put k c cls)"
  using set_map_put [of k c cls] by (auto simp: clusters_ok_def)

lemma convertToCacheCluster_sel:
  "convertToCacheCluster C r = Inr c \<Longrightarrow> cc_ClusterID c = cClusterID r \<and> cc_ClusterName c = cName r \<and>
     cc_UpdatedAt c = cUpdatedAt r \<and> cc_AssumedGPUPodsByKey c = [] \<and> unassumed c = c"
  by (auto simp: convertToCacheCluster_def unassumed_def split: sum.splits)

lemma convert_rows_result:
  assumes "convert_rows C rows acc = Inr cls" and "distinct (map cClusterID rows)" and "clusters_ok acc"
  shows "clusters_ok cls \<and> (\<forall>k. case row_of cClusterID rows k of
      None \<Rightarrow> map_of cls k = map_of acc k | Some r \<Rightarrow> \<exists>c. convertToCacheCluster C r = Inr c \<and> map_of cls k = Some c)"
  using assms
proof (induction rows arbitrary: acc)
  case Nil
  then show ?case by (simp add: row_of_def)
next
  case (Cons r rows)
  from Cons.prems(1) obtain c where c: "convertToCacheCluster C r = Inr c"
    and run: "convert_rows C rows (map_put (cClusterID r) c acc) = Inr cls"
    by (auto split: sum.splits)
  note sel = convertToCacheCluster_sel [OF c]
  have ok: "clusters_ok (map_put (cClusterID r) c acc)"
    using Cons.prems(3) sel by (intro clusters_ok_put) simp_all
  have fresh: "row_of cClusterID rows (cClusterID r) = None"
    using Cons.prems(2) by (simp add: row_of_None image_iff)
  have IH: "clusters_ok cls" "\<And>k. case row_of cClusterID rows k of
      None \<Rightarrow> map_of cls k = map_of (map_put (cClusterID r) c acc) k
    | Some r \<Rightarrow> \<exists>c. convertToCacheCluster C r = Inr c \<and> map_of cls k = Some c"
    using Cons.IH [OF run _ ok] Cons.prems(2) by auto
  have row: "row_of cClusterID (r # rows) k = (if cClusterID r = k then Some r else row_of cClusterID rows k)" for k
    by (simp add: row_of_def)
  have "case row_of cClusterID (r # rows) k of None \<Rightarrow> map_of cls k = map_of acc k
    | Some r \<Rightarrow> \<exists>c. convertToCacheCluster C r = Inr c \<and> map_of cls k = Some c" for k
    using IH(2) [of k] c fresh unfolding row by (auto split: option.splits if_splits)
  with IH(1) show ?case by blast
qed

lemma list_clusters_load:
  assumes "cluster_db G" and "clusters_table_ok db"
    and "store_ListClustersByTenantID G now t db = Inr rows" and "convert_rows C rows [] = Inr cls"
  shows "coherent_at C db t cls"
proof -
  have "find_result \<lparr>q_where = (\<lambda>c. cTenantID c = t), q_order = unordered, q_limit = None\<rparr> db rows"
    using gorm.find_found [OF assms(1)] assms(3) unfolding store_ListClustersByTenantID_def by fastforce
  then have rows: "mset rows = mset (filter (\<lambda>c. cTenantID c = t) db)" by (auto dest: find_result_mset)
  have dist: "distinct (map cClusterID db)" using assms(2) by (simp add: clusters_table_ok_def)
  then have "distinct (map cClusterID (filter (\<lambda>c. cTenantID c = t) db))" by (rule distinct_map_filter)
  then have "distinct (map cClusterID rows)" by (rule distinct_map_mset [OF rows])
  then have res: "clusters_ok cls" "\<And>k. case row_of cClusterID rows k of None \<Rightarrow> map_of cls k = map_of [] k
      | Some r \<Rightarrow> \<exists>c. convertToCacheCluster C r = Inr c \<and> map_of cls k = Some c"
    using convert_rows_result [OF assms(4)] by (simp_all add: clusters_ok_def)
  have "map_option unassumed (map_of cls k) = stored_cluster C db t k" for k
    using res(2) [of k] convertToCacheCluster_sel
    by (auto simp: row_of_filter [OF dist rows] stored_cluster_def split: option.splits if_splits)
  with res(1) show ?thesis by (simp add: coherent_at_def)
qed

lemma list_clusters:
  assumes "cluster_db G" and "clusters_table_ok db" and "coherent C db cs"
    and "ListClustersByTenantID G C now t db cs = (res, cs')"
  shows "coherent C db cs'" and "res = Inr cls \<Longrightarrow> cs' t = Some cls" and "res = Inl e \<Longrightarrow> cs' = cs"
    and "t' \<noteq> t \<Longrightarrow> cs' t' = cs t'" and "cs t = Some m \<Longrightarrow> cs' = cs \<and> res = Inr m"
proof -
  note run = assms(4) [unfolded ListClustersByTenantID_def]
  show "coherent C db cs'"
  proof (cases "cs' = cs")
    case False
    then obtain rows cls where "store_ListClustersByTenantID G now t db = Inr rows"
      "convert_rows C rows [] = Inr cls" "cs' = cs(t \<mapsto> cls)"
      using run by (auto split: option.splits sum.splits) metis
    then show ?thesis using assms(3) list_clusters_load [OF assms(1,2)] by (simp add: coherent_def)
  qed (use assms(3) in simp)
  show "res = Inr cls \<Longrightarrow> cs' t = Some cls" "cs t = Some m \<Longrightarrow> cs' = cs \<and> res = Inr m"
    using run assms(3) by (auto simp: coherent_def coherent_at_def Clusters_Clone_id split: option.splits sum.splits)
  show "res = Inl e \<Longrightarrow> cs' = cs" "t' \<noteq> t \<Longrightarrow> cs' t' = cs t'"
    using run by (auto split: option.splits sum.splits)
qed

lemma getCluster_cached:
  assumes "cluster_db G" and "clusters_table_ok db" and "coherent C db cs"
    and "getCluster G C now t k db cs = (Inr c, cs')"
  shows "\<exists>cls. cs' t = Some cls \<and> map_of cls k = c"
proof (cases "cs t")
  case (Some cls)
  then have "coherent_at C db t cls" using assms(3) by (simp add: coherent_def)
  then show ?thesis
    using Some assms(4) clusters_okD [of cls k]
    by (cases "map_of cls k") (auto simp: getCluster_def coherent_at_def Cluster_Clone_id)
next
  case None
  then show ?thesis
    using assms(4) list_clusters(2) [OF assms(1-3) _ refl] by (fastforce simp: getCluster_def split: prod.splits sum.splits)
qed

lemma getCluster_frame:
  assumes "cluster_db G" and "clusters_table_ok db" and "coherent C db cs"
    and "getCluster G C now t k db cs = (res, cs')"
  shows "coherent C db cs'" and "t' \<noteq> t \<Longrightarrow> cs' t' = cs t'" and "cs t = Some m \<Longrightarrow> cs' = cs"
  using assms(3,4) list_clusters(1,4) [OF assms(1-3)]
  by (auto simp: getCluster_def split: prod.splits sum.splits option.splits)

lemma unassumed_sel [simp]:
  "cc_ClusterID (unassumed c) = cc_ClusterID c" "cc_UpdatedAt (unassumed c) = cc_UpdatedAt c"
  "cc_ClusterName (unassumed c) = cc_ClusterName c"
  "cc_GPUNodes (unassumed c) = cc_GPUNodes c" "cc_GPUPods (unassumed c) = cc_GPUPods c"
  "cc_ProvisionableResources (unassumed c) = cc_ProvisionableResources c"
  by (simp_all add: unassumed_def)

lemma assume_pod_sel [simp]:
  "unassumed (assume_pod now key n c) = unassumed c" "cc_ClusterID (assume_pod now key n c) = cc_ClusterID c"
  "cc_GPUNodes (assume_pod now key n c) = cc_GPUNodes c" "cc_GPUPods (assume_pod now key n c) = cc_GPUPods c"
  "cc_UpdatedAt (assume_pod now key n c) = cc_UpdatedAt c"
  "cc_ProvisionableResources (assume_pod now key n c) = cc_ProvisionableResources c"
  by (simp_all add: assume_pod_def unassumed_def)

lemma assume_pod_distinct [simp]:
  "distinct (keys (cc_AssumedGPUPodsByKey c)) \<Longrightarrow> distinct (keys (cc_AssumedGPUPodsByKey (assume_pod now key n c)))"
  by (simp add: assume_pod_def)

lemma coherent_write:
  assumes "\<And>t' m. t' \<noteq> t \<Longrightarrow> cs t' = Some m \<Longrightarrow> coherent_at C db t' m" and "cs t = Some cls" and "clusters_ok cls"
    and "\<And>j. j \<noteq> k \<Longrightarrow> map_option unassumed (map_of cls j) = stored_cluster C db t j"
    and "cc_ClusterID c = k" and "distinct (keys (cc_AssumedGPUPodsByKey c))"
    and "stored_cluster C db t k = Some (unassumed c)"
  shows "coherent C db (put_cluster t k c cs)"
  using assms by (auto simp: coherent_def coherent_at_def put_cluster_def clusters_ok_put)

lemma coherent_put:
  assumes "coherent C db cs" and "cs t = Some cls" and "cc_ClusterID c = k"
    and "distinct (keys (cc_AssumedGPUPodsByKey c))" and "stored_cluster C db t k = Some (unassumed c)"
  shows "coherent C db (put_cluster t k c cs)"
  using assms by (intro coherent_write [of t cs C db cls]) (auto simp: coherent_def coherent_at_def)

lemma AddAssumedPod_cases:
  assumes "cluster_db G" and "clusters_table_ok db" and "coherent C db cs" and "n \<noteq> 0"
    and "AddAssumedPod G C now t k key n db cs = (Inr (), cs')"
  obtains cs1 cls c where "getCluster G C now t k db cs = (Inr (Some c), cs1)" "coherent C db cs1"
    "cs1 t = Some cls" "map_of cls k = Some c" "cs' = put_cluster t k (assume_pod now key n c) cs1"
proof -
  from assms(4,5) obtain c cs1 where get: "getCluster G C now t k db cs = (Inr (Some c), cs1)"
    and cs': "cs' = put_cluster t k (assume_pod now key n c) cs1"
    by (auto simp: AddAssumedPod_def split: prod.splits sum.splits option.splits)
  from getCluster_cached [OF assms(1-3) get] obtain cls where "cs1 t = Some cls" "map_of cls k = Some c" by blast
  then show thesis using that get cs' getCluster_frame(1) [OF assms(1-3) get] by blast
qed

lemma AddAssumedPod_coherent:
  assumes "cluster_db G" and "clusters_table_ok db" and "coherent C db cs"
    and "AddAssumedPod G C now t k key n db cs = (res, cs')"
  shows "coherent C db cs'"
proof (cases "n \<noteq> 0 \<and> res = Inr ()")
  case False
  then show ?thesis
    using assms(3,4) getCluster_frame(1) [OF assms(1-3)]
    by (auto simp: AddAssumedPod_def split: prod.splits sum.splits option.splits if_splits)
next
  case True
  with assms(4) obtain cs1 cls c where c: "coherent C db cs1" "cs1 t = Some cls" "map_of cls k = Some c"
    "cs' = put_cluster t k (assume_pod now key n c) cs1"
    by (metis AddAssumedPod_cases [OF assms(1-3)])
  then have at: "coherent_at C db t cls" by (simp add: coherent_def)
  then have "stored_cluster C db t k = Some (unassumed c)"
    using c(3) by (metis coherent_at_def option.simps(9))
  then show ?thesis
    using c at clusters_okD [of cls k c]
    by (auto simp: coherent_at_def intro!: coherent_put)
qed

lemma nnHasPrefix_iff: "nnHasPrefix pods key \<longleftrightarrow> (\<exists>p \<in> set pods. HasPrefix (GpuPod_NamespacedName p) key)"
  by (induction pods) auto

lemma keep_assumed_result:
  assumes "distinct (keys (cc_AssumedGPUPodsByKey cl) @ keys ps)"
  shows "keep_assumed now ps cl = cl\<lparr>cc_AssumedGPUPodsByKey := cc_AssumedGPUPodsByKey cl @
    filter (\<lambda>(key, pod). now - ap_AddedAt pod < assumedPodExpiration \<and> \<not> nnHasPrefix (cc_GPUPods cl) key) ps\<rparr>"
  using assms
proof (induction ps arbitrary: cl)
  case (Cons p ps)
  then show ?case by (cases p) (auto simp: map_put_fresh)
qed simp

lemma keep_assumed_sel [simp]:
  "unassumed (keep_assumed now ps cl) = unassumed cl" "cc_ClusterID (keep_assumed now ps cl) = cc_ClusterID cl"
  by (induction now ps cl rule: keep_assumed.induct) (auto simp: unassumed_def)

lemma keep_assumed_distinct [simp]:
  "distinct (keys (cc_AssumedGPUPodsByKey cl)) \<Longrightarrow> distinct (keys (cc_AssumedGPUPodsByKey (keep_assumed now ps cl)))"
  by (induction now ps cl rule: keep_assumed.induct) auto

lemma stored_cluster_upd:
  assumes "row_of cClusterID db' = (row_of cClusterID db)(k \<mapsto> r)"
    and "\<And>old. row_of cClusterID db k = Some old \<Longrightarrow> cTenantID old = cTenantID r"
  shows "stored_cluster C db' t j = (if j = k \<and> t = cTenantID r
      then (case convertToCacheCluster C r of Inl _ \<Rightarrow> None | Inr c \<Rightarrow> Some c) else stored_cluster C db t j)"
  using assms by (auto simp: stored_cluster_def split: option.splits)

lemma coherent_at_others:
  assumes "coherent_at C db t cls" and "t \<noteq> cTenantID r"
    and "row_of cClusterID db' = (row_of cClusterID db)(k \<mapsto> r)"
    and "\<And>old. row_of cClusterID db k = Some old \<Longrightarrow> cTenantID old = cTenantID r"
  shows "coherent_at C db' t cls"
  using assms(1,2) by (simp add: coherent_at_def stored_cluster_upd [OF assms(3,4)])

text \<open>The write section of \<^verbatim>\<open>AddOrUpdateCluster\<close>: what it puts into the cache, and where.\<close>

lemma AddOrUpdateCluster_cases:
  assumes "cluster_db G" and "clusters_table_ok db" and "convertToCacheCluster C r = Inr cl"
    and "AddOrUpdateCluster G C now r db cs = (Inr (), cs')"
    and "getCluster G C now (cTenantID r) (cClusterID r) db cs = (Inr old, cs1)"
  shows "cs' = put_cluster (cTenantID r) (cClusterID r)
    (case old of None \<Rightarrow> cl | Some oldCl \<Rightarrow> keep_assumed now (cc_AssumedGPUPodsByKey oldCl) cl) cs1"
  using assms(4,5) convertToCacheCluster_sel [OF assms(3)]
  by (auto simp: AddOrUpdateCluster_def assms(3) Let_def split: option.splits)

text \<open>A report of a cluster, written to the store and then to the cache, keeps them coherent.\<close>

lemma AddOrUpdateCluster_coherent:
  assumes db: "cluster_db G" "clusters_table_ok db'" and coh: "coherent C db cs"
    and rows: "row_of cClusterID db' = (row_of cClusterID db)(cClusterID r \<mapsto> r)"
    and own: "\<And>old. row_of cClusterID db (cClusterID r) = Some old \<Longrightarrow> cTenantID old = cTenantID r"
    and conv: "convertToCacheCluster C r = Inr cl"
    and run: "AddOrUpdateCluster G C now r db' cs = (res, cs')"
  shows "coherent C db' cs'"
proof -
  let ?t = "cTenantID r" and ?k = "cClusterID r"
  let ?new = "\<lambda>old. case old of None \<Rightarrow> cl | Some oldCl \<Rightarrow> keep_assumed now (cc_AssumedGPUPodsByKey oldCl) cl"
  have sel: "cc_ClusterID cl = ?k" "cc_AssumedGPUPodsByKey cl = []" "unassumed cl = cl"
    using convertToCacheCluster_sel [OF conv] by simp_all
  have new: "cc_ClusterID (?new old) = ?k" "distinct (keys (cc_AssumedGPUPodsByKey (?new old)))"
    "stored_cluster C db' ?t ?k = Some (unassumed (?new old))" for old
    using sel by (auto simp: stored_cluster_upd [OF rows own] conv split: option.splits)
  have others: "coherent_at C db' t' m" if "t' \<noteq> ?t" "cs t' = Some m" for t' m
    using coh that coherent_at_others [OF _ _ rows own] by (auto simp: coherent_def)
  obtain o1 cs1 where get: "getCluster G C now ?t ?k db' cs = (o1, cs1)" by fastforce
  have fail: "cs' = cs1" if "o1 = Inl e" for e
    using run by (simp add: AddOrUpdateCluster_def conv get that)
  have ok: "cs' = put_cluster ?t ?k (?new old) cs1" if "o1 = Inr old" for old
    using AddOrUpdateCluster_cases [OF db conv _ get [unfolded that]] run
    by (auto simp: AddOrUpdateCluster_def conv get that Let_def)
  show ?thesis
  proof (cases "cs ?t")
    case None
    then have coh': "coherent C db' cs" using others by (metis coherent_def option.distinct(1))
    note frame = getCluster_frame(1) [OF db coh' get]
    show ?thesis
    proof (cases o1)
      case (Inr old)
      then obtain cls where "cs1 ?t = Some cls" using getCluster_cached [OF db coh'] get by blast
      then show ?thesis unfolding ok [OF Inr] by (intro coherent_put [OF frame] new)
    qed (use fail frame in simp)
  next
    case (Some cls)
    then have o1: "o1 = Inr (map_option Cluster_Clone (map_of cls ?k))" and cs1: "cs1 = cs"
      using get by (simp_all add: getCluster_def)
    have "map_option unassumed (map_of cls j) = stored_cluster C db' ?t j" if "j \<noteq> ?k" for j
      using coh Some that by (simp add: coherent_def coherent_at_def stored_cluster_upd [OF rows own])
    moreover have "clusters_ok cls" using coh Some by (simp add: coherent_def coherent_at_def)
    ultimately show ?thesis
      unfolding ok [OF o1] cs1 by (intro coherent_write [of ?t cs C db' cls] others Some new)
  qed
qed

lemma AddOrUpdateCluster_caches:
  assumes "AddOrUpdateCluster G C now r db cs = (Inr (), cs')"
  shows "\<exists>cls. cs' (cTenantID r) = Some cls"
  using assms
  by (auto simp: AddOrUpdateCluster_def getCluster_def ListClustersByTenantID_def put_cluster_def Let_def split: sum.splits prod.splits option.splits)

end
