(* ===== verification/Scheduler.thy ===== *)
theory Scheduler
  imports Cache Auth
begin

text \<open>
  \<^verbatim>\<open>server/internal/scheduler/scheduler.go\<close>: the choice of a cluster and namespace for a workload. Go ranges over the
  clusters of the tenant in an order of its own: the parameter \<open>rng\<close> permutes them, and the locale \<open>map_range\<close> is
  all the proofs know of it. A score is \<^verbatim>\<open>float64\<close> of an integer far below \<open>2 ^ 53\<close>, hence exact, and an \<open>int\<close>
  here.
\<close>

section \<open>Definitions\<close>

record SchedulingResult =
  sr_ClusterID :: string
  sr_ClusterName :: string
  sr_Namespace :: string

record schedulingScore =
  isFeasible :: bool
  score :: int
  infeasibleReason :: string

definition staleThreshold :: duration where
  "staleThreshold = 30 * 60 * 1000000000"

definition availableGPUs :: "cache_Cluster \<Rightarrow> int" where
  "availableGPUs c =
     (let allocatable = foldl (\<lambda>a n. a + GpuNode_AllocatableCount n) 0 (cc_GPUNodes c);
          allocated = foldl (\<lambda>a p. a + GpuPod_AllocatedCount p) 0 (cc_GPUPods c);
          allocated = foldl (\<lambda>a (k, p). a + ap_AllocatedCount p) allocated (cc_AssumedGPUPodsByKey c)
      in allocatable - allocated)"

definition canProvisionGPUs :: "int \<Rightarrow> cache_Cluster \<Rightarrow> go_error + bool" where
  "canProvisionGPUs requestedGPUs c =
     (if length (cc_GPUNodes c) > 0 then Inr (requestedGPUs \<le> availableGPUs c)
      else if length (cc_ProvisionableResources c) > 0 then Inr True
      else Inr False)"

definition scoreCluster :: "cache_Cluster \<Rightarrow> int \<Rightarrow> go_error + schedulingScore" where
  "scoreCluster c requestedGPUs =
     (if requestedGPUs = 0 then Inr \<lparr>isFeasible = True, score = 0, infeasibleReason = []\<rparr>
      else case canProvisionGPUs requestedGPUs c of
        Inl e \<Rightarrow> Inl e
      | Inr ok \<Rightarrow>
          if \<not> ok then Inr \<lparr>isFeasible = False, score = 0, infeasibleReason = ''insufficient GPU resources''\<rparr>
          else Inr \<lparr>isFeasible = True, score = availableGPUs c, infeasibleReason = []\<rparr>)"

definition namespacesByCluster :: "AssignedKubernetesEnv list \<Rightarrow> string \<Rightarrow> string option" where
  "namespacesByCluster envs = foldl (\<lambda>m env. m(ake_ClusterID env \<mapsto> ake_Namespace env)) (\<lambda>_. None) envs"

fun schedule_loop ::
  "time \<Rightarrow> (string \<Rightarrow> string option) \<Rightarrow> string \<Rightarrow> int \<Rightarrow> Clusters \<Rightarrow> (SchedulingResult \<times> int) option \<Rightarrow> string list \<Rightarrow>
   go_error + ((SchedulingResult \<times> int) option \<times> string list)" where
  "schedule_loop now nss prev gpuCount [] best reasons = Inr (best, reasons)"
| "schedule_loop now nss prev gpuCount ((k, c) # cls) best reasons =
     (if now - cc_UpdatedAt c > staleThreshold then schedule_loop now nss prev gpuCount cls best reasons
      else if cc_ClusterID c = prev then schedule_loop now nss prev gpuCount cls best reasons
      else case nss (cc_ClusterID c) of
        None \<Rightarrow> schedule_loop now nss prev gpuCount cls best reasons
      | Some ns \<Rightarrow> (case scoreCluster c gpuCount of
          Inl e \<Rightarrow> Inl e
        | Inr sc \<Rightarrow>
            if \<not> isFeasible sc then schedule_loop now nss prev gpuCount cls best
              (reasons @ [''{cluster: '' @ Quote (cc_ClusterName c) @ '', reason: '' @ Quote (infeasibleReason sc) @ ''}''])
            else if best = None \<or> score sc > snd (the best) then
              schedule_loop now nss prev gpuCount cls
                (Some (\<lparr>sr_ClusterID = cc_ClusterID c, sr_ClusterName = cc_ClusterName c, sr_Namespace = ns\<rparr>, score sc)) reasons
            else schedule_loop now nss prev gpuCount cls best reasons))"

definition Schedule ::
  "store_Cluster gorm \<Rightarrow> ClusterStatus codec \<Rightarrow> (Clusters \<Rightarrow> Clusters) \<Rightarrow> time \<Rightarrow> UserInfo \<Rightarrow> string \<Rightarrow> int \<Rightarrow>
   store_Cluster list \<Rightarrow> cache \<Rightarrow> (go_error + SchedulingResult) \<times> cache" where
  "Schedule G C rng now userInfo prev gpuCount db cs =
     (case ListClustersByTenantID G C now (ui_TenantID userInfo) db cs of
        (Inl e, cs') \<Rightarrow> (Inl e, cs')
      | (Inr clusters, cs') \<Rightarrow>
          if length clusters = 0 then (Inl (Errorf ''no clusters''), cs')
          else if length (ui_AssignedKubernetesEnvs userInfo) = 0 then (Inl (Errorf ''no assigned Kubernetes environments''), cs')
          else (case schedule_loop now (namespacesByCluster (ui_AssignedKubernetesEnvs userInfo)) prev gpuCount (rng clusters) None [] of
              Inl e \<Rightarrow> (Inl e, cs')
            | Inr (None, reasons) \<Rightarrow>
                if length reasons = 0 then (Inl (Errorf ''no schedulable cluster''), cs')
                else (Inl (Errorf (''workload not schedulable: '' @ Join reasons '', '')), cs')
            | Inr (Some (best, _), _) \<Rightarrow> (Inr best, cs')))"

definition isAWSInstanceFamilyForNvidiaGPU :: "string \<Rightarrow> go_error + bool" where
  "isAWSInstanceFamilyForNvidiaGPU instFamily =
     Inr (case map_of [(''g5'', True), (''p4d'', True), (''p4de'', True), (''p5'', True)] instFamily of
        Some b \<Rightarrow> b | None \<Rightarrow> False)"

definition isAWSInstanceTypeForNvidiaGPU :: "string \<Rightarrow> go_error + bool" where
  "isAWSInstanceTypeForNvidiaGPU instType =
     (let l = Split instType CHR ''.''
      in if length l \<noteq> 2 then Inl (Errorf (''invalid instance type: '' @ instType))
         else isAWSInstanceFamilyForNvidiaGPU (l ! 0))"

section \<open>What the scheduler promises\<close>

locale map_range =
  fixes rng :: "Clusters \<Rightarrow> Clusters"
  assumes rng_mset: "mset (rng m) = mset m"

interpretation go_range: map_range id
  by unfold_locales simp

text \<open>A cluster may take the workload: it reported recently, is not the previous one, is assigned to the user, and
  has the GPUs or can provision them.\<close>

definition can_host :: "int \<Rightarrow> cache_Cluster \<Rightarrow> bool" where
  "can_host gpuCount c \<longleftrightarrow> gpuCount = 0 \<or>
     (if cc_GPUNodes c \<noteq> [] then gpuCount \<le> availableGPUs c else cc_ProvisionableResources c \<noteq> [])"

definition assigned :: "UserInfo \<Rightarrow> string \<Rightarrow> string option" where
  "assigned userInfo k = map_of (rev (map (\<lambda>e. (ake_ClusterID e, ake_Namespace e)) (ui_AssignedKubernetesEnvs userInfo))) k"

definition eligible :: "time \<Rightarrow> UserInfo \<Rightarrow> string \<Rightarrow> int \<Rightarrow> cache_Cluster \<Rightarrow> bool" where
  "eligible now userInfo prev gpuCount c \<longleftrightarrow> now - cc_UpdatedAt c \<le> staleThreshold \<and> cc_ClusterID c \<noteq> prev \<and>
     assigned userInfo (cc_ClusterID c) \<noteq> None \<and> can_host gpuCount c"

definition rank :: "int \<Rightarrow> cache_Cluster \<Rightarrow> int" where
  "rank gpuCount c = (if gpuCount = 0 then 0 else availableGPUs c)"

section \<open>Lemmas\<close>

lemma foldl_add_eq: "foldl (\<lambda>a x. a + f x) z xs = z + sum_list (map f xs)" for z :: int
  by (induction xs arbitrary: z) auto

lemma availableGPUs_sum:
  "availableGPUs c = sum_list (map GpuNode_AllocatableCount (cc_GPUNodes c))
     - sum_list (map GpuPod_AllocatedCount (cc_GPUPods c))
     - sum_list (map (ap_AllocatedCount \<circ> snd) (cc_AssumedGPUPodsByKey c))"
proof -
  have "foldl (\<lambda>a (k, p). a + ap_AllocatedCount p) z m = z + sum_list (map (ap_AllocatedCount \<circ> snd) m)"
    for z and m :: "(string \<times> AssumedGPUPod) list"
    by (induction m arbitrary: z) auto
  then show ?thesis by (simp add: availableGPUs_def foldl_add_eq)
qed

lemma availableGPUs_assume:
  assumes "distinct (keys (cc_AssumedGPUPodsByKey c))" and "is_int32 n"
  shows "availableGPUs (assume_pod now key n c) = availableGPUs c - n +
    (case map_of (cc_AssumedGPUPodsByKey c) key of None \<Rightarrow> 0 | Some p \<Rightarrow> ap_AllocatedCount p)"
  using sum_list_map_put [OF assms(1), of ap_AllocatedCount key] assms(2)
  by (simp add: availableGPUs_sum assume_pod_def split: option.splits)

lemma scoreCluster_total:
  "scoreCluster c n = Inr \<lparr>isFeasible = can_host n c, score = (if can_host n c then rank n c else 0),
     infeasibleReason = (if can_host n c then [] else ''insufficient GPU resources'')\<rparr>"
  by (auto simp: scoreCluster_def canProvisionGPUs_def can_host_def rank_def)

lemma namespacesByCluster_assigned: "namespacesByCluster (ui_AssignedKubernetesEnvs u) = assigned u"
proof -
  have "foldl (\<lambda>m env. m(ake_ClusterID env \<mapsto> ake_Namespace env)) m envs =
      m ++ map_of (rev (map (\<lambda>e. (ake_ClusterID e, ake_Namespace e)) envs))"
    for m and envs :: "AssignedKubernetesEnv list"
    by (induction envs arbitrary: m) (auto simp: map_add_def fun_eq_iff split: option.splits)
  then show ?thesis by (intro ext) (simp add: namespacesByCluster_def assigned_def)
qed

definition result_of :: "UserInfo \<Rightarrow> cache_Cluster \<Rightarrow> SchedulingResult" where
  "result_of u c = \<lparr>sr_ClusterID = cc_ClusterID c, sr_ClusterName = cc_ClusterName c, sr_Namespace = the (assigned u (cc_ClusterID c))\<rparr>"

text \<open>One iteration of the loop, in terms of the specification: an eligible cluster competes, any other one leaves the
  best result as it is.\<close>

lemma schedule_loop_eligible:
  "eligible now u prev n c \<Longrightarrow> schedule_loop now (assigned u) prev n ((k, c) # cls) best reasons =
     schedule_loop now (assigned u) prev n cls
       (if best = None \<or> rank n c > snd (the best) then Some (result_of u c, rank n c) else best) reasons"
  by (auto simp: eligible_def scoreCluster_total result_of_def)

lemma schedule_loop_ineligible:
  "\<not> eligible now u prev n c \<Longrightarrow> \<exists>more. schedule_loop now (assigned u) prev n ((k, c) # cls) best reasons =
     schedule_loop now (assigned u) prev n cls best (reasons @ more)"
  by (auto simp: eligible_def scoreCluster_total split: option.splits intro: exI [of _ "[]"])

definition improves :: "time \<Rightarrow> UserInfo \<Rightarrow> string \<Rightarrow> int \<Rightarrow> cache_Cluster set \<Rightarrow> (SchedulingResult \<times> int) option \<Rightarrow>
    (SchedulingResult \<times> int) option \<Rightarrow> bool" where
  "improves now u prev n cs best best' \<longleftrightarrow> (case best' of
     None \<Rightarrow> best = None \<and> (\<forall>c \<in> cs. \<not> eligible now u prev n c)
   | Some (r, s) \<Rightarrow> (best = Some (r, s) \<or> (\<exists>c \<in> cs. eligible now u prev n c \<and> r = result_of u c \<and> s = rank n c)) \<and>
       (\<forall>c \<in> cs. eligible now u prev n c \<longrightarrow> rank n c \<le> s) \<and> (\<forall>r0 s0. best = Some (r0, s0) \<longrightarrow> s0 \<le> s))"

lemma schedule_loop_result:
  "\<exists>best' reasons'. schedule_loop now (assigned u) prev n cls best reasons = Inr (best', reasons') \<and>
     improves now u prev n (snd ` set cls) best best'"
proof (induction cls arbitrary: best reasons)
  case Nil
  then show ?case by (auto simp: improves_def split: option.splits)
next
  case (Cons kc cls)
  obtain k c where kc: "kc = (k, c)" by fastforce
  show ?case
  proof (cases "eligible now u prev n c")
    case True
    let ?b = "if best = None \<or> rank n c > snd (the best) then Some (result_of u c, rank n c) else best"
    from Cons.IH [of ?b reasons] obtain b' r' where
      run: "schedule_loop now (assigned u) prev n cls ?b reasons = Inr (b', r')" and imp: "improves now u prev n (snd ` set cls) ?b b'"
      by blast
    have "improves now u prev n (snd ` set (kc # cls)) best b'"
      using imp True by (auto simp: improves_def kc split: option.splits if_splits)
    then show ?thesis using run unfolding kc schedule_loop_eligible [OF True] by blast
  next
    case False
    then obtain rs where "schedule_loop now (assigned u) prev n (kc # cls) best reasons =
        schedule_loop now (assigned u) prev n cls best (reasons @ rs)"
      using schedule_loop_ineligible unfolding kc by blast
    moreover have "improves now u prev n (snd ` set (kc # cls)) best b' = improves now u prev n (snd ` set cls) best b'" for b'
      using False by (auto simp: improves_def kc split: option.splits)
    ultimately show ?thesis using Cons.IH [of best "reasons @ rs"] by metis
  qed
qed

text \<open>A scheduled workload goes to an eligible cluster of the tenant with the most available GPUs; scheduling fails
  exactly when no cluster of the tenant is eligible or the clusters cannot be read.\<close>

lemma schedule_ok:
  assumes "map_range rng" and "cluster_db G" and "clusters_table_ok db" and "coherent C db cs"
    and "Schedule G C rng now u prev n db cs = (Inr r, cs')"
  shows "\<exists>cls c. cs' (ui_TenantID u) = Some cls \<and> map_of cls (sr_ClusterID r) = Some c \<and> r = result_of u c \<and>
    eligible now u prev n c \<and> (\<forall>c' \<in> snd ` set cls. eligible now u prev n c' \<longrightarrow> rank n c' \<le> rank n c)"
proof -
  from assms(5) obtain cls b rs s where
    list: "ListClustersByTenantID G C now (ui_TenantID u) db cs = (Inr cls, cs')"
    and loop: "schedule_loop now (assigned u) prev n (rng cls) None [] = Inr (Some (r, s), rs)"
    by (auto simp: Schedule_def namespacesByCluster_assigned split: prod.splits sum.splits option.splits if_splits)
  have cls: "cs' (ui_TenantID u) = Some cls" by (rule list_clusters(2) [OF assms(2-4) list refl])
  have ok: "clusters_ok cls"
    using list_clusters(1) [OF assms(2-4) list] cls by (simp add: coherent_def coherent_at_def)
  have set: "set (rng cls) = set cls" using map_range.rng_mset [OF assms(1)] by (rule mset_eq_setD)
  have "improves now u prev n (snd ` set cls) None (Some (r, s))"
    using schedule_loop_result [of now u prev n "rng cls" None "[]"] loop by (auto simp: set)
  then obtain c where c: "c \<in> snd ` set cls" "eligible now u prev n c" "r = result_of u c" "s = rank n c"
    and best: "\<forall>c' \<in> snd ` set cls. eligible now u prev n c' \<longrightarrow> rank n c' \<le> s"
    by (auto simp: improves_def)
  have "map_of cls (sr_ClusterID r) = Some c"
    using c(1,3) ok by (auto simp: result_of_def clusters_ok_def)
  with cls c best show ?thesis by blast
qed

lemma schedule_complete:
  assumes "map_range rng" and "ListClustersByTenantID G C now (ui_TenantID u) db cs = (Inr cls, cs1)"
    and "c \<in> snd ` set cls" and "eligible now u prev n c"
  shows "\<exists>r. Schedule G C rng now u prev n db cs = (Inr r, cs1)"
proof -
  have set: "set (rng cls) = set cls" using map_range.rng_mset [OF assms(1)] by (rule mset_eq_setD)
  obtain b rs where loop: "schedule_loop now (assigned u) prev n (rng cls) None [] = Inr (b, rs)"
    "improves now u prev n (snd ` set cls) None b"
    using schedule_loop_result [of now u prev n "rng cls" None "[]"] set by auto
  then obtain r s where "b = Some (r, s)" using assms(3,4) by (auto simp: improves_def split: option.splits)
  moreover have "cls \<noteq> []" "ui_AssignedKubernetesEnvs u \<noteq> []"
    using assms(3,4) by (auto simp: eligible_def assigned_def)
  ultimately show ?thesis using loop(1) by (simp add: Schedule_def assms(2) namespacesByCluster_assigned)
qed

lemma schedule_cache:
  assumes "cluster_db G" and "clusters_table_ok db" and "coherent C db cs"
    and "Schedule G C rng now u prev n db cs = (res, cs')"
  shows "coherent C db cs'"
  using list_clusters(1) [OF assms(1-3)] assms(4)
  by (auto simp: Schedule_def split: prod.splits sum.splits option.splits if_splits)

end
