(* ===== verification/Server.thy ===== *)
theory Server
  imports StoreJob StoreNotebook StoreBatch Scheduler
begin

text \<open>
  \<^verbatim>\<open>server/internal/server/server.go\<close>: what the handlers of the server share. \<open>server_env\<close> holds the fields of
  \<^verbatim>\<open>type S struct\<close> and the third-party functions the handlers call; \<open>server_state\<close> holds what they change: the tables,
  the cluster cache, and the list of writes made to Kubernetes. A handler takes the environment, the time of the call,
  the request context, the request and the state, and returns its response or error with the new state. One reading
  of the clock per call is modelled.

  The scheduler and the cache reach the handlers through the interfaces \<^verbatim>\<open>schedulerI\<close> and \<^verbatim>\<open>cacheI\<close>; \<open>env_Schedule\<close> and
  \<open>env_AddAssumedPod\<close> are these calls on the state of the server.
\<close>

record Model =
  IsBaseModel :: bool
  Formats :: "int list"

datatype k8s_write =
    CreateSecret string string string "(string \<times> bytes) list"      \<comment> \<open>cluster, name, namespace, data\<close>
  | CreateConfigMap string string string "(string \<times> bytes) list"
  | PatchResource string string string "string \<times> string \<times> string" bytes
  | DeleteResource string string string "string \<times> string \<times> string"

record server_env =
  jobDB :: "Job gorm"
  notebookDB :: "Notebook gorm"
  batchDB :: "BatchJob gorm"
  clusterDB :: "store_Cluster gorm"
  jobCodec :: "v1_job codec"
  notebookCodec :: "v1_notebook codec"
  batchCodec :: "v1_batch_job codec"
  projectCodec :: "rbac_Project codec"
  statusCodec :: "ClusterStatus codec"
  collation :: "string \<Rightarrow> string \<Rightarrow> bool"
  clusterRange :: "Clusters \<Rightarrow> Clusters"
  GetFile :: "string \<Rightarrow> go_error + unit"
  GetModel :: "string \<Rightarrow> go_error + Model"
  MODEL_FORMAT_HUGGING_FACE :: int
  GenerateIDForK8SResource :: "time \<Rightarrow> string \<Rightarrow> go_error + string"
  GenerateID :: "time \<Rightarrow> string \<Rightarrow> nat \<Rightarrow> go_error + string"
  NewClient :: "string \<Rightarrow> string \<Rightarrow> go_error + unit"
  k8sApply :: "k8s_write \<Rightarrow> go_error + string"
  encrypt :: encryptor
  decrypt :: decryptor
  nbImageTypes :: "(string \<times> string) list"
  batchJobImages :: "(string \<times> string) list"
  dataKey :: bytes
  enableAuth :: bool

record server_state =
  st_jobs :: "Job list"
  st_notebooks :: "Notebook list"
  st_batch_jobs :: "BatchJob list"
  st_clusters :: "store_Cluster list"
  st_cache :: cache
  st_k8s :: "k8s_write list"

abbreviation (input) defaultPageSize :: int where "defaultPageSize \<equiv> 20"
abbreviation (input) maxPageSize :: int where "maxPageSize \<equiv> 100"

definition nbImageTypeStr :: "server_env \<Rightarrow> string" where
  "nbImageTypeStr env = Join (keys (nbImageTypes env)) '', ''"

definition env_Schedule :: "server_env \<Rightarrow> time \<Rightarrow> UserInfo \<Rightarrow> string \<Rightarrow> int \<Rightarrow> server_state \<Rightarrow> (go_error + SchedulingResult) \<times> server_state" where
  "env_Schedule env now userInfo prev gpuCount st =
     (let (res, cs) = Schedule (clusterDB env) (statusCodec env) (clusterRange env) now userInfo prev gpuCount (st_clusters st) (st_cache st)
      in (res, st\<lparr>st_cache := cs\<rparr>))"

definition env_AddAssumedPod :: "server_env \<Rightarrow> time \<Rightarrow> string \<Rightarrow> string \<Rightarrow> string \<Rightarrow> int \<Rightarrow> server_state \<Rightarrow> (go_error + unit) \<times> server_state" where
  "env_AddAssumedPod env now tenantID clusterID key gpuCount st =
     (let (res, cs) = AddAssumedPod (clusterDB env) (statusCodec env) now tenantID clusterID key gpuCount (st_clusters st) (st_cache st)
      in (res, st\<lparr>st_cache := cs\<rparr>))"

text \<open>A write to the cluster through \<^verbatim>\<open>k8s.Client\<close> or \<^verbatim>\<open>k8s.DynamicClient\<close>: recorded when the cluster accepts it.\<close>

definition env_k8s :: "server_env \<Rightarrow> k8s_write \<Rightarrow> server_state \<Rightarrow> (go_error + string) \<times> server_state" where
  "env_k8s env w st = (case k8sApply env w of Inl e \<Rightarrow> (Inl e, st) | Inr uid \<Rightarrow> (Inr uid, st\<lparr>st_k8s := st_k8s st @ [w]\<rparr>))"

definition validateFile :: "server_env \<Rightarrow> string \<Rightarrow> go_error + unit" where
  "validateFile env fileID = (case GetFile env fileID of Inr _ \<Rightarrow> Inr ()
     | Inl e \<Rightarrow> if status_Code e = NotFound then Inl (Status InvalidArgument (''file '' @ Quote fileID @ '' not found''))
         else Inl (Status InvalidArgument (''get file: '' @ Error e)))"

text \<open>The page size of the listing handlers.\<close>

definition page_limit :: "int \<Rightarrow> go_error + int" where
  "page_limit req_limit =
     (if req_limit < 0 then Inl (Status InvalidArgument ''limit must be non-negative'')
      else let limit = (if req_limit = 0 then defaultPageSize else req_limit);
               limit = (if limit > maxPageSize then maxPageSize else limit)
           in Inr limit)"

text \<open>How a handler reports that it could not read the row it was asked for.\<close>

definition get_error :: "string \<Rightarrow> go_error \<Rightarrow> go_error" where
  "get_error what e = (if errors_Is e ErrRecordNotFound then Status NotFound (what @ Error e) else Status Internal (what @ Error e))"

abbreviation internal_error :: "string \<Rightarrow> go_error \<Rightarrow> go_error" where
  "internal_error what e \<equiv> Status Internal (what @ Error e)"

abbreviation id_required :: go_error where
  "id_required \<equiv> Status InvalidArgument ''id is required''"

section \<open>Lemmas\<close>

lemma page_limit_range: "page_limit n = Inr l \<Longrightarrow> 1 \<le> l \<and> l \<le> 100"
  by (auto simp: page_limit_def Let_def split: if_splits)

lemma env_Schedule_frame:
  "env_Schedule env now u p n st = (res, st') \<Longrightarrow> st' = st\<lparr>st_cache := st_cache st'\<rparr>"
  by (auto simp: env_Schedule_def split: prod.splits)

lemma env_AddAssumedPod_frame:
  "env_AddAssumedPod env now t k key n st = (res, st') \<Longrightarrow> st' = st\<lparr>st_cache := st_cache st'\<rparr>"
  by (auto simp: env_AddAssumedPod_def split: prod.splits)

lemma env_k8s_frame:
  "env_k8s env w st = (res, st') \<Longrightarrow> st' = st\<lparr>st_k8s := st_k8s st'\<rparr>"
  by (auto simp: env_k8s_def split: sum.splits)

text \<open>The tables a call to the scheduler, the cache or a cluster leaves alone.\<close>

lemma env_tables:
  "env_Schedule env now u p n st = (res, st') \<Longrightarrow> st_jobs st' = st_jobs st \<and> st_notebooks st' = st_notebooks st \<and>
     st_batch_jobs st' = st_batch_jobs st \<and> st_clusters st' = st_clusters st \<and> st_k8s st' = st_k8s st"
  "env_AddAssumedPod env now t k key n st = (res', st') \<Longrightarrow> st_jobs st' = st_jobs st \<and> st_notebooks st' = st_notebooks st \<and>
     st_batch_jobs st' = st_batch_jobs st \<and> st_clusters st' = st_clusters st \<and> st_k8s st' = st_k8s st"
  "env_k8s env w st = (res'', st') \<Longrightarrow> st_jobs st' = st_jobs st \<and> st_notebooks st' = st_notebooks st \<and>
     st_batch_jobs st' = st_batch_jobs st \<and> st_clusters st' = st_clusters st \<and> st_cache st' = st_cache st"
  by (auto simp: env_Schedule_def env_AddAssumedPod_def env_k8s_def split: prod.splits sum.splits)

end
