(* ===== verification/FineTuning.thy ===== *)
theory FineTuning
  imports Server
begin

text \<open>
  \<^verbatim>\<open>server/internal/server/fine_tuning.go\<close>: the handlers of the fine-tuning service for users (create, list, get,
  cancel) and for the workers of a cluster (list queued, get, update phase), the lifecycle of a job as a transition relation,
  and the proof that every handler implements it.
\<close>

section \<open>CreateJob\<close>

abbreviation (input) metadataKeyResourceGPU :: string where "metadataKeyResourceGPU \<equiv> ''resources.gpu''"

definition validate_CreateJobRequest :: "CreateJobRequest \<Rightarrow> go_error + unit" where
  "validate_CreateJobRequest req = guards (
     [(CJR_Model req = [], Status InvalidArgument ''model is required''),
      (CJR_TrainingFile req = [], Status InvalidArgument ''training file is required''),
      (CJR_Suffix req = [], Status InvalidArgument ''suffix is required''),
      (length (CJR_Suffix req) > 18, Status InvalidArgument ''suffix is too long'')] @
     (case CJR_Hyperparameters req of None \<Rightarrow> [] | Some hp \<Rightarrow>
       [(Req_HP_BatchSize hp < 0, Status InvalidArgument ''batch size must be non-negative''),
        (Req_HP_LearningRateMultiplier hp < 0, Status InvalidArgument ''learning rate multiplier must be non-negative''),
        (Req_HP_NEpochs hp < 0, Status InvalidArgument ''n epoch must be non-negative'')]) @
     (case CJR_Method req of None \<Rightarrow> [] | Some m \<Rightarrow>
       if Method_Type m = ''supervised'' \<or> Method_Type m = ''dpo'' then
         (case Method_Hyperparameters m of None \<Rightarrow> [] | Some hp \<Rightarrow>
           [(Method_HP_BatchSize hp < 0, Status InvalidArgument ''batch size must be non-negative''),
            (Method_HP_LearningRateMultiplier hp < 0, Status InvalidArgument ''learning rate multiplier must be non-negative''),
            (Method_HP_NEpochs hp < 0, Status InvalidArgument ''n epochs must be non-negative'')])
       else [(True, Status InvalidArgument (''unsupported method type: '' @ Quote (Method_Type m)))]))"

definition validate_model :: "server_env \<Rightarrow> string \<Rightarrow> go_error + unit" where
  "validate_model env m = (case GetModel env m of
       Inl e \<Rightarrow> if status_Code e = NotFound then Inl (Status InvalidArgument ''model not found'')
         else Inl (Status InvalidArgument (''get model path: '' @ Error e))
     | Inr model \<Rightarrow> guards
         [(\<not> IsBaseModel model,
           Status InvalidArgument (''model '' @ Quote m @ '' is a fine-tuned model. Use a base model instead.'')),
          (MODEL_FORMAT_HUGGING_FACE env \<notin> set (Formats model),
           Status InvalidArgument (''model '' @ Quote m @ '' is not the Hugging Face format and it does not support fine-tuning''))])"

fun validate_integrations :: "Integration list \<Rightarrow> go_error + unit" where
  "validate_integrations [] = Inr ()"
| "validate_integrations (i # is) =
     (if Integration_Type i \<noteq> ''wandb'' then Inl (Status InvalidArgument (''unsupported integration type: '' @ Integration_Type i))
      else case Integration_Wandb_field i of
        None \<Rightarrow> Inl (Status InvalidArgument ''wandb is required'')
      | Some wandb \<Rightarrow> if Wandb_Project wandb = [] then Inl (Status InvalidArgument ''wandb project is required'')
          else validate_integrations is)"

definition validate_CreateJob :: "server_env \<Rightarrow> CreateJobRequest \<Rightarrow> go_error + unit" where
  "validate_CreateJob env req = (case validate_CreateJobRequest req of Inl e \<Rightarrow> Inl e
     | Inr _ \<Rightarrow> (case validate_model env (CJR_Model req) of Inl e \<Rightarrow> Inl e
     | Inr _ \<Rightarrow> (case validateFile env (CJR_TrainingFile req) of Inl e \<Rightarrow> Inl e
     | Inr _ \<Rightarrow> (case (if CJR_ValidationFile req \<noteq> [] then validateFile env (CJR_ValidationFile req) else Inr ()) of Inl e \<Rightarrow> Inl e
     | Inr _ \<Rightarrow> validate_integrations (CJR_Integrations req)))))"

text \<open>The GPU count of a request: from the metadata entry or from the resources, at least one.\<close>

definition request_resources :: "CreateJobRequest \<Rightarrow> go_error + int option" where
  "request_resources req = (case map_of (CJR_Metadata req) metadataKeyResourceGPU of
       None \<Rightarrow> Inr (CJR_Resources req)
     | Some s \<Rightarrow> (case ParseInt32 s of
           None \<Rightarrow> Inl (Status InvalidArgument (''the value of '' @ Quote metadataKeyResourceGPU @ '' must be an integer''))
         | Some v \<Rightarrow>
             if v \<le> 0 then Inl (Status InvalidArgument (''the value of '' @ Quote metadataKeyResourceGPU @ '' must be positive''))
             else if CJR_Resources req \<noteq> None then Inl (Status InvalidArgument ''cannot specify gpu in both resources and metadata'')
             else Inr (Some (int32 v))))"

definition job_gpu_count :: "int option \<Rightarrow> go_error + int" where
  "job_gpu_count resources = (case resources of None \<Rightarrow> Inr 1
     | Some n \<Rightarrow> if n < 0 then Inl (Status InvalidArgument ''gpu count must be non-negative'')
         else if n > 1 then Inr n else Inr 1)"

definition new_job_proto :: "time \<Rightarrow> UserInfo \<Rightarrow> CreateJobRequest \<Rightarrow> string \<Rightarrow> int \<Rightarrow> SchedulingResult \<Rightarrow> v1_job" where
  "new_job_proto now userInfo req jobID gpuCount sresult = empty_v1_job\<lparr>
     Job_Id := jobID, Job_CreatedAt := Unix now, Job_Model := CJR_Model req, Job_TrainingFile := CJR_TrainingFile req,
     Job_ValidationFile := CJR_ValidationFile req,
     Job_Hyperparameters_field := map_option (\<lambda>rhp. \<lparr>Job_HP_BatchSize = Req_HP_BatchSize rhp,
        Job_HP_LearningRateMultiplier = Req_HP_LearningRateMultiplier rhp, Job_HP_NEpochs = Req_HP_NEpochs rhp\<rparr>) (CJR_Hyperparameters req),
     Job_Method := CJR_Method req, Job_Object := ''fine_tuning.job'', Job_Status := JobStateQueued,
     Job_OrganizationId := ui_OrganizationID userInfo, Job_Integrations := CJR_Integrations req, Job_Seed := CJR_Seed req,
     Job_ProjectId := ui_ProjectID userInfo, Job_KubernetesNamespace := sr_Namespace sresult,
     Job_ClusterId := sr_ClusterID sresult, Job_OrganizationTitle := ui_OrganizationTitle userInfo,
     Job_ProjectTitle := ui_ProjectTitle userInfo, Job_ClusterName := sr_ClusterName sresult, Job_Resources := Some gpuCount\<rparr>"

definition new_job :: "UserInfo \<Rightarrow> CreateJobRequest \<Rightarrow> string \<Rightarrow> SchedulingResult \<Rightarrow> bytes \<Rightarrow> Job" where
  "new_job userInfo req jobID sresult msg = zero_job\<lparr>jJobID := jobID, jState := JobStateQueued,
     jQueuedAction := JobQueuedActionCreate, jMessage := msg, jSuffix := CJR_Suffix req, jTenantID := ui_TenantID userInfo,
     jProjectID := ui_ProjectID userInfo, jClusterID := sr_ClusterID sresult\<rparr>"

definition CreateJob :: "server_env \<Rightarrow> time \<Rightarrow> context_info \<Rightarrow> CreateJobRequest \<Rightarrow> server_state \<Rightarrow> (go_error + v1_job) \<times> server_state" where
  "CreateJob env now ctx req st = (case ExtractUserInfo ctx of None \<Rightarrow> (Inl unauthenticated, st)
     | Some userInfo \<Rightarrow> (case validate_CreateJob env req of Inl e \<Rightarrow> (Inl e, st)
     | Inr _ \<Rightarrow> (case GenerateIDForK8SResource env now ''ftjob-'' of Inl e \<Rightarrow> (Inl (internal_error ''generate job id: '' e), st)
     | Inr jobID \<Rightarrow> (case request_resources req of Inl e \<Rightarrow> (Inl e, st)
     | Inr resources \<Rightarrow> (case job_gpu_count resources of Inl e \<Rightarrow> (Inl e, st)
     | Inr gpuCount \<Rightarrow> (case env_Schedule env now userInfo [] gpuCount st of (Inl e, st1) \<Rightarrow> (Inl (internal_error ''schedule: '' e), st1)
     | (Inr sresult, st1) \<Rightarrow> (case env_AddAssumedPod env now (ui_TenantID userInfo) (sr_ClusterID sresult)
            (sr_Namespace sresult @ ''/'' @ jobID) gpuCount st1 of (Inl e, st2) \<Rightarrow> (Inl (internal_error ''add assumed pod: '' e), st2)
     | (Inr _, st2) \<Rightarrow>
         let jobProto = new_job_proto now userInfo req jobID gpuCount sresult
         in (case Marshal (jobCodec env) jobProto of Inl e \<Rightarrow> (Inl (internal_error ''marshal job: '' e), st2)
            | Inr msg \<Rightarrow> (case store_CreateJob (jobDB env) now (new_job userInfo req jobID sresult msg) (st_jobs st2) of
                (Inl e, t) \<Rightarrow> (Inl (internal_error ''create job: '' e), st2\<lparr>st_jobs := t\<rparr>)
              | (Inr _, t) \<Rightarrow> (Inr jobProto, st2\<lparr>st_jobs := t\<rparr>))))))))))"

section \<open>ListJobs, GetJob, CancelJob\<close>

definition ListJobs :: "server_env \<Rightarrow> time \<Rightarrow> context_info \<Rightarrow> ListRequest \<Rightarrow> server_state \<Rightarrow> go_error + ListJobsResponse" where
  "ListJobs env now ctx req st = (case ExtractUserInfo ctx of None \<Rightarrow> Inl unauthenticated
     | Some userInfo \<Rightarrow> (case page_limit (LR_Limit req) of Inl e \<Rightarrow> Inl e
     | Inr limit \<Rightarrow> (case (if LR_After req \<noteq> [] then
            (case GetJobByJobIDAndProjectID (jobDB env) now (LR_After req) (ui_ProjectID userInfo) (st_jobs st) of
               Inl e \<Rightarrow> Inl (if errors_Is e ErrRecordNotFound then Status InvalidArgument (''invalid after: '' @ Error e)
                  else internal_error ''get job: '' e)
             | Inr job \<Rightarrow> Inr (jID job)) else Inr 0) of Inl e \<Rightarrow> Inl e
     | Inr afterID \<Rightarrow> (case ListJobsByProjectIDWithPagination (jobDB env) now (ui_ProjectID userInfo) afterID limit (st_jobs st) of
         Inl e \<Rightarrow> Inl (internal_error ''find jobs: '' e)
     | Inr (jobs, hasMore) \<Rightarrow> (case collect (V1Job (jobCodec env)) jobs of Inl e \<Rightarrow> Inl (internal_error ''convert job to proto: '' e)
     | Inr jobProtos \<Rightarrow> (case CountJobsByProjectID (jobDB env) now (ui_ProjectID userInfo) (st_jobs st) of
         Inl e \<Rightarrow> Inl (internal_error ''count jobs: '' e)
     | Inr totalItems \<Rightarrow> Inr \<lparr>LJR_Object = ''list'', LJR_Data = jobProtos, LJR_HasMore = hasMore, LJR_TotalItems = int32 totalItems\<rparr>))))))"

definition GetJob :: "server_env \<Rightarrow> time \<Rightarrow> context_info \<Rightarrow> string \<Rightarrow> server_state \<Rightarrow> go_error + v1_job" where
  "GetJob env now ctx req_id st = (case ExtractUserInfo ctx of None \<Rightarrow> Inl unauthenticated
     | Some userInfo \<Rightarrow> if req_id = [] then Inl id_required
     else (case GetJobByJobIDAndProjectID (jobDB env) now req_id (ui_ProjectID userInfo) (st_jobs st) of
         Inl e \<Rightarrow> Inl (get_error ''get job: '' e)
       | Inr job \<Rightarrow> (case V1Job (jobCodec env) job of Inl e \<Rightarrow> Inl (internal_error ''convert job to proto: '' e)
       | Inr jobProto \<Rightarrow> Inr jobProto)))"

definition CancelJob :: "server_env \<Rightarrow> time \<Rightarrow> context_info \<Rightarrow> string \<Rightarrow> server_state \<Rightarrow> (go_error + v1_job) \<times> server_state" where
  "CancelJob env now ctx req_id st = (case ExtractUserInfo ctx of None \<Rightarrow> (Inl unauthenticated, st)
     | Some userInfo \<Rightarrow> if req_id = [] then (Inl id_required, st)
     else (case GetJobByJobIDAndProjectID (jobDB env) now req_id (ui_ProjectID userInfo) (st_jobs st) of
         Inl e \<Rightarrow> (Inl (get_error ''get job: '' e), st)
       | Inr job \<Rightarrow> (case V1Job (jobCodec env) job of Inl e \<Rightarrow> (Inl e, st)
       | Inr jobProto \<Rightarrow>
           if jState job = JobStateSucceeded \<or> jState job = JobStateFailed \<or> jState job = JobStateCanceled then (Inr jobProto, st)
           else if jState job \<noteq> JobStateRunning \<and> jState job \<noteq> JobStateQueued then
             (Inl (Status Internal (''unexpected job state: '' @ jState job)), st)
           else if jState job = JobStateQueued \<and> jQueuedAction job = JobQueuedActionCancel then (Inr jobProto, st)
           else (case UpdateJobState (jobDB env) now req_id (jVersion job) JobStateQueued JobQueuedActionCancel (st_jobs st) of
               (Inl e, t) \<Rightarrow> (Inl (internal_error ''update job state: '' e), st\<lparr>st_jobs := t\<rparr>)
             | (Inr job', t) \<Rightarrow> (case V1Job (jobCodec env) job' of
                   Inl e \<Rightarrow> (Inl (internal_error ''convert job to proto: '' e), st\<lparr>st_jobs := t\<rparr>)
                 | Inr jobProto' \<Rightarrow> (Inr jobProto', st\<lparr>st_jobs := t\<rparr>))))))"

section \<open>The worker service\<close>

definition ListQueuedInternalJobs :: "server_env \<Rightarrow> time \<Rightarrow> context_info \<Rightarrow> server_state \<Rightarrow> go_error + InternalJob list" where
  "ListQueuedInternalJobs env now ctx st = (case extractClusterInfoFromContext (enableAuth env) ctx of Inl e \<Rightarrow> Inl e
     | Inr clusterInfo \<Rightarrow> (case ListQueuedJobsByTenantIDAndClusterID (jobDB env) (collation env) now
            (ci_TenantID clusterInfo) (ci_ClusterID clusterInfo) (st_jobs st) of
         Inl e \<Rightarrow> Inl (internal_error ''list queued jobs: '' e)
     | Inr jobs \<Rightarrow> (case collect (V1InternalJob (jobCodec env)) jobs of
         Inl e \<Rightarrow> Inl (internal_error ''convert job to internal job: '' e)
     | Inr ijobs \<Rightarrow> Inr ijobs)))"

definition GetInternalJob :: "server_env \<Rightarrow> time \<Rightarrow> context_info \<Rightarrow> string \<Rightarrow> server_state \<Rightarrow> go_error + InternalJob" where
  "GetInternalJob env now ctx req_id st = (case extractClusterInfoFromContext (enableAuth env) ctx of Inl e \<Rightarrow> Inl e
     | Inr clusterInfo \<Rightarrow> if req_id = [] then Inl id_required
     else (case GetJobByJobID (jobDB env) now req_id (st_jobs st) of Inl e \<Rightarrow> Inl (get_error ''get job: '' e)
       | Inr job \<Rightarrow> if jTenantID job \<noteq> ci_TenantID clusterInfo then Inl (Status NotFound ''job not found'')
       else (case V1InternalJob (jobCodec env) job of Inl e \<Rightarrow> Inl (internal_error ''convert job to internal job: '' e)
         | Inr jobProto \<Rightarrow> Inr jobProto)))"

text \<open>The write of a terminal phase: mutate the message, then store it with the final state.\<close>

definition finish_job :: "server_env \<Rightarrow> time \<Rightarrow> string \<Rightarrow> Job \<Rightarrow> (v1_job \<Rightarrow> v1_job) \<Rightarrow> JobState \<Rightarrow> Job list \<Rightarrow> (go_error + unit) \<times> Job list" where
  "finish_job env now req_id job mutateFn newState t = (case Job_MutateMessage (jobCodec env) mutateFn job of
       Inl e \<Rightarrow> (Inl (internal_error ''mutate message: '' e), t)
     | Inr job' \<Rightarrow> (case UpdateJobStateAndMessage (jobDB env) now req_id (jVersion job') newState (jMessage job') t of
           (Inl e, t') \<Rightarrow> (Inl (internal_error ''update job state: '' e), t')
         | (Inr _, t') \<Rightarrow> (Inr (), t')))"

definition apply_phase :: "server_env \<Rightarrow> time \<Rightarrow> UpdateJobPhaseRequest \<Rightarrow> Job \<Rightarrow> Job list \<Rightarrow> (go_error + unit) \<times> Job list" where
  "apply_phase env now req job t =
     (if UJP_Phase req = PHASE_UNSPECIFIED then (Inl (Status InvalidArgument ''phase is required''), t)
      else if UJP_Phase req = PHASE_PREPROCESSED then
        (if jState job \<noteq> JobStateQueued then (Inl (Status FailedPrecondition (''job state is not queued: '' @ jState job)), t)
         else if UJP_ModelId req = [] then (Inl (Status InvalidArgument ''model id is required for preprocessed phase''), t)
         else (case UpdateOutputModelID (jobDB env) now (UJP_Id req) (jVersion job) (UJP_ModelId req) t of
             (Inl e, t') \<Rightarrow> (Inl (internal_error ''update output model ID: '' e), t') | (Inr _, t') \<Rightarrow> (Inr (), t')))
      else if UJP_Phase req = PHASE_JOB_CREATED then
        (if jState job \<noteq> JobStateQueued then (Inl (Status FailedPrecondition (''job state is not queued: '' @ jState job)), t)
         else (case UpdateJobState (jobDB env) now (UJP_Id req) (jVersion job) JobStateRunning [] t of
             (Inl e, t') \<Rightarrow> (Inl (internal_error ''update job state: '' e), t') | (Inr _, t') \<Rightarrow> (Inr (), t')))
      else if UJP_Phase req = PHASE_FINETUNED then
        (if jState job \<noteq> JobStateRunning then (Inl (Status FailedPrecondition (''job state is not running: '' @ jState job)), t)
         else if UJP_ModelId req = [] then (Inl (Status InvalidArgument ''model id is required for fine-tuned phase''), t)
         else finish_job env now (UJP_Id req) job
           (\<lambda>j. j\<lparr>Job_FinishedAt := Unix now, Job_FineTunedModel := UJP_ModelId req\<rparr>) JobStateSucceeded t)
      else if UJP_Phase req = PHASE_CANCELED then
        finish_job env now (UJP_Id req) job (\<lambda>j. j\<lparr>Job_FinishedAt := Unix now\<rparr>) JobStateCanceled t
      else if UJP_Phase req = PHASE_FAILED then
        finish_job env now (UJP_Id req) job (\<lambda>j. j\<lparr>Job_FinishedAt := Unix now,
          Job_Error_field := Some \<lparr>Job_Error_Code = [], Job_Error_Message = UJP_Message req, Job_Error_Param = []\<rparr>\<rparr>) JobStateFailed t
      else if UJP_Phase req = PHASE_RECREATE then
        (if jState job \<noteq> JobStateRunning then (Inl (Status FailedPrecondition (''job state is not running: '' @ jState job)), t)
         else (case UpdateJobState (jobDB env) now (UJP_Id req) (jVersion job) JobStateQueued JobQueuedActionCreate t of
             (Inl e, t') \<Rightarrow> (Inl (internal_error ''update job state: '' e), t') | (Inr _, t') \<Rightarrow> (Inr (), t')))
      else (Inl (Status Internal (''unknown phase: '' @ Itoa (UJP_Phase req))), t))"

definition UpdateJobPhase :: "server_env \<Rightarrow> time \<Rightarrow> context_info \<Rightarrow> UpdateJobPhaseRequest \<Rightarrow> server_state \<Rightarrow> (go_error + unit) \<times> server_state" where
  "UpdateJobPhase env now ctx req st = (case extractClusterInfoFromContext (enableAuth env) ctx of Inl e \<Rightarrow> (Inl e, st)
     | Inr clusterInfo \<Rightarrow> if UJP_Id req = [] then (Inl id_required, st)
     else (case GetJobByJobID (jobDB env) now (UJP_Id req) (st_jobs st) of Inl e \<Rightarrow> (Inl (get_error ''get job: '' e), st)
       | Inr job \<Rightarrow> if jTenantID job \<noteq> ci_TenantID clusterInfo then (Inl (Status NotFound ''job not found''), st)
       else (let (res, t) = apply_phase env now req job (st_jobs st) in (res, st\<lparr>st_jobs := t\<rparr>))))"

section \<open>The lifecycle of a job\<close>

text \<open>The edges between pairs of state and queued action, named after the call that takes them.\<close>

inductive job_edge :: "JobState \<times> JobQueuedAction \<Rightarrow> JobState \<times> JobQueuedAction \<Rightarrow> bool" where
  cancel_running: "job_edge (JobStateRunning, a) (JobStateQueued, JobQueuedActionCancel)"
| cancel_queued: "a \<noteq> JobQueuedActionCancel \<Longrightarrow> job_edge (JobStateQueued, a) (JobStateQueued, JobQueuedActionCancel)"
| preprocessed: "job_edge (JobStateQueued, a) (JobStateQueued, a)"
| job_created: "job_edge (JobStateQueued, a) (JobStateRunning, [])"
| finetuned: "job_edge (JobStateRunning, a) (JobStateSucceeded, [])"
| canceled: "job_edge (s, a) (JobStateCanceled, [])"
| failed: "job_edge (s, a) (JobStateFailed, [])"
| recreate: "job_edge (JobStateRunning, a) (JobStateQueued, JobQueuedActionCreate)"

inductive_cases job_edgeE: "job_edge (s, a) (s', a')"

definition job_moves :: "Job \<Rightarrow> Job \<Rightarrow> bool" where
  "job_moves r r' \<longleftrightarrow> job_edge (jState r, jQueuedAction r) (jState r', jQueuedAction r') \<and> jVersion r' = jVersion r + 1 \<and>
     jID r' = jID r \<and> jJobID r' = jJobID r \<and> jProjectID r' = jProjectID r \<and> jTenantID r' = jTenantID r \<and>
     jClusterID r' = jClusterID r \<and> jSuffix r' = jSuffix r \<and> jCreated r' = jCreated r"

definition job_init :: "Job \<Rightarrow> bool" where
  "job_init r \<longleftrightarrow> jState r = JobStateQueued \<and> jQueuedAction r = JobQueuedActionCreate \<and> jVersion r = 0 \<and> 0 < jID r"

text \<open>A queued job has an action for the dispatcher, any other job has none.\<close>

definition job_inv :: "Job \<Rightarrow> bool" where
  "job_inv r \<longleftrightarrow> 0 < jID r \<and> 0 \<le> jVersion r \<and>
     (if jState r = JobStateQueued then jQueuedAction r = JobQueuedActionCreate \<or> jQueuedAction r = JobQueuedActionCancel
      else jState r \<in> {JobStateRunning, JobStateFailed, JobStateSucceeded, JobStateCanceled} \<and> jQueuedAction r = [])"

abbreviation jobs_wf :: "Job list \<Rightarrow> bool" where
  "jobs_wf \<equiv> table_wf jJobID jID job_inv"

abbreviation job_step :: "Job list \<Rightarrow> Job list \<Rightarrow> bool" where
  "job_step \<equiv> table_step jJobID jID job_init job_moves"

interpretation job_life: versioned_lifecycle jJobID jID job_init job_moves job_inv jVersion
proof unfold_locales
  show "job_inv r'" if "job_moves r r'" and "job_inv r" for r r'
    using that by (auto simp: job_moves_def job_inv_def elim!: job_edgeE)
qed (auto simp: job_init_def job_inv_def job_moves_def)

definition job_finished :: "Job \<Rightarrow> bool" where
  "job_finished r \<longleftrightarrow> jState r \<in> {JobStateSucceeded, JobStateFailed, JobStateCanceled}"

lemma job_finished_moves: "job_moves\<^sup>*\<^sup>* r r' \<Longrightarrow> job_finished r \<Longrightarrow> job_finished r'"
  by (induction rule: rtranclp_induct) (auto simp: job_moves_def job_finished_def elim!: job_edgeE)

section \<open>The handlers implement the lifecycle\<close>

lemma jobs_wf_distinct: "jobs_wf t \<Longrightarrow> distinct (map jJobID t)"
  by (simp add: table_wf_def)

lemma job_read:
  assumes "job_db G" and "distinct (map jJobID t)"
  shows "GetJobByJobID G now k t = Inr j \<Longrightarrow> row_of jJobID t k = Some j"
    and "GetJobByJobIDAndProjectID G now k p t = Inr j \<Longrightarrow> row_of jJobID t k = Some j \<and> jProjectID j = p"
  unfolding GetJobByJobID_def GetJobByJobIDAndProjectID_def
  by (auto dest!: gorm.take_found [OF assms(1)] row_of_distinct [OF assms(2)])

lemma UpdateJobState_step:
  assumes "job_db G" and "distinct (map jJobID t)" and "row_of jJobID t k = Some j"
    and "job_edge (jState j, jQueuedAction j) (s, a)" and "UpdateJobState G now k (jVersion j) s a t = (res, t')"
  shows "job_step t t'"
  by (rule gorm.updates_versioned_step [OF assms(1) assms(5) [unfolded UpdateJobState_def] assms(2)])
    (use assms(3,4) in \<open>auto simp: job_moves_def\<close>)

lemma UpdateJobStateAndMessage_step:
  assumes "job_db G" and "distinct (map jJobID t)" and "row_of jJobID t k = Some j"
    and "job_edge (jState j, jQueuedAction j) (s, [])" and "UpdateJobStateAndMessage G now k (jVersion j) s m t = (res, t')"
  shows "job_step t t'"
  by (rule gorm.updates_versioned_step [OF assms(1) assms(5) [unfolded UpdateJobStateAndMessage_def] assms(2)])
    (use assms(3,4) in \<open>auto simp: job_moves_def\<close>)

lemma UpdateOutputModelID_step:
  assumes "job_db G" and "distinct (map jJobID t)" and "row_of jJobID t k = Some j"
    and "jState j = JobStateQueued" and "UpdateOutputModelID G now k (jVersion j) m t = (res, t')"
  shows "job_step t t'"
  by (rule gorm.updates_versioned_step [OF assms(1) assms(5) [unfolded UpdateOutputModelID_def] assms(2)])
    (use assms(3,4) in \<open>auto simp: job_moves_def intro: job_edge.intros\<close>)

lemma finish_job_step:
  assumes "job_db (jobDB env)" and "distinct (map jJobID t)" and "row_of jJobID t k = Some j"
    and "job_edge (jState j, jQueuedAction j) (s, [])" and "finish_job env now k j f s t = (res, t')"
  shows "job_step t t'"
proof (cases "Job_MutateMessage (jobCodec env) f j")
  case (Inl e)
  then show ?thesis using assms(5) by (auto simp: finish_job_def intro: table_step.stay)
next
  case (Inr j')
  have "jVersion j' = jVersion j" using Job_MutateMessage_frame [OF Inr] by (metis Job.select_convs(14) Job.surjective Job.update_convs(9))
  then show ?thesis
    using assms(5) Inr UpdateJobStateAndMessage_step [OF assms(1-4)]
    by (auto simp: finish_job_def split: prod.splits sum.splits)
qed

lemma apply_phase_step:
  assumes "job_db (jobDB env)" and "distinct (map jJobID t)" and "row_of jJobID t (UJP_Id req) = Some j"
    and "apply_phase env now req j t = (res, t')"
  shows "job_step t t'"
  using assms(4) UpdateJobState_step [OF assms(1-3)] UpdateOutputModelID_step [OF assms(1-3)] finish_job_step [OF assms(1-3)]
  by (auto simp: apply_phase_def split: if_splits prod.splits sum.splits intro: table_step.stay) (blast intro: job_edge.intros)+

lemma UpdateJobPhase_step:
  assumes "job_db (jobDB env)" and "distinct (map jJobID (st_jobs st))" and "UpdateJobPhase env now ctx req st = (res, st')"
  shows "job_step (st_jobs st) (st_jobs st')"
  using assms(3) apply_phase_step [OF assms(1,2)] job_read(1) [OF assms(1,2)]
  by (auto simp: UpdateJobPhase_def split: sum.splits if_splits prod.splits intro: table_step.stay) blast

lemma CancelJob_step:
  assumes "job_db (jobDB env)" and "distinct (map jJobID (st_jobs st))" and "CancelJob env now ctx k st = (res, st')"
  shows "job_step (st_jobs st) (st_jobs st')"
  using assms(3) job_read(2) [OF assms(1,2)] UpdateJobState_step [OF assms(1,2)]
  by (auto simp: CancelJob_def split: sum.splits if_splits prod.splits option.splits intro: table_step.stay)
    (metis job_edge.cancel_running job_edge.cancel_queued)+

text \<open>The path of \<^verbatim>\<open>CreateJob\<close> up to the insertion of the row.\<close>

lemma CreateJob_cases:
  assumes "CreateJob env now ctx req st = (Inr p, st')"
  obtains u jobID res n s st1 st2 msg r where "ExtractUserInfo ctx = Some u" "validate_CreateJob env req = Inr ()"
    "GenerateIDForK8SResource env now ''ftjob-'' = Inr jobID" "request_resources req = Inr res" "job_gpu_count res = Inr n"
    "env_Schedule env now u [] n st = (Inr s, st1)"
    "env_AddAssumedPod env now (ui_TenantID u) (sr_ClusterID s) (sr_Namespace s @ ''/'' @ jobID) n st1 = (Inr (), st2)"
    "p = new_job_proto now u req jobID n s" "Marshal (jobCodec env) p = Inr msg"
    "store_CreateJob (jobDB env) now (new_job u req jobID s msg) (st_jobs st2) = (Inr r, st_jobs st')"
    "st' = st2\<lparr>st_jobs := st_jobs st'\<rparr>"
  using assms
  by (auto simp: CreateJob_def Let_def split: option.splits sum.splits prod.splits)

lemma CreateJob_error:
  assumes "job_db (jobDB env)" and "CreateJob env now ctx req st = (Inl e, st')"
  shows "st_jobs st' = st_jobs st"
  using assms(2)
  by (auto simp: CreateJob_def Let_def store_CreateJob_def split: option.splits sum.splits prod.splits
      dest!: env_tables gorm.create_err [OF assms(1)])

lemma new_job_init: "0 < i \<Longrightarrow> job_init (job_stamp i now (new_job u req jobID s msg))"
  by (simp add: job_init_def new_job_def zero_job_def)

lemma CreateJob_step:
  assumes "job_db (jobDB env)" and "CreateJob env now ctx req st = (res, st')"
  shows "job_step (st_jobs st) (st_jobs st')"
proof (cases res)
  case (Inl e)
  then show ?thesis using CreateJob_error [OF assms(1)] assms(2) by (auto intro: table_step.stay)
next
  case (Inr p)
  then obtain u jobID s msg r n st1 st2 where
    sched: "env_Schedule env now u [] n st = (Inr s, st1)"
      "env_AddAssumedPod env now (ui_TenantID u) (sr_ClusterID s) (sr_Namespace s @ ''/'' @ jobID) n st1 = (Inr (), st2)"
    and cr: "store_CreateJob (jobDB env) now (new_job u req jobID s msg) (st_jobs st2) = (Inr r, st_jobs st')"
    using assms(2) by (auto elim!: CreateJob_cases)
  have "st_jobs st2 = st_jobs st" using env_tables(1) [OF sched(1)] env_tables(2) [OF sched(2)] by simp
  then show ?thesis
    using gorm.create_step [OF assms(1) cr [unfolded store_CreateJob_def]] new_job_init by metis
qed

text \<open>An update touches no other row, and a worker changes no job of another tenant.\<close>

lemma job_update_frames:
  assumes "job_db G" and "distinct (map jJobID t)" and "j \<noteq> k"
  shows "UpdateJobState G now k v s a t = (res, t') \<Longrightarrow> row_of jJobID t' j = row_of jJobID t j"
    and "UpdateJobStateAndMessage G now k v s m t = (res, t') \<Longrightarrow> row_of jJobID t' j = row_of jJobID t j"
    and "UpdateOutputModelID G now k v om t = (res, t') \<Longrightarrow> row_of jJobID t' j = row_of jJobID t j"
  unfolding UpdateJobState_def UpdateJobStateAndMessage_def UpdateOutputModelID_def
  by (auto dest!: gorm.updates_versioned_frame [OF assms(1) _ assms(2) _ assms(3)])

lemma UpdateJobPhase_tenant:
  assumes "job_db (jobDB env)" and "distinct (map jJobID (st_jobs st))" and "extractClusterInfoFromContext (enableAuth env) ctx = Inr ci"
    and "row_of jJobID (st_jobs st) j = Some r" and "jTenantID r \<noteq> ci_TenantID ci" and "UpdateJobPhase env now ctx req st = (res, st')"
  shows "row_of jJobID (st_jobs st') j = Some r"
proof (cases "j = UJP_Id req")
  case True
  have "st' = st"
    using assms(3-) job_read(1) [OF assms(1,2)] True by (fastforce simp: UpdateJobPhase_def split: if_splits sum.splits)
  then show ?thesis using assms(4) by simp
next
  case False
  then show ?thesis
    using assms(6,4) job_update_frames [OF assms(1,2) False]
    by (auto simp: UpdateJobPhase_def apply_phase_def finish_job_def split: sum.splits if_splits prod.splits)
qed


lemma job_moves_rows:
  "job_moves\<^sup>*\<^sup>* r r' \<Longrightarrow> jVersion r \<le> jVersion r' \<and> jTenantID r' = jTenantID r \<and> jProjectID r' = jProjectID r \<and> jClusterID r' = jClusterID r"
  by (induction rule: rtranclp_induct) (auto simp: job_moves_def)

lemma job_gpu_count_range: "job_gpu_count res = Inr n \<Longrightarrow> 1 \<le> n \<and> (\<forall>m. res = Some m \<longrightarrow> m \<le> n)"
  by (auto simp: job_gpu_count_def split: option.splits if_splits)

lemma validate_CreateJob_ok:
  "validate_CreateJob env req = Inr () \<Longrightarrow> CJR_Model req \<noteq> [] \<and> CJR_Suffix req \<noteq> [] \<and> length (CJR_Suffix req) \<le> 18 \<and>
     GetFile env (CJR_TrainingFile req) = Inr ()"
  by (auto simp: validate_CreateJob_def validate_CreateJobRequest_def validateFile_def guards_ok split: sum.splits if_splits)

end
