(* ===== verification/Notebooks.thy ===== *)
theory Notebooks
  imports Server
begin

text \<open>
  \<^verbatim>\<open>server/internal/server/notebooks.go\<close> and \<^verbatim>\<open>rescheduler.go\<close>: the handlers of the workspace service for users and
  workers, the background rescheduler, the lifecycle of a notebook, and the proof that the handlers and every round of
  the rescheduler implement it.
\<close>

section \<open>CreateNotebook\<close>

fun check_ports :: "int \<Rightarrow> int list \<Rightarrow> go_error + unit" where
  "check_ports i [] = Inr ()"
| "check_ports i (p # ps) = (if p \<le> 0 \<or> p > 65535
     then Inl (Status InvalidArgument (''exposed port['' @ Itoa i @ ''] must be in the range 1-65535, but got: '' @ Itoa p))
     else check_ports (i + 1) ps)"

definition GetUri :: "CreateNotebookRequest_Image \<Rightarrow> string" where
  "GetUri img = (case img of Image_Uri u \<Rightarrow> u | _ \<Rightarrow> [])"

definition GetType :: "CreateNotebookRequest_Image \<Rightarrow> string" where
  "GetType img = (case img of Image_Type t \<Rightarrow> t | _ \<Rightarrow> [])"

definition notebook_image :: "server_env \<Rightarrow> CreateNotebookRequest_Image option \<Rightarrow> go_error + string" where
  "notebook_image env req_image = (case req_image of None \<Rightarrow> Inl (Status InvalidArgument ''image is required'')
     | Some img \<Rightarrow>
         if GetUri img \<noteq> [] then Inr (GetUri img)
         else if GetType img \<noteq> [] then (case map_of (nbImageTypes env) (GetType img) of
             None \<Rightarrow> Inl (Status InvalidArgument
               (''invalid image type: '' @ GetType img @ '' (available types: '' @ nbImageTypeStr env @ '')''))
           | Some uri \<Rightarrow> Inr uri)
         else Inl (Status InvalidArgument ''image uri or type is required''))"

definition toProjectMessage :: "server_env \<Rightarrow> UserInfo \<Rightarrow> go_error + bytes" where
  "toProjectMessage env userInfo =
     (let akesProto = map (\<lambda>a. \<lparr>ake_ClusterID = ake_ClusterID a, ake_ClusterName = [], ake_Namespace = ake_Namespace a\<rparr>)
            (ui_AssignedKubernetesEnvs userInfo)
      in case Marshal (projectCodec env) \<lparr>Project_Id = ui_ProjectID userInfo, Project_AssignedKubernetesEnvs = akesProto\<rparr> of
        Inl e \<Rightarrow> Inl (internal_error ''marshal assigned kubernetes env: '' e) | Inr proj \<Rightarrow> Inr proj)"

definition scheduleNotebook :: "server_env \<Rightarrow> time \<Rightarrow> Notebook \<Rightarrow> int \<Rightarrow> server_state \<Rightarrow> (go_error + SchedulingResult) \<times> server_state" where
  "scheduleNotebook env now nb gpuCount st = (case RebuildUserInfo (projectCodec env) nb of
       Inl e \<Rightarrow> (Inl (internal_error ''rebuild user info: '' e), st)
     | Inr userInfo \<Rightarrow> (case env_Schedule env now userInfo (nClusterID nb) gpuCount st of
         (Inl e, st1) \<Rightarrow> (Inl (internal_error ''schedule: '' e), st1)
     | (Inr sresult, st1) \<Rightarrow> (case env_AddAssumedPod env now (ui_TenantID userInfo) (sr_ClusterID sresult)
           (sr_Namespace sresult @ ''/'' @ nNotebookID nb) gpuCount st1 of
         (Inl e, st2) \<Rightarrow> (Inl (internal_error ''add assumed pod: '' e), st2)
     | (Inr _, st2) \<Rightarrow> (case GetAPIKey (decrypt env) (dataKey env) nb of Inl e \<Rightarrow> (Inl (internal_error ''get api key: '' e), st2)
     | Inr apiKey \<Rightarrow> (case GetToken (decrypt env) (dataKey env) nb of Inl e \<Rightarrow> (Inl (internal_error ''get token: '' e), st2)
     | Inr token \<Rightarrow> (case NewClient env (sr_ClusterID sresult) apiKey of Inl e \<Rightarrow> (Inl (internal_error ''create k8s client: '' e), st2)
     | Inr _ \<Rightarrow> (case env_k8s env (CreateSecret (sr_ClusterID sresult) (nNotebookID nb) (sr_Namespace sresult)
           [(''OPENAI_API_KEY'', apiKey), (''NOTEBOOK_TOKEN'', token), (''LLMARINER_API_KEY'', apiKey)]) st2 of
         (Inl e, st3) \<Rightarrow> (Inl (internal_error ''create secret: '' e), st3)
     | (Inr _, st3) \<Rightarrow> (Inr sresult, st3))))))))"

definition new_notebook_proto ::
  "time \<Rightarrow> UserInfo \<Rightarrow> CreateNotebookRequest \<Rightarrow> string \<Rightarrow> string \<Rightarrow> string \<Rightarrow> SchedulingResult \<Rightarrow> v1_notebook" where
  "new_notebook_proto now userInfo req nbID img nbToken sresult = empty_v1_notebook\<lparr>
     Notebook_Id := nbID, Notebook_Name := CNR_Name req, Notebook_CreatedAt := Unix now, Notebook_Image := img,
     Notebook_Resources := CNR_Resources req, Notebook_Envs := CNR_Envs req, Notebook_Status := NotebookStateQueued,
     Notebook_ProjectId := ui_ProjectID userInfo, Notebook_OrganizationId := ui_OrganizationID userInfo,
     Notebook_KubernetesNamespace := sr_Namespace sresult, Notebook_ClusterId := sr_ClusterID sresult, Notebook_Token := nbToken,
     Notebook_OrganizationTitle := ui_OrganizationTitle userInfo, Notebook_ProjectTitle := ui_ProjectTitle userInfo,
     Notebook_ClusterName := sr_ClusterName sresult, Notebook_AdditionalExposedPorts := CNR_AdditionalExposedPorts req\<rparr>"

definition new_notebook :: "UserInfo \<Rightarrow> CreateNotebookRequest \<Rightarrow> string \<Rightarrow> bytes \<Rightarrow> Notebook" where
  "new_notebook userInfo req nbID proj = zero_notebook\<lparr>nNotebookID := nbID, nProjectMessage := proj,
     nState := NotebookStateQueued, nQueuedAction := NotebookQueuedActionStart, nTenantID := ui_TenantID userInfo,
     nProjectID := ui_ProjectID userInfo, nName := CNR_Name req\<rparr>"

text \<open>The checks of the request, in the order of the source; the image is their result.\<close>

definition validate_CreateNotebook :: "server_env \<Rightarrow> time \<Rightarrow> UserInfo \<Rightarrow> CreateNotebookRequest \<Rightarrow> server_state \<Rightarrow> go_error + string" where
  "validate_CreateNotebook env now userInfo req st =
     (if CNR_Name req = [] then Inl (Status InvalidArgument ''name is required'')
      else case check_ports 0 (CNR_AdditionalExposedPorts req) of Inl e \<Rightarrow> Inl e
      | Inr _ \<Rightarrow> (case notebook_image env (CNR_Image req) of Inl e \<Rightarrow> Inl e
      | Inr img \<Rightarrow> (case GetActiveNotebookByNameAndProjectID (notebookDB env) now (CNR_Name req) (ui_ProjectID userInfo) (st_notebooks st) of
          Inr _ \<Rightarrow> Inl (Status AlreadyExists (''notebook '' @ Quote (CNR_Name req) @ '' already exists''))
        | Inl e \<Rightarrow> if \<not> errors_Is e ErrRecordNotFound then Inl (internal_error ''get notebook: '' e) else Inr img)))"

definition CreateNotebook :: "server_env \<Rightarrow> time \<Rightarrow> context_info \<Rightarrow> CreateNotebookRequest \<Rightarrow> server_state \<Rightarrow> (go_error + v1_notebook) \<times> server_state" where
  "CreateNotebook env now ctx req st = (case ExtractUserInfo ctx of None \<Rightarrow> (Inl unauthenticated, st)
     | Some userInfo \<Rightarrow> (case validate_CreateNotebook env now userInfo req st of Inl e \<Rightarrow> (Inl e, st)
     | Inr img \<Rightarrow> (case GenerateIDForK8SResource env now ''nb-'' of Inl e \<Rightarrow> (Inl (internal_error ''generate notebook id: '' e), st)
     | Inr nbID \<Rightarrow> (let gpuCount = (case CNR_Resources req of None \<Rightarrow> 0 | Some r \<Rightarrow> Res_GpuCount r)
       in case toProjectMessage env userInfo of Inl e \<Rightarrow> (Inl e, st)
     | Inr proj \<Rightarrow> (case ExtractToken ctx of Inl e \<Rightarrow> (Inl e, st)
     | Inr apikey \<Rightarrow> (case GenerateID env now [] 48 of Inl e \<Rightarrow> (Inl (internal_error ''generate notebook token: '' e), st)
     | Inr nbToken \<Rightarrow> (case SetAPIKey (encrypt env) apikey (dataKey env) (new_notebook userInfo req nbID proj) of
         Inl e \<Rightarrow> (Inl (internal_error ''set api key: '' e), st)
     | Inr nb1 \<Rightarrow> (case SetToken (encrypt env) nbToken (dataKey env) nb1 of Inl e \<Rightarrow> (Inl (internal_error ''set token: '' e), st)
     | Inr nb2 \<Rightarrow> (case scheduleNotebook env now nb2 gpuCount st of (Inl e, st1) \<Rightarrow> (Inl (internal_error ''schedule: '' e), st1)
     | (Inr sresult, st1) \<Rightarrow>
         let nbProto = new_notebook_proto now userInfo req nbID img nbToken sresult
         in (case Marshal (notebookCodec env) nbProto of Inl e \<Rightarrow> (Inl (internal_error ''marshal notebook: '' e), st1)
            | Inr msg \<Rightarrow> (case store_CreateNotebook (notebookDB env) now (nb2\<lparr>nClusterID := sr_ClusterID sresult, nMessage := msg\<rparr>) (st_notebooks st1) of
                (Inl e, t) \<Rightarrow> (Inl (internal_error ''create notebook: '' e), st1\<lparr>st_notebooks := t\<rparr>)
              | (Inr _, t) \<Rightarrow> (Inr nbProto, st1\<lparr>st_notebooks := t\<rparr>))))))))))))"

section \<open>The other user handlers\<close>

definition ListNotebooks :: "server_env \<Rightarrow> time \<Rightarrow> context_info \<Rightarrow> ListRequest \<Rightarrow> server_state \<Rightarrow> go_error + ListNotebooksResponse" where
  "ListNotebooks env now ctx req st = (case ExtractUserInfo ctx of None \<Rightarrow> Inl (Errorf ''failed to extract user info from context'')
     | Some userInfo \<Rightarrow> (case page_limit (LR_Limit req) of Inl e \<Rightarrow> Inl e
     | Inr limit \<Rightarrow> (case (if LR_After req \<noteq> [] then
            (case GetNotebookByIDAndProjectID (notebookDB env) now (LR_After req) (ui_ProjectID userInfo) (st_notebooks st) of
               Inl e \<Rightarrow> Inl (if errors_Is e ErrRecordNotFound then Status InvalidArgument (''invalid after: '' @ Error e)
                  else internal_error ''get notebook: '' e)
             | Inr nb \<Rightarrow> Inr (nID nb)) else Inr 0) of Inl e \<Rightarrow> Inl e
     | Inr afterID \<Rightarrow> (case ListActiveNotebooksByProjectIDWithPagination (notebookDB env) now (ui_ProjectID userInfo) afterID limit (st_notebooks st) of
         Inl e \<Rightarrow> Inl (internal_error ''find notebooks: '' e)
     | Inr (nbs, hasMore) \<Rightarrow> (case collect (V1Notebook (notebookCodec env)) nbs of Inl e \<Rightarrow> Inl (internal_error ''convert notebook to proto: '' e)
     | Inr nbProtos \<Rightarrow> (case CountActiveNotebooksByProjectID (notebookDB env) now (ui_ProjectID userInfo) (st_notebooks st) of
         Inl e \<Rightarrow> Inl (internal_error ''count notebooks: '' e)
     | Inr totalItems \<Rightarrow> Inr \<lparr>LNR_Notebooks = nbProtos, LNR_HasMore = hasMore, LNR_TotalItems = int32 totalItems\<rparr>))))))"

definition GetNotebook :: "server_env \<Rightarrow> time \<Rightarrow> context_info \<Rightarrow> string \<Rightarrow> server_state \<Rightarrow> go_error + v1_notebook" where
  "GetNotebook env now ctx req_id st = (case ExtractUserInfo ctx of None \<Rightarrow> Inl (Errorf ''failed to extract user info from context'')
     | Some userInfo \<Rightarrow> if req_id = [] then Inl id_required
     else (case GetNotebookByIDAndProjectID (notebookDB env) now req_id (ui_ProjectID userInfo) (st_notebooks st) of
         Inl e \<Rightarrow> Inl (get_error ''get notebook: '' e)
       | Inr nb \<Rightarrow> (case V1Notebook (notebookCodec env) nb of Inl e \<Rightarrow> Inl (internal_error ''convert notebook to proto: '' e)
       | Inr nbProto \<Rightarrow> Inr nbProto)))"

text \<open>The common tail of \<^verbatim>\<open>StopNotebook\<close> and \<^verbatim>\<open>StartNotebook\<close>.\<close>

definition queue_notebook :: "server_env \<Rightarrow> time \<Rightarrow> Notebook \<Rightarrow> NotebookQueuedAction \<Rightarrow> server_state \<Rightarrow> (go_error + v1_notebook) \<times> server_state" where
  "queue_notebook env now nb newAction st =
     (case SetNotebookQueuedAction (notebookDB env) now (nNotebookID nb) (nVersion nb) newAction (st_notebooks st) of
        (Inl e, t) \<Rightarrow> (Inl (internal_error ''update notebook state: '' e), st\<lparr>st_notebooks := t\<rparr>)
      | (Inr nb', t) \<Rightarrow> (case V1Notebook (notebookCodec env) nb' of
            Inl e \<Rightarrow> (Inl (internal_error ''convert notebook to proto: '' e), st\<lparr>st_notebooks := t\<rparr>)
          | Inr nbProto \<Rightarrow> (Inr nbProto, st\<lparr>st_notebooks := t\<rparr>)))"

definition StopNotebook :: "server_env \<Rightarrow> time \<Rightarrow> context_info \<Rightarrow> string \<Rightarrow> server_state \<Rightarrow> (go_error + v1_notebook) \<times> server_state" where
  "StopNotebook env now ctx req_id st = (case ExtractUserInfo ctx of None \<Rightarrow> (Inl unauthenticated, st)
     | Some userInfo \<Rightarrow> if req_id = [] then (Inl id_required, st)
     else (case GetNotebookByIDAndProjectID (notebookDB env) now req_id (ui_ProjectID userInfo) (st_notebooks st) of
         Inl e \<Rightarrow> (Inl (get_error ''get notebook: '' e), st)
       | Inr nb \<Rightarrow> (case V1Notebook (notebookCodec env) nb of Inl e \<Rightarrow> (Inl (internal_error ''convert notebook to proto: '' e), st)
       | Inr nbProto \<Rightarrow>
           if nState nb \<in> {NotebookStateFailed, NotebookStateStopped} then (Inr nbProto, st)
           else if nState nb \<in> {NotebookStateInitializing, NotebookStateRunning, NotebookStateRequeued} then
             queue_notebook env now nb NotebookQueuedActionStop st
           else if nState nb = NotebookStateQueued then
             (if nQueuedAction nb = NotebookQueuedActionStop \<or> nQueuedAction nb = NotebookQueuedActionDelete then (Inr nbProto, st)
              else queue_notebook env now nb NotebookQueuedActionStop st)
           else (Inl (Status Internal (''unknown notebook state: '' @ nState nb)), st))))"

definition StartNotebook :: "server_env \<Rightarrow> time \<Rightarrow> context_info \<Rightarrow> string \<Rightarrow> server_state \<Rightarrow> (go_error + v1_notebook) \<times> server_state" where
  "StartNotebook env now ctx req_id st = (case ExtractUserInfo ctx of None \<Rightarrow> (Inl unauthenticated, st)
     | Some userInfo \<Rightarrow> if req_id = [] then (Inl id_required, st)
     else (case GetNotebookByIDAndProjectID (notebookDB env) now req_id (ui_ProjectID userInfo) (st_notebooks st) of
         Inl e \<Rightarrow> (Inl (get_error ''get notebook: '' e), st)
       | Inr nb \<Rightarrow> (case V1Notebook (notebookCodec env) nb of Inl e \<Rightarrow> (Inl (internal_error ''convert notebook to proto: '' e), st)
       | Inr nbProto \<Rightarrow>
           if nState nb \<in> {NotebookStateFailed, NotebookStateInitializing, NotebookStateRunning, NotebookStateRequeued} then (Inr nbProto, st)
           else if nState nb = NotebookStateStopped then queue_notebook env now nb NotebookQueuedActionStart st
           else if nState nb = NotebookStateQueued then
             (if nQueuedAction nb = NotebookQueuedActionStart \<or> nQueuedAction nb = NotebookQueuedActionDelete then (Inr nbProto, st)
              else queue_notebook env now nb NotebookQueuedActionStart st)
           else (Inl (Status Internal (''unknown notebook state: '' @ nState nb)), st))))"

definition DeleteNotebook :: "server_env \<Rightarrow> time \<Rightarrow> context_info \<Rightarrow> string \<Rightarrow> server_state \<Rightarrow> (go_error + unit) \<times> server_state" where
  "DeleteNotebook env now ctx req_id st = (case ExtractUserInfo ctx of None \<Rightarrow> (Inl unauthenticated, st)
     | Some userInfo \<Rightarrow> if req_id = [] then (Inl id_required, st)
     else (case GetNotebookByIDAndProjectID (notebookDB env) now req_id (ui_ProjectID userInfo) (st_notebooks st) of
         Inl e \<Rightarrow> (Inl (get_error ''get notebook: '' e), st)
       | Inr nb \<Rightarrow>
           if nQueuedAction nb \<noteq> NotebookQueuedActionDelete then
             (case SetNotebookQueuedAction (notebookDB env) now (nNotebookID nb) (nVersion nb) NotebookQueuedActionDelete (st_notebooks st) of
                (Inl e, t) \<Rightarrow> (Inl (internal_error ''update notebook state: '' e), st\<lparr>st_notebooks := t\<rparr>)
              | (Inr _, t) \<Rightarrow> (Inr (), st\<lparr>st_notebooks := t\<rparr>))
           else (Inr (), st)))"

section \<open>The worker service\<close>

definition ListQueuedInternalNotebooks :: "server_env \<Rightarrow> time \<Rightarrow> context_info \<Rightarrow> server_state \<Rightarrow> go_error + InternalNotebook list" where
  "ListQueuedInternalNotebooks env now ctx st = (case extractClusterInfoFromContext (enableAuth env) ctx of Inl e \<Rightarrow> Inl e
     | Inr clusterInfo \<Rightarrow> (case ListQueuedNotebooksByTenantIDAndClusterID (notebookDB env) now
            (ci_TenantID clusterInfo) (ci_ClusterID clusterInfo) (st_notebooks st) of
         Inl e \<Rightarrow> Inl (internal_error ''list queued notebooks: '' e)
     | Inr nbs \<Rightarrow> (case collect (V1InternalNotebook (notebookCodec env)) nbs of
         Inl e \<Rightarrow> Inl (internal_error ''convert notebook to proto: '' e)
     | Inr inbs \<Rightarrow> Inr inbs)))"

definition convertNotebookState :: "int \<Rightarrow> NotebookState" where
  "convertNotebookState s = ToLower (enum_String NotebookState_name s)"

text \<open>The write of a state that is not queued: mutate the message, then store it.\<close>

definition settle_notebook ::
  "server_env \<Rightarrow> time \<Rightarrow> Notebook \<Rightarrow> (v1_notebook \<Rightarrow> v1_notebook) \<Rightarrow> NotebookState \<Rightarrow> string \<Rightarrow> Notebook list \<Rightarrow> (go_error + unit) \<times> Notebook list" where
  "settle_notebook env now nb mutateFn newState reason t = (case Notebook_MutateMessage (notebookCodec env) mutateFn nb of
       Inl e \<Rightarrow> (Inl (internal_error ''mutate message: '' e), t)
     | Inr nb' \<Rightarrow> (case SetNonQueuedStateAndMessage (notebookDB env) now (nNotebookID nb') (nVersion nb') newState (nMessage nb') reason t of
           (Inl e, t') \<Rightarrow> (Inl (internal_error ''set non queued state and message: '' e), t')
         | (Inr _, t') \<Rightarrow> (Inr (), t')))"

definition apply_notebook_state :: "server_env \<Rightarrow> time \<Rightarrow> UpdateNotebookStateRequest \<Rightarrow> Notebook \<Rightarrow> Notebook list \<Rightarrow> (go_error + unit) \<times> Notebook list" where
  "apply_notebook_state env now req nb t =
     (if nState nb = convertNotebookState (UNS_State req) then (Inr (), t)
      else if UNS_State req = NotebookState_STATE_UNSPECIFIED then (Inl (Status InvalidArgument ''state is required''), t)
      else if UNS_State req = NotebookState_INITIALIZING then
        (if nState nb \<noteq> NotebookStateQueued then (Inl (Status FailedPrecondition (''notebook is not queued state: '' @ nState nb)), t)
         else if nQueuedAction nb \<noteq> NotebookQueuedActionStart then
           (Inl (Status FailedPrecondition (''notebook is not starting: '' @ nQueuedAction nb)), t)
         else settle_notebook env now nb (\<lambda>p. p\<lparr>Notebook_StartedAt := (if Notebook_StartedAt p = 0 then Unix now else Notebook_StartedAt p),
           Notebook_StoppedAt := 0\<rparr>) NotebookStateInitializing (UNS_Reason req) t)
      else if UNS_State req = NotebookState_RUNNING then
        (if nState nb = NotebookStateQueued \<and> nQueuedAction nb = NotebookQueuedActionRequeue then (Inr (), t)
         else if nState nb \<noteq> NotebookStateInitializing then
           (Inl (Status FailedPrecondition (''notebook is not initializing state: '' @ nState nb)), t)
         else (case SetState (notebookDB env) now (nNotebookID nb) (nVersion nb) NotebookStateRunning t of
             (Inl e, t') \<Rightarrow> (Inl (internal_error ''set state: '' e), t') | (Inr _, t') \<Rightarrow> (Inr (), t')))
      else if UNS_State req = NotebookState_STOPPED then
        (if nState nb \<noteq> NotebookStateQueued then (Inl (Status FailedPrecondition (''notebook is not queued state: '' @ nState nb)), t)
         else if nQueuedAction nb \<noteq> NotebookQueuedActionStop then
           (Inl (Status FailedPrecondition (''notebook is not stopping: '' @ nQueuedAction nb)), t)
         else settle_notebook env now nb (\<lambda>p. p\<lparr>Notebook_StartedAt := 0, Notebook_StoppedAt := Unix now\<rparr>) NotebookStateStopped (UNS_Reason req) t)
      else if UNS_State req = NotebookState_DELETED then
        (if nState nb \<noteq> NotebookStateQueued then (Inl (Status FailedPrecondition (''notebook is not queued state: '' @ nState nb)), t)
         else if nQueuedAction nb \<noteq> NotebookQueuedActionDelete then
           (Inl (Status FailedPrecondition (''notebook is not deleting: '' @ nQueuedAction nb)), t)
         else settle_notebook env now nb (\<lambda>p. p\<lparr>Notebook_StartedAt := 0,
           Notebook_StoppedAt := (if Notebook_StoppedAt p = 0 then Unix now else Notebook_StoppedAt p)\<rparr>) NotebookStateDeleted (UNS_Reason req) t)
      else if UNS_State req = NotebookState_REQUEUED then
        (if nState nb \<noteq> NotebookStateQueued then (Inl (Status FailedPrecondition (''notebook is not queued: '' @ nState nb)), t)
         else if nQueuedAction nb \<noteq> NotebookQueuedActionRequeue then
           (Inl (Status FailedPrecondition (''notebook is not requeueing: '' @ nQueuedAction nb)), t)
         else (case Notebook_MutateMessage (notebookCodec env) (\<lambda>p. p) nb of Inl e \<Rightarrow> (Inl (internal_error ''mutate message: '' e), t)
           | Inr nb' \<Rightarrow> (case UpdateNotebookForRescheduling (notebookDB env) now (nb'\<lparr>nState := NotebookStateRequeued, nReason := []\<rparr>) t of
               (Inl e, t') \<Rightarrow> (Inl (internal_error ''update notebook: '' e), t') | (Inr _, t') \<Rightarrow> (Inr (), t'))))
      else if UNS_State req = NotebookState_QUEUED \<or> UNS_State req = NotebookState_FAILED then
        (Inl (Status FailedPrecondition (''unexpected state: '' @ enum_String NotebookState_name (UNS_State req))), t)
      else (Inl (Status InvalidArgument (''unknown state: '' @ enum_String NotebookState_name (UNS_State req))), t))"

definition UpdateNotebookState :: "server_env \<Rightarrow> time \<Rightarrow> context_info \<Rightarrow> UpdateNotebookStateRequest \<Rightarrow> server_state \<Rightarrow> (go_error + unit) \<times> server_state" where
  "UpdateNotebookState env now ctx req st = (case extractClusterInfoFromContext (enableAuth env) ctx of Inl e \<Rightarrow> (Inl e, st)
     | Inr clusterInfo \<Rightarrow> if UNS_Id req = [] then (Inl id_required, st)
     else (case GetNotebookByID (notebookDB env) now (UNS_Id req) (st_notebooks st) of
         Inl e \<Rightarrow> (Inl (if errors_Is e ErrRecordNotFound then Status NotFound ''notebook not found'' else internal_error ''get notebook: '' e), st)
       | Inr nb \<Rightarrow> if nTenantID nb \<noteq> ci_TenantID clusterInfo then (Inl (Status NotFound ''notebook not found''), st)
       else (let (res, t) = apply_notebook_state env now req nb (st_notebooks st) in (res, st\<lparr>st_notebooks := t\<rparr>))))"

section \<open>The rescheduler\<close>

abbreviation (input) pullingImageReason :: string where "pullingImageReason \<equiv> ''Pulling''"

fun requeue_loop :: "server_env \<Rightarrow> time \<Rightarrow> duration \<Rightarrow> Notebook list \<Rightarrow> server_state \<Rightarrow> (go_error + unit) \<times> server_state" where
  "requeue_loop env now maxQueuedTime [] st = (Inr (), st)"
| "requeue_loop env now maxQueuedTime (nb # nbs) st =
     (if Contains (nReason nb) pullingImageReason then requeue_loop env now maxQueuedTime nbs st
      else if nUpdatedAt nb + maxQueuedTime < now then
        (case UpdateNotebookForRescheduling (notebookDB env) now
            (nb\<lparr>nState := NotebookStateQueued, nQueuedAction := NotebookQueuedActionRequeue\<rparr>) (st_notebooks st) of
           (Inl e, t) \<Rightarrow> (Inl (Wrapf (''requeue a notebook '' @ nNotebookID nb @ '': '') e), st\<lparr>st_notebooks := t\<rparr>)
         | (Inr _, t) \<Rightarrow> requeue_loop env now maxQueuedTime nbs (st\<lparr>st_notebooks := t\<rparr>))
      else requeue_loop env now maxQueuedTime nbs st)"

fun reschedule_loop :: "server_env \<Rightarrow> time \<Rightarrow> Notebook list \<Rightarrow> server_state \<Rightarrow> (go_error + unit) \<times> server_state" where
  "reschedule_loop env now [] st = (Inr (), st)"
| "reschedule_loop env now (nb # nbs) st = (case V1Notebook (notebookCodec env) nb of
       Inl e \<Rightarrow> (Inl (Wrapf (''reschedule a notebook '' @ nNotebookID nb @ '': '') e), st)
     | Inr nbProto \<Rightarrow>
         let gpuCount = (case Notebook_Resources nbProto of None \<Rightarrow> 0 | Some r \<Rightarrow> Res_GpuCount r)
         in (case scheduleNotebook env now nb gpuCount st of
           (Inl e, st1) \<Rightarrow> reschedule_loop env now nbs st1
         | (Inr sresult, st1) \<Rightarrow> (case Notebook_MutateMessage (notebookCodec env)
               (\<lambda>p. p\<lparr>Notebook_Status := NotebookStateQueued, Notebook_ClusterId := sr_ClusterID sresult,
                  Notebook_ClusterName := sr_ClusterName sresult, Notebook_KubernetesNamespace := sr_Namespace sresult\<rparr>)
               (nb\<lparr>nReason := [], nState := NotebookStateQueued, nQueuedAction := NotebookQueuedActionStart, nClusterID := sr_ClusterID sresult\<rparr>) of
             Inl e \<Rightarrow> (Inl e, st1)
           | Inr nb' \<Rightarrow> (case UpdateNotebookForRescheduling (notebookDB env) now nb' (st_notebooks st1) of
               (Inl e, t) \<Rightarrow> (Inl (Wrapf (''reschedule a notebook '' @ nNotebookID nb @ '': '') e), st1\<lparr>st_notebooks := t\<rparr>)
             | (Inr _, t) \<Rightarrow> reschedule_loop env now nbs (st1\<lparr>st_notebooks := t\<rparr>)))))"

definition rescheduleNotebooks :: "server_env \<Rightarrow> time \<Rightarrow> duration \<Rightarrow> server_state \<Rightarrow> (go_error + unit) \<times> server_state" where
  "rescheduleNotebooks env now maxQueuedTime st =
     (case ListNotebooksByState (notebookDB env) now NotebookStateInitializing (st_notebooks st) of Inl e \<Rightarrow> (Inl e, st)
      | Inr nbs \<Rightarrow> (case requeue_loop env now maxQueuedTime nbs st of (Inl e, st1) \<Rightarrow> (Inl e, st1)
      | (Inr _, st1) \<Rightarrow> (case ListNotebooksByState (notebookDB env) now NotebookStateRequeued (st_notebooks st1) of
            Inl e \<Rightarrow> (Inl (Wrapf ''reschedule notebooks: '' e), st1)
          | Inr nbs' \<Rightarrow> reschedule_loop env now nbs' st1)))"

text \<open>\<^verbatim>\<open>RunRescheduler\<close>: a round at the start, then one per tick until the context is done. \<open>ticks\<close> are the times of the
  ticks delivered before that, and \<open>ctxErr\<close> is the error of the done context. A failed round in the loop returns
  \<^verbatim>\<open>ctx.Err()\<close>, which is nil while the context is alive, and not the error of the round.\<close>

fun rescheduler_loop :: "server_env \<Rightarrow> duration \<Rightarrow> time list \<Rightarrow> go_error \<Rightarrow> server_state \<Rightarrow> (go_error + unit) \<times> server_state" where
  "rescheduler_loop env maxQueuedTime [] ctxErr st = (Inl ctxErr, st)"
| "rescheduler_loop env maxQueuedTime (now # ticks) ctxErr st = (case rescheduleNotebooks env now maxQueuedTime st of
       (Inl e, st1) \<Rightarrow> (Inr (), st1)
     | (Inr _, st1) \<Rightarrow> rescheduler_loop env maxQueuedTime ticks ctxErr st1)"

definition RunRescheduler :: "server_env \<Rightarrow> time \<Rightarrow> duration \<Rightarrow> time list \<Rightarrow> go_error \<Rightarrow> server_state \<Rightarrow> (go_error + unit) \<times> server_state" where
  "RunRescheduler env start maxQueuedTime ticks ctxErr st = (case rescheduleNotebooks env start maxQueuedTime st of
       (Inl e, st1) \<Rightarrow> (Inl e, st1)
     | (Inr _, st1) \<Rightarrow> rescheduler_loop env maxQueuedTime ticks ctxErr st1)"

section \<open>The lifecycle of a notebook\<close>

inductive notebook_edge :: "NotebookState \<times> NotebookQueuedAction \<Rightarrow> NotebookState \<times> NotebookQueuedAction \<Rightarrow> bool" where
  stop: "s \<in> {NotebookStateInitializing, NotebookStateRunning, NotebookStateRequeued} \<or>
     s = NotebookStateQueued \<and> a \<notin> {NotebookQueuedActionStop, NotebookQueuedActionDelete} \<Longrightarrow>
     notebook_edge (s, a) (NotebookStateQueued, NotebookQueuedActionStop)"
| start: "s = NotebookStateStopped \<or> s = NotebookStateQueued \<and> a \<notin> {NotebookQueuedActionStart, NotebookQueuedActionDelete} \<Longrightarrow>
     notebook_edge (s, a) (NotebookStateQueued, NotebookQueuedActionStart)"
| delete: "a \<noteq> NotebookQueuedActionDelete \<Longrightarrow> notebook_edge (s, a) (NotebookStateQueued, NotebookQueuedActionDelete)"
| initializing: "notebook_edge (NotebookStateQueued, NotebookQueuedActionStart) (NotebookStateInitializing, [])"
| running: "notebook_edge (NotebookStateInitializing, a) (NotebookStateRunning, a)"
| stopped: "notebook_edge (NotebookStateQueued, NotebookQueuedActionStop) (NotebookStateStopped, [])"
| deleted: "notebook_edge (NotebookStateQueued, NotebookQueuedActionDelete) (NotebookStateDeleted, [])"
| requeue: "notebook_edge (NotebookStateInitializing, a) (NotebookStateQueued, NotebookQueuedActionRequeue)"
| requeued: "notebook_edge (NotebookStateQueued, NotebookQueuedActionRequeue) (NotebookStateRequeued, NotebookQueuedActionRequeue)"
| reschedule: "notebook_edge (NotebookStateRequeued, a) (NotebookStateQueued, NotebookQueuedActionStart)"

inductive_cases notebook_edgeE: "notebook_edge (s, a) (s', a')"

text \<open>A move keeps the identity of the notebook; its cluster changes only when it is rescheduled.\<close>

definition notebook_moves :: "Notebook \<Rightarrow> Notebook \<Rightarrow> bool" where
  "notebook_moves r r' \<longleftrightarrow> notebook_edge (nState r, nQueuedAction r) (nState r', nQueuedAction r') \<and> nVersion r' = nVersion r + 1 \<and>
     nID r' = nID r \<and> nNotebookID r' = nNotebookID r \<and> nProjectID r' = nProjectID r \<and> nTenantID r' = nTenantID r \<and>
     nName r' = nName r \<and> nProjectMessage r' = nProjectMessage r \<and>
     (nClusterID r' = nClusterID r \<or> nState r = NotebookStateRequeued \<and> nState r' = NotebookStateQueued \<and>
        nQueuedAction r' = NotebookQueuedActionStart)"

definition notebook_init :: "Notebook \<Rightarrow> bool" where
  "notebook_init r \<longleftrightarrow> nState r = NotebookStateQueued \<and> nQueuedAction r = NotebookQueuedActionStart \<and> nVersion r = 0 \<and> 0 < nID r"

definition notebook_inv :: "Notebook \<Rightarrow> bool" where
  "notebook_inv r \<longleftrightarrow> 0 < nID r \<and> 0 \<le> nVersion r \<and>
     (if nState r = NotebookStateQueued then nQueuedAction r \<in> {NotebookQueuedActionStart, NotebookQueuedActionStop,
          NotebookQueuedActionDelete, NotebookQueuedActionRequeue}
      else if nState r = NotebookStateRequeued then nQueuedAction r = NotebookQueuedActionRequeue
      else nState r \<in> {NotebookStateInitializing, NotebookStateRunning, NotebookStateStopped, NotebookStateDeleted} \<and> nQueuedAction r = [])"

abbreviation notebooks_wf :: "Notebook list \<Rightarrow> bool" where
  "notebooks_wf \<equiv> table_wf nNotebookID nID notebook_inv"

abbreviation notebook_step :: "Notebook list \<Rightarrow> Notebook list \<Rightarrow> bool" where
  "notebook_step \<equiv> table_step nNotebookID nID notebook_init notebook_moves"

lemma notebook_moves_inv: "notebook_moves r r' \<Longrightarrow> notebook_inv r \<Longrightarrow> notebook_inv r'"
  by (auto simp: notebook_moves_def notebook_inv_def elim!: notebook_edgeE)

interpretation notebook_life: versioned_lifecycle nNotebookID nID notebook_init notebook_moves notebook_inv nVersion
proof unfold_locales
  show "notebook_inv r'" if "notebook_moves r r'" and "notebook_inv r" for r r'
    using that by (rule notebook_moves_inv)
qed (auto simp: notebook_init_def notebook_inv_def notebook_moves_def)

section \<open>The handlers implement the lifecycle\<close>

lemma notebook_read:
  assumes "notebook_db G" and "distinct (map nNotebookID t)"
  shows "GetNotebookByID G now k t = Inr n \<Longrightarrow> row_of nNotebookID t k = Some n"
    and "GetNotebookByIDAndProjectID G now k p t = Inr n \<Longrightarrow> row_of nNotebookID t k = Some n \<and> nProjectID n = p"
  unfolding GetNotebookByID_def GetNotebookByIDAndProjectID_def
  by (auto dest!: gorm.take_found [OF assms(1)] row_of_distinct [OF assms(2)])

text \<open>The four updates of the store as steps. \<open>j\<close> is the row the handler read; the row updated is the same one.\<close>

lemma SetNotebookQueuedAction_step:
  assumes "notebook_db G" and "distinct (map nNotebookID t)" and "row_of nNotebookID t k = Some j"
    and "SetNotebookQueuedAction G now k (nVersion j) a t = (res, t')"
    and "notebook_edge (nState j, nQueuedAction j) (NotebookStateQueued, a)"
  shows "notebook_step t t'"
  by (rule gorm.updates_versioned_step [OF assms(1) assms(4) [unfolded SetNotebookQueuedAction_def] assms(2)])
    (use assms(3,5) in \<open>auto simp: notebook_moves_def\<close>)

lemma SetState_step:
  assumes "notebook_db G" and "distinct (map nNotebookID t)" and "row_of nNotebookID t k = Some j"
    and "SetState G now k (nVersion j) s t = (res, t')" and "notebook_edge (nState j, nQueuedAction j) (s, nQueuedAction j)"
  shows "notebook_step t t'"
  by (rule gorm.updates_versioned_step [OF assms(1) assms(4) [unfolded SetState_def] assms(2)])
    (use assms(3,5) in \<open>auto simp: notebook_moves_def\<close>)

lemma SetNonQueuedStateAndMessage_step:
  assumes "notebook_db G" and "distinct (map nNotebookID t)" and "row_of nNotebookID t k = Some j"
    and "SetNonQueuedStateAndMessage G now k (nVersion j) s m r t = (res, t')"
    and "notebook_edge (nState j, nQueuedAction j) (s, [])"
  shows "notebook_step t t'"
  by (rule gorm.updates_versioned_step [OF assms(1) assms(4) [unfolded SetNonQueuedStateAndMessage_def] assms(2)])
    (use assms(3,5) in \<open>auto simp: notebook_moves_def\<close>)

lemma UpdateNotebookForRescheduling_step:
  assumes "notebook_db G" and "distinct (map nNotebookID t)"
    and "UpdateNotebookForRescheduling G now nb t = (res, t')"
    and "\<And>j. row_of nNotebookID t (nNotebookID nb) = Some j \<Longrightarrow> nVersion j = nVersion nb \<Longrightarrow>
      notebook_edge (nState j, nQueuedAction j) (nState nb, nQueuedAction nb) \<and> (nClusterID nb = nClusterID j \<or>
        nState j = NotebookStateRequeued \<and> nState nb = NotebookStateQueued \<and> nQueuedAction nb = NotebookQueuedActionStart)"
  shows "notebook_step t t'"
  by (rule gorm.updates_versioned_step [OF assms(1) assms(3) [unfolded UpdateNotebookForRescheduling_def] assms(2)])
    (use assms(4) in \<open>auto simp: notebook_moves_def\<close>)

lemma Notebook_MutateMessage_sel:
  assumes "Notebook_MutateMessage C f n = Inr n'"
  shows "nVersion n' = nVersion n" "nNotebookID n' = nNotebookID n" "nState n' = nState n" "nQueuedAction n' = nQueuedAction n"
    "nClusterID n' = nClusterID n" "nReason n' = nReason n"
  using assms by (auto simp: Notebook_MutateMessage_def split: sum.splits)

lemma settle_notebook_step:
  assumes "notebook_db (notebookDB env)" and "distinct (map nNotebookID t)" and "row_of nNotebookID t (nNotebookID j) = Some j"
    and "settle_notebook env now j f s r t = (res, t')" and "notebook_edge (nState j, nQueuedAction j) (s, [])"
  shows "notebook_step t t'"
proof (cases "Notebook_MutateMessage (notebookCodec env) f j")
  case (Inl e)
  then show ?thesis using assms(4) by (auto simp: settle_notebook_def intro: table_step.stay)
next
  case (Inr j')
  note sel = Notebook_MutateMessage_sel [OF Inr]
  obtain r1 t1 where upd: "SetNonQueuedStateAndMessage (notebookDB env) now (nNotebookID j) (nVersion j) s (nMessage j') r t = (r1, t1)"
    by fastforce
  then have "t' = t1" using assms(4) Inr sel by (auto simp: settle_notebook_def split: sum.splits)
  then show ?thesis using SetNonQueuedStateAndMessage_step [OF assms(1-3) upd assms(5)] by simp
qed

lemma queue_notebook_step:
  assumes "notebook_db (notebookDB env)" and "distinct (map nNotebookID (st_notebooks st))"
    and "row_of nNotebookID (st_notebooks st) (nNotebookID j) = Some j"
    and "queue_notebook env now j a st = (res, st')" and "notebook_edge (nState j, nQueuedAction j) (NotebookStateQueued, a)"
  shows "notebook_step (st_notebooks st) (st_notebooks st')"
  using assms(4) SetNotebookQueuedAction_step [OF assms(1-3) _ assms(5)]
  by (auto simp: queue_notebook_def split: prod.splits sum.splits)

lemma notebook_step_edges:
  assumes "notebook_db (notebookDB env)" and "distinct (map nNotebookID (st_notebooks st))"
  shows "StopNotebook env now ctx k st = (res, st') \<Longrightarrow> notebook_step (st_notebooks st) (st_notebooks st')"
    and "StartNotebook env now ctx k st = (res, st') \<Longrightarrow> notebook_step (st_notebooks st) (st_notebooks st')"
    and "DeleteNotebook env now ctx k st = (res', st') \<Longrightarrow> notebook_step (st_notebooks st) (st_notebooks st')"
proof -
  have read: "row_of nNotebookID (st_notebooks st) (nNotebookID n) = Some n"
    if "GetNotebookByIDAndProjectID (notebookDB env) now k p (st_notebooks st) = Inr n" for n p
    using notebook_read(2) [OF assms that] row_of_Some by fastforce
  note steps = queue_notebook_step [OF assms read, rotated] SetNotebookQueuedAction_step [OF assms read, rotated]
  show "StopNotebook env now ctx k st = (res, st') \<Longrightarrow> notebook_step (st_notebooks st) (st_notebooks st')"
    by (auto simp: StopNotebook_def split: option.splits sum.splits if_splits intro: table_step.stay
        dest!: steps(1) intro!: notebook_edge.stop)
  show "StartNotebook env now ctx k st = (res, st') \<Longrightarrow> notebook_step (st_notebooks st) (st_notebooks st')"
    by (auto simp: StartNotebook_def split: option.splits sum.splits if_splits intro: table_step.stay
        dest!: steps(1) intro!: notebook_edge.start)
  show "DeleteNotebook env now ctx k st = (res', st') \<Longrightarrow> notebook_step (st_notebooks st) (st_notebooks st')"
    by (auto simp: DeleteNotebook_def split: option.splits sum.splits if_splits prod.splits intro: table_step.stay
        dest!: steps(2) intro!: notebook_edge.delete)
qed

lemma apply_notebook_state_step:
  assumes db: "notebook_db (notebookDB env)" and dist: "distinct (map nNotebookID t)"
    and row: "row_of nNotebookID t (nNotebookID j) = Some j"
    and run: "apply_notebook_state env now req j t = (res, t')"
  shows "notebook_step t t'"
proof -
  note settle = settle_notebook_step [OF db dist row] and set = SetState_step [OF db dist row]
  have requeue: "notebook_step t t1" if "nState j = NotebookStateQueued" "nQueuedAction j = NotebookQueuedActionRequeue"
    "Notebook_MutateMessage (notebookCodec env) (\<lambda>p. p) j = Inr j'"
    "UpdateNotebookForRescheduling (notebookDB env) now (j'\<lparr>nState := NotebookStateRequeued, nReason := []\<rparr>) t = (r1, t1)" for j' r1 t1
    by (rule UpdateNotebookForRescheduling_step [OF db dist that(4)])
      (use that(1,2) row Notebook_MutateMessage_sel [OF that(3)] in \<open>auto intro: notebook_edge.requeued\<close>)
  show ?thesis
    using run unfolding apply_notebook_state_def
    by (auto split: if_splits sum.splits prod.splits intro: table_step.stay requeue
        dest!: settle set intro!: notebook_edge.initializing notebook_edge.stopped notebook_edge.deleted notebook_edge.running)
qed

lemma UpdateNotebookState_step:
  assumes "notebook_db (notebookDB env)" and "distinct (map nNotebookID (st_notebooks st))"
    and "UpdateNotebookState env now ctx req st = (res, st')"
  shows "notebook_step (st_notebooks st) (st_notebooks st')"
proof -
  have read: "row_of nNotebookID (st_notebooks st) (nNotebookID n) = Some n"
    if "GetNotebookByID (notebookDB env) now k (st_notebooks st) = Inr n" for n k
    using notebook_read(1) [OF assms(1,2) that] row_of_Some by fastforce
  show ?thesis
    using assms(3) apply_notebook_state_step [OF assms(1,2) read]
    by (auto simp: UpdateNotebookState_def split: sum.splits if_splits prod.splits intro: table_step.stay)
qed

lemma scheduleNotebook_tables:
  assumes "scheduleNotebook env now nb n st = (res, st')"
  shows "st_notebooks st' = st_notebooks st \<and> st_jobs st' = st_jobs st \<and> st_batch_jobs st' = st_batch_jobs st \<and> st_clusters st' = st_clusters st"
  using assms by (auto simp: scheduleNotebook_def split: sum.splits prod.splits dest!: env_tables)

lemma scheduleNotebook_cases:
  assumes "scheduleNotebook env now nb n st = (Inr s, st')"
  obtains u st1 st2 apiKey token where "RebuildUserInfo (projectCodec env) nb = Inr u"
    "env_Schedule env now u (nClusterID nb) n st = (Inr s, st1)"
    "env_AddAssumedPod env now (ui_TenantID u) (sr_ClusterID s) (sr_Namespace s @ ''/'' @ nNotebookID nb) n st1 = (Inr (), st2)"
    "GetAPIKey (decrypt env) (dataKey env) nb = Inr apiKey" "GetToken (decrypt env) (dataKey env) nb = Inr token"
    "NewClient env (sr_ClusterID s) apiKey = Inr ()"
    "st' = st2\<lparr>st_k8s := st_k8s st2 @ [CreateSecret (sr_ClusterID s) (nNotebookID nb) (sr_Namespace s)
      [(''OPENAI_API_KEY'', apiKey), (''NOTEBOOK_TOKEN'', token), (''LLMARINER_API_KEY'', apiKey)]]\<rparr>"
  using assms by (auto simp: scheduleNotebook_def env_k8s_def split: sum.splits prod.splits)

lemma CreateNotebook_cases:
  assumes "CreateNotebook env now ctx req st = (Inr p, st')"
  obtains u img nbID proj apikey token nb1 nb2 s st1 msg r where "ExtractUserInfo ctx = Some u"
    "validate_CreateNotebook env now u req st = Inr img" "GenerateIDForK8SResource env now ''nb-'' = Inr nbID"
    "toProjectMessage env u = Inr proj" "ExtractToken ctx = Inr apikey" "GenerateID env now [] 48 = Inr token"
    "SetAPIKey (encrypt env) apikey (dataKey env) (new_notebook u req nbID proj) = Inr nb1"
    "SetToken (encrypt env) token (dataKey env) nb1 = Inr nb2"
    "scheduleNotebook env now nb2 (case CNR_Resources req of None \<Rightarrow> 0 | Some r \<Rightarrow> Res_GpuCount r) st = (Inr s, st1)"
    "p = new_notebook_proto now u req nbID img token s" "Marshal (notebookCodec env) p = Inr msg"
    "store_CreateNotebook (notebookDB env) now (nb2\<lparr>nClusterID := sr_ClusterID s, nMessage := msg\<rparr>) (st_notebooks st1) = (Inr r, st_notebooks st')"
    "st' = st1\<lparr>st_notebooks := st_notebooks st'\<rparr>"
  using assms
  by (auto simp: CreateNotebook_def Let_def split: option.splits sum.splits prod.splits)

lemma SetAPIKey_sel:
  assumes "SetAPIKey enc x d n = Inr n'"
  shows "n' = n\<lparr>nAPIKey := nAPIKey n', nEncryptedAPIKey := nEncryptedAPIKey n'\<rparr>"
  using assms by (auto simp: SetAPIKey_def split: if_splits sum.splits)

lemma SetToken_sel:
  assumes "SetToken enc x d n = Inr n'"
  shows "n' = n\<lparr>nToken := nToken n', nEncryptedToken := nEncryptedToken n'\<rparr>"
  using assms by (auto simp: SetToken_def split: if_splits sum.splits)

lemma CreateNotebook_error:
  assumes "notebook_db (notebookDB env)" and "CreateNotebook env now ctx req st = (Inl e, st')"
  shows "st_notebooks st' = st_notebooks st"
  using assms(2) gorm.create_err [OF assms(1)] scheduleNotebook_tables
  by (auto simp: CreateNotebook_def Let_def store_CreateNotebook_def split: option.splits sum.splits prod.splits)

lemma CreateNotebook_step:
  assumes "notebook_db (notebookDB env)" and "CreateNotebook env now ctx req st = (res, st')"
  shows "notebook_step (st_notebooks st) (st_notebooks st')"
proof (cases res)
  case (Inl e)
  then show ?thesis using CreateNotebook_error [OF assms(1)] assms(2) by (auto intro: table_step.stay)
next
  case (Inr p)
  then obtain u nbID proj apikey token nb1 nb2 s st1 msg r n where
    nb: "SetAPIKey (encrypt env) apikey (dataKey env) (new_notebook u req nbID proj) = Inr nb1"
      "SetToken (encrypt env) token (dataKey env) nb1 = Inr nb2"
    and sched: "scheduleNotebook env now nb2 n st = (Inr s, st1)"
    and cr: "store_CreateNotebook (notebookDB env) now (nb2\<lparr>nClusterID := sr_ClusterID s, nMessage := msg\<rparr>) (st_notebooks st1) = (Inr r, st_notebooks st')"
    using assms(2) by (auto elim!: CreateNotebook_cases)
  have "notebook_init (notebook_stamp i now (nb2\<lparr>nClusterID := sr_ClusterID s, nMessage := msg\<rparr>))" if "0 < i" for i
    by (subst SetToken_sel [OF nb(2)], subst SetAPIKey_sel [OF nb(1)])
      (simp add: notebook_init_def new_notebook_def zero_notebook_def that)
  then show ?thesis
    using gorm.create_step [OF assms(1) cr [unfolded store_CreateNotebook_def]] scheduleNotebook_tables [OF sched] by metis
qed

section \<open>Secrets, names and placement of a new notebook\<close>

text \<open>What is written with \<^verbatim>\<open>SetAPIKey\<close> and \<^verbatim>\<open>SetToken\<close> is read back, and is stored in the clear only without a data key.\<close>

lemma SetToken_SetAPIKey:
  assumes "cipher enc dec" and "SetAPIKey enc key d nb = Inr nb1" and "SetToken enc token d nb1 = Inr nb2"
  shows "GetAPIKey dec d nb2 = Inr key" and "GetToken dec d nb2 = Inr token" and "d \<noteq> [] \<longrightarrow> nAPIKey nb2 = [] \<and> nToken nb2 = []"
  using assms(2-) cipher.dec_enc [OF assms(1)] cipher.enc_nonempty [OF assms(1)]
  by (auto simp: SetAPIKey_def SetToken_def GetAPIKey_def GetToken_def split: if_splits sum.splits)

lemma RebuildUserInfo_assigned:
  assumes "proto_codec (projectCodec env) z" and "toProjectMessage env u = Inr pm" and "nProjectMessage nb = pm"
    and "RebuildUserInfo (projectCodec env) nb = Inr u'"
  shows "assigned u' = assigned u"
proof -
  let ?envs = "map (\<lambda>a. \<lparr>ake_ClusterID = ake_ClusterID a, ake_ClusterName = [], ake_Namespace = ake_Namespace a\<rparr>) (ui_AssignedKubernetesEnvs u)"
  have "Marshal (projectCodec env) \<lparr>Project_Id = ui_ProjectID u, Project_AssignedKubernetesEnvs = ?envs\<rparr> = Inr pm"
    using assms(2) by (auto simp: toProjectMessage_def Let_def split: sum.splits)
  then have "ui_AssignedKubernetesEnvs u' = ?envs"
    using assms(3,4) proto_codec.unmarshal_marshal [OF assms(1)] by (auto simp: RebuildUserInfo_def Let_def comp_def)
  then show ?thesis by (simp add: assigned_def comp_def fun_eq_iff)
qed

lemma validate_CreateNotebook_name:
  assumes "notebook_db (notebookDB env)" and "validate_CreateNotebook env now u req st = Inr img"
  shows "\<forall>x \<in> set (st_notebooks st). \<not> (nName x = CNR_Name req \<and> nProjectID x = ui_ProjectID u \<and> nState x \<noteq> NotebookStateDeleted)"
proof -
  from assms(2) obtain e where "GetActiveNotebookByNameAndProjectID (notebookDB env) now (CNR_Name req) (ui_ProjectID u) (st_notebooks st) = Inl e"
    "errors_Is e ErrRecordNotFound" by (auto simp: validate_CreateNotebook_def split: if_splits sum.splits)
  then show ?thesis unfolding GetActiveNotebookByNameAndProjectID_def by (rule gorm.take_not_found [OF assms(1)])
qed

lemma check_ports_ok: "check_ports i ps = Inr () \<longleftrightarrow> (\<forall>p \<in> set ps. 1 \<le> p \<and> p \<le> 65535)"
  by (induction i ps rule: check_ports.induct) auto

section \<open>A round of the rescheduler\<close>

abbreviation notebook_steps :: "Notebook list \<Rightarrow> Notebook list \<Rightarrow> bool" where
  "notebook_steps \<equiv> table_steps nNotebookID nID notebook_init notebook_moves"

text \<open>The loops work on rows they read before: \<open>snapshot t nbs\<close> says that \<open>nbs\<close> are rows of the table \<open>t\<close>.\<close>

definition snapshot :: "Notebook list \<Rightarrow> Notebook list \<Rightarrow> bool" where
  "snapshot t nbs \<longleftrightarrow> (\<forall>nb \<in> set nbs. row_of nNotebookID t (nNotebookID nb) = Some nb)"

lemma list_by_state_snapshot:
  assumes "notebook_db G" and "notebooks_wf t" and "ListNotebooksByState G now s t = Inr nbs"
  shows "snapshot t nbs \<and> (\<forall>nb \<in> set nbs. nState nb = s) \<and> mset nbs = mset (filter (\<lambda>n. nState n = s) t)"
proof -
  have f: "find_result \<lparr>q_where = (\<lambda>n. nState n = s), q_order = unordered, q_limit = None\<rparr> t nbs"
    using gorm.find_found [OF assms(1)] assms(3) unfolding ListNotebooksByState_def by fastforce
  have "set nbs \<subseteq> {n \<in> set t. nState n = s}" using find_result_set [OF f] by auto
  then show ?thesis
    using find_result_mset [OF f] assms(2) by (auto simp: snapshot_def table_wf_def intro!: row_of_distinct)
qed

lemma reschedule_update_step:
  assumes db: "notebook_db G" and wf: "notebooks_wf t0" and steps: "notebook_steps t0 t"
    and row: "row_of nNotebookID t0 (nNotebookID nb) = Some nb"
    and new: "nNotebookID nb' = nNotebookID nb" "nVersion nb' = nVersion nb"
      "notebook_edge (nState nb, nQueuedAction nb) (nState nb', nQueuedAction nb')"
      "nClusterID nb' = nClusterID nb \<or> nState nb = NotebookStateRequeued \<and> nState nb' = NotebookStateQueued \<and> nQueuedAction nb' = NotebookQueuedActionStart"
    and run: "UpdateNotebookForRescheduling G now nb' t = (res, t')"
  shows "notebook_steps t0 t'"
proof -
  have dist: "distinct (map nNotebookID t)"
    using notebook_life.steps_wf [OF steps wf] by (simp add: table_wf_def)
  have same: "j = nb" if "row_of nNotebookID t (nNotebookID nb') = Some j" "nVersion j = nVersion nb'" for j
    using notebook_life.same_version_same_row [OF steps row] that new(1,2) by simp
  have "notebook_step t t'"
    by (rule UpdateNotebookForRescheduling_step [OF db dist run]) (use same new(3,4) in blast)
  then show ?thesis using steps by (rule rtranclp.rtrancl_into_rtrancl [rotated])
qed

lemma requeue_loop_steps:
  assumes db: "notebook_db (notebookDB env)" and wf: "notebooks_wf t0"
    and "requeue_loop env now d nbs st = (res, st')" and "notebook_steps t0 (st_notebooks st)"
    and "snapshot t0 nbs" and "\<forall>nb \<in> set nbs. nState nb = NotebookStateInitializing"
  shows "notebook_steps t0 (st_notebooks st')"
  using assms(3-)
proof (induction nbs arbitrary: st)
  case (Cons nb nbs)
  let ?nb = "nb\<lparr>nState := NotebookStateQueued, nQueuedAction := NotebookQueuedActionRequeue\<rparr>"
  obtain r1 t1 where upd: "UpdateNotebookForRescheduling (notebookDB env) now ?nb (st_notebooks st) = (r1, t1)" by fastforce
  have row: "row_of nNotebookID t0 (nNotebookID nb) = Some nb" using Cons.prems(3) by (simp add: snapshot_def)
  have "notebook_steps t0 t1"
    by (rule reschedule_update_step [OF db wf Cons.prems(2) row _ _ _ _ upd])
      (use Cons.prems(4) in \<open>auto intro: notebook_edge.requeue\<close>)
  moreover have "snapshot t0 nbs" "\<forall>nb \<in> set nbs. nState nb = NotebookStateInitializing"
    using Cons.prems(3,4) by (auto simp: snapshot_def)
  ultimately show ?case
    using Cons.IH [of st] Cons.IH [of "st\<lparr>st_notebooks := t1\<rparr>"] Cons.prems(1,2) upd
    by (auto split: if_splits sum.splits)
qed simp

lemma reschedule_loop_steps:
  assumes db: "notebook_db (notebookDB env)" and wf: "notebooks_wf t0"
    and "reschedule_loop env now nbs st = (res, st')" and "notebook_steps t0 (st_notebooks st)"
    and "snapshot t0 nbs" and "\<forall>nb \<in> set nbs. nState nb = NotebookStateRequeued"
  shows "notebook_steps t0 (st_notebooks st')"
  using assms(3-)
proof (induction nbs arbitrary: st)
  case (Cons nb nbs)
  have row: "row_of nNotebookID t0 (nNotebookID nb) = Some nb" using Cons.prems(3) by (simp add: snapshot_def)
  have rest: "snapshot t0 nbs" "\<forall>nb \<in> set nbs. nState nb = NotebookStateRequeued"
    using Cons.prems(3,4) by (auto simp: snapshot_def)
  have upd: "notebook_steps t0 t1"
    if "scheduleNotebook env now nb n st = (Inr s, st1)"
      "Notebook_MutateMessage (notebookCodec env) f (nb\<lparr>nReason := [], nState := NotebookStateQueued,
         nQueuedAction := NotebookQueuedActionStart, nClusterID := sr_ClusterID s\<rparr>) = Inr nb'"
      "UpdateNotebookForRescheduling (notebookDB env) now nb' (st_notebooks st1) = (r1, t1)" for n s st1 f nb' r1 t1
    by (rule reschedule_update_step [OF db wf _ row _ _ _ _ that(3)])
      (use Cons.prems(2,4) scheduleNotebook_tables [OF that(1)] Notebook_MutateMessage_sel [OF that(2)]
        in \<open>auto intro: notebook_edge.reschedule\<close>)
  have keep: "notebook_steps t0 (st_notebooks st1)" if "scheduleNotebook env now nb n st = (r, st1)" for n r st1
    using Cons.prems(2) scheduleNotebook_tables [OF that] by simp
  show ?case
    using Cons.prems(1,2) Cons.IH [OF _ _ rest] upd keep
    by (auto simp: Let_def split: sum.splits prod.splits)
qed simp

lemma rescheduleNotebooks_steps:
  assumes "notebook_db (notebookDB env)" and "notebooks_wf (st_notebooks st)"
    and "rescheduleNotebooks env now d st = (res, st')"
  shows "notebook_steps (st_notebooks st) (st_notebooks st')"
proof (cases "ListNotebooksByState (notebookDB env) now NotebookStateInitializing (st_notebooks st)")
  case (Inl e)
  then show ?thesis using assms(3) by (simp add: rescheduleNotebooks_def)
next
  case (Inr nbs)
  obtain r1 st1 where req: "requeue_loop env now d nbs st = (r1, st1)" by fastforce
  note snap = list_by_state_snapshot [OF assms(1,2) Inr]
  have one: "notebook_steps (st_notebooks st) (st_notebooks st1)"
    by (rule requeue_loop_steps [OF assms(1,2) req]) (use snap in auto)
  have wf1: "notebooks_wf (st_notebooks st1)" by (rule notebook_life.steps_wf [OF one assms(2)])
  have two: "notebook_steps (st_notebooks st1) (st_notebooks st2)"
    if "ListNotebooksByState (notebookDB env) now NotebookStateRequeued (st_notebooks st1) = Inr nbs'"
      "reschedule_loop env now nbs' st1 = (r2, st2)" for nbs' r2 st2
    by (rule reschedule_loop_steps [OF assms(1) wf1 that(2)]) (use list_by_state_snapshot [OF assms(1) wf1 that(1)] in auto)
  show ?thesis
    using assms(3) one two Inr req
    by (auto simp: rescheduleNotebooks_def split: sum.splits intro: rtranclp_trans)
qed

text \<open>An update touches no other row, and a worker changes no notebook of another tenant.\<close>

lemma notebook_update_frames:
  assumes "notebook_db G" and "distinct (map nNotebookID t)"
  shows "SetNotebookQueuedAction G now k v a t = (res, t') \<Longrightarrow> j \<noteq> k \<Longrightarrow> row_of nNotebookID t' j = row_of nNotebookID t j"
    and "SetState G now k v s t = (res, t') \<Longrightarrow> j \<noteq> k \<Longrightarrow> row_of nNotebookID t' j = row_of nNotebookID t j"
    and "SetNonQueuedStateAndMessage G now k v s m x t = (res, t') \<Longrightarrow> j \<noteq> k \<Longrightarrow> row_of nNotebookID t' j = row_of nNotebookID t j"
    and "UpdateNotebookForRescheduling G now nb t = (res, t') \<Longrightarrow> j \<noteq> nNotebookID nb \<Longrightarrow> row_of nNotebookID t' j = row_of nNotebookID t j"
  unfolding SetNotebookQueuedAction_def SetState_def SetNonQueuedStateAndMessage_def UpdateNotebookForRescheduling_def
  by (auto dest!: gorm.updates_versioned_frame [OF assms(1) _ assms(2), where j = j])

lemma UpdateNotebookState_tenant:
  assumes "notebook_db (notebookDB env)" and "distinct (map nNotebookID (st_notebooks st))"
    and "extractClusterInfoFromContext (enableAuth env) ctx = Inr ci"
    and "row_of nNotebookID (st_notebooks st) j = Some r" and "nTenantID r \<noteq> ci_TenantID ci"
    and "UpdateNotebookState env now ctx req st = (res, st')"
  shows "row_of nNotebookID (st_notebooks st') j = Some r"
proof (cases "j = UNS_Id req")
  case True
  have "st' = st"
    using assms(3-) notebook_read(1) [OF assms(1,2)] True by (fastforce simp: UpdateNotebookState_def split: if_splits sum.splits)
  then show ?thesis using assms(4) by simp
next
  case False
  have key: "nNotebookID nb = UNS_Id req" if "GetNotebookByID (notebookDB env) now (UNS_Id req) (st_notebooks st) = Inr nb" for nb
    using notebook_read(1) [OF assms(1,2) that] row_of_Some by fastforce
  have frame: "row_of nNotebookID t' j = row_of nNotebookID (st_notebooks st) j"
    if "apply_notebook_state env now req nb (st_notebooks st) = (x, t')" "nNotebookID nb = UNS_Id req" for nb x t'
    using that False notebook_update_frames(2-) [OF assms(1,2), where j = j] Notebook_MutateMessage_sel(2)
    by (fastforce simp: apply_notebook_state_def settle_notebook_def split: if_splits sum.splits prod.splits)
  then show ?thesis
    using assms(4,6) key by (auto simp: UpdateNotebookState_def split: sum.splits if_splits prod.splits)
qed

end
