(* ===== verification/Batch.thy ===== *)
theory Batch
  imports Server
begin

text \<open>
  \<^verbatim>\<open>server/internal/server/batch_server.go\<close>: the handlers of the batch service for users and workers, the lifecycle of a
  batch job as these handlers make it, and the proof that they implement it.
\<close>

section \<open>CreateBatchJob\<close>

text \<open>\<^verbatim>\<open>%T\<close> prints the Go type of the kind; the only value that is not \<^verbatim>\<open>*v1.BatchJob_Kind_Pytorch\<close> is nil.\<close>

definition validate_CreateBatchJob :: "server_env \<Rightarrow> CreateBatchJobRequest \<Rightarrow> go_error + string" where
  "validate_CreateBatchJob env req =
     (if CBR_Image req = [] then Inl (Status InvalidArgument ''image is required'')
      else case map_of (batchJobImages env) (CBR_Image req) of
        None \<Rightarrow> Inl (Status InvalidArgument (''invalid image: '' @ CBR_Image req))
      | Some img \<Rightarrow>
          (case guards [(CBR_Command req = [], Status InvalidArgument ''command is required''),
              (length (CBR_Scripts req) = 0, Status InvalidArgument ''scripts are required''),
              (CBR_Kind req = Some (Kind_Pytorch 0), Status InvalidArgument ''worker count must be set''),
              (CBR_Kind req = Some Kind_None, Status InvalidArgument ''invalid kind: <nil>'')] of
             Inl e \<Rightarrow> Inl e
           | Inr _ \<Rightarrow> (case collect (validateFile env) (CBR_DataFiles req) of Inl e \<Rightarrow> Inl e | Inr _ \<Rightarrow> Inr img)))"

definition new_batch_proto :: "time \<Rightarrow> UserInfo \<Rightarrow> CreateBatchJobRequest \<Rightarrow> string \<Rightarrow> string \<Rightarrow> SchedulingResult \<Rightarrow> v1_batch_job" where
  "new_batch_proto now userInfo req jobID img sresult = empty_v1_batch_job\<lparr>
     BatchJob_Id := jobID, BatchJob_CreatedAt := Unix now, BatchJob_Status := BatchJobStateQueued, BatchJob_Image := img,
     BatchJob_Command := CBR_Command req, BatchJob_Resources := CBR_Resources req, BatchJob_Envs := CBR_Envs req,
     BatchJob_DataFiles := CBR_DataFiles req, BatchJob_ProjectId := ui_ProjectID userInfo,
     BatchJob_KubernetesNamespace := sr_Namespace sresult, BatchJob_ClusterId := sr_ClusterID sresult,
     BatchJob_Kind_field := CBR_Kind req, BatchJob_OrganizationTitle := ui_OrganizationTitle userInfo,
     BatchJob_ProjectTitle := ui_ProjectTitle userInfo, BatchJob_ClusterName := sr_ClusterName sresult\<rparr>"

definition new_batch_job :: "UserInfo \<Rightarrow> string \<Rightarrow> SchedulingResult \<Rightarrow> bytes \<Rightarrow> BatchJob" where
  "new_batch_job userInfo jobID sresult msg = zero_batch_job\<lparr>bJobID := jobID, bMessage := msg, bState := BatchJobStateQueued,
     bQueuedAction := BatchJobQueuedActionCreate, bTenantID := ui_TenantID userInfo, bProjectID := ui_ProjectID userInfo,
     bClusterID := sr_ClusterID sresult\<rparr>"

definition CreateBatchJob :: "server_env \<Rightarrow> time \<Rightarrow> context_info \<Rightarrow> CreateBatchJobRequest \<Rightarrow> server_state \<Rightarrow> (go_error + v1_batch_job) \<times> server_state" where
  "CreateBatchJob env now ctx req st = (case ExtractUserInfo ctx of None \<Rightarrow> (Inl unauthenticated, st)
     | Some userInfo \<Rightarrow> (case validate_CreateBatchJob env req of Inl e \<Rightarrow> (Inl e, st)
     | Inr img \<Rightarrow> (case GenerateIDForK8SResource env now ''bj-'' of Inl e \<Rightarrow> (Inl (internal_error ''generate batch job id: '' e), st)
     | Inr jobID \<Rightarrow> (let gpuCount = (case CBR_Resources req of None \<Rightarrow> 0 | Some n \<Rightarrow> n)
       in case env_Schedule env now userInfo [] gpuCount st of (Inl e, st1) \<Rightarrow> (Inl (internal_error ''schedule: '' e), st1)
     | (Inr sresult, st1) \<Rightarrow> (case env_AddAssumedPod env now (ui_TenantID userInfo) (sr_ClusterID sresult)
            (sr_Namespace sresult @ ''/'' @ jobID) gpuCount st1 of (Inl e, st2) \<Rightarrow> (Inl (internal_error ''add assumed pod: '' e), st2)
     | (Inr _, st2) \<Rightarrow> (let jobProto = new_batch_proto now userInfo req jobID img sresult
       in case Marshal (batchCodec env) jobProto of Inl e \<Rightarrow> (Inl (internal_error ''marshal batch job: '' e), st2)
     | Inr msg \<Rightarrow> (case ExtractToken ctx of Inl e \<Rightarrow> (Inl e, st2)
     | Inr apikey \<Rightarrow> (case NewClient env (sr_ClusterID sresult) apikey of Inl e \<Rightarrow> (Inl (internal_error ''create k8s client: '' e), st2)
     | Inr _ \<Rightarrow> (case env_k8s env (CreateSecret (sr_ClusterID sresult) jobID (sr_Namespace sresult) [(''OPENAI_API_KEY'', apikey)]) st2 of
         (Inl e, st3) \<Rightarrow> (Inl (internal_error ''create secret: '' e), st3)
     | (Inr _, st3) \<Rightarrow> (case env_k8s env (CreateConfigMap (sr_ClusterID sresult) jobID (sr_Namespace sresult) (CBR_Scripts req)) st3 of
         (Inl e, st4) \<Rightarrow> (Inl (internal_error ''create configmap for scripts: '' e), st4)
     | (Inr _, st4) \<Rightarrow> (case store_CreateBatchJob (batchDB env) now (new_batch_job userInfo jobID sresult msg) (st_batch_jobs st4) of
         (Inl e, t) \<Rightarrow> (Inl (internal_error ''create batch job: '' e), st4\<lparr>st_batch_jobs := t\<rparr>)
     | (Inr _, t) \<Rightarrow> (Inr jobProto, st4\<lparr>st_batch_jobs := t\<rparr>))))))))))))"

section \<open>The other user handlers\<close>

definition ListBatchJobs :: "server_env \<Rightarrow> time \<Rightarrow> context_info \<Rightarrow> ListRequest \<Rightarrow> server_state \<Rightarrow> go_error + ListBatchJobsResponse" where
  "ListBatchJobs env now ctx req st = (case ExtractUserInfo ctx of None \<Rightarrow> Inl unauthenticated
     | Some userInfo \<Rightarrow> (case page_limit (LR_Limit req) of Inl e \<Rightarrow> Inl e
     | Inr limit \<Rightarrow> (case (if LR_After req \<noteq> [] then
            (case GetActiveBatchJobByIDAndProjectID (batchDB env) now (LR_After req) (ui_ProjectID userInfo) (st_batch_jobs st) of
               Inl e \<Rightarrow> Inl (if errors_Is e ErrRecordNotFound then Status InvalidArgument (''invalid after: '' @ Error e)
                  else internal_error ''get batch job: '' e)
             | Inr job \<Rightarrow> Inr (bID job)) else Inr 0) of Inl e \<Rightarrow> Inl e
     | Inr afterID \<Rightarrow> (case ListActiveBatchJobsByProjectIDWithPagination (batchDB env) now (ui_ProjectID userInfo) afterID limit (st_batch_jobs st) of
         Inl e \<Rightarrow> Inl (internal_error ''list batch jobs: '' e)
     | Inr (jobs, hasMore) \<Rightarrow> (case collect (V1BatchJob (batchCodec env)) jobs of Inl e \<Rightarrow> Inl (internal_error ''convert batch job to proto: '' e)
     | Inr jobProtos \<Rightarrow> (case CountActiveBatchJobsByProjectID (batchDB env) now (ui_ProjectID userInfo) (st_batch_jobs st) of
         Inl e \<Rightarrow> Inl (internal_error ''count batch jobs: '' e)
     | Inr totalItems \<Rightarrow> Inr \<lparr>LBR_Jobs = jobProtos, LBR_HasMore = hasMore, LBR_TotalItems = int32 totalItems\<rparr>))))))"

definition GetBatchJob :: "server_env \<Rightarrow> time \<Rightarrow> context_info \<Rightarrow> string \<Rightarrow> server_state \<Rightarrow> go_error + v1_batch_job" where
  "GetBatchJob env now ctx req_id st = (case ExtractUserInfo ctx of None \<Rightarrow> Inl unauthenticated
     | Some userInfo \<Rightarrow> if req_id = [] then Inl id_required
     else (case GetActiveBatchJobByIDAndProjectID (batchDB env) now req_id (ui_ProjectID userInfo) (st_batch_jobs st) of
         Inl e \<Rightarrow> Inl (get_error ''get batch job: '' e)
       | Inr job \<Rightarrow> (case V1BatchJob (batchCodec env) job of Inl e \<Rightarrow> Inl (internal_error ''convert batch job to proto: '' e)
       | Inr jobProto \<Rightarrow> Inr jobProto)))"

text \<open>The common tail of \<^verbatim>\<open>DeleteBatchJob\<close> and \<^verbatim>\<open>CancelBatchJob\<close>.\<close>

definition queue_batch_job :: "server_env \<Rightarrow> time \<Rightarrow> BatchJob \<Rightarrow> BatchJobQueuedAction \<Rightarrow> server_state \<Rightarrow> (go_error + v1_batch_job) \<times> server_state" where
  "queue_batch_job env now job newAction st =
     (case SetBatchJobQueuedAction (batchDB env) now (bJobID job) (bVersion job) newAction (st_batch_jobs st) of
        (Inl e, t) \<Rightarrow> (Inl (internal_error ''set batch job queued action: '' e), st\<lparr>st_batch_jobs := t\<rparr>)
      | (Inr job', t) \<Rightarrow> (case V1BatchJob (batchCodec env) job' of
            Inl e \<Rightarrow> (Inl (internal_error ''convert batch job to proto: '' e), st\<lparr>st_batch_jobs := t\<rparr>)
          | Inr jobProto \<Rightarrow> (Inr jobProto, st\<lparr>st_batch_jobs := t\<rparr>)))"

definition DeleteBatchJob :: "server_env \<Rightarrow> time \<Rightarrow> context_info \<Rightarrow> string \<Rightarrow> server_state \<Rightarrow> (go_error + v1_batch_job) \<times> server_state" where
  "DeleteBatchJob env now ctx req_id st = (case ExtractUserInfo ctx of None \<Rightarrow> (Inl unauthenticated, st)
     | Some userInfo \<Rightarrow> if req_id = [] then (Inl id_required, st)
     else (case GetActiveBatchJobByIDAndProjectID (batchDB env) now req_id (ui_ProjectID userInfo) (st_batch_jobs st) of
         Inl e \<Rightarrow> (Inl (get_error ''get batch job: '' e), st)
       | Inr job \<Rightarrow> (case V1BatchJob (batchCodec env) job of Inl e \<Rightarrow> (Inl (internal_error ''convert batch job to proto: '' e), st)
       | Inr jobProto \<Rightarrow>
           if bState job = BatchJobStateDeleted \<or> bState job = BatchJobStateQueued \<and> bQueuedAction job = BatchJobQueuedActionDelete
           then (Inr jobProto, st)
           else queue_batch_job env now job BatchJobQueuedActionDelete st)))"

definition CancelBatchJob :: "server_env \<Rightarrow> time \<Rightarrow> context_info \<Rightarrow> string \<Rightarrow> server_state \<Rightarrow> (go_error + v1_batch_job) \<times> server_state" where
  "CancelBatchJob env now ctx req_id st = (case ExtractUserInfo ctx of None \<Rightarrow> (Inl unauthenticated, st)
     | Some userInfo \<Rightarrow> if req_id = [] then (Inl id_required, st)
     else (case GetActiveBatchJobByIDAndProjectID (batchDB env) now req_id (ui_ProjectID userInfo) (st_batch_jobs st) of
         Inl e \<Rightarrow> (Inl (get_error ''get batch job: '' e), st)
       | Inr job \<Rightarrow> (case V1BatchJob (batchCodec env) job of Inl e \<Rightarrow> (Inl (internal_error ''convert batch job to proto: '' e), st)
       | Inr jobProto \<Rightarrow>
           if bState job \<in> {BatchJobStateFailed, BatchJobStateCanceled, BatchJobStateSucceeded, BatchJobStateDeleted} then (Inr jobProto, st)
           else if bState job = BatchJobStateRunning then queue_batch_job env now job BatchJobQueuedActionCancel st
           else if bState job = BatchJobStateQueued then
             (if bQueuedAction job = BatchJobQueuedActionCancel then (Inr jobProto, st)
              else queue_batch_job env now job BatchJobQueuedActionCancel st)
           else (Inl (Status Internal (''unknown batch job state: '' @ bState job)), st))))"

section \<open>The worker service\<close>

definition ListQueuedInternalBatchJobs :: "server_env \<Rightarrow> time \<Rightarrow> context_info \<Rightarrow> server_state \<Rightarrow> go_error + InternalBatchJob list" where
  "ListQueuedInternalBatchJobs env now ctx st = (case extractClusterInfoFromContext (enableAuth env) ctx of Inl e \<Rightarrow> Inl e
     | Inr clusterInfo \<Rightarrow> (case ListQueuedBatchJobsByTenantIDAndClusterID (batchDB env) now
            (ci_TenantID clusterInfo) (ci_ClusterID clusterInfo) (st_batch_jobs st) of
         Inl e \<Rightarrow> Inl (internal_error ''list queued jobs: '' e)
     | Inr jobs \<Rightarrow> (case collect (V1InternalBatchJob (batchCodec env)) jobs of
         Inl e \<Rightarrow> Inl (internal_error ''convert job to proto: '' e)
     | Inr ijobs \<Rightarrow> Inr ijobs)))"

definition get_batch_error :: "go_error \<Rightarrow> go_error" where
  "get_batch_error e = (if errors_Is e ErrRecordNotFound then Status NotFound (''batch job not found: '' @ Error e)
     else internal_error ''get batch job: '' e)"

definition GetInternalBatchJob :: "server_env \<Rightarrow> time \<Rightarrow> context_info \<Rightarrow> string \<Rightarrow> server_state \<Rightarrow> go_error + InternalBatchJob" where
  "GetInternalBatchJob env now ctx req_id st = (case extractClusterInfoFromContext (enableAuth env) ctx of Inl e \<Rightarrow> Inl e
     | Inr clusterInfo \<Rightarrow> if req_id = [] then Inl id_required
     else (case GetBatchJobByID (batchDB env) now req_id (st_batch_jobs st) of Inl e \<Rightarrow> Inl (get_batch_error e)
       | Inr job \<Rightarrow> if bTenantID job \<noteq> ci_TenantID clusterInfo then Inl (Status NotFound ''batch job not found'')
       else (case V1InternalBatchJob (batchCodec env) job of Inl e \<Rightarrow> Inl (internal_error ''convert job to proto: '' e)
         | Inr jobProto \<Rightarrow> Inr jobProto)))"

definition convertBatchJobState :: "int \<Rightarrow> BatchJobState" where
  "convertBatchJobState s = ToLower (enum_String InternalBatchJob_State_name s)"

text \<open>The tail of \<^verbatim>\<open>UpdateBatchJobState\<close>: mutate the message, then store it with the new state.\<close>

definition settle_batch_job ::
  "server_env \<Rightarrow> time \<Rightarrow> BatchJob \<Rightarrow> (v1_batch_job \<Rightarrow> v1_batch_job) \<Rightarrow> BatchJobState \<Rightarrow> BatchJob list \<Rightarrow> (go_error + unit) \<times> BatchJob list" where
  "settle_batch_job env now job mutateFn storeState t = (case BatchJob_MutateMessage (batchCodec env) mutateFn job of
       Inl e \<Rightarrow> (Inl (internal_error ''mutate batch job: '' e), t)
     | Inr job' \<Rightarrow> (case SetNonQueuedBatchJobStateAndMessage (batchDB env) now (bJobID job') (bVersion job') storeState (bMessage job') t of
           (Inl e, t') \<Rightarrow> (Inl (internal_error ''set batch job state and message: '' e), t')
         | (Inr _, t') \<Rightarrow> (Inr (), t')))"

definition apply_batch_state :: "server_env \<Rightarrow> time \<Rightarrow> UpdateBatchJobStateRequest \<Rightarrow> BatchJob \<Rightarrow> BatchJob list \<Rightarrow> (go_error + unit) \<times> BatchJob list" where
  "apply_batch_state env now req job t =
     (let storeState = convertBatchJobState (UBS_State req); s = bState job; a = bQueuedAction job;
          finish = (\<lambda>j. j\<lparr>BatchJob_FinishedAt := Unix now\<rparr>) in
      if s = storeState then (Inr (), t)
      else if UBS_State req = InternalBatchJob_STATE_UNSPECIFIED then (Inl (Status InvalidArgument ''state is required''), t)
      else if UBS_State req = InternalBatchJob_RUNNING then
        (if s \<noteq> BatchJobStateQueued \<and> a \<noteq> BatchJobQueuedActionCreate then
           (Inl (Status FailedPrecondition (''job state is not creating: '' @ s @ '' ('' @ a @ '')'')), t)
         else (case SetBatchJobState (batchDB env) now (bJobID job) (bVersion job) storeState t of
             (Inl e, t') \<Rightarrow> (Inl (internal_error ''set batch job state: '' e), t') | (Inr _, t') \<Rightarrow> (Inr (), t')))
      else if UBS_State req = InternalBatchJob_SUCCEEDED then
        (if s \<noteq> BatchJobStateRunning then (Inl (Status FailedPrecondition (''job state is not running: '' @ s)), t)
         else settle_batch_job env now job finish storeState t)
      else if UBS_State req = InternalBatchJob_CANCELED then
        (if s \<noteq> BatchJobStateQueued \<and> a \<noteq> BatchJobQueuedActionCancel then
           (Inl (Status FailedPrecondition (''job state is not canceling: '' @ s @ '' ('' @ a @ '')'')), t)
         else settle_batch_job env now job finish storeState t)
      else if UBS_State req = InternalBatchJob_DELETED then
        (if s \<noteq> BatchJobStateQueued \<and> a \<noteq> BatchJobQueuedActionDelete then
           (Inl (Status FailedPrecondition (''job state is not queued: '' @ s @ '' ('' @ a @ '')'')), t)
         else settle_batch_job env now job finish storeState t)
      else if UBS_State req = InternalBatchJob_FAILED then
        settle_batch_job env now job (\<lambda>j. j\<lparr>BatchJob_FinishedAt := Unix now, BatchJob_Error_field :=
          Some \<lparr>BatchJob_Error_Code = UBS_Reason req, BatchJob_Error_Message = UBS_Message req\<rparr>\<rparr>) storeState t
      else if UBS_State req = InternalBatchJob_QUEUED then
        (Inl (Status FailedPrecondition (''unexpected state: '' @ enum_String InternalBatchJob_State_name (UBS_State req))), t)
      else (Inl (Status InvalidArgument (''unknown state: '' @ enum_String InternalBatchJob_State_name (UBS_State req))), t))"

definition UpdateBatchJobState :: "server_env \<Rightarrow> time \<Rightarrow> context_info \<Rightarrow> UpdateBatchJobStateRequest \<Rightarrow> server_state \<Rightarrow> (go_error + unit) \<times> server_state" where
  "UpdateBatchJobState env now ctx req st = (case extractClusterInfoFromContext (enableAuth env) ctx of Inl e \<Rightarrow> (Inl e, st)
     | Inr clusterInfo \<Rightarrow> if UBS_Id req = [] then (Inl id_required, st)
     else (case GetBatchJobByID (batchDB env) now (UBS_Id req) (st_batch_jobs st) of Inl e \<Rightarrow> (Inl (get_batch_error e), st)
       | Inr job \<Rightarrow> if bTenantID job \<noteq> ci_TenantID clusterInfo then (Inl (Status NotFound ''batch job not found''), st)
       else (let (res, t) = apply_batch_state env now req job (st_batch_jobs st) in (res, st\<lparr>st_batch_jobs := t\<rparr>))))"

section \<open>The lifecycle of a batch job\<close>

text \<open>The edges the handlers take. The guards of the worker's updates ask for a queued job or for an action, not for both:
  a queued job may become running, canceled or deleted whatever its action is.\<close>

inductive batch_edge :: "BatchJobState \<times> BatchJobQueuedAction \<Rightarrow> BatchJobState \<times> BatchJobQueuedAction \<Rightarrow> bool" where
  delete: "s \<noteq> BatchJobStateDeleted \<Longrightarrow> (s, a) \<noteq> (BatchJobStateQueued, BatchJobQueuedActionDelete) \<Longrightarrow>
     batch_edge (s, a) (BatchJobStateQueued, BatchJobQueuedActionDelete)"
| cancel: "s = BatchJobStateRunning \<or> s = BatchJobStateQueued \<and> a \<noteq> BatchJobQueuedActionCancel \<Longrightarrow>
     batch_edge (s, a) (BatchJobStateQueued, BatchJobQueuedActionCancel)"
| running: "s = BatchJobStateQueued \<or> a = BatchJobQueuedActionCreate \<Longrightarrow> batch_edge (s, a) (BatchJobStateRunning, [])"
| succeeded: "batch_edge (BatchJobStateRunning, a) (BatchJobStateSucceeded, [])"
| canceled: "s = BatchJobStateQueued \<or> a = BatchJobQueuedActionCancel \<Longrightarrow> batch_edge (s, a) (BatchJobStateCanceled, [])"
| deleted: "s = BatchJobStateQueued \<or> a = BatchJobQueuedActionDelete \<Longrightarrow> batch_edge (s, a) (BatchJobStateDeleted, [])"
| failed: "s \<noteq> BatchJobStateFailed \<Longrightarrow> batch_edge (s, a) (BatchJobStateFailed, [])"

inductive_cases batch_edgeE: "batch_edge (s, a) (s', a')"

definition batch_moves :: "BatchJob \<Rightarrow> BatchJob \<Rightarrow> bool" where
  "batch_moves r r' \<longleftrightarrow> batch_edge (bState r, bQueuedAction r) (bState r', bQueuedAction r') \<and> bVersion r' = bVersion r + 1 \<and>
     bID r' = bID r \<and> bJobID r' = bJobID r \<and> bProjectID r' = bProjectID r \<and> bTenantID r' = bTenantID r \<and>
     bClusterID r' = bClusterID r \<and> bCreated r' = bCreated r"

definition batch_init :: "BatchJob \<Rightarrow> bool" where
  "batch_init r \<longleftrightarrow> bState r = BatchJobStateQueued \<and> bQueuedAction r = BatchJobQueuedActionCreate \<and> bVersion r = 0 \<and> 0 < bID r"

definition batch_inv :: "BatchJob \<Rightarrow> bool" where
  "batch_inv r \<longleftrightarrow> 0 < bID r \<and> 0 \<le> bVersion r \<and>
     (if bState r = BatchJobStateQueued
      then bQueuedAction r \<in> {BatchJobQueuedActionCreate, BatchJobQueuedActionCancel, BatchJobQueuedActionDelete}
      else bState r \<in> {BatchJobStateRunning, BatchJobStateSucceeded, BatchJobStateFailed, BatchJobStateCanceled, BatchJobStateDeleted} \<and>
        bQueuedAction r = [])"

abbreviation batch_jobs_wf :: "BatchJob list \<Rightarrow> bool" where
  "batch_jobs_wf \<equiv> table_wf bJobID bID batch_inv"

abbreviation batch_step :: "BatchJob list \<Rightarrow> BatchJob list \<Rightarrow> bool" where
  "batch_step \<equiv> table_step bJobID bID batch_init batch_moves"

interpretation batch_life: versioned_lifecycle bJobID bID batch_init batch_moves batch_inv bVersion
proof unfold_locales
  show "batch_inv r'" if "batch_moves r r'" and "batch_inv r" for r r'
    using that by (auto simp: batch_moves_def batch_inv_def elim!: batch_edgeE)
qed (auto simp: batch_init_def batch_inv_def batch_moves_def)

section \<open>The handlers implement the lifecycle\<close>

lemma batch_read:
  assumes "batch_db G" and "distinct (map bJobID t)"
  shows "GetBatchJobByID G now k t = Inr j \<Longrightarrow> row_of bJobID t (bJobID j) = Some j \<and> bJobID j = k"
    and "GetActiveBatchJobByIDAndProjectID G now k p t = Inr j \<Longrightarrow>
      row_of bJobID t (bJobID j) = Some j \<and> bJobID j = k \<and> bProjectID j = p \<and> bState j \<noteq> BatchJobStateDeleted"
  unfolding GetBatchJobByID_def GetActiveBatchJobByIDAndProjectID_def
  by (auto dest!: gorm.take_found [OF assms(1)] row_of_distinct [OF assms(2)])

lemma SetBatchJobQueuedAction_step:
  assumes "batch_db G" and "distinct (map bJobID t)" and "row_of bJobID t k = Some j"
    and "SetBatchJobQueuedAction G now k (bVersion j) a t = (res, t')"
    and "batch_edge (bState j, bQueuedAction j) (BatchJobStateQueued, a)"
  shows "batch_step t t'"
  by (rule gorm.updates_versioned_step [OF assms(1) assms(4) [unfolded SetBatchJobQueuedAction_def] assms(2)])
    (use assms(3,5) in \<open>auto simp: batch_moves_def\<close>)

lemma SetBatchJobState_step:
  assumes "batch_db G" and "distinct (map bJobID t)" and "row_of bJobID t k = Some j"
    and "SetBatchJobState G now k (bVersion j) s t = (res, t')" and "batch_edge (bState j, bQueuedAction j) (s, [])"
  shows "batch_step t t'"
  by (rule gorm.updates_versioned_step [OF assms(1) assms(4) [unfolded SetBatchJobState_def] assms(2)])
    (use assms(3,5) in \<open>auto simp: batch_moves_def\<close>)

lemma SetNonQueuedBatchJobStateAndMessage_step:
  assumes "batch_db G" and "distinct (map bJobID t)" and "row_of bJobID t k = Some j"
    and "SetNonQueuedBatchJobStateAndMessage G now k (bVersion j) s m t = (res, t')" and "batch_edge (bState j, bQueuedAction j) (s, [])"
  shows "batch_step t t'"
  by (rule gorm.updates_versioned_step [OF assms(1) assms(4) [unfolded SetNonQueuedBatchJobStateAndMessage_def] assms(2)])
    (use assms(3,5) in \<open>auto simp: batch_moves_def\<close>)

lemma BatchJob_MutateMessage_sel:
  assumes "BatchJob_MutateMessage C f n = Inr n'"
  shows "bVersion n' = bVersion n" "bJobID n' = bJobID n" "bState n' = bState n" "bQueuedAction n' = bQueuedAction n"
  using assms by (auto simp: BatchJob_MutateMessage_def split: sum.splits)

lemma settle_batch_job_step:
  assumes "batch_db (batchDB env)" and "distinct (map bJobID t)" and "row_of bJobID t (bJobID j) = Some j"
    and "settle_batch_job env now j f s t = (res, t')" and "batch_edge (bState j, bQueuedAction j) (s, [])"
  shows "batch_step t t'"
proof (cases "BatchJob_MutateMessage (batchCodec env) f j")
  case (Inl e)
  then show ?thesis using assms(4) by (auto simp: settle_batch_job_def intro: table_step.stay)
next
  case (Inr j')
  note sel = BatchJob_MutateMessage_sel [OF Inr]
  obtain r1 t1 where upd: "SetNonQueuedBatchJobStateAndMessage (batchDB env) now (bJobID j) (bVersion j) s (bMessage j') t = (r1, t1)"
    by fastforce
  then have "t' = t1" using assms(4) Inr sel by (auto simp: settle_batch_job_def split: sum.splits)
  then show ?thesis using SetNonQueuedBatchJobStateAndMessage_step [OF assms(1-3) upd assms(5)] by simp
qed

lemma convertBatchJobState_values [simp]:
  "convertBatchJobState InternalBatchJob_RUNNING = BatchJobStateRunning"
  "convertBatchJobState InternalBatchJob_SUCCEEDED = BatchJobStateSucceeded"
  "convertBatchJobState InternalBatchJob_FAILED = BatchJobStateFailed"
  "convertBatchJobState InternalBatchJob_CANCELED = BatchJobStateCanceled"
  "convertBatchJobState InternalBatchJob_DELETED = BatchJobStateDeleted"
  "convertBatchJobState InternalBatchJob_QUEUED = BatchJobStateQueued"
  by code_simp+

lemma apply_batch_state_step:
  assumes "batch_db (batchDB env)" and "distinct (map bJobID t)" and "row_of bJobID t (bJobID j) = Some j"
    and "apply_batch_state env now req j t = (res, t')"
  shows "batch_step t t'"
  using assms(4) unfolding apply_batch_state_def Let_def
  by (auto split: if_splits sum.splits prod.splits intro: table_step.stay
      dest!: settle_batch_job_step [OF assms(1-3)] SetBatchJobState_step [OF assms(1-3)]
      intro!: batch_edge.running batch_edge.succeeded batch_edge.canceled batch_edge.deleted batch_edge.failed)

lemma UpdateBatchJobState_step:
  assumes "batch_db (batchDB env)" and "distinct (map bJobID (st_batch_jobs st))"
    and "UpdateBatchJobState env now ctx req st = (res, st')"
  shows "batch_step (st_batch_jobs st) (st_batch_jobs st')"
  using assms(3) apply_batch_state_step [OF assms(1,2)] batch_read(1) [OF assms(1,2)]
  by (fastforce simp: UpdateBatchJobState_def split: sum.splits if_splits prod.splits intro: table_step.stay)

lemma queue_batch_job_step:
  assumes "batch_db (batchDB env)" and "distinct (map bJobID (st_batch_jobs st))"
    and "row_of bJobID (st_batch_jobs st) (bJobID j) = Some j"
    and "queue_batch_job env now j a st = (res, st')" and "batch_edge (bState j, bQueuedAction j) (BatchJobStateQueued, a)"
  shows "batch_step (st_batch_jobs st) (st_batch_jobs st')"
  using assms(4) SetBatchJobQueuedAction_step [OF assms(1-3) _ assms(5)]
  by (auto simp: queue_batch_job_def split: prod.splits sum.splits)

lemma batch_step_edges:
  assumes "batch_db (batchDB env)" and "distinct (map bJobID (st_batch_jobs st))"
  shows "DeleteBatchJob env now ctx k st = (res, st') \<Longrightarrow> batch_step (st_batch_jobs st) (st_batch_jobs st')"
    and "CancelBatchJob env now ctx k st = (res, st') \<Longrightarrow> batch_step (st_batch_jobs st) (st_batch_jobs st')"
proof -
  have read: "row_of bJobID (st_batch_jobs st) (bJobID n) = Some n"
    if "GetActiveBatchJobByIDAndProjectID (batchDB env) now k p (st_batch_jobs st) = Inr n" for n p
    using batch_read(2) [OF assms that] by blast
  note steps = queue_batch_job_step [OF assms read, rotated]
  show "DeleteBatchJob env now ctx k st = (res, st') \<Longrightarrow> batch_step (st_batch_jobs st) (st_batch_jobs st')"
    by (auto simp: DeleteBatchJob_def split: option.splits sum.splits if_splits intro: table_step.stay
        dest!: steps intro!: batch_edge.delete)
  show "CancelBatchJob env now ctx k st = (res, st') \<Longrightarrow> batch_step (st_batch_jobs st) (st_batch_jobs st')"
    by (auto simp: CancelBatchJob_def split: option.splits sum.splits if_splits intro: table_step.stay
        dest!: steps intro!: batch_edge.cancel)
qed

lemma CreateBatchJob_cases:
  assumes "CreateBatchJob env now ctx req st = (Inr p, st')"
  obtains u img jobID s st1 st2 msg apikey r where "ExtractUserInfo ctx = Some u" "validate_CreateBatchJob env req = Inr img"
    "GenerateIDForK8SResource env now ''bj-'' = Inr jobID"
    "env_Schedule env now u [] (case CBR_Resources req of None \<Rightarrow> 0 | Some n \<Rightarrow> n) st = (Inr s, st1)"
    "env_AddAssumedPod env now (ui_TenantID u) (sr_ClusterID s) (sr_Namespace s @ ''/'' @ jobID)
       (case CBR_Resources req of None \<Rightarrow> 0 | Some n \<Rightarrow> n) st1 = (Inr (), st2)"
    "p = new_batch_proto now u req jobID img s" "Marshal (batchCodec env) p = Inr msg" "ExtractToken ctx = Inr apikey"
    "NewClient env (sr_ClusterID s) apikey = Inr ()"
    "store_CreateBatchJob (batchDB env) now (new_batch_job u jobID s msg) (st_batch_jobs st2) = (Inr r, st_batch_jobs st')"
    "st' = st2\<lparr>st_batch_jobs := st_batch_jobs st', st_k8s := st_k8s st2 @
       [CreateSecret (sr_ClusterID s) jobID (sr_Namespace s) [(''OPENAI_API_KEY'', apikey)],
        CreateConfigMap (sr_ClusterID s) jobID (sr_Namespace s) (CBR_Scripts req)]\<rparr>"
  using assms
  by (auto simp: CreateBatchJob_def env_k8s_def Let_def split: option.splits sum.splits prod.splits)

lemma CreateBatchJob_error:
  assumes "batch_db (batchDB env)" and "CreateBatchJob env now ctx req st = (Inl e, st')"
  shows "st_batch_jobs st' = st_batch_jobs st"
  using assms(2)
  by (auto simp: CreateBatchJob_def Let_def store_CreateBatchJob_def split: option.splits sum.splits prod.splits
      dest!: env_tables gorm.create_err [OF assms(1)])

lemma CreateBatchJob_step:
  assumes "batch_db (batchDB env)" and "CreateBatchJob env now ctx req st = (res, st')"
  shows "batch_step (st_batch_jobs st) (st_batch_jobs st')"
proof (cases res)
  case (Inl e)
  then show ?thesis using CreateBatchJob_error [OF assms(1)] assms(2) by (auto intro: table_step.stay)
next
  case (Inr p)
  then obtain u jobID s msg r n st1 st2 where
    sched: "env_Schedule env now u [] n st = (Inr s, st1)"
      "env_AddAssumedPod env now (ui_TenantID u) (sr_ClusterID s) (sr_Namespace s @ ''/'' @ jobID) n st1 = (Inr (), st2)"
    and cr: "store_CreateBatchJob (batchDB env) now (new_batch_job u jobID s msg) (st_batch_jobs st2) = (Inr r, st_batch_jobs st')"
    using assms(2) by (auto elim!: CreateBatchJob_cases)
  have "st_batch_jobs st2 = st_batch_jobs st" using env_tables(1) [OF sched(1)] env_tables(2) [OF sched(2)] by simp
  moreover have "batch_init (batch_stamp i now (new_batch_job u jobID s msg))" if "0 < i" for i
    using that by (simp add: batch_init_def new_batch_job_def zero_batch_job_def)
  ultimately show ?thesis
    using gorm.create_step [OF assms(1) cr [unfolded store_CreateBatchJob_def]] by metis
qed

text \<open>An update touches no other row, and a worker changes no batch job of another tenant.\<close>

lemma batch_update_frames:
  assumes "batch_db G" and "distinct (map bJobID t)"
  shows "SetBatchJobQueuedAction G now k v a t = (res, t') \<Longrightarrow> j \<noteq> k \<Longrightarrow> row_of bJobID t' j = row_of bJobID t j"
    and "SetBatchJobState G now k v s t = (res, t') \<Longrightarrow> j \<noteq> k \<Longrightarrow> row_of bJobID t' j = row_of bJobID t j"
    and "SetNonQueuedBatchJobStateAndMessage G now k v s m t = (res, t') \<Longrightarrow> j \<noteq> k \<Longrightarrow> row_of bJobID t' j = row_of bJobID t j"
  unfolding SetBatchJobQueuedAction_def SetBatchJobState_def SetNonQueuedBatchJobStateAndMessage_def
  by (auto dest!: gorm.updates_versioned_frame [OF assms(1) _ assms(2), where j = j])

lemma UpdateBatchJobState_tenant:
  assumes "batch_db (batchDB env)" and "distinct (map bJobID (st_batch_jobs st))"
    and "extractClusterInfoFromContext (enableAuth env) ctx = Inr ci"
    and "row_of bJobID (st_batch_jobs st) j = Some r" and "bTenantID r \<noteq> ci_TenantID ci"
    and "UpdateBatchJobState env now ctx req st = (res, st')"
  shows "row_of bJobID (st_batch_jobs st') j = Some r"
proof (cases "j = UBS_Id req")
  case True
  have "job = r" if "GetBatchJobByID (batchDB env) now (UBS_Id req) (st_batch_jobs st) = Inr job" for job
    using batch_read(1) [OF assms(1,2) that] assms(4) True by auto
  then have "st' = st"
    using assms(3,5,6) by (auto simp: UpdateBatchJobState_def split: if_splits sum.splits)
  then show ?thesis using assms(4) by simp
next
  case False
  have key: "bJobID job = UBS_Id req" if "GetBatchJobByID (batchDB env) now (UBS_Id req) (st_batch_jobs st) = Inr job" for job
    using batch_read(1) [OF assms(1,2) that] by blast
  have frame: "row_of bJobID t' j = row_of bJobID (st_batch_jobs st) j"
    if "apply_batch_state env now req job (st_batch_jobs st) = (x, t')" "bJobID job = UBS_Id req" for job x t'
    using that False batch_update_frames(2-) [OF assms(1,2), where j = j] BatchJob_MutateMessage_sel(2)
    by (fastforce simp: apply_batch_state_def settle_batch_job_def Let_def split: if_splits sum.splits prod.splits)
  then show ?thesis
    using assms(4,6) key by (auto simp: UpdateBatchJobState_def split: sum.splits if_splits prod.splits)
qed

end
