(* ===== verification/Clusters.thy ===== *)
theory Clusters
  imports Server "HOL-Library.List_Lexorder" "HOL-Library.Char_ord"
begin

text \<open>
  \<^verbatim>\<open>server/internal/server/clusters.go\<close> and \<^verbatim>\<open>syncer_server.go\<close>: the cluster listing, the status reports of the clusters,
  and the syncer service that applies and deletes Kubernetes objects on a scheduled cluster. Go compares strings bytewise, which
  is the lexicographic order of \<open>string\<close>; \<^verbatim>\<open>sort.Slice\<close> by a key without duplicates is \<open>sort_key\<close>.
\<close>

section \<open>Clusters\<close>

definition accessibleClusters :: "UserInfo \<Rightarrow> (string \<times> bool) list" where
  "accessibleClusters userInfo = foldl (\<lambda>m env. map_put (ake_ClusterID env) True m) [] (ui_AssignedKubernetesEnvs userInfo)"

definition summarize_cluster :: "store_Cluster \<Rightarrow> ClusterStatus \<Rightarrow> v1_cluster" where
  "summarize_cluster c status = \<lparr>Cluster_Id = cClusterID c, Cluster_Name = cName c, Cluster_Status = status,
     Cluster_Summary_field = \<lparr>
       Summary_GpuCapacity = foldl (\<lambda>a node. int32 (a + GpuNode_AllocatableCount node)) 0 (CS_GpuNodes status),
       Summary_GpuAllocated = foldl (\<lambda>a pod. int32 (a + GpuPod_AllocatedCount pod)) 0 (CS_GpuPods status),
       Summary_GpuPodCount = int32 (int (length (CS_GpuPods status)))\<rparr>,
     Cluster_LastUpdatedAt = cUpdatedAt c\<rparr>"

fun collect_clusters :: "ClusterStatus codec \<Rightarrow> (string \<times> bool) list \<Rightarrow> store_Cluster list \<Rightarrow> go_error + v1_cluster list" where
  "collect_clusters C accessible [] = Inr []"
| "collect_clusters C accessible (c # clusters) =
     (if map_of accessible (cClusterID c) \<noteq> Some True then collect_clusters C accessible clusters
      else case Unmarshal C (cStatus c) of
        Inl e \<Rightarrow> Inl (internal_error ''failed to marshal cluster status: '' e)
      | Inr status \<Rightarrow> (case collect_clusters C accessible clusters of Inl e \<Rightarrow> Inl e
          | Inr cs \<Rightarrow> Inr (summarize_cluster c status # cs)))"

definition ListClusters :: "server_env \<Rightarrow> time \<Rightarrow> context_info \<Rightarrow> server_state \<Rightarrow> go_error + v1_cluster list" where
  "ListClusters env now ctx st = (case ExtractUserInfo ctx of None \<Rightarrow> Inl unauthenticated
     | Some userInfo \<Rightarrow> (case store_ListClustersByTenantID (clusterDB env) now (ui_TenantID userInfo) (st_clusters st) of
         Inl e \<Rightarrow> Inl (internal_error ''failed to list clusters: '' e)
     | Inr clusters \<Rightarrow> (case collect_clusters (statusCodec env) (accessibleClusters userInfo) clusters of Inl e \<Rightarrow> Inl e
     | Inr cs \<Rightarrow> Inr (sort_key Cluster_Id cs))))"

definition reported_cluster :: "ClusterInfo \<Rightarrow> bytes \<Rightarrow> store_Cluster" where
  "reported_cluster clusterInfo b = \<lparr>cID = 0, cCreatedAt = 0, cUpdatedAt = 0, cClusterID = ci_ClusterID clusterInfo,
     cName = ci_ClusterName clusterInfo, cTenantID = ci_TenantID clusterInfo, cStatus = b\<rparr>"

definition UpdateClusterStatus :: "server_env \<Rightarrow> time \<Rightarrow> context_info \<Rightarrow> ClusterStatus option \<Rightarrow> server_state \<Rightarrow> (go_error + unit) \<times> server_state" where
  "UpdateClusterStatus env now ctx req_status st = (case extractClusterInfoFromContext (enableAuth env) ctx of Inl e \<Rightarrow> (Inl e, st)
     | Inr clusterInfo \<Rightarrow> (case req_status of None \<Rightarrow> (Inl (Status InvalidArgument ''cluster_status is required''), st)
     | Some status \<Rightarrow> (case Marshal (statusCodec env) status of Inl e \<Rightarrow> (Inl (internal_error ''marshal proto: '' e), st)
     | Inr b \<Rightarrow> (case CreateOrUpdateCluster (clusterDB env) now (reported_cluster clusterInfo b) (st_clusters st) of
         (Inl e, db) \<Rightarrow> (Inl (internal_error ''create or update cluster: '' e), st\<lparr>st_clusters := db\<rparr>)
     | (Inr c, db) \<Rightarrow> (case AddOrUpdateCluster (clusterDB env) (statusCodec env) now c db (st_cache st) of
         (Inl e, cs) \<Rightarrow> (Inl (internal_error ''set cluster to cache: '' e), st\<lparr>st_clusters := db, st_cache := cs\<rparr>)
     | (Inr _, cs) \<Rightarrow> (Inr (), st\<lparr>st_clusters := db, st_cache := cs\<rparr>))))))"

section \<open>The syncer service\<close>

definition PatchKubernetesObject ::
  "server_env \<Rightarrow> time \<Rightarrow> context_info \<Rightarrow> PatchKubernetesObjectRequest \<Rightarrow> server_state \<Rightarrow> (go_error + PatchKubernetesObjectResponse) \<times> server_state" where
  "PatchKubernetesObject env now ctx req st =
     (case guards [(PKO_Name req = [], Status InvalidArgument ''name is required''),
         (PKO_Version req = [], Status InvalidArgument ''version is required''),
         (PKO_Resource req = [], Status InvalidArgument ''resource is required''),
         (length (PKO_Data req) = 0, Status InvalidArgument ''data is required'')] of Inl e \<Rightarrow> (Inl e, st)
     | Inr _ \<Rightarrow> (case ExtractUserInfo ctx of None \<Rightarrow> (Inl unauthenticated, st)
     | Some userInfo \<Rightarrow> (case ExtractToken ctx of Inl e \<Rightarrow> (Inl e, st)
     | Inr apikey \<Rightarrow> (let gpuCount = (case PKO_Resources req of None \<Rightarrow> 0 | Some n \<Rightarrow> n)
       in case env_Schedule env now userInfo [] gpuCount st of (Inl e, st1) \<Rightarrow> (Inl (internal_error ''schedule: '' e), st1)
     | (Inr sresult, st1) \<Rightarrow> (case env_AddAssumedPod env now (ui_TenantID userInfo) (sr_ClusterID sresult)
           (sr_Namespace sresult @ ''/'' @ PKO_Name req) gpuCount st1 of (Inl e, st2) \<Rightarrow> (Inl (internal_error ''add assumed pod: '' e), st2)
     | (Inr _, st2) \<Rightarrow>
         if sr_Namespace sresult \<noteq> PKO_Namespace req then (Inl (Status NotFound ''not found the namespace''), st2)
         else (case NewClient env (sr_ClusterID sresult) apikey of Inl e \<Rightarrow> (Inl (internal_error ''create k8s client: '' e), st2)
     | Inr _ \<Rightarrow> (case env_k8s env (PatchResource (sr_ClusterID sresult) (PKO_Name req) (PKO_Namespace req)
           (PKO_Group req, PKO_Version req, PKO_Resource req) (PKO_Data req)) st2 of
         (Inl e, st3) \<Rightarrow> (Inl (internal_error ''patch k8s object: '' e), st3)
     | (Inr uid, st3) \<Rightarrow> (Inr \<lparr>PKR_ClusterId = sr_ClusterID sresult, PKR_Uid = uid\<rparr>, st3))))))))"

definition DeleteKubernetesObject ::
  "server_env \<Rightarrow> context_info \<Rightarrow> DeleteKubernetesObjectRequest \<Rightarrow> server_state \<Rightarrow> (go_error + unit) \<times> server_state" where
  "DeleteKubernetesObject env ctx req st =
     (case guards [(DKO_ClusterId req = [], Status InvalidArgument ''cluster ID is required''),
         (DKO_Name req = [], Status InvalidArgument ''name is required''),
         (DKO_Version req = [], Status InvalidArgument ''version is required''),
         (DKO_Resource req = [], Status InvalidArgument ''resource is required'')] of Inl e \<Rightarrow> (Inl e, st)
     | Inr _ \<Rightarrow> (case ExtractToken ctx of Inl e \<Rightarrow> (Inl e, st)
     | Inr apikey \<Rightarrow> (case NewClient env (DKO_ClusterId req) apikey of Inl e \<Rightarrow> (Inl (internal_error ''create k8s client: '' e), st)
     | Inr _ \<Rightarrow> (case env_k8s env (DeleteResource (DKO_ClusterId req) (DKO_Name req) (DKO_Namespace req)
           (DKO_Group req, DKO_Version req, DKO_Resource req)) st of
         (Inl e, st1) \<Rightarrow> (Inl (internal_error ''delete k8s object: '' e), st1)
     | (Inr _, st1) \<Rightarrow> (Inr (), st1)))))"

definition ListClusterIDs :: "context_info \<Rightarrow> go_error + string list" where
  "ListClusterIDs ctx = (case ExtractUserInfo ctx of None \<Rightarrow> Inl unauthenticated
     | Some userInfo \<Rightarrow> Inr (sort (keys (accessibleClusters userInfo))))"

section \<open>Lemmas\<close>

lemma accessible_fold:
  assumes "distinct (keys m)"
  shows "distinct (keys (foldl (\<lambda>m env. map_put (ake_ClusterID env) True m) m envs)) \<and>
    set (keys (foldl (\<lambda>m env. map_put (ake_ClusterID env) True m) m envs)) = set (keys m) \<union> ake_ClusterID ` set envs"
  using assms
proof (induction envs arbitrary: m)
  case (Cons e envs)
  then show ?case
    using Cons.IH [of "map_put (ake_ClusterID e) True m"] by (simp add: set_keys_map_put [unfolded set_map])
qed simp

lemma accessible_keys:
  "distinct (keys (accessibleClusters u))" "set (keys (accessibleClusters u)) = ake_ClusterID ` set (ui_AssignedKubernetesEnvs u)"
  using accessible_fold [of "[]" "ui_AssignedKubernetesEnvs u"] by (simp_all add: accessibleClusters_def)

lemma accessible_true:
  "map_of (foldl (\<lambda>m env. map_put (ake_ClusterID env) True m) m envs) k =
     (if k \<in> ake_ClusterID ` set envs then Some True else map_of m k)"
  by (induction envs arbitrary: m) auto

lemma accessible_iff: "map_of (accessibleClusters u) k = Some True \<longleftrightarrow> k \<in> ake_ClusterID ` set (ui_AssignedKubernetesEnvs u)"
  by (simp add: accessibleClusters_def accessible_true)

lemma collect_clusters_ids:
  "collect_clusters C acc rows = Inr cs \<Longrightarrow>
     map Cluster_Id cs = map cClusterID (filter (\<lambda>r. map_of acc (cClusterID r) = Some True) rows)"
  by (induction rows arbitrary: cs) (auto simp: summarize_cluster_def split: if_splits sum.splits)

text \<open>A status report keeps the cache coherent with the store.\<close>

lemma UpdateClusterStatus_coherent:
  assumes db: "cluster_db (clusterDB env)" and codec: "proto_codec (statusCodec env) empty_ClusterStatus"
    and ok: "clusters_table_ok (st_clusters st)" and coh: "coherent (statusCodec env) (st_clusters st) (st_cache st)"
    and run: "UpdateClusterStatus env now ctx req st = (res, st')"
  shows "clusters_table_ok (st_clusters st') \<and> coherent (statusCodec env) (st_clusters st') (st_cache st')"
proof -
  consider (stay) "st' = st" | (report) ci s b where "extractClusterInfoFromContext (enableAuth env) ctx = Inr ci" "req = Some s"
    "Marshal (statusCodec env) s = Inr b"
    using run by (auto simp: UpdateClusterStatus_def split: sum.splits option.splits)
  then show ?thesis
  proof cases
    case stay
    then show ?thesis using ok coh by simp
  next
    case (report ci s b)
    let ?row = "reported_cluster ci b"
    obtain out db' where cr: "CreateOrUpdateCluster (clusterDB env) now ?row (st_clusters st) = (out, db')" by fastforce
    show ?thesis
    proof (cases out)
      case (Inl e)
      then have "db' = st_clusters st"
        using cr gorm.create_err [OF db] gorm.save_err [OF db]
        by (auto simp: CreateOrUpdateCluster_def split: sum.splits if_splits)
      then show ?thesis using run report cr Inl ok coh by (auto simp: UpdateClusterStatus_def)
    next
      case (Inr c)
      obtain r2 cs where add: "AddOrUpdateCluster (clusterDB env) (statusCodec env) now c db' (st_cache st) = (r2, cs)" by fastforce
      have st': "st' = st\<lparr>st_clusters := db', st_cache := cs\<rparr>"
        using run report cr Inr add by (auto simp: UpdateClusterStatus_def split: sum.splits)
      from ok have d: "distinct (map cClusterID (st_clusters st))" "distinct (map cID (st_clusters st))"
        by (simp_all add: clusters_table_ok_def)
      note cou = create_or_update_cluster [OF db d cr [unfolded Inr]]
      have rows: "row_of cClusterID db' = (row_of cClusterID (st_clusters st))(cClusterID ?row \<mapsto> c)"
        and stat: "cStatus c = b" and ok': "clusters_table_ok db'"
        using cou by (auto simp: clusters_table_ok_def reported_cluster_def)
      have key: "cClusterID c = cClusterID ?row"
        using row_of_Some [of cClusterID db' "cClusterID ?row" c] rows by simp
      have own: "cTenantID old = cTenantID c" if "row_of cClusterID (st_clusters st) (cClusterID c) = Some old" for old
        using cou that key by simp
      obtain cl where conv: "convertToCacheCluster (statusCodec env) c = Inr cl"
        using proto_codec.unmarshal_marshal [OF codec report(3)] stat by (auto simp: convertToCacheCluster_def)
      have "coherent (statusCodec env) db' cs"
        by (rule AddOrUpdateCluster_coherent [OF db ok' coh _ own conv add]) (use rows key in simp)
      then show ?thesis using ok' st' by simp
    qed
  qed
qed

end
