(* ===== verification/Summaries.thy ===== *)
theory Summaries
  imports Server
begin

text \<open>
  \<^verbatim>\<open>server/internal/store/summary.go\<close> and \<^verbatim>\<open>server/internal/server/summaries.go\<close>: the counts of jobs by creation interval, type
  and state. The three summary queries group rows in the database (\<open>gGroup\<close>); the handler sums them up in nested maps. Go
  ranges over the job types of a timestamp in an order of its own, the parameter \<open>rng\<close>. Sums of \<^verbatim>\<open>int64\<close> counts of rows do not
  overflow and are \<open>int\<close>. \<^verbatim>\<open>Truncate\<close> counts from year 1, a whole number of hours before the Unix epoch.
\<close>

section \<open>The summary queries\<close>

record JobSummary =
  js_JobType :: string
  js_JobState :: string
  js_ProjectID :: string
  js_TenantID :: string
  js_ClusterID :: string
  js_Timestamp :: int
  js_Count :: int

text \<open>\<^verbatim>\<open>created / d * d\<close> with the truncating integer division of SQL, which fails for \<open>d = 0\<close>.\<close>

definition trunc_expr :: "int \<Rightarrow> duration \<Rightarrow> int option" where
  "trunc_expr created d = (if d = 0 then None else Some (sgn created * sgn d * (\<bar>created\<bar> div \<bar>d\<bar>) * d))"

definition scan_summary :: "string \<Rightarrow> group_key \<times> int \<Rightarrow> JobSummary" where
  "scan_summary jobType g = (case g of ((state, project, tenant, cluster, ts), n) \<Rightarrow>
     \<lparr>js_JobType = jobType, js_JobState = state, js_ProjectID = project, js_TenantID = tenant, js_ClusterID = cluster,
      js_Timestamp = ts, js_Count = n\<rparr>)"

definition GetJobSummaries :: "Job gorm \<Rightarrow> time \<Rightarrow> string \<Rightarrow> time \<Rightarrow> time \<Rightarrow> duration \<Rightarrow> Job list \<Rightarrow> go_error + JobSummary list" where
  "GetJobSummaries G now tenantID startTime endTime interval t =
     (case gGroup G now (\<lambda>j. jTenantID j = tenantID \<and> jUpdatedAt j \<ge> startTime \<and> jUpdatedAt j < endTime)
        (\<lambda>j. map_option (\<lambda>ts. (jState j, jProjectID j, jTenantID j, jClusterID j, ts)) (trunc_expr (jCreated j) interval)) t of
        Inl e \<Rightarrow> Inl (Wrapf ''scan job summaries: '' e) | Inr gs \<Rightarrow> Inr (map (scan_summary ''fine_tuning'') gs))"

definition GetBatchJobSummaries :: "BatchJob gorm \<Rightarrow> time \<Rightarrow> string \<Rightarrow> time \<Rightarrow> time \<Rightarrow> duration \<Rightarrow> BatchJob list \<Rightarrow> go_error + JobSummary list" where
  "GetBatchJobSummaries G now tenantID startTime endTime interval t =
     (case gGroup G now (\<lambda>j. bTenantID j = tenantID \<and> bUpdatedAt j \<ge> startTime \<and> bUpdatedAt j < endTime)
        (\<lambda>j. map_option (\<lambda>ts. (bState j, bProjectID j, bTenantID j, bClusterID j, ts)) (trunc_expr (bCreated j) interval)) t of
        Inl e \<Rightarrow> Inl (Wrapf ''scan batch job summaries: '' e) | Inr gs \<Rightarrow> Inr (map (scan_summary ''batch'') gs))"

definition GetNotebookSummaries :: "Notebook gorm \<Rightarrow> time \<Rightarrow> string \<Rightarrow> time \<Rightarrow> time \<Rightarrow> duration \<Rightarrow> Notebook list \<Rightarrow> go_error + JobSummary list" where
  "GetNotebookSummaries G now tenantID startTime endTime interval t =
     (case gGroup G now (\<lambda>n. nTenantID n = tenantID \<and> nUpdatedAt n \<ge> startTime \<and> nUpdatedAt n < endTime)
        (\<lambda>n. map_option (\<lambda>ts. (nState n, nProjectID n, nTenantID n, nClusterID n, ts)) (trunc_expr (nCreated n) interval)) t of
        Inl e \<Rightarrow> Inl (Wrapf ''scan notebook summaries: '' e) | Inr gs \<Rightarrow> Inr (map (scan_summary ''notebook'') gs))"

section \<open>The handler\<close>

type_synonym state_counts = "(string \<times> int) list"
type_synonym timestamp_map = "(int \<times> (string \<times> state_counts) list) list"

text \<open>\<^verbatim>\<open>m[k]\<close> where a missing key reads as the zero value \<open>z\<close>.\<close>

definition lookup :: "('k \<times> 'v) list \<Rightarrow> 'k \<Rightarrow> 'v \<Rightarrow> 'v" where
  "lookup m k z = (case map_of m k of None \<Rightarrow> z | Some v \<Rightarrow> v)"

definition add_count :: "string \<Rightarrow> int \<Rightarrow> state_counts \<Rightarrow> state_counts" where
  "add_count k n m = map_put k (lookup m k 0 + n) m"

definition accumulate :: "time \<Rightarrow> time \<Rightarrow> timestamp_map \<Rightarrow> JobSummary \<Rightarrow> timestamp_map" where
  "accumulate startTime endTime m s =
     (let ts = js_Timestamp s; types = lookup m ts []; states = lookup types (js_JobType s) [];
          states = add_count (js_JobState s) (js_Count s) states;
          states = (if ts \<ge> startTime \<and> ts < endTime then add_count ''created'' (js_Count s) states else states)
      in map_put ts (map_put (js_JobType s) states types) m)"

definition toJobType :: "string \<Rightarrow> int" where
  "toJobType t = (if t = ''batch'' then JobType_BATCH else if t = ''fine_tuning'' then JobType_FINE_TUNING
     else if t = ''notebook'' then JobType_NOTEBOOK else JobType_UNSPECIFIED)"

definition add_state :: "JobSummaryValue \<Rightarrow> string \<times> int \<Rightarrow> JobSummaryValue" where
  "add_state value sc = (case sc of (state, n) \<Rightarrow>
     if state = ''succeeded'' then value\<lparr>V_TotalCompleted := V_TotalCompleted value + n\<rparr>
     else if state = ''failed'' then value\<lparr>V_TotalFailed := V_TotalFailed value + n\<rparr>
     else if state = ''canceled'' then value\<lparr>V_TotalCancelled := V_TotalCancelled value + n\<rparr>
     else if state = ''stopped'' then value\<lparr>V_TotalStopped := V_TotalStopped value + n\<rparr>
     else if state = ''running'' then value\<lparr>V_TotalRunning := V_TotalRunning value + n\<rparr>
     else if state = ''initializing'' then value\<lparr>V_TotalRunning := V_TotalRunning value + n\<rparr>
     else if state = ''deleted'' then value\<lparr>V_TotalDeleted := V_TotalDeleted value + n\<rparr>
     else if state = ''requeued'' then value\<lparr>V_TotalQueued := V_TotalQueued value + n\<rparr>
     else if state = ''queued'' then value\<lparr>V_TotalQueued := V_TotalQueued value + n\<rparr>
     else if state = ''created'' then value\<lparr>V_TotalCreated := V_TotalCreated value + n\<rparr>
     else value)"

definition zero_value :: "string \<Rightarrow> JobSummaryValue" where
  "zero_value jobType = \<lparr>V_JobType = toJobType jobType, V_TotalCreated = 0, V_TotalCompleted = 0, V_TotalCancelled = 0, V_TotalFailed = 0,
     V_TotalDeleted = 0, V_TotalRunning = 0, V_TotalQueued = 0, V_TotalStopped = 0, V_TotalUnfinished = 0\<rparr>"

definition to_value :: "string \<times> state_counts \<Rightarrow> JobSummaryValue" where
  "to_value ts = (case ts of (jobType, states) \<Rightarrow>
     let value = foldl add_state (zero_value jobType) states
     in value\<lparr>V_TotalUnfinished := V_TotalQueued value + V_TotalRunning value\<rparr>)"

definition getSummariesByTimeRange ::
  "server_env \<Rightarrow> ((string \<times> state_counts) list \<Rightarrow> (string \<times> state_counts) list) \<Rightarrow> time \<Rightarrow> string \<Rightarrow> time \<Rightarrow> time \<Rightarrow> duration \<Rightarrow> server_state \<Rightarrow>
   go_error + JobSummaryDatapoint list" where
  "getSummariesByTimeRange env rng now tenantID startTime endTime interval st =
     (case GetJobSummaries (jobDB env) now tenantID startTime endTime interval (st_jobs st) of Inl e \<Rightarrow> Inl e
      | Inr ftJobs \<Rightarrow> (case GetBatchJobSummaries (batchDB env) now tenantID startTime endTime interval (st_batch_jobs st) of Inl e \<Rightarrow> Inl e
      | Inr batchJobs \<Rightarrow> (case GetNotebookSummaries (notebookDB env) now tenantID startTime endTime interval (st_notebooks st) of Inl e \<Rightarrow> Inl e
      | Inr notebooks \<Rightarrow>
          let timestampMap = foldl (accumulate startTime endTime) [] (ftJobs @ batchJobs @ notebooks)
          in Inr (map (\<lambda>ts. \<lparr>DP_Timestamp = ts, DP_Values = map to_value (rng (lookup timestampMap ts []))\<rparr>) (sort (keys timestampMap))))))"

definition defaultInterval :: duration where "defaultInterval = 3600 * 1000000000"
definition defaultDuration :: duration where "defaultDuration = 7 * 24 * 3600 * 1000000000"

definition Truncate :: "time \<Rightarrow> duration \<Rightarrow> time" where
  "Truncate t d = (if d \<le> 0 then t else t - t mod d)"

definition getStartEndTime :: "RequestFilter option \<Rightarrow> time \<Rightarrow> duration \<Rightarrow> go_error + (time \<times> time)" where
  "getStartEndTime filter0 now duration =
     (let flt = (case filter0 of None \<Rightarrow> \<lparr>RF_StartTimestamp = 0, RF_EndTimestamp = 0, RF_Duration = None\<rparr> | Some f \<Rightarrow> f);
          e = RF_EndTimestamp flt; s = RF_StartTimestamp flt
      in if e < 0 then Inl (Status InvalidArgument ''endTimestamp must be a non-negative value'')
         else let endTime = Truncate (if e > 0 then e * 1000000000 else now + defaultInterval div 2) defaultInterval
              in if s < 0 then Inl (Status InvalidArgument ''startTimestamp must be a non-negative value'')
                 else let startTime = Truncate (if s > 0 then s * 1000000000 else endTime + -1 * duration) defaultInterval
                      in if \<not> startTime < endTime then Inl (Status InvalidArgument ''startTimestamp must be before endTimestamp'')
                         else Inr (startTime, endTime))"

definition ListJobSummaries ::
  "server_env \<Rightarrow> ((string \<times> state_counts) list \<Rightarrow> (string \<times> state_counts) list) \<Rightarrow> time \<Rightarrow> context_info \<Rightarrow> RequestFilter option \<Rightarrow> server_state \<Rightarrow>
   go_error + JobSummaryDatapoint list" where
  "ListJobSummaries env rng now ctx req_filter st = (case ExtractUserInfo ctx of None \<Rightarrow> Inl unauthenticated
     | Some userInfo \<Rightarrow> (case getStartEndTime req_filter now defaultDuration of Inl e \<Rightarrow> Inl e
     | Inr (startTime, endTime) \<Rightarrow>
         let duration = (case req_filter of Some f \<Rightarrow> (case RF_Duration f of Some d \<Rightarrow> d | None \<Rightarrow> endTime - startTime) | None \<Rightarrow> endTime - startTime)
         in (case getSummariesByTimeRange env rng now (ui_TenantID userInfo) startTime endTime duration st of
               Inl e \<Rightarrow> Inl (internal_error ''get summaries by time range: '' e) | Inr datapoints \<Rightarrow> Inr datapoints)))"

section \<open>Lemmas\<close>

definition count_at :: "timestamp_map \<Rightarrow> int \<Rightarrow> string \<Rightarrow> string \<Rightarrow> int" where
  "count_at m ts jt s = lookup (lookup (lookup m ts []) jt []) s 0"

definition tsmap_ok :: "timestamp_map \<Rightarrow> bool" where
  "tsmap_ok m \<longleftrightarrow> distinct (keys m) \<and> (\<forall>(ts, types) \<in> set m. distinct (keys types) \<and> (\<forall>(jt, states) \<in> set types. distinct (keys states)))"

lemma lookup_put [simp]: "lookup (map_put k v m) j z = (if j = k then v else lookup m j z)"
  by (simp add: lookup_def)

lemma lookup_Nil [simp]: "lookup [] k z = z"
  by (simp add: lookup_def)

lemma lookup_mem: "lookup m k z = z \<or> (k, lookup m k z) \<in> set m"
  by (auto simp: lookup_def dest: map_of_SomeD split: option.splits)

lemma count_accumulate:
  "s \<noteq> ''created'' \<Longrightarrow> js_JobState x \<noteq> ''created'' \<Longrightarrow> count_at (accumulate a b m x) ts jt s =
     count_at m ts jt s + (if js_Timestamp x = ts \<and> js_JobType x = jt \<and> js_JobState x = s then js_Count x else 0)"
  by (simp add: count_at_def accumulate_def add_count_def Let_def)

lemma count_accumulate_created:
  "js_JobState x \<noteq> ''created'' \<Longrightarrow> count_at (accumulate a b m x) ts jt ''created'' = count_at m ts jt ''created'' +
     (if js_Timestamp x = ts \<and> js_JobType x = jt \<and> a \<le> ts \<and> ts < b then js_Count x else 0)"
  by (simp add: count_at_def accumulate_def add_count_def Let_def)

abbreviation counted :: "JobSummary list \<Rightarrow> (JobSummary \<Rightarrow> bool) \<Rightarrow> int" where
  "counted xs P \<equiv> sum_list (map js_Count (filter P xs))"

lemma count_fold:
  assumes "\<forall>x \<in> set xs. js_JobState x \<noteq> ''created''" and "s \<noteq> ''created''"
  shows "count_at (foldl (accumulate a b) m xs) ts jt s = count_at m ts jt s +
    counted xs (\<lambda>x. js_Timestamp x = ts \<and> js_JobType x = jt \<and> js_JobState x = s)"
  using assms(1) by (induction xs arbitrary: m) (auto simp: count_accumulate assms(2))

lemma count_fold_created:
  assumes "\<forall>x \<in> set xs. js_JobState x \<noteq> ''created''"
  shows "count_at (foldl (accumulate a b) m xs) ts jt ''created'' = count_at m ts jt ''created'' +
    counted xs (\<lambda>x. js_Timestamp x = ts \<and> js_JobType x = jt \<and> a \<le> ts \<and> ts < b)"
  using assms by (induction xs arbitrary: m) (auto simp: count_accumulate_created)

lemma lookup_ok:
  assumes "tsmap_ok m"
  shows "distinct (keys (lookup m ts []))" and "distinct (keys (lookup (lookup m ts []) jt []))"
proof -
  have types: "distinct (keys (lookup m ts [])) \<and> (\<forall>(jt, states) \<in> set (lookup m ts []). distinct (keys states))"
    using lookup_mem [of m ts "[]"] assms by (fastforce simp: tsmap_ok_def)
  then show "distinct (keys (lookup m ts []))" by blast
  show "distinct (keys (lookup (lookup m ts []) jt []))"
    using types lookup_mem [of "lookup m ts []" jt "[]"] by fastforce
qed

lemma tsmap_ok_accumulate:
  assumes "tsmap_ok m"
  shows "tsmap_ok (accumulate a b m x)"
proof -
  let ?ts = "js_Timestamp x" and ?jt = "js_JobType x"
  define types where "types = lookup m ?ts []"
  define states where "states = (if ?ts \<ge> a \<and> ?ts < b
    then add_count ''created'' (js_Count x) (add_count (js_JobState x) (js_Count x) (lookup types ?jt []))
    else add_count (js_JobState x) (js_Count x) (lookup types ?jt []))"
  have acc: "accumulate a b m x = map_put ?ts (map_put ?jt states types) m"
    by (simp add: accumulate_def types_def states_def Let_def)
  have st: "distinct (keys states)" and ty: "distinct (keys types)"
    using lookup_ok [OF assms, of ?ts] by (simp_all add: states_def types_def add_count_def)
  have inner: "\<forall>(jt, sts) \<in> set types. distinct (keys sts)"
    using lookup_mem [of m ?ts "[]"] assms unfolding types_def tsmap_ok_def by fastforce
  then have "\<forall>(jt, sts) \<in> set (map_put ?jt states types). distinct (keys sts)"
    using set_map_put [of ?jt states types] st by auto
  moreover have "distinct (keys (map_put ?jt states types))" using ty by simp
  ultimately have new: "case y of (ts, types) \<Rightarrow> distinct (keys types) \<and> (\<forall>(jt, states) \<in> set types. distinct (keys states))"
    if "y = (?ts, map_put ?jt states types)" for y using that by simp
  have "\<forall>y \<in> set (accumulate a b m x). case y of (ts, types) \<Rightarrow> distinct (keys types) \<and> (\<forall>(jt, states) \<in> set types. distinct (keys states))"
    using new assms set_map_put [of ?ts "map_put ?jt states types" m] unfolding acc tsmap_ok_def by blast
  moreover have "distinct (keys (accumulate a b m x))" using assms by (simp add: acc tsmap_ok_def)
  ultimately show ?thesis by (simp add: tsmap_ok_def)
qed

lemma tsmap_ok_fold: "tsmap_ok m \<Longrightarrow> tsmap_ok (foldl (accumulate a b) m xs)"
  by (induction xs arbitrary: m) (auto simp: tsmap_ok_accumulate)

abbreviation state_sum :: "state_counts \<Rightarrow> string list \<Rightarrow> int" where
  "state_sum xs ss \<equiv> sum_list (map snd (filter (\<lambda>x. fst x \<in> set ss) xs))"

lemma add_state_fields:
  "V_JobType (add_state v (s, n)) = V_JobType v"
  "V_TotalCompleted (add_state v (s, n)) = V_TotalCompleted v + (if s = ''succeeded'' then n else 0)"
  "V_TotalFailed (add_state v (s, n)) = V_TotalFailed v + (if s = ''failed'' then n else 0)"
  "V_TotalCancelled (add_state v (s, n)) = V_TotalCancelled v + (if s = ''canceled'' then n else 0)"
  "V_TotalStopped (add_state v (s, n)) = V_TotalStopped v + (if s = ''stopped'' then n else 0)"
  "V_TotalRunning (add_state v (s, n)) = V_TotalRunning v + (if s = ''running'' \<or> s = ''initializing'' then n else 0)"
  "V_TotalDeleted (add_state v (s, n)) = V_TotalDeleted v + (if s = ''deleted'' then n else 0)"
  "V_TotalQueued (add_state v (s, n)) = V_TotalQueued v + (if s = ''requeued'' \<or> s = ''queued'' then n else 0)"
  "V_TotalCreated (add_state v (s, n)) = V_TotalCreated v + (if s = ''created'' then n else 0)"
  by (simp_all add: add_state_def)

lemma foldl_add_state:
  "V_JobType (foldl add_state v xs) = V_JobType v"
  "V_TotalCompleted (foldl add_state v xs) = V_TotalCompleted v + state_sum xs [''succeeded'']"
  "V_TotalFailed (foldl add_state v xs) = V_TotalFailed v + state_sum xs [''failed'']"
  "V_TotalCancelled (foldl add_state v xs) = V_TotalCancelled v + state_sum xs [''canceled'']"
  "V_TotalStopped (foldl add_state v xs) = V_TotalStopped v + state_sum xs [''stopped'']"
  "V_TotalRunning (foldl add_state v xs) = V_TotalRunning v + state_sum xs [''running'', ''initializing'']"
  "V_TotalDeleted (foldl add_state v xs) = V_TotalDeleted v + state_sum xs [''deleted'']"
  "V_TotalQueued (foldl add_state v xs) = V_TotalQueued v + state_sum xs [''requeued'', ''queued'']"
  "V_TotalCreated (foldl add_state v xs) = V_TotalCreated v + state_sum xs [''created'']"
  by (induction xs arbitrary: v) (simp_all add: add_state_fields split_paired_all)

lemma state_sum_lookup:
  "distinct (keys xs) \<Longrightarrow> distinct ss \<Longrightarrow> state_sum xs ss = sum_list (map (\<lambda>s. lookup xs s 0) ss)"
proof (induction xs)
  case (Cons x xs)
  obtain k n where x: "x = (k, n)" by fastforce
  have none: "lookup xs k 0 = 0" using Cons.prems(1) x lookup_mem [of xs k 0] by (force simp: image_iff)
  have cons: "lookup (x # xs) s 0 = (if s = k then n else lookup xs s 0)" for s by (simp add: lookup_def x)
  have "sum_list (map (\<lambda>s. lookup (x # xs) s 0) ss) = (if k \<in> set ss then n else 0) + sum_list (map (\<lambda>s. lookup xs s 0) ss)"
    using Cons.prems(2) by (induction ss) (auto simp: cons none)
  then show ?case using Cons by (auto simp: x)
qed simp

text \<open>The totals of a job type, read off its map of counts.\<close>

lemma to_value_totals:
  assumes "distinct (keys states)"
  shows "V_JobType (to_value (jt, states)) = toJobType jt"
    and "V_TotalCompleted (to_value (jt, states)) = lookup states ''succeeded'' 0"
    and "V_TotalFailed (to_value (jt, states)) = lookup states ''failed'' 0"
    and "V_TotalCancelled (to_value (jt, states)) = lookup states ''canceled'' 0"
    and "V_TotalStopped (to_value (jt, states)) = lookup states ''stopped'' 0"
    and "V_TotalDeleted (to_value (jt, states)) = lookup states ''deleted'' 0"
    and "V_TotalCreated (to_value (jt, states)) = lookup states ''created'' 0"
    and "V_TotalRunning (to_value (jt, states)) = lookup states ''running'' 0 + lookup states ''initializing'' 0"
    and "V_TotalQueued (to_value (jt, states)) = lookup states ''requeued'' 0 + lookup states ''queued'' 0"
    and "V_TotalUnfinished (to_value (jt, states)) = V_TotalQueued (to_value (jt, states)) + V_TotalRunning (to_value (jt, states))"
  using foldl_add_state [of "zero_value jt" states] state_sum_lookup [OF assms, of "[_]"]
    state_sum_lookup [OF assms, of "[''running'', ''initializing'']"] state_sum_lookup [OF assms, of "[''requeued'', ''queued'']"]
  by (simp_all add: to_value_def Let_def zero_value_def)

text \<open>A summary query counts the rows of its table by creation interval and state.\<close>

context gorm
begin

lemma summaries_total:
  assumes "gGroup G now P (\<lambda>r. map_option (\<lambda>ts. (sf r, pf r, tf r, cf r, ts)) (trunc_expr (created r) d)) t = Inr gs"
  shows "counted (map (scan_summary jt0) gs) (\<lambda>x. js_Timestamp x = ts \<and> js_JobType x = jt \<and> Q (js_JobState x)) =
    (if jt = jt0 then int (length (filter (\<lambda>r. P r \<and> trunc_expr (created r) d = Some ts \<and> Q (sf r)) t)) else 0)"
proof -
  let ?k = "\<lambda>r. map_option (\<lambda>ts. (sf r, pf r, tf r, cf r, ts)) (trunc_expr (created r) d)"
  let ?Q = "\<lambda>g. case g of (s, p, te, c, u) \<Rightarrow> u = ts \<and> Q s"
  have some: "\<forall>r \<in> set t. P r \<longrightarrow> trunc_expr (created r) d \<noteq> None"
    using group_found [OF assms] by auto
  have "counted (map (scan_summary jt0) gs) (\<lambda>x. js_Timestamp x = ts \<and> js_JobType x = jt \<and> Q (js_JobState x)) =
      (if jt = jt0 then sum_list (map snd (filter (\<lambda>(g, n). ?Q g) gs)) else 0)"
    by (induction gs) (auto simp: scan_summary_def)
  also have "\<dots> = (if jt = jt0 then int (length (filter (\<lambda>r. P r \<and> ?Q (the (?k r))) t)) else 0)"
    by (simp only: group_total [OF assms])
  also have "filter (\<lambda>r. P r \<and> ?Q (the (?k r))) t = filter (\<lambda>r. P r \<and> trunc_expr (created r) d = Some ts \<and> Q (sf r)) t"
    using some by (intro filter_cong) auto
  finally show ?thesis .
qed

lemma summaries_states:
  assumes "gGroup G now P (\<lambda>r. map_option (\<lambda>ts. (sf r, pf r, tf r, cf r, ts)) (trunc_expr (created r) d)) t = Inr gs"
    and "\<forall>r \<in> set t. sf r \<noteq> s"
  shows "\<forall>x \<in> set (map (scan_summary jt0) gs). js_JobState x \<noteq> s"
proof -
  have "fst g \<noteq> s" if "(g, n) \<in> set gs" for g n
    using that group_found [OF assms(1)] assms(2) by (fastforce simp: filter_empty_conv)
  then show ?thesis by (fastforce simp: scan_summary_def)
qed

end

text \<open>The rows a total is about: of the table of the job type, of the tenant, updated in the range, created in the interval \<open>ts\<close>.\<close>

definition rows_of_type :: "server_state \<Rightarrow> string \<Rightarrow> string \<Rightarrow> time \<Rightarrow> time \<Rightarrow> duration \<Rightarrow> int \<Rightarrow> (string \<Rightarrow> bool) \<Rightarrow> int" where
  "rows_of_type st jt tenant a b d ts Q =
     (if jt = ''fine_tuning'' then int (length (filter (\<lambda>r. (jTenantID r = tenant \<and> jUpdatedAt r \<ge> a \<and> jUpdatedAt r < b) \<and>
          trunc_expr (jCreated r) d = Some ts \<and> Q (jState r)) (st_jobs st)))
      else if jt = ''batch'' then int (length (filter (\<lambda>r. (bTenantID r = tenant \<and> bUpdatedAt r \<ge> a \<and> bUpdatedAt r < b) \<and>
          trunc_expr (bCreated r) d = Some ts \<and> Q (bState r)) (st_batch_jobs st)))
      else if jt = ''notebook'' then int (length (filter (\<lambda>r. (nTenantID r = tenant \<and> nUpdatedAt r \<ge> a \<and> nUpdatedAt r < b) \<and>
          trunc_expr (nCreated r) d = Some ts \<and> Q (nState r)) (st_notebooks st)))
      else 0)"

text \<open>No row is in a state that is named like the counter of created jobs.\<close>

definition no_created_state :: "server_state \<Rightarrow> bool" where
  "no_created_state st \<longleftrightarrow> (\<forall>r \<in> set (st_jobs st). jState r \<noteq> ''created'') \<and> (\<forall>r \<in> set (st_batch_jobs st). bState r \<noteq> ''created'') \<and>
     (\<forall>r \<in> set (st_notebooks st). nState r \<noteq> ''created'')"

lemma summaries_collected:
  assumes db: "job_db (jobDB env)" "batch_db (batchDB env)" "notebook_db (notebookDB env)" and nc: "no_created_state st"
    and run: "GetJobSummaries (jobDB env) now tenant a b d (st_jobs st) = Inr xs"
      "GetBatchJobSummaries (batchDB env) now tenant a b d (st_batch_jobs st) = Inr ys"
      "GetNotebookSummaries (notebookDB env) now tenant a b d (st_notebooks st) = Inr zs"
  shows "counted (xs @ ys @ zs) (\<lambda>x. js_Timestamp x = ts \<and> js_JobType x = jt \<and> Q (js_JobState x)) = rows_of_type st jt tenant a b d ts Q"
    and "\<forall>x \<in> set (xs @ ys @ zs). js_JobState x \<noteq> ''created''"
proof -
  from run(1) obtain gx where x: "gGroup (jobDB env) now (\<lambda>j. jTenantID j = tenant \<and> jUpdatedAt j \<ge> a \<and> jUpdatedAt j < b)
      (\<lambda>j. map_option (\<lambda>ts. (jState j, jProjectID j, jTenantID j, jClusterID j, ts)) (trunc_expr (jCreated j) d)) (st_jobs st) = Inr gx"
    "xs = map (scan_summary ''fine_tuning'') gx" by (auto simp: GetJobSummaries_def split: sum.splits)
  from run(2) obtain gy where y: "gGroup (batchDB env) now (\<lambda>j. bTenantID j = tenant \<and> bUpdatedAt j \<ge> a \<and> bUpdatedAt j < b)
      (\<lambda>j. map_option (\<lambda>ts. (bState j, bProjectID j, bTenantID j, bClusterID j, ts)) (trunc_expr (bCreated j) d)) (st_batch_jobs st) = Inr gy"
    "ys = map (scan_summary ''batch'') gy" by (auto simp: GetBatchJobSummaries_def split: sum.splits)
  from run(3) obtain gz where z: "gGroup (notebookDB env) now (\<lambda>j. nTenantID j = tenant \<and> nUpdatedAt j \<ge> a \<and> nUpdatedAt j < b)
      (\<lambda>j. map_option (\<lambda>ts. (nState j, nProjectID j, nTenantID j, nClusterID j, ts)) (trunc_expr (nCreated j) d)) (st_notebooks st) = Inr gz"
    "zs = map (scan_summary ''notebook'') gz" by (auto simp: GetNotebookSummaries_def split: sum.splits)
  show "counted (xs @ ys @ zs) (\<lambda>x. js_Timestamp x = ts \<and> js_JobType x = jt \<and> Q (js_JobState x)) = rows_of_type st jt tenant a b d ts Q"
    unfolding x(2) y(2) z(2) filter_append map_append sum_list_append
      gorm.summaries_total [OF db(1) x(1)] gorm.summaries_total [OF db(2) y(1)] gorm.summaries_total [OF db(3) z(1)]
    by (simp add: rows_of_type_def)
  show "\<forall>x \<in> set (xs @ ys @ zs). js_JobState x \<noteq> ''created''"
    using nc gorm.summaries_states [OF db(1) x(1)] gorm.summaries_states [OF db(2) y(1)] gorm.summaries_states [OF db(3) z(1)]
    unfolding x(2) y(2) z(2) no_created_state_def by (simp add: ball_Un)
qed

text \<open>Every total of a datapoint is the number of rows it names.\<close>

definition totals_ok :: "server_state \<Rightarrow> string \<Rightarrow> time \<Rightarrow> time \<Rightarrow> duration \<Rightarrow> int \<Rightarrow> string \<Rightarrow> JobSummaryValue \<Rightarrow> bool" where
  "totals_ok st tenant a b d ts jt v \<longleftrightarrow> (let rows = rows_of_type st jt tenant a b d ts in
     V_JobType v = toJobType jt \<and>
     V_TotalCompleted v = rows (\<lambda>s. s = ''succeeded'') \<and> V_TotalFailed v = rows (\<lambda>s. s = ''failed'') \<and>
     V_TotalCancelled v = rows (\<lambda>s. s = ''canceled'') \<and> V_TotalStopped v = rows (\<lambda>s. s = ''stopped'') \<and>
     V_TotalDeleted v = rows (\<lambda>s. s = ''deleted'') \<and>
     V_TotalRunning v = rows (\<lambda>s. s = ''running'') + rows (\<lambda>s. s = ''initializing'') \<and>
     V_TotalQueued v = rows (\<lambda>s. s = ''requeued'') + rows (\<lambda>s. s = ''queued'') \<and>
     V_TotalUnfinished v = V_TotalQueued v + V_TotalRunning v \<and>
     V_TotalCreated v = (if a \<le> ts \<and> ts < b then rows (\<lambda>s. True) else 0))"

lemma summary_totals:
  assumes db: "job_db (jobDB env)" "batch_db (batchDB env)" "notebook_db (notebookDB env)" and nc: "no_created_state st"
    and rng: "\<And>m. mset (rng m) = mset m"
    and run: "getSummariesByTimeRange env rng now tenant a b d st = Inr dps" and dp: "dp \<in> set dps" and v: "v \<in> set (DP_Values dp)"
  shows "\<exists>jt. totals_ok st tenant a b d (DP_Timestamp dp) jt v"
proof -
  from run obtain xs ys zs where q: "GetJobSummaries (jobDB env) now tenant a b d (st_jobs st) = Inr xs"
      "GetBatchJobSummaries (batchDB env) now tenant a b d (st_batch_jobs st) = Inr ys"
      "GetNotebookSummaries (notebookDB env) now tenant a b d (st_notebooks st) = Inr zs"
    and dps: "dps = (let m = foldl (accumulate a b) [] (xs @ ys @ zs) in
      map (\<lambda>ts. \<lparr>DP_Timestamp = ts, DP_Values = map to_value (rng (lookup m ts []))\<rparr>) (sort (keys m)))"
    by (auto simp: getSummariesByTimeRange_def Let_def split: sum.splits)
  define m where "m = foldl (accumulate a b) [] (xs @ ys @ zs)"
  let ?ts = "DP_Timestamp dp"
  have ok: "tsmap_ok m" unfolding m_def by (rule tsmap_ok_fold) (simp add: tsmap_ok_def)
  from dp have "DP_Values dp = map to_value (rng (lookup m ?ts []))" unfolding dps Let_def m_def by auto
  then obtain jt states where mem: "(jt, states) \<in> set (lookup m ?ts [])" and val: "v = to_value (jt, states)"
    using v mset_eq_setD [OF rng] by auto
  have st: "states = lookup (lookup m ?ts []) jt []" using mem lookup_ok(1) [OF ok] by (simp add: lookup_def)
  note dist = lookup_ok(2) [OF ok, of ?ts jt, folded st]
  note coll = summaries_collected [OF db nc q]
  have at: "lookup states s 0 = rows_of_type st jt tenant a b d ?ts (\<lambda>x. x = s)" if "s \<noteq> ''created''" for s
    using count_fold [OF coll(2) that, of a b "[]" ?ts jt, folded m_def] coll(1) [of ?ts jt "\<lambda>x. x = s"]
    by (simp add: count_at_def st)
  have created: "lookup states ''created'' 0 = (if a \<le> ?ts \<and> ?ts < b then rows_of_type st jt tenant a b d ?ts (\<lambda>s. True) else 0)"
    using count_fold_created [OF coll(2), of a b "[]" ?ts jt, folded m_def] coll(1) [of ?ts jt "\<lambda>x. True"]
    by (auto simp: count_at_def st)
  have "totals_ok st tenant a b d ?ts jt v"
    unfolding val totals_ok_def Let_def to_value_totals [OF dist] by (simp add: at created)
  then show ?thesis by blast
qed

end
