(* ===== verification/System.thy ===== *)
theory System
  imports FineTuning Notebooks Batch Clusters Summaries
begin

text \<open>
  The server as a whole. \<open>server_call\<close> has one constructor per handler that changes state, for users, for workers, for the syncer,
  and for the background rescheduler; \<open>serve\<close> runs one call and \<open>serves\<close> a sequence of calls with the times they are made at.
  The locale \<open>deployment\<close> collects what the server relies on: databases with the laws of \<open>gorm\<close>, a codec for cluster statuses, and a
  range over maps that permutes. \<open>server_wf\<close> is the invariant of the whole server: well-formed tables and a cache that agrees with the
  stored clusters.
\<close>

section \<open>Calls\<close>

datatype server_call =
    Call_CreateJob context_info CreateJobRequest
  | Call_CancelJob context_info string
  | Call_UpdateJobPhase context_info UpdateJobPhaseRequest
  | Call_CreateNotebook context_info CreateNotebookRequest
  | Call_StopNotebook context_info string
  | Call_StartNotebook context_info string
  | Call_DeleteNotebook context_info string
  | Call_UpdateNotebookState context_info UpdateNotebookStateRequest
  | Call_CreateBatchJob context_info CreateBatchJobRequest
  | Call_CancelBatchJob context_info string
  | Call_DeleteBatchJob context_info string
  | Call_UpdateBatchJobState context_info UpdateBatchJobStateRequest
  | Call_UpdateClusterStatus context_info "ClusterStatus option"
  | Call_PatchKubernetesObject context_info PatchKubernetesObjectRequest
  | Call_DeleteKubernetesObject context_info DeleteKubernetesObjectRequest
  | Call_Reschedule duration

fun serve :: "server_env \<Rightarrow> time \<Rightarrow> server_call \<Rightarrow> server_state \<Rightarrow> server_state" where
  "serve env now (Call_CreateJob ctx req) st = snd (CreateJob env now ctx req st)"
| "serve env now (Call_CancelJob ctx k) st = snd (CancelJob env now ctx k st)"
| "serve env now (Call_UpdateJobPhase ctx req) st = snd (UpdateJobPhase env now ctx req st)"
| "serve env now (Call_CreateNotebook ctx req) st = snd (CreateNotebook env now ctx req st)"
| "serve env now (Call_StopNotebook ctx k) st = snd (StopNotebook env now ctx k st)"
| "serve env now (Call_StartNotebook ctx k) st = snd (StartNotebook env now ctx k st)"
| "serve env now (Call_DeleteNotebook ctx k) st = snd (DeleteNotebook env now ctx k st)"
| "serve env now (Call_UpdateNotebookState ctx req) st = snd (UpdateNotebookState env now ctx req st)"
| "serve env now (Call_CreateBatchJob ctx req) st = snd (CreateBatchJob env now ctx req st)"
| "serve env now (Call_CancelBatchJob ctx k) st = snd (CancelBatchJob env now ctx k st)"
| "serve env now (Call_DeleteBatchJob ctx k) st = snd (DeleteBatchJob env now ctx k st)"
| "serve env now (Call_UpdateBatchJobState ctx req) st = snd (UpdateBatchJobState env now ctx req st)"
| "serve env now (Call_UpdateClusterStatus ctx req) st = snd (UpdateClusterStatus env now ctx req st)"
| "serve env now (Call_PatchKubernetesObject ctx req) st = snd (PatchKubernetesObject env now ctx req st)"
| "serve env now (Call_DeleteKubernetesObject ctx req) st = snd (DeleteKubernetesObject env ctx req st)"
| "serve env now (Call_Reschedule d) st = snd (rescheduleNotebooks env now d st)"

definition serves :: "server_env \<Rightarrow> (time \<times> server_call) list \<Rightarrow> server_state \<Rightarrow> server_state" where
  "serves env calls st = foldl (\<lambda>st (now, call). serve env now call st) st calls"

definition initial_state :: server_state where
  "initial_state = \<lparr>st_jobs = [], st_notebooks = [], st_batch_jobs = [], st_clusters = [], st_cache = NewStore, st_k8s = []\<rparr>"

section \<open>What the server relies on, and its invariant\<close>

locale deployment =
  fixes env :: server_env
  assumes job_laws: "job_db (jobDB env)"
    and notebook_laws: "notebook_db (notebookDB env)"
    and batch_laws: "batch_db (batchDB env)"
    and cluster_laws: "cluster_db (clusterDB env)"
    and status_laws: "proto_codec (statusCodec env) empty_ClusterStatus"
    and range_laws: "map_range (clusterRange env)"

definition server_wf :: "server_env \<Rightarrow> server_state \<Rightarrow> bool" where
  "server_wf env st \<longleftrightarrow> jobs_wf (st_jobs st) \<and> notebooks_wf (st_notebooks st) \<and> batch_jobs_wf (st_batch_jobs st) \<and>
     clusters_table_ok (st_clusters st) \<and> coherent (statusCodec env) (st_clusters st) (st_cache st)"

definition cache_wf :: "server_env \<Rightarrow> server_state \<Rightarrow> bool" where
  "cache_wf env st \<longleftrightarrow> clusters_table_ok (st_clusters st) \<and> coherent (statusCodec env) (st_clusters st) (st_cache st)"

section \<open>Every call keeps the cache coherent\<close>

context deployment
begin

lemma env_Schedule_wf: "env_Schedule env now u p n st = (res, st') \<Longrightarrow> cache_wf env st \<Longrightarrow> cache_wf env st'"
  using schedule_cache [OF cluster_laws] by (auto simp: env_Schedule_def cache_wf_def split: prod.splits)

lemma env_AddAssumedPod_wf: "env_AddAssumedPod env now t k key n st = (res, st') \<Longrightarrow> cache_wf env st \<Longrightarrow> cache_wf env st'"
  using AddAssumedPod_coherent [OF cluster_laws] by (auto simp: env_AddAssumedPod_def cache_wf_def split: prod.splits)

lemma env_k8s_wf: "env_k8s env w st = (res, st') \<Longrightarrow> cache_wf env st \<Longrightarrow> cache_wf env st'"
  by (auto simp: env_k8s_def cache_wf_def split: sum.splits)

lemma cache_wf_tables [simp]:
  "cache_wf env (st\<lparr>st_jobs := x\<rparr>) = cache_wf env st" "cache_wf env (st\<lparr>st_notebooks := y\<rparr>) = cache_wf env st"
  "cache_wf env (st\<lparr>st_batch_jobs := z\<rparr>) = cache_wf env st"
  by (simp_all add: cache_wf_def)

lemmas env_wf = env_Schedule_wf env_AddAssumedPod_wf env_k8s_wf

lemma scheduleNotebook_wf: "scheduleNotebook env now nb n st = (res, st') \<Longrightarrow> cache_wf env st \<Longrightarrow> cache_wf env st'"
  by (auto simp: scheduleNotebook_def split: sum.splits prod.splits dest!: env_wf)

lemma create_wf:
  "CreateJob env now ctx r1 st = (res1, st') \<Longrightarrow> cache_wf env st \<Longrightarrow> cache_wf env st'"
  "CreateNotebook env now ctx r2 st = (res2, st') \<Longrightarrow> cache_wf env st \<Longrightarrow> cache_wf env st'"
  "CreateBatchJob env now ctx r3 st = (res3, st') \<Longrightarrow> cache_wf env st \<Longrightarrow> cache_wf env st'"
  "PatchKubernetesObject env now ctx r4 st = (res4, st') \<Longrightarrow> cache_wf env st \<Longrightarrow> cache_wf env st'"
  by (auto simp: CreateJob_def CreateNotebook_def CreateBatchJob_def PatchKubernetesObject_def Let_def
      split: option.splits sum.splits prod.splits if_splits dest!: env_wf scheduleNotebook_wf)

lemma reschedule_loop_wf: "reschedule_loop env now nbs st = (res, st') \<Longrightarrow> cache_wf env st \<Longrightarrow> cache_wf env st'"
  by (induction nbs arbitrary: st) (auto simp: Let_def split: sum.splits prod.splits dest!: scheduleNotebook_wf)

lemma requeue_loop_wf: "requeue_loop env now d nbs st = (res, st') \<Longrightarrow> cache_wf env st \<Longrightarrow> cache_wf env st'"
  by (induction nbs arbitrary: st) (auto split: sum.splits prod.splits if_splits)

lemma rescheduleNotebooks_wf: "rescheduleNotebooks env now d st = (res, st') \<Longrightarrow> cache_wf env st \<Longrightarrow> cache_wf env st'"
  by (auto simp: rescheduleNotebooks_def split: sum.splits prod.splits dest!: requeue_loop_wf reschedule_loop_wf)

end

section \<open>Which tables a call changes\<close>

lemma job_call_frame:
  "CreateJob env now ctx req st = (r1, st') \<Longrightarrow> st_notebooks st' = st_notebooks st \<and> st_batch_jobs st' = st_batch_jobs st \<and> st_clusters st' = st_clusters st"
  "CancelJob env now ctx k st = (r2, st') \<Longrightarrow> st_notebooks st' = st_notebooks st \<and> st_batch_jobs st' = st_batch_jobs st \<and> st_clusters st' = st_clusters st \<and> st_cache st' = st_cache st"
  "UpdateJobPhase env now ctx preq st = (r3, st') \<Longrightarrow> st_notebooks st' = st_notebooks st \<and> st_batch_jobs st' = st_batch_jobs st \<and> st_clusters st' = st_clusters st \<and> st_cache st' = st_cache st"
  by (auto simp: CreateJob_def CancelJob_def UpdateJobPhase_def Let_def split: option.splits sum.splits prod.splits if_splits dest!: env_tables)

lemma notebook_call_frame:
  "CreateNotebook env now ctx req st = (r1, st') \<Longrightarrow> st_jobs st' = st_jobs st \<and> st_batch_jobs st' = st_batch_jobs st \<and> st_clusters st' = st_clusters st"
  "StopNotebook env now ctx k st = (r2, st') \<Longrightarrow> st_jobs st' = st_jobs st \<and> st_batch_jobs st' = st_batch_jobs st \<and> st_clusters st' = st_clusters st \<and> st_cache st' = st_cache st"
  "StartNotebook env now ctx k st = (r2, st') \<Longrightarrow> st_jobs st' = st_jobs st \<and> st_batch_jobs st' = st_batch_jobs st \<and> st_clusters st' = st_clusters st \<and> st_cache st' = st_cache st"
  "DeleteNotebook env now ctx k st = (r3, st') \<Longrightarrow> st_jobs st' = st_jobs st \<and> st_batch_jobs st' = st_batch_jobs st \<and> st_clusters st' = st_clusters st \<and> st_cache st' = st_cache st"
  "UpdateNotebookState env now ctx sreq st = (r3, st') \<Longrightarrow> st_jobs st' = st_jobs st \<and> st_batch_jobs st' = st_batch_jobs st \<and> st_clusters st' = st_clusters st \<and> st_cache st' = st_cache st"
  by (auto simp: CreateNotebook_def StopNotebook_def StartNotebook_def DeleteNotebook_def UpdateNotebookState_def queue_notebook_def Let_def
      split: option.splits sum.splits prod.splits if_splits dest!: scheduleNotebook_tables)

lemma batch_call_frame:
  "CreateBatchJob env now ctx req st = (r1, st') \<Longrightarrow> st_jobs st' = st_jobs st \<and> st_notebooks st' = st_notebooks st \<and> st_clusters st' = st_clusters st"
  "CancelBatchJob env now ctx k st = (r1, st') \<Longrightarrow> st_jobs st' = st_jobs st \<and> st_notebooks st' = st_notebooks st \<and> st_clusters st' = st_clusters st \<and> st_cache st' = st_cache st"
  "DeleteBatchJob env now ctx k st = (r1, st') \<Longrightarrow> st_jobs st' = st_jobs st \<and> st_notebooks st' = st_notebooks st \<and> st_clusters st' = st_clusters st \<and> st_cache st' = st_cache st"
  "UpdateBatchJobState env now ctx sreq st = (r3, st') \<Longrightarrow> st_jobs st' = st_jobs st \<and> st_notebooks st' = st_notebooks st \<and> st_clusters st' = st_clusters st \<and> st_cache st' = st_cache st"
  by (auto simp: CreateBatchJob_def CancelBatchJob_def DeleteBatchJob_def UpdateBatchJobState_def queue_batch_job_def Let_def
      split: option.splits sum.splits prod.splits if_splits dest!: env_tables)

lemma requeue_loop_frame:
  "requeue_loop env now d nbs st = (r, st') \<Longrightarrow> st_jobs st' = st_jobs st \<and> st_batch_jobs st' = st_batch_jobs st \<and>
     st_clusters st' = st_clusters st \<and> st_cache st' = st_cache st"
proof (induction nbs arbitrary: st)
  case (Cons nb nbs)
  then show ?case by (auto split: sum.splits prod.splits if_splits)
qed simp

lemma reschedule_loop_frame:
  "reschedule_loop env now nbs st = (r, st') \<Longrightarrow> st_jobs st' = st_jobs st \<and> st_batch_jobs st' = st_batch_jobs st \<and> st_clusters st' = st_clusters st"
proof (induction nbs arbitrary: st)
  case (Cons nb nbs)
  then show ?case
    by (auto simp: Let_def split: sum.splits prod.splits dest!: scheduleNotebook_tables)
qed simp

lemma other_call_frame:
  "rescheduleNotebooks env now d st = (r1, st') \<Longrightarrow> st_jobs st' = st_jobs st \<and> st_batch_jobs st' = st_batch_jobs st \<and> st_clusters st' = st_clusters st"
  "PatchKubernetesObject env now ctx preq st = (r2, st') \<Longrightarrow>
     st_jobs st' = st_jobs st \<and> st_batch_jobs st' = st_batch_jobs st \<and> st_notebooks st' = st_notebooks st \<and> st_clusters st' = st_clusters st"
  "DeleteKubernetesObject env ctx dreq st = (r3, st') \<Longrightarrow> st_jobs st' = st_jobs st \<and> st_batch_jobs st' = st_batch_jobs st \<and>
     st_notebooks st' = st_notebooks st \<and> st_clusters st' = st_clusters st \<and> st_cache st' = st_cache st"
  "UpdateClusterStatus env now ctx creq st = (r3, st') \<Longrightarrow>
     st_jobs st' = st_jobs st \<and> st_batch_jobs st' = st_batch_jobs st \<and> st_notebooks st' = st_notebooks st"
  by (auto simp: rescheduleNotebooks_def PatchKubernetesObject_def DeleteKubernetesObject_def UpdateClusterStatus_def Let_def
      split: option.splits sum.splits prod.splits if_splits dest!: env_tables requeue_loop_frame reschedule_loop_frame)

lemmas call_frames = job_call_frame [OF surjective_pairing] notebook_call_frame [OF surjective_pairing]
  batch_call_frame [OF surjective_pairing] other_call_frame [OF surjective_pairing]

section \<open>Every call is a step of each table\<close>

context deployment
begin

lemma serve_jobs:
  assumes "server_wf env st"
  shows "job_step (st_jobs st) (st_jobs (serve env now call st))"
proof -
  have d: "distinct (map jJobID (st_jobs st))" using assms by (simp add: server_wf_def table_wf_def)
  note steps = CreateJob_step [OF job_laws surjective_pairing] CancelJob_step [OF job_laws d surjective_pairing]
    UpdateJobPhase_step [OF job_laws d surjective_pairing]
  show ?thesis by (cases call) (simp_all add: steps call_frames table_step.stay)
qed

lemma serve_notebooks:
  assumes "server_wf env st"
  shows "notebook_steps (st_notebooks st) (st_notebooks (serve env now call st))"
proof -
  have wf: "notebooks_wf (st_notebooks st)" using assms by (simp add: server_wf_def)
  then have d: "distinct (map nNotebookID (st_notebooks st))" by (simp add: table_wf_def)
  note steps = CreateNotebook_step [OF notebook_laws surjective_pairing] notebook_step_edges [OF notebook_laws d surjective_pairing]
    UpdateNotebookState_step [OF notebook_laws d surjective_pairing]
  show ?thesis
    by (cases call) (simp_all add: steps [THEN r_into_rtranclp [of notebook_step]] call_frames rescheduleNotebooks_steps [OF notebook_laws wf surjective_pairing])
qed

lemma serve_batch_jobs:
  assumes "server_wf env st"
  shows "batch_step (st_batch_jobs st) (st_batch_jobs (serve env now call st))"
proof -
  have d: "distinct (map bJobID (st_batch_jobs st))" using assms by (simp add: server_wf_def table_wf_def)
  note steps = CreateBatchJob_step [OF batch_laws surjective_pairing] batch_step_edges [OF batch_laws d surjective_pairing]
    UpdateBatchJobState_step [OF batch_laws d surjective_pairing]
  show ?thesis by (cases call) (simp_all add: steps call_frames table_step.stay)
qed

lemma serve_cache:
  assumes "cache_wf env st"
  shows "cache_wf env (serve env now call st)"
proof -
  have report: "cache_wf env (snd (UpdateClusterStatus env now ctx req st))" for ctx req
    using UpdateClusterStatus_coherent [OF cluster_laws status_laws _ _ surjective_pairing] assms by (simp add: cache_wf_def)
  have same: "cache_wf env st'" if "st_clusters st' = st_clusters st" "st_cache st' = st_cache st" for st'
    using assms that by (simp add: cache_wf_def)
  note steps = create_wf [OF surjective_pairing assms] rescheduleNotebooks_wf [OF surjective_pairing assms] report
  show ?thesis by (cases call) (simp_all add: steps same call_frames)
qed

lemma serve_wf:
  assumes "server_wf env st"
  shows "server_wf env (serve env now call st)"
  using job_life.step_wf [OF serve_jobs [OF assms]] notebook_life.steps_wf [OF serve_notebooks [OF assms]]
    batch_life.step_wf [OF serve_batch_jobs [OF assms]] serve_cache [of st now call] assms
  by (simp add: server_wf_def cache_wf_def)

lemma serves_steps:
  assumes "server_wf env st"
  shows "server_wf env (serves env calls st) \<and>
    table_steps jJobID jID job_init job_moves (st_jobs st) (st_jobs (serves env calls st)) \<and>
    notebook_steps (st_notebooks st) (st_notebooks (serves env calls st)) \<and>
    table_steps bJobID bID batch_init batch_moves (st_batch_jobs st) (st_batch_jobs (serves env calls st))"
  using assms
proof (induction calls arbitrary: st)
  case (Cons c calls)
  obtain now call where c: "c = (now, call)" by fastforce
  let ?st = "serve env now call st"
  note IH = Cons.IH [OF serve_wf [OF Cons.prems, of now call]]
  have run: "serves env (c # calls) st = serves env calls ?st" by (simp add: serves_def c)
  show ?case
    unfolding run using IH serve_jobs [OF Cons.prems] serve_notebooks [OF Cons.prems] serve_batch_jobs [OF Cons.prems]
    by (meson converse_rtranclp_into_rtranclp rtranclp_trans)
qed (simp add: serves_def)

end

lemma initial_wf: "server_wf env initial_state"
  by (simp add: server_wf_def initial_state_def table_wf_def clusters_table_ok_def coherent_def NewStore_def)

text \<open>What a scheduling call returns, in terms of the stored clusters.\<close>

lemma env_Schedule_ok:
  assumes "deployment env" and "cache_wf env st" and "env_Schedule env now u prev n st = (Inr s, st')"
  shows "\<exists>c. stored_cluster (statusCodec env) (st_clusters st) (ui_TenantID u) (sr_ClusterID s) = Some (unassumed c) \<and>
    eligible now u prev n c \<and> s = result_of u c"
proof -
  obtain cs where run: "Schedule (clusterDB env) (statusCodec env) (clusterRange env) now u prev n (st_clusters st) (st_cache st) = (Inr s, cs)"
    using assms(3) by (auto simp: env_Schedule_def split: prod.splits)
  have wf: "clusters_table_ok (st_clusters st)" "coherent (statusCodec env) (st_clusters st) (st_cache st)"
    using assms(2) by (auto simp: cache_wf_def)
  note laws = deployment.range_laws [OF assms(1)] deployment.cluster_laws [OF assms(1)]
  obtain cls c where c: "cs (ui_TenantID u) = Some cls" "map_of cls (sr_ClusterID s) = Some c" "s = result_of u c" "eligible now u prev n c"
    using schedule_ok [OF laws wf run] by blast
  have "coherent_at (statusCodec env) (st_clusters st) (ui_TenantID u) cls"
    using schedule_cache [OF laws(2) wf run] c(1) by (simp add: coherent_def)
  then have "stored_cluster (statusCodec env) (st_clusters st) (ui_TenantID u) (sr_ClusterID s) = Some (unassumed c)"
    using c(2) by (metis coherent_at_def option.simps(9))
  then show ?thesis using c by blast
qed

end
