(* ===== verification/Rescheduling.thy ===== *)
theory Rescheduling
  imports System
begin

text \<open>
  What a round of the rescheduler (\<^verbatim>\<open>server/internal/server/rescheduler.go\<close>) does to every notebook: the rule \<open>loop_induct\<close> covers both of its
  loops, each of which works on rows that it read before and writes with the version it has read.
\<close>

text \<open>What a round does to each row: an initializing notebook that is due is requeued, and a requeued notebook is given to another cluster
  or left alone.\<close>

definition due :: "time \<Rightarrow> duration \<Rightarrow> Notebook \<Rightarrow> bool" where
  "due now maxQueuedTime nb \<longleftrightarrow> \<not> Contains (nReason nb) pullingImageReason \<and> nUpdatedAt nb + maxQueuedTime < now"

definition requeued :: "time \<Rightarrow> Notebook \<Rightarrow> Notebook" where
  "requeued now nb = notebook_touch now (nb\<lparr>nState := NotebookStateQueued, nQueuedAction := NotebookQueuedActionRequeue, nVersion := nVersion nb + 1\<rparr>)"

lemma UpdateNotebookForRescheduling_rows:
  assumes "notebook_db G" and "distinct (map nNotebookID t)" and "row_of nNotebookID t (nNotebookID nb) = Some x"
    and "UpdateNotebookForRescheduling G now nb t = (Inr m, t')"
  shows "nVersion x = nVersion nb \<and> distinct (map nNotebookID t') \<and> row_of nNotebookID t' = (row_of nNotebookID t)(nNotebookID nb \<mapsto>
    notebook_touch now (x\<lparr>nClusterID := nClusterID nb, nState := nState nb, nQueuedAction := nQueuedAction nb,
      nMessage := nMessage nb, nReason := nReason nb, nVersion := nVersion nb + 1\<rparr>))"
proof -
  let ?f = "\<lambda>n. n\<lparr>nClusterID := nClusterID nb, nState := nState nb, nQueuedAction := nQueuedAction nb,
      nMessage := nMessage nb, nReason := nReason nb, nVersion := nVersion nb + 1\<rparr>"
  obtain r where "row_of nNotebookID t (nNotebookID nb) = Some r" "nVersion r = nVersion nb"
    "t' = set_rows (\<lambda>n. nNotebookID n = nNotebookID nb) (notebook_touch now \<circ> ?f) t"
    using gorm.updates_versioned_ok [OF assms(1) assms(4) [unfolded UpdateNotebookForRescheduling_def] assms(2)] by auto
  then show ?thesis using assms(2,3) by (simp add: row_of_set_rows map_set_rows)
qed

lemma UpdateNotebookForRescheduling_current:
  assumes "reliable_notebook_db G" and "row_of nNotebookID t (nNotebookID nb) = Some x" and "nVersion x = nVersion nb"
  shows "\<exists>m t'. UpdateNotebookForRescheduling G now nb t = (Inr m, t')"
proof -
  have "\<exists>m. fst (UpdateNotebookForRescheduling G now nb t) = Inr m"
    unfolding UpdateNotebookForRescheduling_def by (rule reliable_gorm.updates_versioned_current [where ver = nVersion, OF assms])
  then show ?thesis by (metis prod.collapse)
qed

lemma list_by_state_distinct:
  assumes "notebook_db G" and "notebooks_wf t" and "ListNotebooksByState G now s t = Inr nbs"
  shows "distinct (map nNotebookID nbs)"
proof (rule distinct_map_mset)
  show "mset nbs = mset (filter (\<lambda>n. nState n = s) t)" using list_by_state_snapshot [OF assms] by blast
  show "distinct (map nNotebookID (filter (\<lambda>n. nState n = s) t))" using assms(2) by (simp add: table_wf_def distinct_map_filter)
qed

lemma requeue_loop_rows:
  assumes db: "reliable_notebook_db (notebookDB env)" and "distinct (map nNotebookID (st_notebooks st))"
    and "distinct (map nNotebookID nbs)" and "snapshot (st_notebooks st) nbs"
  shows "\<exists>t. requeue_loop env now d nbs st = (Inr (), st\<lparr>st_notebooks := t\<rparr>) \<and> (\<forall>k. row_of nNotebookID t k = (case row_of nNotebookID nbs k of
      Some nb \<Rightarrow> Some (if due now d nb then requeued now nb else nb) | None \<Rightarrow> row_of nNotebookID (st_notebooks st) k))"
  using assms(2-)
proof (induction nbs arbitrary: st)
  case Nil
  then show ?case by (auto simp: row_of_def intro: exI [of _ "st_notebooks st"])
next
  case (Cons nb nbs)
  note laws = reliable_gorm.axioms(1) [OF db]
  let ?t = "st_notebooks st" and ?nb = "nb\<lparr>nState := NotebookStateQueued, nQueuedAction := NotebookQueuedActionRequeue\<rparr>"
  have row: "row_of nNotebookID ?t (nNotebookID nb) = Some nb" and snap: "snapshot ?t nbs" using Cons.prems(3) by (auto simp: snapshot_def)
  have cons: "row_of nNotebookID (nb # nbs) k = (if nNotebookID nb = k then Some nb else row_of nNotebookID nbs k)" for k by (simp add: row_of_def)
  have new: "row_of nNotebookID nbs (nNotebookID nb) = None" using Cons.prems(2) by (simp add: row_of_None)
  let ?new = "if due now d nb then requeued now nb else nb"
  have "\<exists>t1. requeue_loop env now d (nb # nbs) st = requeue_loop env now d nbs (st\<lparr>st_notebooks := t1\<rparr>) \<and> distinct (map nNotebookID t1) \<and>
    row_of nNotebookID t1 = (row_of nNotebookID ?t)(nNotebookID nb \<mapsto> ?new)"
  proof (cases "due now d nb")
    case False
    then have "requeue_loop env now d (nb # nbs) st = requeue_loop env now d nbs st" by (auto simp: due_def)
    then show ?thesis using False row Cons.prems(1) by (intro exI [of _ ?t]) auto
  next
    case True
    obtain m t1 where run: "UpdateNotebookForRescheduling (notebookDB env) now ?nb ?t = (Inr m, t1)"
      using UpdateNotebookForRescheduling_current [where now = now, OF db, of ?t ?nb nb] row by auto
    have row': "row_of nNotebookID ?t (nNotebookID ?nb) = Some nb" using row by simp
    from UpdateNotebookForRescheduling_rows [OF laws Cons.prems(1) row' run] True run show ?thesis
      by (intro exI [of _ t1]) (simp add: due_def requeued_def)
  qed
  then obtain t1 where t1: "requeue_loop env now d (nb # nbs) st = requeue_loop env now d nbs (st\<lparr>st_notebooks := t1\<rparr>)" "distinct (map nNotebookID t1)"
    "row_of nNotebookID t1 = (row_of nNotebookID ?t)(nNotebookID nb \<mapsto> ?new)" by blast
  have "nNotebookID x \<noteq> nNotebookID nb" if "x \<in> set nbs" for x using Cons.prems(2) imageI [OF that, of nNotebookID] by auto
  then have snap1: "snapshot t1 nbs" using snap by (simp add: snapshot_def t1(3))
  have sel: "st_notebooks (st\<lparr>st_notebooks := x\<rparr>) = x" "st\<lparr>st_notebooks := x, st_notebooks := y\<rparr> = st\<lparr>st_notebooks := y\<rparr>" for x y by simp_all
  obtain t where t: "requeue_loop env now d nbs (st\<lparr>st_notebooks := t1\<rparr>) = (Inr (), st\<lparr>st_notebooks := t\<rparr>)"
    "\<And>k. row_of nNotebookID t k = (case row_of nNotebookID nbs k of
      Some nb \<Rightarrow> Some (if due now d nb then requeued now nb else nb) | None \<Rightarrow> row_of nNotebookID t1 k)"
    using Cons.IH [of "st\<lparr>st_notebooks := t1\<rparr>", unfolded sel, OF t1(2) _ snap1] Cons.prems(2) by auto
  have "row_of nNotebookID t k = (case row_of nNotebookID (nb # nbs) k of
      Some nb \<Rightarrow> Some (if due now d nb then requeued now nb else nb) | None \<Rightarrow> row_of nNotebookID ?t k)" for k
    by (cases "k = nNotebookID nb") (auto simp: t(2) t1(3) cons new split: option.split)
  then show ?case using t(1) unfolding t1(1) by blast
qed

lemma requeue_loop_exact:
  assumes "reliable_notebook_db (notebookDB env)" and "notebooks_wf (st_notebooks st)"
    and "ListNotebooksByState (notebookDB env) now NotebookStateInitializing (st_notebooks st) = Inr nbs"
  shows "\<exists>t. requeue_loop env now d nbs st = (Inr (), st\<lparr>st_notebooks := t\<rparr>) \<and> (\<forall>k. row_of nNotebookID t k =
    map_option (\<lambda>nb. if nState nb = NotebookStateInitializing \<and> due now d nb then requeued now nb else nb) (row_of nNotebookID (st_notebooks st) k))"
proof -
  note laws = reliable_gorm.axioms(1) [OF assms(1)]
  note snap = list_by_state_snapshot [OF laws assms(2,3)]
  have dist: "distinct (map nNotebookID (st_notebooks st))" using assms(2) by (simp add: table_wf_def)
  have rows: "mset nbs = mset (filter (\<lambda>n. nState n = NotebookStateInitializing) (st_notebooks st))" using snap by blast
  have d: "distinct (map nNotebookID nbs)" by (rule list_by_state_distinct [OF laws assms(2,3)])
  obtain t where t: "requeue_loop env now d nbs st = (Inr (), st\<lparr>st_notebooks := t\<rparr>)"
    "\<And>k. row_of nNotebookID t k = (case row_of nNotebookID nbs k of
      Some nb \<Rightarrow> Some (if due now d nb then requeued now nb else nb) | None \<Rightarrow> row_of nNotebookID (st_notebooks st) k)"
    using requeue_loop_rows [OF assms(1) dist d conjunct1 [OF snap], of now d] by blast
  have "row_of nNotebookID t k = map_option (\<lambda>nb. if nState nb = NotebookStateInitializing \<and> due now d nb then requeued now nb else nb)
      (row_of nNotebookID (st_notebooks st) k)" for k
    unfolding t(2) row_of_filter [OF dist rows] by (simp split: option.splits)
  with t(1) show ?thesis by blast
qed

definition moved :: "Notebook \<Rightarrow> Notebook \<Rightarrow> bool" where
  "moved r r' \<longleftrightarrow> nState r' = NotebookStateQueued \<and> nQueuedAction r' = NotebookQueuedActionStart \<and> nClusterID r' \<noteq> nClusterID r \<and>
     nReason r' = [] \<and> nVersion r' = nVersion r + 1 \<and> nNotebookID r' = nNotebookID r \<and> nTenantID r' = nTenantID r \<and> nProjectID r' = nProjectID r \<and>
     nName r' = nName r"

definition round_row :: "time \<Rightarrow> duration \<Rightarrow> Notebook \<Rightarrow> Notebook \<Rightarrow> bool" where
  "round_row now maxQueuedTime r r' \<longleftrightarrow> r' = r \<or> nState r = NotebookStateInitializing \<and> due now maxQueuedTime r \<and> r' = requeued now r \<or>
     nState r = NotebookStateRequeued \<and> moved r r'"

text \<open>A loop over a snapshot of rows with distinct identifiers changes each of them at most once, as \<open>R\<close> says, and no other row.\<close>

definition loop_rows :: "(Notebook \<Rightarrow> Notebook \<Rightarrow> bool) \<Rightarrow> Notebook list \<Rightarrow> Notebook list \<Rightarrow> Notebook list \<Rightarrow> bool" where
  "loop_rows R nbs t t' \<longleftrightarrow> distinct (map nNotebookID t') \<and> (\<forall>k. row_of nNotebookID t' k = row_of nNotebookID t k \<or>
     (\<exists>nb \<in> set nbs. \<exists>r'. nNotebookID nb = k \<and> row_of nNotebookID t' k = Some r' \<and> R nb r'))"

lemma loop_rows_refl: "distinct (map nNotebookID t) \<Longrightarrow> loop_rows R nbs t t"
  by (simp add: loop_rows_def)

text \<open>One round of such a loop: the row \<open>nb\<close> is left alone or changed as \<open>R\<close> says.\<close>

definition one_row :: "(Notebook \<Rightarrow> Notebook \<Rightarrow> bool) \<Rightarrow> Notebook \<Rightarrow> Notebook list \<Rightarrow> Notebook list \<Rightarrow> bool" where
  "one_row R nb t t' \<longleftrightarrow> distinct (map nNotebookID t') \<and> (\<forall>k. row_of nNotebookID t' k = row_of nNotebookID t k \<or>
     (\<exists>r'. nNotebookID nb = k \<and> row_of nNotebookID t' k = Some r' \<and> R nb r')) \<and> (\<forall>k. k \<noteq> nNotebookID nb \<longrightarrow> row_of nNotebookID t' k = row_of nNotebookID t k)"

lemma one_row_refl: "distinct (map nNotebookID t) \<Longrightarrow> one_row R nb t t"
  by (simp add: one_row_def)

lemma loop_rows_Cons:
  assumes "one_row R nb t t1" and "loop_rows R nbs t1 t'"
  shows "loop_rows R (nb # nbs) t t'"
  unfolding loop_rows_def
proof (intro conjI allI)
  show "distinct (map nNotebookID t')" using assms(2) by (simp add: loop_rows_def)
  fix k
  consider "row_of nNotebookID t' k = row_of nNotebookID t1 k"
    | nb' r' where "nb' \<in> set nbs" "nNotebookID nb' = k" "row_of nNotebookID t' k = Some r'" "R nb' r'"
    using assms(2) unfolding loop_rows_def by blast
  then show "row_of nNotebookID t' k = row_of nNotebookID t k \<or>
      (\<exists>x \<in> set (nb # nbs). \<exists>r'. nNotebookID x = k \<and> row_of nNotebookID t' k = Some r' \<and> R x r')"
    using assms(1) unfolding one_row_def by cases (metis list.set_intros)+
qed

lemma update_one_row:
  assumes "notebook_db G" and "distinct (map nNotebookID t)" and "row_of nNotebookID t (nNotebookID nb) = Some nb" and "nNotebookID nb' = nNotebookID nb"
    and "UpdateNotebookForRescheduling G now nb' t = (res, t')"
    and "R nb (notebook_touch now (nb\<lparr>nClusterID := nClusterID nb', nState := nState nb', nQueuedAction := nQueuedAction nb',
      nMessage := nMessage nb', nReason := nReason nb', nVersion := nVersion nb' + 1\<rparr>))"
  shows "one_row R nb t t'"
proof (cases res)
  case (Inl e)
  then have "t' = t" using assms(5) gorm.updates_versioned_err [OF assms(1)] unfolding UpdateNotebookForRescheduling_def by metis
  then show ?thesis using assms(2) by (simp add: one_row_refl)
next
  case (Inr m)
  have "row_of nNotebookID t (nNotebookID nb') = Some nb" using assms(3,4) by simp
  from UpdateNotebookForRescheduling_rows [OF assms(1,2) this assms(5) [unfolded Inr]] assms(6,4) show ?thesis by (auto simp: one_row_def)
qed

lemma snapshot_Cons:
  assumes "snapshot t (nb # nbs)" and "distinct (map nNotebookID (nb # nbs))"
  shows "row_of nNotebookID t (nNotebookID nb) = Some nb" and "one_row R nb t t' \<Longrightarrow> snapshot t' nbs"
proof -
  have "nNotebookID x \<noteq> nNotebookID nb" if "x \<in> set nbs" for x using assms(2) imageI [OF that, of nNotebookID] by auto
  then show "row_of nNotebookID t (nNotebookID nb) = Some nb" "one_row R nb t t' \<Longrightarrow> snapshot t' nbs"
    using assms(1) by (auto simp: snapshot_def one_row_def)
qed

text \<open>The rule for both loops of a round: every iteration changes its row only, and either ends the loop or goes on.\<close>

lemma loop_induct:
  assumes iter: "\<And>nb nbs st. cache_wf env st \<Longrightarrow> distinct (map nNotebookID (st_notebooks st)) \<Longrightarrow> row_of nNotebookID (st_notebooks st) (nNotebookID nb) = Some nb \<Longrightarrow>
      loop (nb # nbs) st = (res, st') \<Longrightarrow>
      \<exists>st1. cache_wf env st1 \<and> one_row R nb (st_notebooks st) (st_notebooks st1) \<and> (st' = st1 \<or> loop nbs st1 = (res, st'))"
    and nil: "\<And>st. loop [] st = (Inr (), st)"
    and "loop nbs st = (res, st')" and "cache_wf env st" and "distinct (map nNotebookID (st_notebooks st))"
    and "distinct (map nNotebookID nbs)" and "snapshot (st_notebooks st) nbs"
  shows "loop_rows R nbs (st_notebooks st) (st_notebooks st')"
  using assms(3-)
proof (induction nbs arbitrary: st)
  case Nil
  then show ?case using nil [of st] by (simp add: loop_rows_refl)
next
  case (Cons nb nbs)
  note snap = snapshot_Cons [OF Cons.prems(5,4)]
  obtain st1 where st1: "cache_wf env st1" "one_row R nb (st_notebooks st) (st_notebooks st1)" "st' = st1 \<or> loop nbs st1 = (res, st')"
    using iter [OF Cons.prems(2,3) snap(1) Cons.prems(1)] by blast
  have d: "distinct (map nNotebookID (st_notebooks st1))" using st1(2) by (simp add: one_row_def)
  have "loop_rows R nbs (st_notebooks st1) (st_notebooks st')"
    using st1(3)
  proof
    assume "loop nbs st1 = (res, st')"
    then show ?thesis using Cons.IH [OF _ st1(1) d _ snap(2) [OF st1(2)]] Cons.prems(4) by simp
  qed (use d in \<open>simp add: loop_rows_refl\<close>)
  then show ?case by (rule loop_rows_Cons [OF st1(2)])
qed

lemma requeue_iteration:
  assumes "deployment env" and "cache_wf env st" and dist: "distinct (map nNotebookID (st_notebooks st))" and "row_of nNotebookID (st_notebooks st) (nNotebookID nb) = Some nb"
    and run: "requeue_loop env now d (nb # nbs) st = (res, st')"
  shows "\<exists>st1. cache_wf env st1 \<and> one_row (\<lambda>nb r'. due now d nb \<and> r' = requeued now nb) nb (st_notebooks st) (st_notebooks st1) \<and>
    (st' = st1 \<or> requeue_loop env now d nbs st1 = (res, st'))"
proof (cases "due now d nb")
  case False
  then have "requeue_loop env now d nbs st = (res, st')" using run by (auto simp: due_def split: if_splits)
  then show ?thesis using assms(2) one_row_refl [OF dist] by blast
next
  case True
  let ?nb = "nb\<lparr>nState := NotebookStateQueued, nQueuedAction := NotebookQueuedActionRequeue\<rparr>"
  obtain r1 t1 where upd: "UpdateNotebookForRescheduling (notebookDB env) now ?nb (st_notebooks st) = (r1, t1)" by fastforce
  have "one_row (\<lambda>nb r'. due now d nb \<and> r' = requeued now nb) nb (st_notebooks st) t1"
    by (rule update_one_row [OF deployment.notebook_laws [OF assms(1)] dist assms(4) _ upd]) (use True in \<open>simp_all add: requeued_def\<close>)
  moreover have "st' = st\<lparr>st_notebooks := t1\<rparr> \<or> requeue_loop env now d nbs (st\<lparr>st_notebooks := t1\<rparr>) = (res, st')"
    using run upd True by (auto simp: due_def split: sum.splits)
  ultimately show ?thesis using assms(2) deployment.cache_wf_tables(2) [OF assms(1)] by (intro exI [of _ "st\<lparr>st_notebooks := t1\<rparr>"]) simp
qed

lemma scheduleNotebook_moves:
  assumes "deployment env" and "cache_wf env st" and "scheduleNotebook env now nb n st = (Inr s, st')"
  shows "sr_ClusterID s \<noteq> nClusterID nb"
proof -
  obtain u st1 st2 apiKey token where "RebuildUserInfo (projectCodec env) nb = Inr u"
    and sc: "env_Schedule env now u (nClusterID nb) n st = (Inr s, st1)"
    and "env_AddAssumedPod env now (ui_TenantID u) (sr_ClusterID s) (sr_Namespace s @ ''/'' @ nNotebookID nb) n st1 = (Inr (), st2)"
    and "GetAPIKey (decrypt env) (dataKey env) nb = Inr apiKey" "GetToken (decrypt env) (dataKey env) nb = Inr token"
      "NewClient env (sr_ClusterID s) apiKey = Inr ()"
    and "st' = st2\<lparr>st_k8s := st_k8s st2 @ [CreateSecret (sr_ClusterID s) (nNotebookID nb) (sr_Namespace s)
      [(''OPENAI_API_KEY'', apiKey), (''NOTEBOOK_TOKEN'', token), (''LLMARINER_API_KEY'', apiKey)]]\<rparr>"
    by (rule scheduleNotebook_cases [OF assms(3)])
  from env_Schedule_ok [OF assms(1,2) sc] show ?thesis by (auto simp: eligible_def result_of_def)
qed

lemma reschedule_iteration:
  assumes dep: "deployment env" and wf: "cache_wf env st" and dist: "distinct (map nNotebookID (st_notebooks st))"
    and row: "row_of nNotebookID (st_notebooks st) (nNotebookID nb) = Some nb" and run: "reschedule_loop env now (nb # nbs) st = (res, st')"
  shows "\<exists>st1. cache_wf env st1 \<and> one_row moved nb (st_notebooks st) (st_notebooks st1) \<and> (st' = st1 \<or> reschedule_loop env now nbs st1 = (res, st'))"
proof (cases "V1Notebook (notebookCodec env) nb")
  case (Inl e)
  then have "st' = st" using run by simp
  then show ?thesis using wf one_row_refl [OF dist] by blast
next
  case p: (Inr p)
  let ?n = "case Notebook_Resources p of None \<Rightarrow> 0 | Some r \<Rightarrow> Res_GpuCount r"
  obtain r1 st1 where sched: "scheduleNotebook env now nb ?n st = (r1, st1)" by fastforce
  have t1: "st_notebooks st1 = st_notebooks st" using scheduleNotebook_tables [OF sched] by simp
  have wf1: "cache_wf env st1" by (rule deployment.scheduleNotebook_wf [OF dep sched wf])
  have keep: ?thesis if "st' = st1 \<or> reschedule_loop env now nbs st1 = (res, st')"
    using that wf1 t1 one_row_refl [OF dist] by (intro exI [of _ st1]) simp
  show ?thesis
  proof (cases r1)
    case (Inl e)
    then show ?thesis using run p sched by (intro keep) simp
  next
    case s: (Inr s)
    let ?f = "\<lambda>p. p\<lparr>Notebook_Status := NotebookStateQueued, Notebook_ClusterId := sr_ClusterID s,
        Notebook_ClusterName := sr_ClusterName s, Notebook_KubernetesNamespace := sr_Namespace s\<rparr>"
    let ?nb = "nb\<lparr>nReason := [], nState := NotebookStateQueued, nQueuedAction := NotebookQueuedActionStart, nClusterID := sr_ClusterID s\<rparr>"
    show ?thesis
    proof (cases "Notebook_MutateMessage (notebookCodec env) ?f ?nb")
      case (Inl e)
      then show ?thesis using run p sched s by (intro keep) simp
    next
      case nb': (Inr nb')
      have sel: "nNotebookID nb' = nNotebookID nb" "nVersion nb' = nVersion nb" "nState nb' = NotebookStateQueued"
        "nQueuedAction nb' = NotebookQueuedActionStart" "nClusterID nb' = sr_ClusterID s" "nReason nb' = []"
        using nb' by (auto simp: Notebook_MutateMessage_def split: sum.splits)
      have other: "sr_ClusterID s \<noteq> nClusterID nb" using scheduleNotebook_moves [OF dep wf] sched s by simp
      obtain r2 t2 where upd: "UpdateNotebookForRescheduling (notebookDB env) now nb' (st_notebooks st) = (r2, t2)" by fastforce
      have "one_row moved nb (st_notebooks st) t2"
        by (rule update_one_row [OF deployment.notebook_laws [OF dep] dist row sel(1) upd]) (use other in \<open>simp add: moved_def sel\<close>)
      moreover have "st' = st1\<lparr>st_notebooks := t2\<rparr> \<or> reschedule_loop env now nbs (st1\<lparr>st_notebooks := t2\<rparr>) = (res, st')"
        using run p sched s t1 nb' upd by (auto split: sum.splits)
      ultimately show ?thesis
        using wf1 deployment.cache_wf_tables(2) [OF dep] by (intro exI [of _ "st1\<lparr>st_notebooks := t2\<rparr>"]) simp
    qed
  qed
qed

text \<open>The two loops of a round, put together.\<close>

lemma loop_rowsD:
  assumes "loop_rows R nbs t t'" and "row_of nNotebookID t k = Some r" and "snapshot t nbs"
  shows "\<exists>r'. row_of nNotebookID t' k = Some r' \<and> (r' = r \<or> r \<in> set nbs \<and> R r r')"
proof -
  consider "row_of nNotebookID t' k = Some r" | nb r' where "nb \<in> set nbs" "nNotebookID nb = k" "row_of nNotebookID t' k = Some r'" "R nb r'"
    using assms(1,2) unfolding loop_rows_def by metis
  then show ?thesis
  proof cases
    case 2
    then have "nb = r" using assms(2,3) by (auto simp: snapshot_def)
    then show ?thesis using 2 by blast
  qed simp
qed

lemma reschedule_round_row:
  assumes dep: "deployment env" and wf: "server_wf env st" and run: "rescheduleNotebooks env now d st = (res, st')"
    and row: "row_of nNotebookID (st_notebooks st) k = Some r"
  shows "\<exists>r'. row_of nNotebookID (st_notebooks st') k = Some r' \<and> round_row now d r r'"
proof -
  note db = deployment.notebook_laws [OF dep]
  have nwf: "notebooks_wf (st_notebooks st)" and cwf: "cache_wf env st" using wf by (auto simp: server_wf_def cache_wf_def)
  then have dist: "distinct (map nNotebookID (st_notebooks st))" by (simp add: table_wf_def)
  show ?thesis
  proof (cases "ListNotebooksByState (notebookDB env) now NotebookStateInitializing (st_notebooks st)")
    case (Inl e)
    then show ?thesis using run row by (simp add: rescheduleNotebooks_def round_row_def)
  next
    case (Inr nbs)
    note snap = list_by_state_snapshot [OF db nwf Inr]
    obtain r1 st1 where req: "requeue_loop env now d nbs st = (r1, st1)" by fastforce
    have one: "loop_rows (\<lambda>nb r'. due now d nb \<and> r' = requeued now nb) nbs (st_notebooks st) (st_notebooks st1)"
      by (rule loop_induct [where loop = "requeue_loop env now d", OF requeue_iteration [OF dep] _ req cwf dist list_by_state_distinct [OF db nwf Inr] conjunct1 [OF snap]]) simp_all
    then obtain x where x: "row_of nNotebookID (st_notebooks st1) k = Some x"
      "x = r \<or> nState r = NotebookStateInitializing \<and> due now d r \<and> x = requeued now r"
      using loop_rowsD [OF one row conjunct1 [OF snap]] snap by blast
    have nwf1: "notebooks_wf (st_notebooks st1)"
      by (rule notebook_life.steps_wf [OF requeue_loop_steps [OF db nwf req]]) (use snap nwf in auto)
    have cwf1: "cache_wf env st1" by (rule deployment.requeue_loop_wf [OF dep req cwf])
    show ?thesis
    proof (cases "\<exists>nbs'. r1 = Inr () \<and> ListNotebooksByState (notebookDB env) now NotebookStateRequeued (st_notebooks st1) = Inr nbs'")
      case False
      then have "st' = st1" using run Inr req by (auto simp: rescheduleNotebooks_def split: sum.splits)
      then show ?thesis using x by (auto simp: round_row_def)
    next
      case True
      then obtain nbs' where l: "ListNotebooksByState (notebookDB env) now NotebookStateRequeued (st_notebooks st1) = Inr nbs'" and "r1 = Inr ()" by blast
      then have loop: "reschedule_loop env now nbs' st1 = (res, st')" using run Inr req by (simp add: rescheduleNotebooks_def)
      note snap' = list_by_state_snapshot [OF db nwf1 l]
      have dist1: "distinct (map nNotebookID (st_notebooks st1))" using nwf1 by (simp add: table_wf_def)
      have two: "loop_rows moved nbs' (st_notebooks st1) (st_notebooks st')"
        by (rule loop_induct [where loop = "reschedule_loop env now", OF reschedule_iteration [OF dep] _ loop cwf1 dist1 list_by_state_distinct [OF db nwf1 l] conjunct1 [OF snap']]) simp_all
      obtain r' where r': "row_of nNotebookID (st_notebooks st') k = Some r'" "r' = x \<or> nState x = NotebookStateRequeued \<and> moved x r'"
        using loop_rowsD [OF two x(1) conjunct1 [OF snap']] snap' by blast
      then show ?thesis using x(2) by (auto simp: round_row_def requeued_def)
    qed
  qed
qed

end
