(* ===== verification/Effects.thy ===== *)
theory Effects
  imports Prelude
begin

text \<open>
  Stateful, fallible code of the dispatcher. A Go function that talks to remote services is a function of the world \<open>'w\<close> that returns an
  error or a value together with the new world; \<open>bindE\<close> is the \<^verbatim>\<open>if err != nil { return err }\<close> sequence, \<open>failing\<close> the rewriting of an error
  by \<^verbatim>\<open>fmt.Errorf\<close>, \<open>catchE\<close> an explicit error branch and \<open>forE\<close> a \<^verbatim>\<open>for range\<close> loop that returns the first error.

  Two judgements carry the proofs: \<open>tracks R m\<close> says that \<open>m\<close>, failing or not, moves the world along the preorder \<open>R\<close> (for invariants, frames and
  traces); \<open>achieves P m Q\<close> says that from a world in \<open>P\<close> the code returns without an error, in \<open>Q\<close> (for liveness).
\<close>

type_synonym ('w, 'a) io = "'w \<Rightarrow> (go_error + 'a) \<times> 'w"

definition ret :: "'a \<Rightarrow> ('w, 'a) io" where
  "ret x w = (Inr x, w)"

definition throw :: "go_error \<Rightarrow> ('w, 'a) io" where
  "throw e w = (Inl e, w)"

definition lift_result :: "go_error + 'a \<Rightarrow> ('w, 'a) io" where
  "lift_result r w = (r, w)"

definition bindE :: "('w, 'a) io \<Rightarrow> ('a \<Rightarrow> ('w, 'b) io) \<Rightarrow> ('w, 'b) io" where
  "bindE m f w = (case m w of (Inl e, w') \<Rightarrow> (Inl e, w') | (Inr x, w') \<Rightarrow> f x w')"

definition catchE :: "('w, 'a) io \<Rightarrow> (go_error \<Rightarrow> ('w, 'a) io) \<Rightarrow> ('w, 'a) io" where
  "catchE m h w = (case m w of (Inl e, w') \<Rightarrow> h e w' | (Inr x, w') \<Rightarrow> (Inr x, w'))"

definition failing :: "(go_error \<Rightarrow> go_error) \<Rightarrow> ('w, 'a) io \<Rightarrow> ('w, 'a) io" where
  "failing f m w = (case m w of (Inl e, w') \<Rightarrow> (Inl (f e), w') | (Inr x, w') \<Rightarrow> (Inr x, w'))"

text \<open>\<^verbatim>\<open>if err != nil { ... } else { ... }\<close> with a branch of its own for the error.\<close>

definition tryE :: "('w, 'a) io \<Rightarrow> (go_error \<Rightarrow> ('w, 'b) io) \<Rightarrow> ('a \<Rightarrow> ('w, 'b) io) \<Rightarrow> ('w, 'b) io" where
  "tryE m h f w = (case m w of (Inl e, w') \<Rightarrow> h e w' | (Inr x, w') \<Rightarrow> f x w')"

fun forE :: "('a \<Rightarrow> ('w, unit) io) \<Rightarrow> 'a list \<Rightarrow> ('w, unit) io" where
  "forE f [] = ret ()"
| "forE f (x # xs) = bindE (f x) (\<lambda>_. forE f xs)"

text \<open>A loop that collects one value per element.\<close>

fun mapE :: "('a \<Rightarrow> ('w, 'b) io) \<Rightarrow> 'a list \<Rightarrow> ('w, 'b list) io" where
  "mapE f [] = ret []"
| "mapE f (x # xs) = bindE (f x) (\<lambda>y. bindE (mapE f xs) (\<lambda>ys. ret (y # ys)))"

lemma forE_map: "forE f (map g xs) = forE (\<lambda>x. f (g x)) xs"
  by (induction xs) simp_all

section \<open>Moving along a preorder\<close>

definition tracks :: "('w \<Rightarrow> 'w \<Rightarrow> bool) \<Rightarrow> ('w, 'a) io \<Rightarrow> bool" where
  "tracks R m \<longleftrightarrow> (\<forall>w. R w (snd (m w)))"

named_theorems tracks_intros \<open>rules that compose \<open>tracks\<close>\<close>

lemma tracksD: "tracks R m \<Longrightarrow> m w = (r, w') \<Longrightarrow> R w w'"
  by (metis tracks_def snd_conv)

lemma tracks_result [tracks_intros]: "reflp R \<Longrightarrow> tracks R (ret x)" "reflp R \<Longrightarrow> tracks R (throw e)" "reflp R \<Longrightarrow> tracks R (lift_result r)"
  by (auto simp: tracks_def ret_def throw_def lift_result_def reflp_def)

lemma tracks_bindE [tracks_intros]:
  assumes "transp R" and "tracks R m" and "\<And>x. tracks R (f x)"
  shows "tracks R (bindE m f)"
  using assms by (auto simp: tracks_def bindE_def split: prod.split sum.split) (metis snd_conv transpD)+

lemma tracks_tryE [tracks_intros]:
  assumes "transp R" and "tracks R m" and "\<And>e. tracks R (h e)" and "\<And>x. tracks R (f x)"
  shows "tracks R (tryE m h f)"
  using assms by (auto simp: tracks_def tryE_def split: prod.split sum.split) (metis snd_conv transpD)+

lemma tracks_catchE [tracks_intros]:
  assumes "transp R" and "tracks R m" and "\<And>e. tracks R (h e)"
  shows "tracks R (catchE m h)"
  using assms by (auto simp: tracks_def catchE_def split: prod.split sum.split) (metis snd_conv transpD)+

lemma tracks_failing [tracks_intros]: "tracks R m \<Longrightarrow> tracks R (failing f m)"
  by (auto simp: tracks_def failing_def split: prod.split sum.split) (metis snd_conv)+

lemma tracks_forE [tracks_intros]:
  assumes "reflp R" "transp R" and "\<And>x. tracks R (f x)"
  shows "tracks R (forE f xs)"
  by (induction xs) (auto intro!: tracks_result tracks_bindE assms)

lemma tracks_mapE [tracks_intros]:
  assumes "reflp R" "transp R" and "\<And>x. tracks R (f x)"
  shows "tracks R (mapE f xs)"
  by (induction xs) (auto intro!: tracks_result tracks_bindE assms)

lemma tracks_split [tracks_intros]:
  "(b \<Longrightarrow> tracks R m) \<Longrightarrow> (\<not> b \<Longrightarrow> tracks R m') \<Longrightarrow> tracks R (if b then m else m')"
  "(\<And>x y. p = (x, y) \<Longrightarrow> tracks R (g x y)) \<Longrightarrow> tracks R (case p of (x, y) \<Rightarrow> g x y)"
  "(q = None \<Longrightarrow> tracks R m) \<Longrightarrow> (\<And>x. q = Some x \<Longrightarrow> tracks R (h x)) \<Longrightarrow> tracks R (case q of None \<Rightarrow> m | Some x \<Rightarrow> h x)"
  "(\<And>e. s = Inl e \<Longrightarrow> tracks R (k e)) \<Longrightarrow> (\<And>x. s = Inr x \<Longrightarrow> tracks R (l x)) \<Longrightarrow> tracks R (case s of Inl e \<Rightarrow> k e | Inr x \<Rightarrow> l x)"
  by (auto split: prod.split option.split sum.split)

section \<open>Returning without an error\<close>

definition achieves :: "('w \<Rightarrow> bool) \<Rightarrow> ('w, 'a) io \<Rightarrow> ('a \<Rightarrow> 'w \<Rightarrow> bool) \<Rightarrow> bool" where
  "achieves P m Q \<longleftrightarrow> (\<forall>w. P w \<longrightarrow> (\<exists>x w'. m w = (Inr x, w') \<and> Q x w'))"

lemma achievesD: "achieves P m Q \<Longrightarrow> P w \<Longrightarrow> \<exists>x w'. m w = (Inr x, w') \<and> Q x w'"
  by (simp add: achieves_def)

lemma achieves_ret: "(\<And>w. P w \<Longrightarrow> Q x w) \<Longrightarrow> achieves P (ret x) Q"
  by (simp add: achieves_def ret_def)

lemma achieves_bindE:
  assumes "achieves P m Q" and "\<And>x. achieves (Q x) (f x) S"
  shows "achieves P (bindE m f) S"
  using assms by (fastforce simp: achieves_def bindE_def)

lemma achieves_tryE:
  assumes "achieves P m Q" and "\<And>x. achieves (Q x) (f x) S"
  shows "achieves P (tryE m h f) S"
  using assms by (fastforce simp: achieves_def tryE_def)

lemma achieves_failing: "achieves P m Q \<Longrightarrow> achieves P (failing f m) Q"
  by (fastforce simp: achieves_def failing_def)

lemma achieves_catchE: "achieves P m Q \<Longrightarrow> achieves P (catchE m h) Q"
  by (fastforce simp: achieves_def catchE_def)

lemma achieves_weaken:
  "achieves P m Q \<Longrightarrow> (\<And>w. P' w \<Longrightarrow> P w) \<Longrightarrow> (\<And>x w. Q x w \<Longrightarrow> Q' x w) \<Longrightarrow> achieves P' m Q'"
  by (fastforce simp: achieves_def)

text \<open>A loop whose body settles one element after the other: \<open>I\<close> is indexed by the elements done and those still to come.\<close>

lemma achieves_forE:
  assumes "\<And>past x rest. xs = past @ x # rest \<Longrightarrow> achieves (I past (x # rest)) (f x) (\<lambda>_. I (past @ [x]) rest)"
  shows "achieves (I [] xs) (forE f xs) (\<lambda>_. I xs [])"
proof -
  have "achieves (I past rest) (forE f rest) (\<lambda>_. I xs [])" if "xs = past @ rest" for past rest
    using that
  proof (induction rest arbitrary: past)
    case Nil
    then show ?case by (auto intro: achieves_ret)
  next
    case (Cons x rest)
    show ?case
      unfolding forE.simps by (rule achieves_bindE [OF assms [OF Cons.prems]], rule Cons.IH) (simp add: Cons.prems)
  qed
  from this [of "[]" xs] show ?thesis by simp
qed

end
