(* ===== verification/Kube.thy ===== *)
theory Kube
  imports Effects Api
begin

text \<open>
  The Kubernetes objects the dispatcher reads and writes, with the fields its code uses, and the Kubernetes client it calls. The client
  (\<^verbatim>\<open>sigs.k8s.io/controller-runtime/pkg/client\<close>) is third-party: \<open>'w kube\<close> is a record of its calls over the world \<open>'w\<close>, and the locale
  \<open>kube_api\<close> states what the code relies on: reads change nothing, a write that returns without an error has been accepted, and a write that
  returns an error has been accepted or not. Apply configurations are records whose optional fields are \<open>option\<close> types or lists;
  \<^verbatim>\<open>WithX\<close> is a record update.

  \<^verbatim>\<open>resource.Quantity\<close> is third-party: a \<open>Quantity\<close> records the constructor it was made with; \<^verbatim>\<open>AsInt64\<close> and \<^verbatim>\<open>ParseQuantity\<close> are parameters.
\<close>

section \<open>Pods and workloads\<close>

datatype Quantity =
    NewQuantity int            \<comment> \<open>\<^verbatim>\<open>resource.NewQuantity(v, resource.DecimalSI)\<close>\<close>
  | NewMilliQuantity int
  | NewScaledQuantity int int  \<comment> \<open>value and decimal scale\<close>
  | MustParse string

type_synonym ResourceList = "(string \<times> Quantity) list"
type_synonym labels = "(string \<times> string) list"
type_synonym NamespacedName = "string \<times> string"   \<comment> \<open>namespace, name\<close>

abbreviation (input) nvidiaGPU :: string where "nvidiaGPU \<equiv> ''nvidia.com/gpu''"

datatype EnvSource = EnvValue string | EnvSecretKeyRef string string | EnvFieldRef string

record EnvVar =
  env_Name :: string
  env_Source :: EnvSource

record ContainerPort =
  cp_Name :: "string option"
  cp_ContainerPort :: int
  cp_Protocol :: string

record ResourceRequirements =
  rr_Requests :: ResourceList
  rr_Limits :: ResourceList

record SecurityContext =
  sc_RunAsUser :: int
  sc_RunAsGroup :: int
  sc_RunAsNonRoot :: bool

record Container =
  con_Name :: string
  con_Image :: string
  con_ImagePullPolicy :: "string option"
  con_Command :: "string list"
  con_Args :: "string list"
  con_Ports :: "ContainerPort list"
  con_Env :: "EnvVar list"
  con_EnvFromSecrets :: "string list"
  con_Resources :: "ResourceRequirements option"
  con_TerminationMessagePolicy :: "string option"
  con_SecurityContext :: "SecurityContext option"
  con_VolumeMounts :: "(string \<times> string) list"

definition new_Container :: "string \<Rightarrow> string \<Rightarrow> Container" where
  "new_Container name img = \<lparr>con_Name = name, con_Image = img, con_ImagePullPolicy = None, con_Command = [], con_Args = [], con_Ports = [],
     con_Env = [], con_EnvFromSecrets = [], con_Resources = None, con_TerminationMessagePolicy = None, con_SecurityContext = None,
     con_VolumeMounts = []\<rparr>"

definition env_value :: "string \<Rightarrow> string \<Rightarrow> EnvVar" where
  "env_value name v = \<lparr>env_Name = name, env_Source = EnvValue v\<rparr>"

datatype VolumeSource = PersistentVolumeClaimVolume string | EmptyDirVolume | ConfigMapVolume string

record TolerationAC =
  tol_Key :: "string option"
  tol_Operator :: "string option"
  tol_Value :: "string option"
  tol_Effect :: "string option"
  tol_Seconds :: "int option"

section \<open>Affinity\<close>

text \<open>\<^verbatim>\<open>corev1.Affinity\<close> and the apply configuration of the same shape, in which a field may be unset.\<close>

record NodeSelectorRequirement =
  nsr_Key :: string
  nsr_Operator :: string
  nsr_Values :: "string list"

record NodeSelectorTerm =
  nst_MatchExpressions :: "NodeSelectorRequirement list"
  nst_MatchFields :: "NodeSelectorRequirement list"

record LabelSelector =
  ls_MatchLabels :: labels
  ls_MatchExpressions :: "NodeSelectorRequirement list"   \<comment> \<open>\<^verbatim>\<open>LabelSelectorRequirement\<close> has the same fields\<close>

record PodAffinityTerm =
  pat_LabelSelector :: "LabelSelector option"
  pat_Namespaces :: "string list"
  pat_TopologyKey :: string
  pat_NamespaceSelector :: "LabelSelector option"
  pat_MatchLabelKeys :: "string list"
  pat_MismatchLabelKeys :: "string list"

record NodeAffinity =
  na_Required :: "NodeSelectorTerm list option"
  na_Preferred :: "(int \<times> NodeSelectorTerm) list"

record PodAffinity =
  pa_Required :: "PodAffinityTerm list"
  pa_Preferred :: "(int \<times> PodAffinityTerm) list"

record Affinity =
  af_NodeAffinity :: "NodeAffinity option"
  af_PodAffinity :: "PodAffinity option"
  af_PodAntiAffinity :: "PodAffinity option"

record NodeSelectorRequirementAC =
  nsrAC_Key :: "string option"
  nsrAC_Operator :: "string option"
  nsrAC_Values :: "string list"

record NodeSelectorTermAC =
  nstAC_MatchExpressions :: "NodeSelectorRequirementAC list"
  nstAC_MatchFields :: "NodeSelectorRequirementAC list"

record LabelSelectorAC =
  lsAC_MatchLabels :: labels
  lsAC_MatchExpressions :: "NodeSelectorRequirementAC list"

record PodAffinityTermAC =
  patAC_LabelSelector :: "LabelSelectorAC option"
  patAC_Namespaces :: "string list"
  patAC_TopologyKey :: "string option"
  patAC_NamespaceSelector :: "LabelSelectorAC option"
  patAC_MatchLabelKeys :: "string list"
  patAC_MismatchLabelKeys :: "string list"

record NodeAffinityAC =
  naAC_Required :: "NodeSelectorTermAC list option"
  naAC_Preferred :: "(int \<times> NodeSelectorTermAC) list"

record PodAffinityAC =
  paAC_Required :: "PodAffinityTermAC list"
  paAC_Preferred :: "(int \<times> PodAffinityTermAC) list"

record AffinityAC =
  afAC_NodeAffinity :: "NodeAffinityAC option"
  afAC_PodAffinity :: "PodAffinityAC option"
  afAC_PodAntiAffinity :: "PodAffinityAC option"

section \<open>Objects that are applied\<close>

record PodSpec =
  ps_Containers :: "Container list"
  ps_InitContainers :: "Container list"
  ps_RestartPolicy :: "string option"
  ps_Subdomain :: "string option"
  ps_Volumes :: "(string \<times> VolumeSource) list"
  ps_Affinity :: "AffinityAC option"
  ps_NodeSelector :: labels
  ps_Tolerations :: "TolerationAC list"

definition empty_PodSpec :: PodSpec where
  "empty_PodSpec = \<lparr>ps_Containers = [], ps_InitContainers = [], ps_RestartPolicy = None, ps_Subdomain = None, ps_Volumes = [],
     ps_Affinity = None, ps_NodeSelector = [], ps_Tolerations = []\<rparr>"

record PodTemplate =
  pt_Annotations :: labels
  pt_Labels :: labels
  pt_Spec :: PodSpec

record JobSpec =
  js_TTLSecondsAfterFinished :: int
  js_BackoffLimit :: int
  js_CompletionMode :: "string option"
  js_Completions :: "int option"
  js_Parallelism :: "int option"
  js_Template :: PodTemplate

record DeploymentSpec =
  ds_Replicas :: int
  ds_MatchLabels :: labels
  ds_Template :: PodTemplate

datatype TargetPort = FromString string | FromInt int

record ServicePort =
  sp_Name :: string
  sp_Port :: int
  sp_TargetPort :: TargetPort
  sp_Protocol :: string

record ServiceSpec =
  ss_Type :: "string option"
  ss_ClusterIP :: "string option"
  ss_Selector :: labels
  ss_Ports :: "ServicePort list"

record PVCSpec =
  pvc_AccessModes :: "string list"
  pvc_StorageClassName :: string
  pvc_Requests :: ResourceList

record OwnerReference =
  or_APIVersion :: string
  or_Kind :: string
  or_Name :: string
  or_UID :: string
  or_BlockOwnerDeletion :: bool
  or_Controller :: bool

record ObjectMeta =
  om_Name :: string
  om_Namespace :: string
  om_Labels :: labels
  om_Annotations :: labels
  om_OwnerReferences :: "OwnerReference list"

definition new_meta :: "string \<Rightarrow> string \<Rightarrow> ObjectMeta" where
  "new_meta name namespace = \<lparr>om_Name = name, om_Namespace = namespace, om_Labels = [], om_Annotations = [], om_OwnerReferences = []\<rparr>"

datatype apply_object =
    Apply_Job (apply_meta: ObjectMeta) JobSpec
  | Apply_Deployment (apply_meta: ObjectMeta) DeploymentSpec
  | Apply_Service (apply_meta: ObjectMeta) ServiceSpec
  | Apply_Secret (apply_meta: ObjectMeta)
  | Apply_ConfigMap (apply_meta: ObjectMeta)
  | Apply_PersistentVolumeClaim (apply_meta: ObjectMeta) PVCSpec

section \<open>Objects that are read\<close>

record JobCondition =
  jc_Type :: string
  jc_Reason :: string
  jc_Message :: string
  jc_LastTransitionTime :: time

record k8s_Job =
  kj_Namespace :: string
  kj_Name :: string
  kj_DeletionTimestamp :: "time option"
  kj_Suspend :: "bool option"
  kj_Succeeded :: int
  kj_Failed :: int
  kj_Conditions :: "JobCondition list"

record k8s_Deployment =
  kd_Namespace :: string
  kd_Name :: string
  kd_DeletionTimestamp :: "time option"
  kd_Replicas :: "int option"
  kd_ReadyReplicas :: int
  kd_MatchLabels :: labels

record ContainerStatus =
  cs_Name :: string
  cs_WaitingReason :: "string option"                \<comment> \<open>\<^verbatim>\<open>State.Waiting.Reason\<close>\<close>
  cs_Terminated :: "(int \<times> string) option"           \<comment> \<open>exit code and message of \<^verbatim>\<open>State.Terminated\<close>\<close>

record k8s_Pod =
  pod_Namespace :: string
  pod_Name :: string
  pod_Phase :: string
  pod_Limits :: "ResourceList option list"           \<comment> \<open>\<^verbatim>\<open>Resources.Limits\<close> of each container\<close>
  pod_ContainerStatuses :: "ContainerStatus list"

record k8s_Node =
  node_Unschedulable :: bool
  node_Allocatable :: ResourceList

record NodePool =
  np_Requirements :: "NodeSelectorRequirement list"

section \<open>The client\<close>

datatype kube_write =
    W_Apply string apply_object                      \<comment> \<open>\<^verbatim>\<open>Patch(ctx, obj, client.Apply, ...)\<close> with the field manager, forced\<close>
  | W_UpdateJob string k8s_Job                       \<comment> \<open>\<^verbatim>\<open>Update(ctx, &job, client.FieldOwner(...))\<close>\<close>
  | W_DeleteJob "string option" k8s_Job              \<comment> \<open>with a propagation policy\<close>
  | W_ScaleDeployment k8s_Deployment int             \<comment> \<open>\<^verbatim>\<open>SubResource("scale").Update\<close>\<close>
  | W_DeleteDeployment k8s_Deployment

text \<open>What an apply returns of the object: its group and version, kind, name and UID.\<close>

record applied_object =
  ao_GroupVersion :: string
  ao_Kind :: string
  ao_Name :: string
  ao_UID :: string

record 'w kube =
  k_GetJob :: "NamespacedName \<Rightarrow> ('w, k8s_Job) io"
  k_GetDeployment :: "NamespacedName \<Rightarrow> ('w, k8s_Deployment) io"
  k_ListPods :: "string option \<Rightarrow> labels \<Rightarrow> ('w, k8s_Pod list) io"
  k_ListNodes :: "('w, k8s_Node list) io"
  k_ListNodePools :: "('w, NodePool list) io"
  k_Write :: "kube_write \<Rightarrow> ('w, applied_object) io"
  k_IsNotFound :: "go_error \<Rightarrow> bool"
  k_ToUnstructured :: "apply_object \<Rightarrow> go_error + apply_object"

definition IgnoreNotFound :: "'w kube \<Rightarrow> go_error \<Rightarrow> go_error + unit" where
  "IgnoreNotFound K e = (if k_IsNotFound K e then Inr () else Inl e)"

definition k_Write_unit :: "'w kube \<Rightarrow> kube_write \<Rightarrow> ('w, unit) io" where
  "k_Write_unit K x = bindE (k_Write K x) (\<lambda>_. ret ())"

text \<open>The writes a piece of code makes all satisfy \<open>P\<close>, whether it fails or not.\<close>

definition writes :: "('w \<Rightarrow> kube_write list) \<Rightarrow> (kube_write \<Rightarrow> bool) \<Rightarrow> 'w \<Rightarrow> 'w \<Rightarrow> bool" where
  "writes acc P w w' \<longleftrightarrow> (\<exists>xs. acc w' = acc w @ xs \<and> (\<forall>x \<in> set xs. P x))"

lemma writes_preorder: "reflp (writes acc P)" "transp (writes acc P)"
  by (auto simp: writes_def reflp_def transp_def)

locale kube_api =
  fixes K :: "'w kube" and accepted :: "'w \<Rightarrow> kube_write list"
  assumes get_job: "k_GetJob K nn w = (r1, w') \<Longrightarrow> w' = w"
    and get_deployment: "k_GetDeployment K nn w = (r2, w') \<Longrightarrow> w' = w"
    and list_pods: "k_ListPods K ns ls w = (r3, w') \<Longrightarrow> w' = w"
    and list_nodes: "k_ListNodes K w = (r4, w') \<Longrightarrow> w' = w"
    and list_node_pools: "k_ListNodePools K w = (r5, w') \<Longrightarrow> w' = w"
    and write_ok: "k_Write K x w = (Inr a, w') \<Longrightarrow> accepted w' = accepted w @ [x]"
    and write_error: "k_Write K x w = (Inl e, w') \<Longrightarrow> accepted w' = accepted w \<or> accepted w' = accepted w @ [x]"
    and unstructured: "k_ToUnstructured K obj = Inr u \<Longrightarrow> u = obj"
begin

lemma writes_read:
  "tracks (writes accepted P) (k_GetJob K nn)" "tracks (writes accepted P) (k_GetDeployment K nn)" "tracks (writes accepted P) (k_ListPods K ns ls)"
  "tracks (writes accepted P) (k_ListNodes K)" "tracks (writes accepted P) (k_ListNodePools K)"
  using get_job get_deployment list_pods list_nodes list_node_pools
  by (auto simp: tracks_def writes_def) (metis append_Nil2 empty_iff list.set(1) prod.collapse)+

lemma writes_write: "P x \<Longrightarrow> tracks (writes accepted P) (k_Write K x)"
  unfolding tracks_def writes_def
proof
  fix w
  assume "P x"
  obtain r w' where run: "k_Write K x w = (r, w')" by fastforce
  have "accepted w' = accepted w \<or> accepted w' = accepted w @ [x]"
    using run write_ok write_error by (cases r) auto
  then show "\<exists>xs. accepted (snd (k_Write K x w)) = accepted w @ xs \<and> (\<forall>x \<in> set xs. P x)"
    using \<open>P x\<close> run by auto
qed

lemma writes_write_unit: "P x \<Longrightarrow> tracks (writes accepted P) (k_Write_unit K x)"
  unfolding k_Write_unit_def by (intro tracks_bindE tracks_result writes_write writes_preorder)

lemmas kube_tracks = writes_read writes_write writes_write_unit

end

section \<open>An executable cluster\<close>

text \<open>
  A cluster whose world is the list of the writes it has accepted: an object exists once it was applied and until it is deleted, and a write to
  an object that does not exist is refused. It has no nodes and its pods never start.
\<close>

fun live_job :: "NamespacedName \<Rightarrow> kube_write list \<Rightarrow> k8s_Job option" where
  "live_job nn [] = None"
| "live_job nn (W_Apply mgr (Apply_Job m spec) # ws) =
     (if nn = (om_Namespace m, om_Name m) \<and> live_job nn ws = None
      then Some \<lparr>kj_Namespace = fst nn, kj_Name = snd nn, kj_DeletionTimestamp = None, kj_Suspend = None, kj_Succeeded = 0, kj_Failed = 0,
             kj_Conditions = []\<rparr>
      else live_job nn ws)"
| "live_job nn (W_UpdateJob mgr j # ws) = (if nn = (kj_Namespace j, kj_Name j) then Some j else live_job nn ws)"
| "live_job nn (W_DeleteJob pol j # ws) = (if nn = (kj_Namespace j, kj_Name j) then None else live_job nn ws)"
| "live_job nn (_ # ws) = live_job nn ws"

fun live_deployment :: "NamespacedName \<Rightarrow> kube_write list \<Rightarrow> k8s_Deployment option" where
  "live_deployment nn [] = None"
| "live_deployment nn (W_Apply mgr (Apply_Deployment m spec) # ws) =
     (if nn = (om_Namespace m, om_Name m)
      then Some \<lparr>kd_Namespace = fst nn, kd_Name = snd nn, kd_DeletionTimestamp = None, kd_Replicas = Some (ds_Replicas spec),
             kd_ReadyReplicas = 0, kd_MatchLabels = ds_MatchLabels spec\<rparr>
      else live_deployment nn ws)"
| "live_deployment nn (W_ScaleDeployment d n # ws) =
     (if nn = (kd_Namespace d, kd_Name d) then Some (d\<lparr>kd_Replicas := Some n\<rparr>) else live_deployment nn ws)"
| "live_deployment nn (W_DeleteDeployment d # ws) = (if nn = (kd_Namespace d, kd_Name d) then None else live_deployment nn ws)"
| "live_deployment nn (_ # ws) = live_deployment nn ws"

definition k8s_not_found :: go_error where
  "k8s_not_found = Errorf ''not found''"

fun sim_refuses :: "kube_write \<Rightarrow> kube_write list \<Rightarrow> bool" where
  "sim_refuses (W_Apply mgr obj) ws = False"
| "sim_refuses (W_UpdateJob mgr j) ws = (live_job (kj_Namespace j, kj_Name j) (rev ws) = None)"
| "sim_refuses (W_DeleteJob pol j) ws = (live_job (kj_Namespace j, kj_Name j) (rev ws) = None)"
| "sim_refuses (W_ScaleDeployment d n) ws = (live_deployment (kd_Namespace d, kd_Name d) (rev ws) = None)"
| "sim_refuses (W_DeleteDeployment d) ws = (live_deployment (kd_Namespace d, kd_Name d) (rev ws) = None)"

fun sim_applied :: "kube_write \<Rightarrow> applied_object" where
  "sim_applied (W_Apply mgr (Apply_Job m s)) = \<lparr>ao_GroupVersion = ''batch/v1'', ao_Kind = ''Job'', ao_Name = om_Name m, ao_UID = ''uid''\<rparr>"
| "sim_applied (W_Apply mgr (Apply_Deployment m s)) = \<lparr>ao_GroupVersion = ''apps/v1'', ao_Kind = ''Deployment'', ao_Name = om_Name m, ao_UID = ''uid''\<rparr>"
| "sim_applied x = \<lparr>ao_GroupVersion = ''v1'', ao_Kind = [], ao_Name = [], ao_UID = []\<rparr>"

definition sim_kube :: "kube_write list kube" where
  "sim_kube = \<lparr>
     k_GetJob = (\<lambda>nn ws. (case live_job nn (rev ws) of None \<Rightarrow> Inl k8s_not_found | Some j \<Rightarrow> Inr j, ws)),
     k_GetDeployment = (\<lambda>nn ws. (case live_deployment nn (rev ws) of None \<Rightarrow> Inl k8s_not_found | Some d \<Rightarrow> Inr d, ws)),
     k_ListPods = (\<lambda>ns ls. ret []), k_ListNodes = ret [], k_ListNodePools = ret [],
     k_Write = (\<lambda>x ws. if sim_refuses x ws then (Inl k8s_not_found, ws) else (Inr (sim_applied x), ws @ [x])),
     k_IsNotFound = (\<lambda>e. e = k8s_not_found), k_ToUnstructured = Inr\<rparr>"

interpretation sim: kube_api sim_kube "\<lambda>ws. ws"
  by unfold_locales (auto simp: sim_kube_def ret_def split: if_splits)

end
