(* ===== verification/DispatcherConfig.thy ===== *)
theory DispatcherConfig
  imports Kube
begin

text \<open>
  \<^verbatim>\<open>dispatcher/internal/config/config.go\<close>: the configuration of the dispatcher and its validation. \<^verbatim>\<open>resource.ParseQuantity\<close> and the validation of
  the component status sender are third-party and parameters of the validation. Reading the YAML file is not modelled.
\<close>

section \<open>The configuration\<close>

record AssumeRoleConfig =
  RoleARN :: string
  ExternalID :: string

record S3Config =
  EndpointURL :: string
  Region :: string
  InsecureSkipVerify :: bool
  Bucket :: string
  AssumeRole :: "AssumeRoleConfig option"
  SecretFilePath :: string

record ObjectStoreConfig =
  cfg_S3 :: S3Config
  OptionalS3s :: "S3Config list"

record DebugConfig =
  KubeconfigPath :: string
  debug_Standalone :: bool

record KubernetesManagerConfig =
  EnableLeaderElection :: bool
  LeaderElectionID :: string
  MetricsBindAddress :: string
  HealthBindAddress :: string
  PprofBindAddress :: string

record WandbAPIKeySecretConfig =
  wandb_Name :: string
  wandb_Key :: string

record JobConfig =
  jobcfg_Image :: string
  jobcfg_Version :: string
  jobcfg_ImagePullPolicy :: string
  WandbAPIKeySecret :: WandbAPIKeySecretConfig
  UseBitsAndBytesQuantization :: bool
  CurlFlags :: string

record NotebooksConfig =
  LLMarinerBaseURL :: string
  EnablePVC :: bool
  StorageClassName :: string
  StorageSize :: string
  MountPath :: string
  GrantSudo :: bool

record TolerationConfig =
  tc_Key :: string
  tc_Operator :: string
  tc_Value :: string
  tc_Effect :: string
  tc_TolerationSeconds :: int

record WorkloadConfig =
  PodAnnotations :: labels
  wc_NodeSelector :: labels
  wc_Tolerations :: "TolerationConfig list"
  wc_Affinity :: "Affinity option"

record KueueConfig =
  kueue_Enable :: bool
  DefaultQueueName :: string

record 's Config =
  PollingInterval :: duration
  cfg_Job :: JobConfig
  cfg_Notebook :: NotebooksConfig
  cfg_Workload :: WorkloadConfig
  JobManagerServerWorkerServiceAddr :: string
  FileManagerServerWorkerServiceAddr :: string
  ModelManagerServerWorkerServiceAddr :: string
  ObjectStore :: ObjectStoreConfig
  cfg_Debug :: DebugConfig
  KubernetesManager :: KubernetesManagerConfig
  KueueIntegration :: KueueConfig
  worker_TLS_Enable :: bool
  ComponentStatusSender :: 's
  ClusterStatusUpdateInterval :: duration

abbreviation Standalone :: "'s Config \<Rightarrow> bool" where
  "Standalone c \<equiv> debug_Standalone (cfg_Debug c)"

section \<open>Validation\<close>

definition AssumeRoleConfig_validate :: "AssumeRoleConfig \<Rightarrow> go_error + unit" where
  "AssumeRoleConfig_validate c = guards [(RoleARN c = [], Errorf ''roleArn must be set'')]"

definition ObjectStoreConfig_validate :: "ObjectStoreConfig \<Rightarrow> go_error + unit" where
  "ObjectStoreConfig_validate c = (case guards [(Region (cfg_S3 c) = [], Errorf ''s3 region must be set''),
       (Bucket (cfg_S3 c) = [], Errorf ''s3 bucket must be set'')] of Inl e \<Rightarrow> Inl e
     | Inr _ \<Rightarrow> (case AssumeRole (cfg_S3 c) of None \<Rightarrow> Inr ()
         | Some ar \<Rightarrow> (case AssumeRoleConfig_validate ar of Inl e \<Rightarrow> Inl (Errorf (''assumeRole: '' @ Error e)) | Inr _ \<Rightarrow> Inr ())))"

definition KubernetesManagerConfig_validate :: "KubernetesManagerConfig \<Rightarrow> go_error + unit" where
  "KubernetesManagerConfig_validate c =
     guards [(EnableLeaderElection c \<and> LeaderElectionID c = [], Errorf ''leader election ID must be set'')]"

definition JobConfig_validate :: "JobConfig \<Rightarrow> go_error + unit" where
  "JobConfig_validate c = guards [
     (jobcfg_Image c = [], Errorf ''image must be set''),
     (jobcfg_Version c = [], Errorf ''version must be set''),
     (jobcfg_ImagePullPolicy c = [], Errorf ''image pull policy must be set''),
     (jobcfg_ImagePullPolicy c \<noteq> ''Always'' \<and> jobcfg_ImagePullPolicy c \<noteq> ''IfNotPresent'' \<and> jobcfg_ImagePullPolicy c \<noteq> ''Never'',
        Errorf ''invalid image pull policy'')]"

definition NotebooksConfig_validate :: "(string \<Rightarrow> go_error + unit) \<Rightarrow> NotebooksConfig \<Rightarrow> go_error + unit" where
  "NotebooksConfig_validate ParseQuantity c =
     (if LLMarinerBaseURL c = [] then Inl (Errorf ''llmariner base url must be set'')
      else if EnablePVC c then
        (if StorageClassName c = [] then Inl (Errorf ''storage class name must be set'')
         else if StorageSize c = [] then Inl (Errorf ''storage size must be set'')
         else (case ParseQuantity (StorageSize c) of Inl e \<Rightarrow> Inl (Errorf (''invalid storage size: '' @ Error e))
           | Inr _ \<Rightarrow> guards [(MountPath c = [], Errorf ''mount path must be set''),
               (\<not> HasPrefix (MountPath c) ''/'', Errorf ''mount path must start with a slash'')]))
      else Inr ())"

definition KueueConfig_validate :: "KueueConfig \<Rightarrow> go_error + unit" where
  "KueueConfig_validate c = (if \<not> kueue_Enable c then Inr ()
     else guards [(DefaultQueueName c = [], Errorf ''default queue name must be set'')])"

definition Validate :: "(string \<Rightarrow> go_error + unit) \<Rightarrow> ('s \<Rightarrow> go_error + unit) \<Rightarrow> 's Config \<Rightarrow> go_error + unit" where
  "Validate ParseQuantity sender_Validate c = guards (
     [(PollingInterval c \<le> 0, Errorf ''job polling interval must be greater than 0''),
      nested ''job: '' (JobConfig_validate (cfg_Job c)),
      nested ''notebook: '' (NotebooksConfig_validate ParseQuantity (cfg_Notebook c))] @
     (if Standalone c then [] else
       [(JobManagerServerWorkerServiceAddr c = [], Errorf ''job manager server worker service address must be set''),
        (FileManagerServerWorkerServiceAddr c = [], Errorf ''file manager server worker service address must be set''),
        (ModelManagerServerWorkerServiceAddr c = [], Errorf ''model manager server worker service address must be set''),
        nested ''object store: '' (ObjectStoreConfig_validate (ObjectStore c))]) @
     [nested ''kubernetes manager: '' (KubernetesManagerConfig_validate (KubernetesManager c)),
      nested ''kueue integration: '' (KueueConfig_validate (KueueIntegration c)),
      nested ''componentStatusSender: '' (sender_Validate (ComponentStatusSender c)),
      (ClusterStatusUpdateInterval c \<le> 0, Errorf ''cluster status update interval must be greater than 0'')])"

section \<open>What a valid configuration guarantees\<close>

text \<open>A valid configuration without its error messages: the specification of the validation.\<close>

definition valid_job :: "JobConfig \<Rightarrow> bool" where
  "valid_job c \<longleftrightarrow> jobcfg_Image c \<noteq> [] \<and> jobcfg_Version c \<noteq> [] \<and> jobcfg_ImagePullPolicy c \<in> {''Always'', ''IfNotPresent'', ''Never''}"

definition valid_notebook :: "(string \<Rightarrow> go_error + unit) \<Rightarrow> NotebooksConfig \<Rightarrow> bool" where
  "valid_notebook PQ c \<longleftrightarrow> LLMarinerBaseURL c \<noteq> [] \<and> (EnablePVC c \<longrightarrow> StorageClassName c \<noteq> [] \<and> StorageSize c \<noteq> [] \<and>
     PQ (StorageSize c) = Inr () \<and> prefix ''/'' (MountPath c))"

definition valid_object_store :: "ObjectStoreConfig \<Rightarrow> bool" where
  "valid_object_store c \<longleftrightarrow> Region (cfg_S3 c) \<noteq> [] \<and> Bucket (cfg_S3 c) \<noteq> [] \<and> (\<forall>ar. AssumeRole (cfg_S3 c) = Some ar \<longrightarrow> RoleARN ar \<noteq> [])"

definition valid_config :: "(string \<Rightarrow> go_error + unit) \<Rightarrow> ('s \<Rightarrow> go_error + unit) \<Rightarrow> 's Config \<Rightarrow> bool" where
  "valid_config PQ SV c \<longleftrightarrow> 0 < PollingInterval c \<and> 0 < ClusterStatusUpdateInterval c \<and> valid_job (cfg_Job c) \<and> valid_notebook PQ (cfg_Notebook c) \<and>
     (Standalone c \<or> JobManagerServerWorkerServiceAddr c \<noteq> [] \<and> FileManagerServerWorkerServiceAddr c \<noteq> [] \<and>
        ModelManagerServerWorkerServiceAddr c \<noteq> [] \<and> valid_object_store (ObjectStore c)) \<and>
     (EnableLeaderElection (KubernetesManager c) \<longrightarrow> LeaderElectionID (KubernetesManager c) \<noteq> []) \<and>
     (kueue_Enable (KueueIntegration c) \<longrightarrow> DefaultQueueName (KueueIntegration c) \<noteq> []) \<and> SV (ComponentStatusSender c) = Inr ()"

lemma validate_parts:
  "JobConfig_validate j = Inr () \<longleftrightarrow> valid_job j"
  "NotebooksConfig_validate PQ n = Inr () \<longleftrightarrow> valid_notebook PQ n"
  "ObjectStoreConfig_validate s = Inr () \<longleftrightarrow> valid_object_store s"
  "KubernetesManagerConfig_validate k = Inr () \<longleftrightarrow> (EnableLeaderElection k \<longrightarrow> LeaderElectionID k \<noteq> [])"
  "KueueConfig_validate q = Inr () \<longleftrightarrow> (kueue_Enable q \<longrightarrow> DefaultQueueName q \<noteq> [])"
proof -
  show "JobConfig_validate j = Inr () \<longleftrightarrow> valid_job j"
    by (auto simp: JobConfig_validate_def valid_job_def)
  show "NotebooksConfig_validate PQ n = Inr () \<longleftrightarrow> valid_notebook PQ n"
    by (auto simp: NotebooksConfig_validate_def valid_notebook_def HasPrefix_iff_prefix split: sum.split)
  show "ObjectStoreConfig_validate s = Inr () \<longleftrightarrow> valid_object_store s"
    by (auto simp: ObjectStoreConfig_validate_def valid_object_store_def AssumeRoleConfig_validate_def split: sum.split option.split)
  show "KubernetesManagerConfig_validate k = Inr () \<longleftrightarrow> (EnableLeaderElection k \<longrightarrow> LeaderElectionID k \<noteq> [])"
    by (auto simp: KubernetesManagerConfig_validate_def)
  show "KueueConfig_validate q = Inr () \<longleftrightarrow> (kueue_Enable q \<longrightarrow> DefaultQueueName q \<noteq> [])"
    by (auto simp: KueueConfig_validate_def)
qed

lemma Validate_iff: "Validate PQ SV c = Inr u \<longleftrightarrow> valid_config PQ SV c"
  unfolding Validate_def guards_ok_fst valid_config_def by (auto simp: validate_parts)

end
