(* ===== verification/Workload.thy ===== *)
theory Workload
  imports DispatcherConfig
begin

text \<open>
  \<^verbatim>\<open>dispatcher/internal/dispatcher/workload_config.go\<close>: the node selector, tolerations and affinity of the configuration are put into the pod
  specification. \<open>buildAffinityApplyConfig\<close> copies a \<^verbatim>\<open>corev1.Affinity\<close> into an apply configuration and sets only the fields that are not empty;
  reading the unset fields as empty gives the affinity back, so nothing of the configuration is lost.
\<close>

section \<open>Code\<close>

abbreviation (input) nonempty :: "string \<Rightarrow> string option" where
  "nonempty s \<equiv> (if s \<noteq> [] then Some s else None)"

definition toleration_AC :: "TolerationConfig \<Rightarrow> TolerationAC" where
  "toleration_AC tc = \<lparr>tol_Key = nonempty (tc_Key tc), tol_Operator = nonempty (tc_Operator tc), tol_Value = nonempty (tc_Value tc),
     tol_Effect = nonempty (tc_Effect tc),
     tol_Seconds = (if tc_TolerationSeconds tc > 0 then Some (tc_TolerationSeconds tc) else None)\<rparr>"

definition nslrAC :: "NodeSelectorRequirement \<Rightarrow> NodeSelectorRequirementAC" where
  "nslrAC nslr = \<lparr>nsrAC_Key = nonempty (nsr_Key nslr), nsrAC_Operator = nonempty (nsr_Operator nslr), nsrAC_Values = nsr_Values nslr\<rparr>"

definition nsltAC :: "NodeSelectorTerm \<Rightarrow> NodeSelectorTermAC" where
  "nsltAC nslt = \<lparr>nstAC_MatchExpressions = map nslrAC (nst_MatchExpressions nslt), nstAC_MatchFields = map nslrAC (nst_MatchFields nslt)\<rparr>"

definition lslAC :: "LabelSelector \<Rightarrow> LabelSelectorAC" where
  "lslAC lsl = \<lparr>lsAC_MatchLabels = ls_MatchLabels lsl, lsAC_MatchExpressions = map nslrAC (ls_MatchExpressions lsl)\<rparr>"

definition patAC :: "PodAffinityTerm \<Rightarrow> PodAffinityTermAC" where
  "patAC pat = \<lparr>patAC_LabelSelector = map_option lslAC (pat_LabelSelector pat), patAC_Namespaces = pat_Namespaces pat,
     patAC_TopologyKey = nonempty (pat_TopologyKey pat), patAC_NamespaceSelector = map_option lslAC (pat_NamespaceSelector pat),
     patAC_MatchLabelKeys = pat_MatchLabelKeys pat, patAC_MismatchLabelKeys = pat_MismatchLabelKeys pat\<rparr>"

definition naAC :: "NodeAffinity \<Rightarrow> NodeAffinityAC" where
  "naAC na = \<lparr>naAC_Required = map_option (map nsltAC) (na_Required na), naAC_Preferred = map (\<lambda>(w, t). (w, nsltAC t)) (na_Preferred na)\<rparr>"

definition paAC :: "PodAffinity \<Rightarrow> PodAffinityAC" where
  "paAC pa = \<lparr>paAC_Required = map patAC (pa_Required pa), paAC_Preferred = map (\<lambda>(w, t). (w, patAC t)) (pa_Preferred pa)\<rparr>"

definition buildAffinityApplyConfig :: "Affinity \<Rightarrow> AffinityAC" where
  "buildAffinityApplyConfig a = \<lparr>afAC_NodeAffinity = map_option naAC (af_NodeAffinity a), afAC_PodAffinity = map_option paAC (af_PodAffinity a),
     afAC_PodAntiAffinity = map_option paAC (af_PodAntiAffinity a)\<rparr>"

definition applyWorkloadConfig :: "PodSpec \<Rightarrow> WorkloadConfig \<Rightarrow> PodSpec" where
  "applyWorkloadConfig podSpec wc =
     (let podSpec = (case wc_Affinity wc of None \<Rightarrow> podSpec | Some a \<Rightarrow> podSpec\<lparr>ps_Affinity := Some (buildAffinityApplyConfig a)\<rparr>);
          podSpec = (if wc_NodeSelector wc \<noteq> [] then podSpec\<lparr>ps_NodeSelector := wc_NodeSelector wc\<rparr> else podSpec)
      in foldl (\<lambda>podSpec tc. podSpec\<lparr>ps_Tolerations := ps_Tolerations podSpec @ [toleration_AC tc]\<rparr>) podSpec (wc_Tolerations wc))"

section \<open>Reading an apply configuration back\<close>

abbreviation (input) or_empty :: "string option \<Rightarrow> string" where
  "or_empty s \<equiv> case_option [] id s"

definition read_nslr :: "NodeSelectorRequirementAC \<Rightarrow> NodeSelectorRequirement" where
  "read_nslr ac = \<lparr>nsr_Key = or_empty (nsrAC_Key ac), nsr_Operator = or_empty (nsrAC_Operator ac), nsr_Values = nsrAC_Values ac\<rparr>"

definition read_nslt :: "NodeSelectorTermAC \<Rightarrow> NodeSelectorTerm" where
  "read_nslt ac = \<lparr>nst_MatchExpressions = map read_nslr (nstAC_MatchExpressions ac), nst_MatchFields = map read_nslr (nstAC_MatchFields ac)\<rparr>"

definition read_lsl :: "LabelSelectorAC \<Rightarrow> LabelSelector" where
  "read_lsl ac = \<lparr>ls_MatchLabels = lsAC_MatchLabels ac, ls_MatchExpressions = map read_nslr (lsAC_MatchExpressions ac)\<rparr>"

definition read_pat :: "PodAffinityTermAC \<Rightarrow> PodAffinityTerm" where
  "read_pat ac = \<lparr>pat_LabelSelector = map_option read_lsl (patAC_LabelSelector ac), pat_Namespaces = patAC_Namespaces ac,
     pat_TopologyKey = or_empty (patAC_TopologyKey ac), pat_NamespaceSelector = map_option read_lsl (patAC_NamespaceSelector ac),
     pat_MatchLabelKeys = patAC_MatchLabelKeys ac, pat_MismatchLabelKeys = patAC_MismatchLabelKeys ac\<rparr>"

definition read_na :: "NodeAffinityAC \<Rightarrow> NodeAffinity" where
  "read_na ac = \<lparr>na_Required = map_option (map read_nslt) (naAC_Required ac), na_Preferred = map (\<lambda>(w, t). (w, read_nslt t)) (naAC_Preferred ac)\<rparr>"

definition read_pa :: "PodAffinityAC \<Rightarrow> PodAffinity" where
  "read_pa ac = \<lparr>pa_Required = map read_pat (paAC_Required ac), pa_Preferred = map (\<lambda>(w, t). (w, read_pat t)) (paAC_Preferred ac)\<rparr>"

definition read_affinity :: "AffinityAC \<Rightarrow> Affinity" where
  "read_affinity ac = \<lparr>af_NodeAffinity = map_option read_na (afAC_NodeAffinity ac), af_PodAffinity = map_option read_pa (afAC_PodAffinity ac),
     af_PodAntiAffinity = map_option read_pa (afAC_PodAntiAffinity ac)\<rparr>"

named_theorems read_back \<open>an apply configuration reads back as what it was built from\<close>

lemma read_nslr_nslrAC [read_back]: "read_nslr (nslrAC x) = x"
  by (cases x) (simp add: read_nslr_def nslrAC_def)

lemma read_nslt_nsltAC [read_back]: "read_nslt (nsltAC x) = x"
  by (cases x) (simp add: read_nslt_def nsltAC_def read_back comp_def)

lemma read_lsl_lslAC [read_back]: "read_lsl (lslAC x) = x"
  by (cases x) (simp add: read_lsl_def lslAC_def read_back comp_def)

lemma read_pat_patAC [read_back]: "read_pat (patAC x) = x"
  by (cases x) (simp add: read_pat_def patAC_def read_back comp_def option.map_comp option.map_ident)

lemma read_na_naAC [read_back]: "read_na (naAC x) = x"
  by (cases x) (simp add: read_na_def naAC_def read_back comp_def option.map_comp option.map_ident case_prod_unfold)

lemma read_pa_paAC [read_back]: "read_pa (paAC x) = x"
  by (cases x) (simp add: read_pa_def paAC_def read_back comp_def case_prod_unfold)

lemma read_affinity_build [read_back]: "read_affinity (buildAffinityApplyConfig a) = a"
  by (cases a) (simp add: read_affinity_def buildAffinityApplyConfig_def read_back comp_def option.map_comp option.map_ident)

lemma fold_tolerations:
  "foldl (\<lambda>p tc. p\<lparr>ps_Tolerations := ps_Tolerations p @ [f tc]\<rparr>) p tcs = p\<lparr>ps_Tolerations := ps_Tolerations p @ map f tcs\<rparr>" for p :: PodSpec
  by (induction tcs arbitrary: p) simp_all

lemma applyWorkloadConfig_frame [simp]:
  "ps_Containers (applyWorkloadConfig p wc) = ps_Containers p" "ps_InitContainers (applyWorkloadConfig p wc) = ps_InitContainers p"
  "ps_RestartPolicy (applyWorkloadConfig p wc) = ps_RestartPolicy p" "ps_Subdomain (applyWorkloadConfig p wc) = ps_Subdomain p"
  "ps_Volumes (applyWorkloadConfig p wc) = ps_Volumes p"
  by (simp_all add: applyWorkloadConfig_def fold_tolerations split: option.split)

lemma applyWorkloadConfig_sets:
  "ps_Tolerations (applyWorkloadConfig p wc) = ps_Tolerations p @ map toleration_AC (wc_Tolerations wc)"
  "ps_Affinity p = None \<Longrightarrow> map_option read_affinity (ps_Affinity (applyWorkloadConfig p wc)) = wc_Affinity wc"
  "ps_NodeSelector p = [] \<Longrightarrow> ps_NodeSelector (applyWorkloadConfig p wc) = wc_NodeSelector wc"
  by (simp_all add: applyWorkloadConfig_def fold_tolerations read_back split: option.split)

end
