(* ===== verification/PreProcess.thy ===== *)
theory PreProcess
  imports Effects Api
begin

text \<open>
  \<^verbatim>\<open>dispatcher/internal/dispatcher/pre_processor.go\<close> and \<^verbatim>\<open>post_processor.go\<close>: before a fine-tuning job is created, the URLs of the base model, of the
  training files and of the output model are signed and the output model is registered; after it has succeeded the output model is published.

  The clients of the model manager, the file manager and S3 are third-party: records of functions from a request to its response. The
  listing of objects also takes the number of the call, because the loop of \<^verbatim>\<open>Process\<close> repeats the same request. That loop may not end:
  \<open>list_pages\<close> is a \<open>partial_function\<close> and returns \<open>None\<close> in that case. Maps are association lists in the order of their range.
\<close>

section \<open>Clients\<close>

record RegisterModelRequest =
  RM_BaseModel :: string
  RM_Suffix :: string
  RM_OrganizationId :: string
  RM_ProjectId :: string

record modelClient =
  GetBaseModelPath :: "string \<Rightarrow> go_error + string"
  RegisterModel :: "RegisterModelRequest \<Rightarrow> go_error + (string \<times> string)"     \<comment> \<open>identifier and path\<close>

record S3Client =
  GeneratePresignedURL :: "string \<Rightarrow> string \<Rightarrow> duration \<Rightarrow> go_error + string"   \<comment> \<open>for \<^verbatim>\<open>RequestTypeGetObject\<close>\<close>
  GeneratePresignedURLForPost :: "string \<Rightarrow> string \<Rightarrow> duration \<Rightarrow> go_error + (string \<times> (string \<times> string) list)"   \<comment> \<open>URL and form values\<close>
  ListObjectsPages :: "nat \<Rightarrow> string \<Rightarrow> string \<Rightarrow> go_error + (string list \<times> bool)"   \<comment> \<open>keys and whether the listing is truncated\<close>
  CheckObjectExists :: "string \<Rightarrow> string \<Rightarrow> go_error + bool"

record PreProcessor =
  pp_GetFilePath :: "string \<Rightarrow> go_error + string"
  pp_modelClient :: modelClient
  defaultS3Client :: S3Client
  defaultS3Bucket :: string
  optionalS3Clients :: "(string \<times> S3Client) list"

record PreProcessResult =
  BaseModelURLs :: "(string \<times> string) list"
  TrainingFileURL :: string
  ValidationFileURL :: string
  OutputModelID :: string
  OutputModelURL :: string
  OutputModelPresignFlags :: string

definition preSignedURLExpire :: duration where
  "preSignedURLExpire = 7 * 24 * 3600 * 1000000000"

section \<open>Pre-processing\<close>

definition Count :: "string \<Rightarrow> char \<Rightarrow> nat" where
  "Count s c = length (filter (\<lambda>x. x = c) s)"

definition splitS3Path :: "string \<Rightarrow> go_error + (string \<times> string)" where
  "splitS3Path s3Path =
     (if \<not> HasPrefix s3Path ''s3://'' then Inl (Errorf (''invalid s3 path: '' @ s3Path))
      else if Count s3Path CHR ''/'' < 3 then Inl (Errorf (''invalid s3 path: '' @ s3Path))
      else let l = Split s3Path CHR ''/'' in Inr (l ! 2, Join (drop 3 l) ''/''))"

definition getPresignedURLForFile :: "PreProcessor \<Rightarrow> string \<Rightarrow> go_error + string" where
  "getPresignedURLForFile p fileID = (case pp_GetFilePath p fileID of
       Inl e \<Rightarrow> Inl (Errorf (''get file path: '' @ Error e))
     | Inr fpath \<Rightarrow> (case (if HasPrefix fpath ''s3://'' then
             (case splitS3Path fpath of Inl e \<Rightarrow> Inl (Errorf (''extract bucket name: '' @ Error e))
              | Inr (bucket, path) \<Rightarrow> Inr (bucket, TrimPrefix path (''s3://'' @ bucket @ ''/'')))
           else Inr (defaultS3Bucket p, fpath)) of
         Inl e \<Rightarrow> Inl e
       | Inr (bucket, path) \<Rightarrow>
           let s3Client = (case map_of (optionalS3Clients p) bucket of Some c \<Rightarrow> c | None \<Rightarrow> defaultS3Client p)
           in (case CheckObjectExists s3Client bucket path of
                 Inl e \<Rightarrow> Inl (Errorf (''check if the object exists: '' @ Error e))
               | Inr False \<Rightarrow> Inl (Errorf (''the object does not exist: s3://'' @ bucket @ ''/'' @ path))
               | Inr True \<Rightarrow> (case GeneratePresignedURL s3Client bucket path preSignedURLExpire of
                     Inl e \<Rightarrow> Inl (Errorf (''generate presigned url: '' @ Error e)) | Inr url \<Rightarrow> Inr url))))"

text \<open>The loop over the pages of the listing: \<open>L n\<close> is the response to the \<open>n\<close>-th request.\<close>

partial_function (option) list_pages ::
  "(nat \<Rightarrow> go_error + (string list \<times> bool)) \<Rightarrow> nat \<Rightarrow> string list \<Rightarrow> (go_error + string list) option" where
  [code]: "list_pages L n paths = (case L n of Inl e \<Rightarrow> Some (Inl e)
     | Inr (contents, truncated) \<Rightarrow>
         if \<not> truncated then Some (Inr (paths @ contents)) else list_pages L (Suc n) (paths @ contents))"

fun presign_paths :: "PreProcessor \<Rightarrow> string \<Rightarrow> string list \<Rightarrow> (string \<times> string) list \<Rightarrow> go_error + (string \<times> string) list" where
  "presign_paths p mpath [] urls = Inr urls"
| "presign_paths p mpath (path # paths) urls =
     (case GeneratePresignedURL (defaultS3Client p) (defaultS3Bucket p) path preSignedURLExpire of
        Inl e \<Rightarrow> Inl (Errorf (''generate presigned url: '' @ Error e))
      | Inr url \<Rightarrow> presign_paths p mpath paths (map_put (TrimPrefix path (mpath @ ''/'')) url urls))"

text \<open>What \<^verbatim>\<open>Process\<close> does once the objects of the base model are known.\<close>

definition sign_and_register :: "PreProcessor \<Rightarrow> InternalJob \<Rightarrow> string \<Rightarrow> string list \<Rightarrow> go_error + PreProcessResult" where
  "sign_and_register p job mpath paths =
     (if paths = [] then Inl (Errorf (''no files found under '' @ mpath))
      else (case presign_paths p mpath paths [] of Inl e \<Rightarrow> Inl e
      | Inr baseModelURLs \<Rightarrow> (case getPresignedURLForFile p (Job_TrainingFile (IJ_Job job)) of Inl e \<Rightarrow> Inl e
      | Inr trainingFileURL \<Rightarrow> (case (if Job_ValidationFile (IJ_Job job) \<noteq> [] then getPresignedURLForFile p (Job_ValidationFile (IJ_Job job)) else Inr []) of Inl e \<Rightarrow> Inl e
      | Inr validationFileURL \<Rightarrow> (case RegisterModel (pp_modelClient p) \<lparr>RM_BaseModel = Job_Model (IJ_Job job), RM_Suffix = IJ_Suffix job,
               RM_OrganizationId = Job_OrganizationId (IJ_Job job), RM_ProjectId = Job_ProjectId (IJ_Job job)\<rparr> of
             Inl e \<Rightarrow> Inl (Errorf (''register model: '' @ Error e))
      | Inr (outputModelID, rpath) \<Rightarrow> (case GeneratePresignedURLForPost (defaultS3Client p) (defaultS3Bucket p) rpath preSignedURLExpire of
             Inl e \<Rightarrow> Inl (Errorf (''generate presigned post url: '' @ Error e))
      | Inr (url, values) \<Rightarrow> Inr \<lparr>BaseModelURLs = baseModelURLs, TrainingFileURL = trainingFileURL, ValidationFileURL = validationFileURL,
               OutputModelID = outputModelID, OutputModelURL = url,
               OutputModelPresignFlags = Join (map (\<lambda>(k, v). ''-F '' @ [CHR 0x27] @ k @ ''='' @ v @ [CHR 0x27]) values) '' ''\<rparr>))))))"

definition PreProcessor_Process :: "PreProcessor \<Rightarrow> InternalJob \<Rightarrow> (go_error + PreProcessResult) option" where
  "PreProcessor_Process p job = (case GetBaseModelPath (pp_modelClient p) (Job_Model (IJ_Job job)) of
       Inl e \<Rightarrow> Some (Inl (Errorf (''get base model path: '' @ Error e)))
     | Inr mpath \<Rightarrow> (case list_pages (\<lambda>n. ListObjectsPages (defaultS3Client p) n (defaultS3Bucket p) (mpath @ ''/'')) 0 [] of
         None \<Rightarrow> None
       | Some (Inl e) \<Rightarrow> Some (Inl e)
       | Some (Inr paths) \<Rightarrow> Some (sign_and_register p job mpath paths)))"

definition NoopPreProcessor_Process :: "InternalJob \<Rightarrow> go_error + PreProcessResult" where
  "NoopPreProcessor_Process job = Inr \<lparr>BaseModelURLs = [], TrainingFileURL = [], ValidationFileURL = [], OutputModelID = [],
     OutputModelURL = [], OutputModelPresignFlags = []\<rparr>"

section \<open>Post-processing\<close>

definition PostProcessor_Process :: "(string \<Rightarrow> ('w, unit) io) \<Rightarrow> InternalJob \<Rightarrow> ('w, unit) io" where
  "PostProcessor_Process PublishModel job = (if IJ_OutputModelId job = [] then throw (Errorf ''output model ID is not populated'')
     else PublishModel (IJ_OutputModelId job))"

definition NoopPostProcessor_Process :: "InternalJob \<Rightarrow> ('w, unit) io" where
  "NoopPostProcessor_Process job = ret ()"

section \<open>The listing loop\<close>

text \<open>The pages from the \<open>n\<close>-th on, up to the first that is not truncated.\<close>

lemma list_pages_stops:
  assumes "\<forall>i < k. \<exists>c. L (n + i) = Inr (c, True)" and "L (n + k) = Inr (c, False)"
  shows "list_pages L n acc = Some (Inr (acc @ concat (map (\<lambda>i. fst (projr (L i))) [n..<n + k]) @ c))"
  using assms
proof (induction k arbitrary: n acc)
  case 0
  then show ?case by (simp add: list_pages.simps)
next
  case (Suc k)
  obtain c0 where c0: "L n = Inr (c0, True)"
    using Suc.prems(1) by (metis add_0_right zero_less_Suc)
  have "list_pages L (Suc n) (acc @ c0) = Some (Inr ((acc @ c0) @ concat (map (\<lambda>i. fst (projr (L i))) [Suc n..<Suc n + k]) @ c))"
    by (rule Suc.IH) (use Suc.prems in \<open>force\<close>)+
  moreover have "[n..<n + Suc k] = n # [Suc n..<Suc n + k]"
    by (metis add_Suc add_Suc_right less_add_Suc1 upt_conv_Cons)
  ultimately show ?case
    using c0 by (simp add: list_pages.simps [of L n])
qed

lemma list_pages_fails:
  assumes "\<forall>i < k. \<exists>c. L (n + i) = Inr (c, True)" and "L (n + k) = Inl e"
  shows "list_pages L n acc = Some (Inl e)"
  using assms
proof (induction k arbitrary: n acc)
  case 0
  then show ?case by (simp add: list_pages.simps)
next
  case (Suc k)
  obtain c0 where c0: "L n = Inr (c0, True)"
    using Suc.prems(1) by (metis add_0_right zero_less_Suc)
  have "list_pages L (Suc n) (acc @ c0) = Some (Inl e)"
    by (rule Suc.IH) (use Suc.prems in \<open>force\<close>)+
  with c0 show ?case by (simp add: list_pages.simps [of L n])
qed

lemma list_pages_returns_Some:
  assumes "list_pages L n acc = Some r"
  shows "\<exists>i. \<forall>c. L (n + i) \<noteq> Inr (c, True)"
proof (rule list_pages.raw_induct [OF _ assms])
  fix lp L n acc y
  assume IH: "\<And>L n acc y. lp L n acc = Some y \<Longrightarrow> \<exists>i. \<forall>c. L (n + i) \<noteq> Inr (c, True)"
    and run: "(case L n of Inl e \<Rightarrow> Some (Inl e) | Inr (contents, truncated) \<Rightarrow>
      if \<not> truncated then Some (Inr (acc @ contents)) else lp L (Suc n) (acc @ contents)) = Some y"
  show "\<exists>i. \<forall>c. L (n + i) \<noteq> Inr (c, True)"
  proof (cases "\<exists>c. L n = Inr (c, True)")
    case True
    then obtain c where c: "L n = Inr (c, True)" ..
    then have "lp L (Suc n) (acc @ c) = Some y" using run by simp
    from IH [OF this] show ?thesis by (metis add_Suc_shift)
  next
    case False
    then show ?thesis by (metis add_0_right)
  qed
qed

lemma list_pages_None_iff: "list_pages L n acc = None \<longleftrightarrow> (\<forall>i. \<exists>c. L (n + i) = Inr (c, True))"
proof
  assume none: "list_pages L n acc = None"
  show "\<forall>i. \<exists>c. L (n + i) = Inr (c, True)"
  proof (rule ccontr)
    assume "\<not> ?thesis"
    then obtain i where i: "\<not> (\<exists>c. L (n + i) = Inr (c, True))" by blast
    define k where "k = (LEAST i. \<not> (\<exists>c. L (n + i) = Inr (c, True)))"
    have last: "\<not> (\<exists>c. L (n + k) = Inr (c, True))" unfolding k_def by (rule LeastI [of _ i], rule i)
    have before: "\<forall>i < k. \<exists>c. L (n + i) = Inr (c, True)" using not_less_Least unfolding k_def by blast
    consider (fail) e where "L (n + k) = Inl e" | (stop) c where "L (n + k) = Inr (c, False)"
      using last by (cases "L (n + k)") auto
    then show False
      using none list_pages_fails [OF before] list_pages_stops [OF before] by cases auto
  qed
next
  assume "\<forall>i. \<exists>c. L (n + i) = Inr (c, True)"
  then show "list_pages L n acc = None"
    using list_pages_returns_Some [of L n acc] by (cases "list_pages L n acc") blast+
qed

section \<open>Paths\<close>

lemma length_Split: "length (Split s d) = Suc (Count s d)"
  by (induction s d rule: Split.induct) (auto simp: Count_def split: list.split)

lemma Count_zero: "Count s c = 0 \<longleftrightarrow> c \<notin> set s"
  by (auto simp: Count_def filter_empty_conv)

lemma Split_append: "d \<notin> set x \<Longrightarrow> Split (x @ d # y) d = x # Split y d"
  by (induction x) auto

lemma Split_slash:
  "Split (CHR ''s'' # CHR ''3'' # CHR '':'' # CHR ''/'' # CHR ''/'' # s) CHR ''/'' = ''s3:'' # [] # Split s CHR ''/''"
  using Split_append [of "CHR ''/''" "''s3:''"] by simp

lemma splitS3Path_path:
  assumes "CHR ''/'' \<notin> set bucket"
  shows "splitS3Path (''s3://'' @ bucket @ ''/'' @ key) = Inr (bucket, key)"
proof -
  have "Split (''s3://'' @ bucket @ ''/'' @ key) CHR ''/'' = ''s3:'' # [] # bucket # Split key CHR ''/''"
    using Split_append [OF assms] by (simp add: Split_slash)
  then show ?thesis
    by (simp add: splitS3Path_def HasPrefix_def Count_def Let_def)
qed

lemma splitS3Path_ok:
  assumes "splitS3Path s = Inr (bucket, key)"
  shows "s = ''s3://'' @ bucket @ ''/'' @ key \<and> CHR ''/'' \<notin> set bucket"
proof -
  have pre: "HasPrefix s ''s3://''" and n: "3 \<le> Count s CHR ''/''" and b: "bucket = Split s CHR ''/'' ! 2"
    and k: "key = Join (drop 3 (Split s CHR ''/'')) ''/''"
    using assms by (auto simp: splitS3Path_def Let_def split: if_splits)
  obtain t where t: "s = ''s3://'' @ t" using pre unfolding HasPrefix_iff_prefix prefix_def by blast
  have parts: "Split s CHR ''/'' = ''s3:'' # [] # Split t CHR ''/''" by (simp add: t Split_slash)
  have "1 \<le> Count t CHR ''/''" using n by (simp add: t Count_def)
  then have "CHR ''/'' \<in> set t" using Count_zero [of t "CHR ''/''"] by linarith
  then obtain x y where xy: "t = x @ CHR ''/'' # y" "CHR ''/'' \<notin> set x" by (metis split_list_first)
  then have "bucket = x" "key = y" using b k by (simp_all add: parts Split_append [OF xy(2)])
  then show ?thesis using t xy by simp
qed

end
