(* ===== verification/Clients.thy ===== *)
theory Clients
  imports Kube
begin

text \<open>
  The gRPC clients through which a cluster reaches the server, as the interfaces \<^verbatim>\<open>v1.FineTuningWorkerServiceClient\<close>,
  \<^verbatim>\<open>v1.WorkspaceWorkerServiceClient\<close> and \<^verbatim>\<open>v1.BatchWorkerServiceClient\<close> over the world \<open>'w\<close>; the calls carry the authorization of the worker
  (\<^verbatim>\<open>auth.AppendWorkerAuthorization\<close>). What a reconciler returns to the controller is a \<open>Result\<close>.
\<close>

record 'w ftClient =
  ft_ListQueuedInternalJobs :: "('w, InternalJob list) io"
  ft_GetInternalJob :: "string \<Rightarrow> ('w, InternalJob) io"
  ft_UpdateJobPhase :: "UpdateJobPhaseRequest \<Rightarrow> ('w, unit) io"

record 'w wsClient =
  ws_ListQueuedInternalNotebooks :: "('w, InternalNotebook list) io"
  ws_UpdateNotebookState :: "UpdateNotebookStateRequest \<Rightarrow> ('w, unit) io"

record 'w bwClient =
  bw_ListQueuedInternalBatchJobs :: "('w, InternalBatchJob list) io"
  bw_GetInternalBatchJob :: "string \<Rightarrow> ('w, InternalBatchJob) io"
  bw_UpdateBatchJobState :: "UpdateBatchJobStateRequest \<Rightarrow> ('w, unit) io"

record Result =
  Requeue :: bool
  RequeueAfter :: duration

definition no_requeue :: Result where
  "no_requeue = \<lparr>Requeue = False, RequeueAfter = 0\<rparr>"

definition phase_request :: "string \<Rightarrow> int \<Rightarrow> UpdateJobPhaseRequest" where
  "phase_request jobID phase = \<lparr>UJP_Id = jobID, UJP_Phase = phase, UJP_Message = [], UJP_ModelId = []\<rparr>"

definition jobTTL :: duration where
  "jobTTL = 24 * 3600 * 1000000000"

definition jobTTL_seconds :: int where
  "jobTTL_seconds = jobTTL div 1000000000"

text \<open>
  The expiry of a canceled job: the last (\<^verbatim>\<open>LifecycleManager\<close>, no \<^verbatim>\<open>break\<close>) or first (\<^verbatim>\<open>BatchJobManager\<close>) suspended condition counts. \<^verbatim>\<open>time.Time\<close>'s zero
  value, the year 1, is what \<^verbatim>\<open>expirationTime\<close> holds when there is no such condition.
\<close>

definition zero_time :: time where
  "zero_time = - 62135596800 * 1000000000"

definition suspended_at :: "JobCondition list \<Rightarrow> time list" where
  "suspended_at conds = map jc_LastTransitionTime (filter (\<lambda>c. jc_Type c = ''Suspended'') conds)"

definition canceled_expiry :: "time \<Rightarrow> time option \<Rightarrow> bool \<times> time" where
  "canceled_expiry now suspended = (case suspended of None \<Rightarrow> (False, zero_time) | Some t \<Rightarrow> (now > t + jobTTL, t + jobTTL))"

text \<open>What a reconciler of a canceled job does: wait until the time to live has passed, then delete the Kubernetes job.\<close>

definition reap_canceled :: "'w kube \<Rightarrow> time \<Rightarrow> time option \<Rightarrow> k8s_Job \<Rightarrow> ('w, Result) io" where
  "reap_canceled K now suspended kjob = (let (expired, expirationTime) = canceled_expiry now suspended
     in if \<not> expired then ret \<lparr>Requeue = True, RequeueAfter = expirationTime - now\<rparr>
        else bindE (k_Write_unit K (W_DeleteJob None kjob)) (\<lambda>_. ret no_requeue))"

end
