(* ===== verification/JobClient.thy ===== *)
theory JobClient
  imports Workload PreProcess Clients
begin

text \<open>
  \<^verbatim>\<open>dispatcher/internal/dispatcher/job_client.go\<close>: the Kubernetes job of a fine-tuning job. \<open>render_cmd\<close> is the template \<^verbatim>\<open>cmd.tpl\<close> as
  \<^verbatim>\<open>text/template\<close> executes it: the map of URLs is ranged over in the order of its keys.
\<close>

section \<open>The command\<close>

text \<open>The order of Go strings, byte by byte, in which a template ranges over a map.\<close>

fun string_le :: "string \<Rightarrow> string \<Rightarrow> bool" where
  "string_le [] t = True"
| "string_le (x # s) [] = False"
| "string_le (x # s) (y # t) = ((of_char x :: nat) < of_char y \<or> x = y \<and> string_le s t)"

fun insert_entry :: "string \<times> 'v \<Rightarrow> (string \<times> 'v) list \<Rightarrow> (string \<times> 'v) list" where
  "insert_entry e [] = [e]"
| "insert_entry e (f # es) = (if string_le (fst e) (fst f) then e # f # es else f # insert_entry e es)"

definition sorted_entries :: "(string \<times> 'v) list \<Rightarrow> (string \<times> 'v) list" where
  "sorted_entries m = foldr insert_entry m []"

text \<open>\<^verbatim>\<open>%f\<close> of a positive number: six decimals, a tie rounded to even.\<close>

definition round_even :: "real \<Rightarrow> int" where
  "round_even r = (let n = \<lfloor>r\<rfloor>; d = r - of_int n in if d < 1 / 2 \<or> d = 1 / 2 \<and> even n then n else n + 1)"

definition fmt_f :: "real \<Rightarrow> string" where
  "fmt_f r = (let n = round_even (r * 10 ^ 6); frac = Itoa (n mod 10 ^ 6)
     in Itoa (n div 10 ^ 6) @ ''.'' @ replicate (6 - length frac) CHR ''0'' @ frac)"

definition getGpuCount :: "v1_job \<Rightarrow> go_error + int" where
  "getGpuCount job = (case Job_Resources job of None \<Rightarrow> Inr 1
     | Some n \<Rightarrow> if n < 0 then Inl (Errorf ''gpu count should be non-negative'')
         else if n > 1 then Inr n else Inr 1)"

definition hyperparameter_args :: "Job_Hyperparameters option \<Rightarrow> string list" where
  "hyperparameter_args hp = (case hp of None \<Rightarrow> []
     | Some hp \<Rightarrow> (if Job_HP_BatchSize hp > 0 then [''--per_device_train_batch_size='' @ Itoa (Job_HP_BatchSize hp)] else []) @
         (if Job_HP_LearningRateMultiplier hp > 0 then [''--learning_rate='' @ fmt_f (Job_HP_LearningRateMultiplier hp)] else []) @
         (if Job_HP_NEpochs hp > 0 then [''--num_train_epochs='' @ Itoa (Job_HP_NEpochs hp)] else []))"

definition integration_args :: "Integration list \<Rightarrow> go_error + string list" where
  "integration_args xs = (case xs of [] \<Rightarrow> Inr []
     | [i] \<Rightarrow> if Integration_Type i \<noteq> ''wandb'' then Inl (Errorf (''unsupported integration type: '' @ Integration_Type i))
         else (case Integration_Wandb_field i of None \<Rightarrow> Inl (Errorf ''wandb integration is not set'')
           | Some w \<Rightarrow> Inr [''--report_to=wandb'', ''--wandb_project='' @ Wandb_Project w])
     | _ # _ # _ \<Rightarrow> Inl (Errorf ''multiple integrations are not supported''))"

definition toAddtionalSFTArgs :: "v1_job \<Rightarrow> JobConfig \<Rightarrow> go_error + string" where
  "toAddtionalSFTArgs job c = (case integration_args (Job_Integrations job) of Inl e \<Rightarrow> Inl e
     | Inr iargs \<Rightarrow> Inr (Join (hyperparameter_args (Job_Hyperparameters_field job) @ iargs @
         (if UseBitsAndBytesQuantization c then [''--use_bnb_quantization=True''] else [])) '' ''))"

record cmd_params =
  cmd_BaseModelURLs :: "(string \<times> string) list"
  cmd_TrainingFileURL :: string
  cmd_ValidationFileURL :: string
  cmd_OutputModelURL :: string
  cmd_OutputModelPresignFlags :: string
  cmd_NumProcessors :: int
  cmd_AdditionalSFTArgs :: string
  cmd_CurlFlags :: string

abbreviation (input) nl :: string where "nl \<equiv> [CHR 0x0A]"
abbreviation (input) quoted :: "string \<Rightarrow> string" where "quoted s \<equiv> CHR 0x22 # s @ [CHR 0x22]"
abbreviation (input) line :: "string \<Rightarrow> string" where "line s \<equiv> s @ nl"

definition render_cmd :: "cmd_params \<Rightarrow> string" where
  "render_cmd p = concat (
     [line ''set -euo pipefail'', line ''set -x'', nl, line ''# Download the model and the training file.'', line ''mkdir base-model'', nl] @
     map (\<lambda>(path, url). nl @ line (''mkdir -p $(dirname base-model/'' @ path @ '')'') @
        line (''curl '' @ cmd_CurlFlags p @ '' --output base-model/'' @ path @ '' '' @ quoted url)) (sorted_entries (cmd_BaseModelURLs p)) @
     [nl, nl, line ''mkdir dataset/'',
      line (''curl '' @ cmd_CurlFlags p @ '' --output dataset/train.json '' @ quoted (cmd_TrainingFileURL p))] @
     (if cmd_ValidationFileURL p \<noteq> []
      then [nl @ line (''curl '' @ cmd_CurlFlags p @ '' --output dataset/test.json '' @ quoted (cmd_ValidationFileURL p))] else []) @
     [nl, nl, line ''mkdir output'', nl, line (''accelerate launch '' @ [CHR 0x5C]), line (''  --mixed_precision=no '' @ [CHR 0x5C]),
      line (''  --num_processes='' @ Itoa (cmd_NumProcessors p) @ '' '' @ [CHR 0x5C]), line (''  --num_machines=1 '' @ [CHR 0x5C]),
      line (''  --num_cpu_threads_per_process=1 '' @ [CHR 0x5C]), line (''  --dynamo_backend=no '' @ [CHR 0x5C]), line (''  ./sft.py '' @ [CHR 0x5C]),
      line (''  --model=./base-model '' @ [CHR 0x5C]), line (''  --dataset=./dataset '' @ [CHR 0x5C]),
      line (''  --output=./output '' @ cmd_AdditionalSFTArgs p), nl, line ''python ./convert-lora-to-ggml.py ./output'', nl,
      line (''# We don'' @ [CHR 0x27] @ ''t need the checkpoint files.''), line ''rm -rf output/checkpoint-*'', nl,
      line (''# Upload all files under the '' @ quoted ''output'' @ '' directory.''),
      line (''find output -type f -exec curl '' @ cmd_CurlFlags p @ '' --request POST '' @ cmd_OutputModelPresignFlags p @ '' -F file=@'' @ ''{} '' @
        quoted (cmd_OutputModelURL p) @ '' '' @ [CHR 0x5C] @ '';'')])"

definition JobClient_cmd :: "JobConfig \<Rightarrow> v1_job \<Rightarrow> PreProcessResult \<Rightarrow> go_error + (string \<times> int)" where
  "JobClient_cmd c job presult = (case getGpuCount job of Inl e \<Rightarrow> Inl e
     | Inr numProcessors \<Rightarrow> (case toAddtionalSFTArgs job c of Inl e \<Rightarrow> Inl e
     | Inr args \<Rightarrow>
         let curlFlags = ''--fail --no-progress-meter'';
             curlFlags = (if CurlFlags c \<noteq> [] then CurlFlags c @ '' '' @ curlFlags else curlFlags)
         in Inr (render_cmd \<lparr>cmd_BaseModelURLs = BaseModelURLs presult, cmd_TrainingFileURL = TrainingFileURL presult,
               cmd_ValidationFileURL = ValidationFileURL presult, cmd_OutputModelURL = OutputModelURL presult,
               cmd_OutputModelPresignFlags = OutputModelPresignFlags presult, cmd_NumProcessors = numProcessors,
               cmd_AdditionalSFTArgs = args, cmd_CurlFlags = curlFlags\<rparr>, numProcessors)))"

section \<open>The Kubernetes job\<close>

abbreviation (input) managedJobAnnotationKey :: string where "managedJobAnnotationKey \<equiv> ''llmariner/managed-pod''"
abbreviation (input) jobIDAnnotationKey :: string where "jobIDAnnotationKey \<equiv> ''llmariner/job-id''"
abbreviation (input) kueueQueueNameLabelKey :: string where "kueueQueueNameLabelKey \<equiv> ''kueue.x-k8s.io/queue-name''"
abbreviation (input) jobManagerName :: string where "jobManagerName \<equiv> ''job-manager-dispatcher''"

record 'w JobClient =
  jc_k8sClient :: "'w kube"
  jc_jobConfig :: JobConfig
  jc_kueueConfig :: KueueConfig
  jc_workloadConfig :: WorkloadConfig

definition JobClient_res :: "int \<Rightarrow> ResourceRequirements option" where
  "JobClient_res gpuCount = (if gpuCount = 0 then None else Some \<lparr>rr_Requests = [], rr_Limits = [(nvidiaGPU, NewQuantity gpuCount)]\<rparr>)"

definition jobSpec :: "JobConfig \<Rightarrow> WorkloadConfig \<Rightarrow> v1_job \<Rightarrow> PreProcessResult \<Rightarrow> go_error + JobSpec" where
  "jobSpec jobConfig workloadConfig job presult = (case JobClient_cmd jobConfig job presult of Inl e \<Rightarrow> Inl e
     | Inr (cmd, gpuCount) \<Rightarrow>
         let container = (new_Container ''main'' (jobcfg_Image jobConfig @ '':'' @ jobcfg_Version jobConfig))\<lparr>
               con_ImagePullPolicy := Some (jobcfg_ImagePullPolicy jobConfig), con_Command := [''/bin/bash'', ''-c'', cmd],
               con_Resources := JobClient_res gpuCount, con_TerminationMessagePolicy := Some ''FallbackToLogsOnError''\<rparr>;
             s = WandbAPIKeySecret jobConfig
         in if wandb_Name s \<noteq> [] \<and> wandb_Key s = [] then Inl (Errorf ''wandb secret key is not set'')
            else
              let container = (if wandb_Name s \<noteq> [] then container\<lparr>con_Env :=
                    [\<lparr>env_Name = ''WANDB_API_KEY'', env_Source = EnvSecretKeyRef (wandb_Name s) (wandb_Key s)\<rparr>]\<rparr> else container);
                  podSpec = applyWorkloadConfig (empty_PodSpec\<lparr>ps_Containers := [container], ps_RestartPolicy := Some ''Never''\<rparr>) workloadConfig
              in Inr \<lparr>js_TTLSecondsAfterFinished = jobTTL_seconds, js_BackoffLimit = 0, js_CompletionMode = None, js_Completions = None,
                   js_Parallelism = None,
                   js_Template = \<lparr>pt_Annotations = PodAnnotations workloadConfig, pt_Labels = [], pt_Spec = podSpec\<rparr>\<rparr>)"

definition getQueueName :: "'w JobClient \<Rightarrow> string \<Rightarrow> string" where
  "getQueueName p namespace = DefaultQueueName (jc_kueueConfig p)"

definition JobClient_createJob :: "'w JobClient \<Rightarrow> InternalJob \<Rightarrow> PreProcessResult \<Rightarrow> ('w, unit) io" where
  "JobClient_createJob p ijob presult = (case jobSpec (jc_jobConfig p) (jc_workloadConfig p) (IJ_Job ijob) presult of Inl e \<Rightarrow> throw e
     | Inr spec \<Rightarrow>
         let job = IJ_Job ijob;
             meta = (new_meta (Job_Id job) (Job_KubernetesNamespace job))\<lparr>
               om_Annotations := [(managedJobAnnotationKey, ''true''), (jobIDAnnotationKey, Job_Id job)],
               om_Labels := (if kueue_Enable (jc_kueueConfig p) then [(kueueQueueNameLabelKey, getQueueName p (Job_KubernetesNamespace job))] else [])\<rparr>
         in (case k_ToUnstructured (jc_k8sClient p) (Apply_Job meta spec) of Inl e \<Rightarrow> throw e
            | Inr patch \<Rightarrow> k_Write_unit (jc_k8sClient p) (W_Apply jobManagerName patch)))"

definition JobClient_cancelJob :: "'w JobClient \<Rightarrow> InternalJob \<Rightarrow> ('w, unit) io" where
  "JobClient_cancelJob p ijob = tryE (k_GetJob (jc_k8sClient p) (Job_KubernetesNamespace (IJ_Job ijob), Job_Id (IJ_Job ijob)))
     (\<lambda>e. lift_result (IgnoreNotFound (jc_k8sClient p) e))
     (\<lambda>kjob. k_Write_unit (jc_k8sClient p) (W_UpdateJob jobManagerName (kjob\<lparr>kj_Suspend := Some True\<rparr>)))"

definition isManagedJob :: "labels \<Rightarrow> bool" where
  "isManagedJob annotations \<longleftrightarrow> map_of annotations managedJobAnnotationKey = Some ''true''"

section \<open>Lemmas\<close>

text \<open>The GPUs a pod of a template may use: the limits of its containers.\<close>

definition template_gpus :: "PodTemplate \<Rightarrow> Quantity list" where
  "template_gpus t = concat (map (\<lambda>c. case con_Resources c of None \<Rightarrow> []
     | Some r \<Rightarrow> map snd (filter (\<lambda>l. fst l = nvidiaGPU) (rr_Limits r))) (ps_Containers (pt_Spec t)))"

lemma jobSpec_gpus:
  assumes "jobSpec jcfg wcfg job presult = Inr spec"
  obtains n where "getGpuCount job = Inr n" "template_gpus (js_Template spec) = [NewQuantity n]" "1 \<le> n"
proof -
  obtain n where n: "getGpuCount job = Inr n" and cmd: "\<exists>c. JobClient_cmd jcfg job presult = Inr (c, n)"
    using assms by (auto simp: jobSpec_def JobClient_cmd_def Let_def split: sum.splits)
  have "1 \<le> n" using n by (auto simp: getGpuCount_def split: option.splits if_splits)
  moreover have "template_gpus (js_Template spec) = [NewQuantity n]"
    using assms cmd \<open>1 \<le> n\<close> by (auto simp: jobSpec_def JobClient_res_def template_gpus_def Let_def split: if_splits)
  ultimately show thesis using that n by blast
qed

text \<open>When the specification of a job can be built: the only failures are a negative GPU count, the integrations and the W\&B secret.\<close>

lemma jobSpec_ok:
  assumes "\<forall>n. Job_Resources job = Some n \<longrightarrow> 0 \<le> n" and "Job_Integrations job = []"
    and "wandb_Name (WandbAPIKeySecret jcfg) \<noteq> [] \<longrightarrow> wandb_Key (WandbAPIKeySecret jcfg) \<noteq> []"
  shows "\<exists>spec. jobSpec jcfg wcfg job presult = Inr spec"
proof -
  have "\<exists>n. getGpuCount job = Inr n" using assms(1) by (cases "Job_Resources job") (auto simp: getGpuCount_def)
  then show ?thesis
    using assms(2,3) by (auto simp: jobSpec_def JobClient_cmd_def toAddtionalSFTArgs_def integration_args_def Let_def)
qed

lemma insert_entry_mset: "mset (insert_entry e es) = add_mset e (mset es)"
  by (induction e es rule: insert_entry.induct) auto

lemma sorted_entries_mset [simp]: "mset (sorted_entries m) = mset m"
  by (induction m) (simp_all add: sorted_entries_def insert_entry_mset)

context kube_api
begin

lemma JobClient_writes:
  assumes "jc_k8sClient p = K"
  shows "tracks (writes accepted (\<lambda>x. \<exists>m s. x = W_Apply jobManagerName (Apply_Job m s) \<and> om_Name m = Job_Id (IJ_Job ijob) \<and>
           om_Namespace m = Job_KubernetesNamespace (IJ_Job ijob))) (JobClient_createJob p ijob presult)"
  unfolding JobClient_createJob_def Let_def assms
  by (intro tracks_intros writes_preorder kube_tracks) (auto simp: new_meta_def dest!: unstructured)

end

end
