(* ===== verification/JobReconciler.thy ===== *)
theory JobReconciler
  imports JobClient
begin

text \<open>
  \<^verbatim>\<open>dispatcher/internal/dispatcher/lifecycle_manager.go\<close>: the reconciler of the Kubernetes jobs of fine-tuning jobs. It reports a job that has
  failed or succeeded, sends a job back to the queue when its Kubernetes job has disappeared, and removes canceled jobs after their time to live.
\<close>

section \<open>Code\<close>

record 'w LifecycleManager =
  lm_ftClient :: "'w ftClient"
  lm_k8sClient :: "'w kube"
  lm_postProcessor :: "InternalJob \<Rightarrow> ('w, unit) io"

text \<open>The first container that terminated with an error: its message, or the last three lines of it.\<close>

definition last_lines :: "string \<Rightarrow> string" where
  "last_lines message = (let l = Split message CHR 0x0A
     in if length l > 3 then Join (drop (length l - 3) l) [CHR 0x0A] else message)"

fun termination_message :: "ContainerStatus list \<Rightarrow> string" where
  "termination_message [] = []"
| "termination_message (c # cs) = (case cs_Terminated c of
       Some (exitCode, message) \<Rightarrow> if exitCode \<noteq> 0 then last_lines message else termination_message cs
     | None \<Rightarrow> termination_message cs)"

definition getTerminationLog :: "'w LifecycleManager \<Rightarrow> string \<Rightarrow> string \<Rightarrow> ('w, string) io" where
  "getTerminationLog s jobName namespace =
     bindE (k_ListPods (lm_k8sClient s) (Some namespace) [(''job-name'', jobName)])
       (\<lambda>items. ret (case items of [] \<Rightarrow> [] | pod # _ \<Rightarrow> termination_message (pod_ContainerStatuses pod)))"

text \<open>The Kubernetes job is gone.\<close>

definition reconcile_missing :: "'w LifecycleManager \<Rightarrow> string \<Rightarrow> ('w, Result) io" where
  "reconcile_missing s jobID = tryE (ft_GetInternalJob (lm_ftClient s) jobID)
     (\<lambda>e. if status_Code e = NotFound then ret no_requeue else throw e)
     (\<lambda>ijob. if IJ_State ijob = InternalJob_RUNNING
        then bindE (ft_UpdateJobPhase (lm_ftClient s) (phase_request jobID PHASE_RECREATE)) (\<lambda>_. ret no_requeue)
        else ret no_requeue)"

text \<open>The Kubernetes job has run and the job is queued or running.\<close>

definition reconcile_finished :: "'w LifecycleManager \<Rightarrow> NamespacedName \<Rightarrow> k8s_Job \<Rightarrow> InternalJob \<Rightarrow> ('w, Result) io" where
  "reconcile_finished s req job ijob =
     (if kj_Succeeded job = 0 \<and> kj_Failed job = 0 then ret no_requeue
      else if kj_Failed job > 0 then
        bindE (getTerminationLog s (snd req) (fst req)) (\<lambda>message.
        bindE (ft_UpdateJobPhase (lm_ftClient s) ((phase_request (snd req) PHASE_FAILED)\<lparr>UJP_Message := message\<rparr>)) (\<lambda>_. ret no_requeue))
      else
        bindE (lm_postProcessor s ijob) (\<lambda>_.
        bindE (ft_UpdateJobPhase (lm_ftClient s) ((phase_request (snd req) PHASE_FINETUNED)\<lparr>UJP_ModelId := IJ_OutputModelId ijob\<rparr>))
          (\<lambda>_. ret no_requeue)))"

definition reconcile_state :: "'w LifecycleManager \<Rightarrow> time \<Rightarrow> NamespacedName \<Rightarrow> k8s_Job \<Rightarrow> InternalJob \<Rightarrow> ('w, Result) io" where
  "reconcile_state s now req job ijob =
     (if IJ_State ijob = InternalJob_QUEUED then
        (if IJ_QueuedAction ijob \<noteq> InternalJob_CREATING then ret no_requeue else reconcile_finished s req job ijob)
      else if IJ_State ijob = InternalJob_RUNNING then reconcile_finished s req job ijob
      else if IJ_State ijob = InternalJob_SUCCEEDED \<or> IJ_State ijob = InternalJob_FAILED then ret no_requeue
      else if IJ_State ijob = InternalJob_CANCELED then
        reap_canceled (lm_k8sClient s) now (case suspended_at (kj_Conditions job) of [] \<Rightarrow> None | ts \<Rightarrow> Some (last ts)) job
      else ret no_requeue)"

definition LifecycleManager_Reconcile :: "'w LifecycleManager \<Rightarrow> time \<Rightarrow> NamespacedName \<Rightarrow> ('w, Result) io" where
  "LifecycleManager_Reconcile s now req = tryE (k_GetJob (lm_k8sClient s) req)
     (\<lambda>e. if \<not> k_IsNotFound (lm_k8sClient s) e then throw e else reconcile_missing s (snd req))
     (\<lambda>job. bindE (ft_GetInternalJob (lm_ftClient s) (snd req)) (reconcile_state s now req job))"

section \<open>The termination message\<close>

lemma Split_no_sep: "x \<in> set (Split s d) \<Longrightarrow> d \<notin> set x"
proof (induction s d arbitrary: x rule: Split.induct)
  case (2 c s d)
  obtain y ys where "Split s d = y # ys" using Split_nonempty by (meson neq_Nil_conv)
  with 2 show ?case by (auto split: if_splits)
qed auto

lemma Count_Join:
  assumes "\<forall>x \<in> set xs. d \<notin> set x"
  shows "Count (Join xs [d]) d = length xs - 1"
  using assms
proof (induction xs "[d]" rule: Join.induct)
  case (3 x y xs)
  have "Count x d = 0" using "3.prems" by (simp add: Count_zero)
  then show ?case using 3 by (simp add: Count_def)
qed (auto simp: Count_def filter_empty_conv)

text \<open>At most three lines of the message are reported, they are its last ones, and a short message is reported whole.\<close>

lemma last_lines_short: "Count (last_lines m) CHR 0x0A \<le> 2"
proof (cases "length (Split m CHR 0x0A) > 3")
  case True
  let ?l = "Split m CHR 0x0A"
  have "Count (Join (drop (length ?l - 3) ?l) [CHR 0x0A]) CHR 0x0A = length (drop (length ?l - 3) ?l) - 1"
    by (rule Count_Join) (use Split_no_sep in_set_dropD in \<open>fast\<close>)
  then show ?thesis using True by (simp add: last_lines_def Let_def)
next
  case False
  then show ?thesis using length_Split [of m "CHR 0x0A"] by (simp add: last_lines_def Let_def)
qed

lemma suffix_Join_drop: "suffix (Join (drop n xs) d) (Join xs d)"
proof (induction xs arbitrary: n)
  case (Cons x xs)
  show ?case
  proof (cases n)
    case (Suc m)
    have "suffix (Join xs d) (Join (x # xs) d)" by (cases xs) (auto simp: suffix_def)
    then show ?thesis using Cons [of m] Suc by (simp add: suffix_order.trans)
  qed simp
qed simp

lemma last_lines_suffix: "suffix (last_lines m) m"
  using suffix_Join_drop [of "length (Split m CHR 0x0A) - 3" "Split m CHR 0x0A" "[CHR 0x0A]"] by (simp add: last_lines_def Let_def)

lemma last_lines_id: "Count m CHR 0x0A \<le> 2 \<Longrightarrow> last_lines m = m"
  using length_Split [of m "CHR 0x0A"] by (simp add: last_lines_def Let_def)

lemma termination_message_short: "Count (termination_message cs) CHR 0x0A \<le> 2"
  by (induction cs) (auto simp: last_lines_short split: option.split, simp add: Count_def)

end
