(* ===== verification/NotebookManager.thy ===== *)
theory NotebookManager
  imports Workload Clients
begin

text \<open>
  \<^verbatim>\<open>dispatcher/internal/dispatcher/notebook.go\<close>: the deployment, service, secret and volume claim of a notebook, and the reconciler that reports when
  a notebook runs. Environment variables are ranged over in the order of the association list.
\<close>

section \<open>Code\<close>

abbreviation (input) notebookManagedAnnotationKey :: string where "notebookManagedAnnotationKey \<equiv> ''llmariner/managed-notebook''"
abbreviation (input) notebookIDAnnotationKey :: string where "notebookIDAnnotationKey \<equiv> ''llmariner/notebook-id''"
abbreviation (input) nbManagerName :: string where "nbManagerName \<equiv> ''notebook-manager''"
abbreviation (input) pulling_reason :: string where "pulling_reason \<equiv> ''Pulling''"
abbreviation (input) nbContainerName :: string where "nbContainerName \<equiv> ''jupyterlab''"
abbreviation (input) appPort :: int where "appPort \<equiv> 8888"
abbreviation (input) portName :: string where "portName \<equiv> ''jupyter-web-ui''"
abbreviation (input) pvcMountName :: string where "pvcMountName \<equiv> ''work''"

record 'w NotebookManager =
  nm_k8sClient :: "'w kube"
  nm_wsClient :: "'w wsClient"
  llmaBaseURL :: string
  enablePVC :: bool
  storageClassName :: string
  storageSize :: string
  mountPath :: string
  grantSudo :: bool
  nm_workloadConfig :: WorkloadConfig

definition NewNotebookManager :: "'w kube \<Rightarrow> 'w wsClient \<Rightarrow> NotebooksConfig \<Rightarrow> WorkloadConfig \<Rightarrow> 'w NotebookManager" where
  "NewNotebookManager K ws c wc = \<lparr>nm_k8sClient = K, nm_wsClient = ws, llmaBaseURL = LLMarinerBaseURL c, enablePVC = EnablePVC c,
     storageClassName = StorageClassName c, storageSize = StorageSize c, mountPath = MountPath c, grantSudo = GrantSudo c,
     nm_workloadConfig = wc\<rparr>"

subsection \<open>Reconciling\<close>

fun pulling :: "ContainerStatus list \<Rightarrow> bool" where
  "pulling [] = False"
| "pulling (c # cs) = (if cs_Name c = nbContainerName
     then (case cs_WaitingReason c of None \<Rightarrow> False | Some r \<Rightarrow> Contains r pulling_reason) else pulling cs)"

definition NotebookManager_Reconcile :: "'w NotebookManager \<Rightarrow> NamespacedName \<Rightarrow> ('w, Result) io" where
  "NotebookManager_Reconcile n req = tryE (k_GetDeployment (nm_k8sClient n) req)
     (\<lambda>e. bindE (lift_result (IgnoreNotFound (nm_k8sClient n) e)) (\<lambda>_. ret no_requeue))
     (\<lambda>nb. if kd_DeletionTimestamp nb \<noteq> None then ret no_requeue
         else let replicas = (case kd_Replicas nb of None \<Rightarrow> 0 | Some r \<Rightarrow> r)
         in if replicas = 0 then ret no_requeue
         else bindE (k_ListPods (nm_k8sClient n) (Some (fst req)) (kd_MatchLabels nb)) (\<lambda>items.
           let is_pulling = (case items of [] \<Rightarrow> False | pod # _ \<Rightarrow> pulling (pod_ContainerStatuses pod));
               reason = (if is_pulling then pulling_reason else []);
               state = (if is_pulling then NotebookState_INITIALIZING else NotebookState_RUNNING)
           in if kd_ReadyReplicas nb < replicas \<and> reason = [] then ret no_requeue
              else bindE (ws_UpdateNotebookState (nm_wsClient n) \<lparr>UNS_Id = snd req, UNS_State = state, UNS_Reason = reason\<rparr>) (\<lambda>_. ret no_requeue)))"

subsection \<open>The objects of a notebook\<close>

definition nb_labels :: "string \<Rightarrow> labels" where
  "nb_labels name = [(''app.kubernetes.io/name'', ''llma-notebook''), (''app.kubernetes.io/instance'', name),
     (''app.kubernetes.io/created-by'', nbManagerName)]"

definition nb_envs :: "'w NotebookManager \<Rightarrow> v1_notebook \<Rightarrow> EnvVar list" where
  "nb_envs n nb = map (\<lambda>(k, v). env_value k v) (Notebook_Envs nb) @
     [env_value ''OPENAI_BASE_URL'' (llmaBaseURL n), env_value ''OPENAI_ORG_ID'' (Notebook_OrganizationId nb),
      env_value ''OPENAI_PROJECT_ID'' (Notebook_ProjectId nb)] @
     (if grantSudo n then [env_value ''NOTEBOOK_ARGS'' ''--allow-root''] else [])"

definition nb_resources :: "Resources option \<Rightarrow> ResourceRequirements" where
  "nb_resources res = (case res of None \<Rightarrow> \<lparr>rr_Requests = [], rr_Limits = []\<rparr>
     | Some r \<Rightarrow> \<lparr>
         rr_Requests =
           (case Res_CpuMilicore r of None \<Rightarrow> [] | Some cpu \<Rightarrow> if Quantity_Requests cpu > 0 then [(''cpu'', NewMilliQuantity (Quantity_Requests cpu))] else []) @
           (case Res_MemoryMegabytes r of None \<Rightarrow> [] | Some mem \<Rightarrow> if Quantity_Requests mem > 0 then [(''memory'', NewScaledQuantity (Quantity_Requests mem) 6)] else []),
         rr_Limits =
           (case Res_CpuMilicore r of None \<Rightarrow> [] | Some cpu \<Rightarrow> if Quantity_Limits cpu > 0 then [(''cpu'', NewMilliQuantity (Quantity_Limits cpu))] else []) @
           (case Res_MemoryMegabytes r of None \<Rightarrow> [] | Some mem \<Rightarrow> if Quantity_Limits mem > 0 then [(''memory'', NewScaledQuantity (Quantity_Limits mem) 6)] else []) @
           (if Res_GpuCount r > 0 then [(nvidiaGPU, NewQuantity (Res_GpuCount r))] else [])\<rparr>)"

definition nb_ports :: "v1_notebook \<Rightarrow> ContainerPort list" where
  "nb_ports nb = \<lparr>cp_Name = Some portName, cp_ContainerPort = appPort, cp_Protocol = ''TCP''\<rparr> #
     map (\<lambda>p. \<lparr>cp_Name = None, cp_ContainerPort = p, cp_Protocol = ''TCP''\<rparr>) (Notebook_AdditionalExposedPorts nb)"

definition nb_container :: "'w NotebookManager \<Rightarrow> v1_notebook \<Rightarrow> Container" where
  "nb_container n nb =
     (let baseURL = ''/v1/sessions/'' @ Notebook_ClusterId nb @ ''/v1/services/notebooks/'' @ Notebook_Id nb @ ''/'' @ Notebook_KubernetesNamespace nb;
          c = (new_Container nbContainerName (Notebook_Image nb))\<lparr>con_ImagePullPolicy := Some ''IfNotPresent'',
            con_Command := [''start-notebook.py''],
            con_Args := [''--IdentityProvider.token=$(NOTEBOOK_TOKEN)'', ''--ServerApp.base_url='' @ baseURL, ''--NotebookApp.allow_origin=*''],
            con_Ports := nb_ports nb, con_Env := nb_envs n nb, con_EnvFromSecrets := [Notebook_Id nb],
            con_Resources := Some (nb_resources (Notebook_Resources nb))\<rparr>;
          c = (if grantSudo n then c\<lparr>con_SecurityContext := Some \<lparr>sc_RunAsUser = 0, sc_RunAsGroup = 0, sc_RunAsNonRoot = False\<rparr>\<rparr> else c)
      in if enablePVC n then c\<lparr>con_VolumeMounts := [(pvcMountName, mountPath n)]\<rparr> else c)"

definition nb_annotations :: "v1_notebook \<Rightarrow> labels" where
  "nb_annotations nb = [(notebookManagedAnnotationKey, ''true''), (notebookIDAnnotationKey, Notebook_Id nb)]"

definition nb_meta :: "v1_notebook \<Rightarrow> ObjectMeta" where
  "nb_meta nb = (new_meta (Notebook_Id nb) (Notebook_KubernetesNamespace nb))\<lparr>om_Labels := nb_labels (Notebook_Id nb), om_Annotations := nb_annotations nb\<rparr>"

definition nb_deployment :: "'w NotebookManager \<Rightarrow> v1_notebook \<Rightarrow> apply_object" where
  "nb_deployment n nb =
     (let podSpec = applyWorkloadConfig (empty_PodSpec\<lparr>ps_Containers := [nb_container n nb]\<rparr>) (nm_workloadConfig n);
          podSpec = (if enablePVC n then podSpec\<lparr>ps_Volumes := ps_Volumes podSpec @ [(pvcMountName, PersistentVolumeClaimVolume (Notebook_Id nb))]\<rparr> else podSpec)
      in Apply_Deployment (nb_meta nb) \<lparr>ds_Replicas = 1, ds_MatchLabels = nb_labels (Notebook_Id nb),
           ds_Template = \<lparr>pt_Annotations = PodAnnotations (nm_workloadConfig n), pt_Labels = nb_labels (Notebook_Id nb), pt_Spec = podSpec\<rparr>\<rparr>)"

definition nb_service_ports :: "v1_notebook \<Rightarrow> ServicePort list" where
  "nb_service_ports nb = \<lparr>sp_Name = portName, sp_Port = appPort, sp_TargetPort = FromString portName, sp_Protocol = ''TCP''\<rparr> #
     map (\<lambda>p. \<lparr>sp_Name = ''port-'' @ Itoa p, sp_Port = p, sp_TargetPort = FromInt p, sp_Protocol = ''TCP''\<rparr>) (Notebook_AdditionalExposedPorts nb)"

definition owner_reference :: "applied_object \<Rightarrow> OwnerReference" where
  "owner_reference deploy = \<lparr>or_APIVersion = ao_GroupVersion deploy, or_Kind = ao_Kind deploy, or_Name = ao_Name deploy, or_UID = ao_UID deploy,
     or_BlockOwnerDeletion = True, or_Controller = True\<rparr>"

definition nb_owned_objects :: "'w NotebookManager \<Rightarrow> v1_notebook \<Rightarrow> OwnerReference \<Rightarrow> apply_object list" where
  "nb_owned_objects n nb ownerRef =
     [Apply_Service ((nb_meta nb)\<lparr>om_OwnerReferences := [ownerRef]\<rparr>) \<lparr>ss_Type = Some ''ClusterIP'', ss_ClusterIP = None,
        ss_Selector = nb_labels (Notebook_Id nb), ss_Ports = nb_service_ports nb\<rparr>,
      Apply_Secret ((new_meta (Notebook_Id nb) (Notebook_KubernetesNamespace nb))\<lparr>om_OwnerReferences := [ownerRef]\<rparr>)] @
     (if enablePVC n then [Apply_PersistentVolumeClaim ((nb_meta nb)\<lparr>om_OwnerReferences := [ownerRef]\<rparr>)
        \<lparr>pvc_AccessModes = [''ReadWriteOnce''], pvc_StorageClassName = storageClassName n, pvc_Requests = [(''storage'', MustParse (storageSize n))]\<rparr>] else [])"

definition NotebookManager_applyObject :: "'w NotebookManager \<Rightarrow> apply_object \<Rightarrow> ('w, applied_object) io" where
  "NotebookManager_applyObject n applyConfig = (case k_ToUnstructured (nm_k8sClient n) applyConfig of Inl e \<Rightarrow> throw e
     | Inr uobj \<Rightarrow> k_Write (nm_k8sClient n) (W_Apply nbManagerName uobj))"

definition createNotebook :: "'w NotebookManager \<Rightarrow> InternalNotebook \<Rightarrow> ('w, unit) io" where
  "createNotebook n inb = bindE (NotebookManager_applyObject n (nb_deployment n (IN_Notebook inb))) (\<lambda>deploy.
     forE (\<lambda>obj. bindE (NotebookManager_applyObject n obj) (\<lambda>_. ret ()))
       (nb_owned_objects n (IN_Notebook inb) (owner_reference deploy)))"

definition stopNotebook :: "'w NotebookManager \<Rightarrow> InternalNotebook \<Rightarrow> ('w, unit) io" where
  "stopNotebook n inb = bindE (k_GetDeployment (nm_k8sClient n) (Notebook_KubernetesNamespace (IN_Notebook inb), Notebook_Id (IN_Notebook inb)))
     (\<lambda>deploy. k_Write_unit (nm_k8sClient n) (W_ScaleDeployment deploy 0))"

text \<open>
  \<^verbatim>\<open>deleteNotebook\<close> tests the error of \<^verbatim>\<open>Delete\<close> with \<^verbatim>\<open>err == nil\<close>: without an error it returns that nil error, with an error it returns nil.
\<close>

definition deleteNotebook :: "'w NotebookManager \<Rightarrow> InternalNotebook \<Rightarrow> ('w, unit) io" where
  "deleteNotebook n inb = tryE (k_GetDeployment (nm_k8sClient n) (Notebook_KubernetesNamespace (IN_Notebook inb), Notebook_Id (IN_Notebook inb)))
     (\<lambda>e. if k_IsNotFound (nm_k8sClient n) e then ret () else throw e)
     (\<lambda>deploy. tryE (k_Write (nm_k8sClient n) (W_DeleteDeployment deploy)) (\<lambda>e. ret ()) (\<lambda>_. ret ()))"

definition isManagedNotebook :: "labels \<Rightarrow> bool" where
  "isManagedNotebook annotations \<longleftrightarrow> map_of annotations notebookManagedAnnotationKey = Some ''true''"

section \<open>Lemmas\<close>

text \<open>Every object of a notebook has its name and namespace, and every object but the deployment is owned by the deployment.\<close>

lemma nb_objects_named:
  "obj \<in> set (nb_deployment n nb # nb_owned_objects n nb r) \<Longrightarrow>
     om_Name (apply_meta obj) = Notebook_Id nb \<and> om_Namespace (apply_meta obj) = Notebook_KubernetesNamespace nb"
  "obj \<in> set (nb_owned_objects n nb r) \<Longrightarrow> om_OwnerReferences (apply_meta obj) = [r]"
  by (auto simp: nb_deployment_def nb_owned_objects_def nb_meta_def new_meta_def Let_def split: if_splits)

text \<open>The quantities that \<^verbatim>\<open>createNotebook\<close> parses with \<^verbatim>\<open>MustParse\<close>, which panics on a string it cannot parse.\<close>

fun parsed_quantities :: "apply_object \<Rightarrow> string list" where
  "parsed_quantities (Apply_PersistentVolumeClaim m s) = [q. (_, MustParse q) \<leftarrow> pvc_Requests s]"
| "parsed_quantities _ = []"

lemma nb_parsed_quantities:
  "obj \<in> set (nb_deployment n nb # nb_owned_objects n nb r) \<Longrightarrow> q \<in> set (parsed_quantities obj) \<Longrightarrow> enablePVC n \<and> q = storageSize n"
  by (auto simp: nb_deployment_def nb_owned_objects_def Let_def split: if_splits)

text \<open>An error of the delete call does not reach the caller: the dispatcher reports the notebook as deleted although its deployment still runs.\<close>

lemma deleteNotebook_swallows:
  assumes "k_GetDeployment (nm_k8sClient n) (Notebook_KubernetesNamespace (IN_Notebook nb), Notebook_Id (IN_Notebook nb)) w = (Inr deploy, w1)"
    and "k_Write (nm_k8sClient n) (W_DeleteDeployment deploy) w1 = (Inl e, w2)"
  shows "deleteNotebook n nb w = (Inr (), w2)"
  using assms by (simp add: deleteNotebook_def tryE_def ret_def)

text \<open>The service forwards each of its ports to a port of the container.\<close>

definition forwarded :: "ContainerPort list \<Rightarrow> ServicePort \<Rightarrow> bool" where
  "forwarded ports sp \<longleftrightarrow> (\<exists>p \<in> set ports. cp_Protocol p = sp_Protocol sp \<and>
     (case sp_TargetPort sp of FromString s \<Rightarrow> cp_Name p = Some s | FromInt i \<Rightarrow> cp_ContainerPort p = i))"

lemma nb_service_forwards: "sp \<in> set (nb_service_ports nb) \<Longrightarrow> forwarded (nb_ports nb) sp"
  by (auto simp: nb_service_ports_def nb_ports_def forwarded_def)

context kube_api
begin

lemma applyObject_writes:
  assumes "nm_k8sClient n = K" and "P (W_Apply nbManagerName obj)"
  shows "tracks (writes accepted P) (NotebookManager_applyObject n obj)"
  unfolding NotebookManager_applyObject_def assms(1)
  by (intro tracks_intros writes_preorder kube_tracks) (use assms(2) in \<open>auto dest!: unstructured\<close>)

end

end
