(* ===== verification/BatchJobManager.thy ===== *)
theory BatchJobManager
  imports JobClient NotebookManager
begin

text \<open>
  \<^verbatim>\<open>dispatcher/internal/dispatcher/batchjob.go\<close>: the Kubernetes job, secret, config map and service of a batch job, and its reconciler. The two
  command templates are rendered as \<^verbatim>\<open>text/template\<close> does.
\<close>

section \<open>Code\<close>

abbreviation (input) batchJobManagedAnnotationKey :: string where "batchJobManagedAnnotationKey \<equiv> ''llmariner/managed-batchjob''"
abbreviation (input) batchJobIDAnnotationKey :: string where "batchJobIDAnnotationKey \<equiv> ''llmariner/batchjob-id''"
abbreviation (input) bjManagerName :: string where "bjManagerName \<equiv> ''batchjob-manager''"
abbreviation (input) initImage :: string where "initImage \<equiv> ''mirror.gcr.io/alpine:3.10''"
abbreviation (input) masterPort :: int where "masterPort \<equiv> 23456"

record 'w BatchJobManager =
  bm_k8sClient :: "'w kube"
  bm_presign :: "string \<Rightarrow> string \<Rightarrow> duration \<Rightarrow> go_error + string"            \<comment> \<open>\<^verbatim>\<open>s3Client.GeneratePresignedURL\<close>\<close>
  bm_GetFilePath :: "string \<Rightarrow> go_error + (string \<times> string)"                  \<comment> \<open>path and file name\<close>
  bm_bwClient :: "'w bwClient"
  bm_llmaBaseURL :: string
  bm_wandbConfig :: WandbAPIKeySecretConfig
  bm_kueueConfig :: KueueConfig
  bm_workloadConfig :: WorkloadConfig
  bm_s3Bucket :: string

subsection \<open>Reconciling\<close>

text \<open>The report on a Kubernetes job that has run: the reason and message of its first failed condition.\<close>

definition finished_report :: "string \<Rightarrow> k8s_Job \<Rightarrow> UpdateBatchJobStateRequest" where
  "finished_report jobID job =
     (if kj_Failed job > 0 then
        (case filter (\<lambda>c. jc_Type c = ''Failed'') (kj_Conditions job) of
           [] \<Rightarrow> \<lparr>UBS_Id = jobID, UBS_State = InternalBatchJob_FAILED, UBS_Reason = [], UBS_Message = []\<rparr>
         | c # _ \<Rightarrow> \<lparr>UBS_Id = jobID, UBS_State = InternalBatchJob_FAILED, UBS_Reason = jc_Reason c, UBS_Message = jc_Message c\<rparr>)
      else \<lparr>UBS_Id = jobID, UBS_State = InternalBatchJob_SUCCEEDED, UBS_Reason = [], UBS_Message = []\<rparr>)"

definition batch_reconcile_finished :: "'w BatchJobManager \<Rightarrow> string \<Rightarrow> k8s_Job \<Rightarrow> ('w, Result) io" where
  "batch_reconcile_finished m jobID job =
     (if kj_Succeeded job = 0 \<and> kj_Failed job = 0 then ret no_requeue
      else bindE (bw_UpdateBatchJobState (bm_bwClient m) (finished_report jobID job)) (\<lambda>_. ret no_requeue))"

definition batch_reconcile_state :: "'w BatchJobManager \<Rightarrow> time \<Rightarrow> NamespacedName \<Rightarrow> k8s_Job \<Rightarrow> InternalBatchJob \<Rightarrow> ('w, Result) io" where
  "batch_reconcile_state m now req job ibjob =
     (if IB_State ibjob = InternalBatchJob_QUEUED then
        (if IB_QueuedAction ibjob \<noteq> InternalBatchJob_CREATING then ret no_requeue else batch_reconcile_finished m (snd req) job)
      else if IB_State ibjob = InternalBatchJob_RUNNING then batch_reconcile_finished m (snd req) job
      else if IB_State ibjob \<in> {InternalBatchJob_SUCCEEDED, InternalBatchJob_FAILED, InternalBatchJob_DELETED} then ret no_requeue
      else if IB_State ibjob = InternalBatchJob_CANCELED then
        reap_canceled (bm_k8sClient m) now (case suspended_at (kj_Conditions job) of [] \<Rightarrow> None | t # _ \<Rightarrow> Some t) job
      else ret no_requeue)"

definition BatchJobManager_Reconcile :: "'w BatchJobManager \<Rightarrow> time \<Rightarrow> NamespacedName \<Rightarrow> ('w, Result) io" where
  "BatchJobManager_Reconcile m now req = tryE (k_GetJob (bm_k8sClient m) req)
     (\<lambda>e. bindE (lift_result (IgnoreNotFound (bm_k8sClient m) e)) (\<lambda>_. ret no_requeue))
     (\<lambda>job. if kj_DeletionTimestamp job \<noteq> None then ret no_requeue
        else bindE (bw_GetInternalBatchJob (bm_bwClient m) (snd req)) (batch_reconcile_state m now req job))"

subsection \<open>The objects of a batch job\<close>

definition render_init :: "string \<Rightarrow> (string \<times> string) list \<Rightarrow> string \<Rightarrow> string" where
  "render_init dataPath dataFileURLs masterAddr = line ''set -xeuo pipefail'' @
     concat (map (\<lambda>(name, url). nl @ line (''wget -q --output-document='' @ dataPath @ ''/'' @ name @ '' '' @ quoted url)) (sorted_entries dataFileURLs)) @
     (if masterAddr \<noteq> [] then nl @ line ''[ ${JOB_COMPLETION_INDEX} -eq 0 ] && exit 0'' @ line ''for i in $(seq 100); do'' @
        line (''  nslookup '' @ masterAddr @ ''>/dev/null && exit 0'') @ line ''  sleep 2'' @ ''done'' else [])"

definition render_main :: "string \<Rightarrow> string \<Rightarrow> string" where
  "render_main scriptsPath command = line ''set -xeuo pipefail'' @
     line (''[ -f '' @ scriptsPath @ ''/requirements.txt ] && pip install -r '' @ scriptsPath @ ''/requirements.txt'') @ command"

definition getNameAndPresignedURL :: "'w BatchJobManager \<Rightarrow> string \<Rightarrow> go_error + (string \<times> string)" where
  "getNameAndPresignedURL m fileID = (case bm_GetFilePath m fileID of
       Inl e \<Rightarrow> Inl (Errorf (''get file path: '' @ Error e))
     | Inr (path, filename) \<Rightarrow> (case bm_presign m (bm_s3Bucket m) path preSignedURLExpire of
         Inl e \<Rightarrow> Inl (Errorf (''generate presigned url: '' @ Error e)) | Inr url \<Rightarrow> Inr (filename, url)))"

fun data_file_urls :: "'w BatchJobManager \<Rightarrow> string list \<Rightarrow> (string \<times> string) list \<Rightarrow> go_error + (string \<times> string) list" where
  "data_file_urls m [] urls = Inr urls"
| "data_file_urls m (f # fs) urls = (case getNameAndPresignedURL m f of Inl e \<Rightarrow> Inl e
     | Inr (name, url) \<Rightarrow> data_file_urls m fs (map_put name url urls))"

definition bj_labels :: "'w BatchJobManager \<Rightarrow> string \<Rightarrow> labels" where
  "bj_labels m name = [(''app.kubernetes.io/name'', ''llma-batch-job''), (''app.kubernetes.io/instance'', name),
     (''app.kubernetes.io/created-by'', bjManagerName)] @
     (if kueue_Enable (bm_kueueConfig m) then [(kueueQueueNameLabelKey, DefaultQueueName (bm_kueueConfig m))] else [])"

text \<open>What the kind of a batch job determines: replicas, completion mode, subdomain, master address, ports and environment variables.\<close>

record kind_settings =
  ks_replicas :: int
  ks_completionMode :: string
  ks_subdomain :: string
  ks_masterAddr :: string
  ks_ports :: "ContainerPort list"
  ks_envs :: "EnvVar list"

definition batch_kind :: "string \<Rightarrow> BatchJob_Kind option \<Rightarrow> go_error + kind_settings" where
  "batch_kind name kind = (case kind of
       None \<Rightarrow> Inr \<lparr>ks_replicas = 1, ks_completionMode = ''NonIndexed'', ks_subdomain = [], ks_masterAddr = [], ks_ports = [], ks_envs = []\<rparr>
     | Some (Kind_Pytorch workerCount) \<Rightarrow>
         let masterAddr = name @ ''-0.'' @ name
         in Inr \<lparr>ks_replicas = workerCount, ks_completionMode = ''Indexed'', ks_subdomain = name, ks_masterAddr = masterAddr,
              ks_ports = [\<lparr>cp_Name = Some ''master'', cp_ContainerPort = masterPort, cp_Protocol = ''TCP''\<rparr>],
              ks_envs = [env_value ''MASTER_ADDR'' masterAddr, env_value ''MASTER_PORT'' (Itoa masterPort),
                env_value ''WORLD_SIZE'' (Itoa workerCount),
                \<lparr>env_Name = ''RANK'', env_Source = EnvFieldRef (''metadata.labels['' @ [CHR 0x27] @ ''batch.kubernetes.io/job-completion-index'' @ [CHR 0x27] @ '']'')\<rparr>]\<rparr>
     | Some Kind_None \<Rightarrow> Inl (Errorf ''unsupported kind: *v1.BatchJob_Kind''))"

definition bj_envs :: "'w BatchJobManager \<Rightarrow> v1_batch_job \<Rightarrow> EnvVar list" where
  "bj_envs m job = map (\<lambda>(k, v). env_value k v) (BatchJob_Envs job) @ [env_value ''OPENAI_BASE_URL'' (bm_llmaBaseURL m)] @
     (if wandb_Name (bm_wandbConfig m) \<noteq> [] \<and> wandb_Key (bm_wandbConfig m) \<noteq> []
      then [\<lparr>env_Name = ''WANDB_API_KEY'', env_Source = EnvSecretKeyRef (wandb_Name (bm_wandbConfig m)) (wandb_Key (bm_wandbConfig m))\<rparr>] else [])"

definition bj_limits :: "int option \<Rightarrow> ResourceList" where
  "bj_limits resources = (case resources of None \<Rightarrow> [] | Some n \<Rightarrow> if n > 0 then [(nvidiaGPU, NewQuantity n)] else [])"

definition bj_pod_spec :: "'w BatchJobManager \<Rightarrow> v1_batch_job \<Rightarrow> kind_settings \<Rightarrow> (string \<times> string) list \<Rightarrow> PodSpec" where
  "bj_pod_spec m job ks urls =
     (let volumeMounts = [(''share-volume'', ''/data''), (''scripts-volume'', ''/scripts'')];
          init = (new_Container ''init'' initImage)\<lparr>con_Command := [''/bin/sh'', ''-c'', render_init ''/data'' urls (ks_masterAddr ks)],
            con_VolumeMounts := volumeMounts\<rparr>;
          main = (new_Container ''main'' (BatchJob_Image job))\<lparr>con_Command := [''/bin/bash'', ''-c'', render_main ''/scripts'' (BatchJob_Command job)],
            con_Resources := Some \<lparr>rr_Requests = [], rr_Limits = bj_limits (BatchJob_Resources job)\<rparr>, con_Ports := ks_ports ks,
            con_Env := bj_envs m job @ ks_envs ks, con_EnvFromSecrets := [BatchJob_Id job], con_VolumeMounts := volumeMounts\<rparr>
      in applyWorkloadConfig (empty_PodSpec\<lparr>ps_Subdomain := Some (ks_subdomain ks), ps_RestartPolicy := Some ''Never'',
           ps_InitContainers := [init], ps_Containers := [main],
           ps_Volumes := [(''share-volume'', EmptyDirVolume), (''scripts-volume'', ConfigMapVolume (BatchJob_Id job))]\<rparr>) (bm_workloadConfig m))"

definition bj_job :: "'w BatchJobManager \<Rightarrow> v1_batch_job \<Rightarrow> kind_settings \<Rightarrow> (string \<times> string) list \<Rightarrow> apply_object" where
  "bj_job m job ks urls = Apply_Job ((new_meta (BatchJob_Id job) (BatchJob_KubernetesNamespace job))\<lparr>om_Labels := bj_labels m (BatchJob_Id job),
       om_Annotations := [(batchJobManagedAnnotationKey, ''true''), (batchJobIDAnnotationKey, BatchJob_Id job)]\<rparr>)
     \<lparr>js_TTLSecondsAfterFinished = jobTTL_seconds, js_BackoffLimit = 0, js_CompletionMode = Some (ks_completionMode ks),
      js_Completions = Some (ks_replicas ks), js_Parallelism = Some (ks_replicas ks),
      js_Template = \<lparr>pt_Annotations = PodAnnotations (bm_workloadConfig m), pt_Labels = [], pt_Spec = bj_pod_spec m job ks urls\<rparr>\<rparr>"

definition bj_owned_objects :: "'w BatchJobManager \<Rightarrow> v1_batch_job \<Rightarrow> kind_settings \<Rightarrow> OwnerReference \<Rightarrow> apply_object list" where
  "bj_owned_objects m job ks ownerRef =
     (let meta = (new_meta (BatchJob_Id job) (BatchJob_KubernetesNamespace job))\<lparr>om_Labels := bj_labels m (BatchJob_Id job), om_OwnerReferences := [ownerRef]\<rparr>
      in [Apply_Secret meta, Apply_ConfigMap meta] @
         (if ks_masterAddr ks \<noteq> [] then [Apply_Service meta \<lparr>ss_Type = None, ss_ClusterIP = Some ''None'',
            ss_Selector = [(''job-name'', BatchJob_Id job)], ss_Ports = []\<rparr>] else []))"

definition BatchJobManager_applyObject :: "'w BatchJobManager \<Rightarrow> apply_object \<Rightarrow> ('w, applied_object) io" where
  "BatchJobManager_applyObject m applyConfig = (case k_ToUnstructured (bm_k8sClient m) applyConfig of Inl e \<Rightarrow> throw e
     | Inr uobj \<Rightarrow> k_Write (bm_k8sClient m) (W_Apply bjManagerName uobj))"

definition createBatchJob :: "'w BatchJobManager \<Rightarrow> InternalBatchJob \<Rightarrow> ('w, unit) io" where
  "createBatchJob m ibjob = (let job = IB_Job ibjob in
     bindE (lift_result (batch_kind (BatchJob_Id job) (BatchJob_Kind_field job))) (\<lambda>ks.
     bindE (lift_result (data_file_urls m (BatchJob_DataFiles job) [])) (\<lambda>urls.
     bindE (BatchJobManager_applyObject m (bj_job m job ks urls)) (\<lambda>kjob.
     forE (\<lambda>obj. bindE (BatchJobManager_applyObject m obj) (\<lambda>_. ret ())) (bj_owned_objects m job ks (owner_reference kjob))))))"

definition cancelBatchJob :: "'w BatchJobManager \<Rightarrow> InternalBatchJob \<Rightarrow> ('w, unit) io" where
  "cancelBatchJob m ibjob = tryE (k_GetJob (bm_k8sClient m) (BatchJob_KubernetesNamespace (IB_Job ibjob), BatchJob_Id (IB_Job ibjob)))
     (\<lambda>e. lift_result (IgnoreNotFound (bm_k8sClient m) e))
     (\<lambda>kjob. k_Write_unit (bm_k8sClient m) (W_UpdateJob bjManagerName (kjob\<lparr>kj_Suspend := Some True\<rparr>)))"

definition deleteBatchJob :: "'w BatchJobManager \<Rightarrow> InternalBatchJob \<Rightarrow> ('w, unit) io" where
  "deleteBatchJob m ibjob = tryE (k_GetJob (bm_k8sClient m) (BatchJob_KubernetesNamespace (IB_Job ibjob), BatchJob_Id (IB_Job ibjob)))
     (\<lambda>e. lift_result (IgnoreNotFound (bm_k8sClient m) e))
     (\<lambda>kjob. k_Write_unit (bm_k8sClient m) (W_DeleteJob (Some ''Background'') kjob))"

definition isManagedBatchJob :: "labels \<Rightarrow> bool" where
  "isManagedBatchJob annotations \<longleftrightarrow> map_of annotations batchJobManagedAnnotationKey = Some ''true''"

section \<open>Lemmas\<close>

lemma bj_objects_named:
  "obj \<in> set (bj_job m job ks urls # bj_owned_objects m job ks r) \<Longrightarrow>
     om_Name (apply_meta obj) = BatchJob_Id job \<and> om_Namespace (apply_meta obj) = BatchJob_KubernetesNamespace job"
  "obj \<in> set (bj_owned_objects m job ks r) \<Longrightarrow> om_OwnerReferences (apply_meta obj) = [r]"
  by (auto simp: bj_job_def bj_owned_objects_def new_meta_def Let_def split: if_splits)

text \<open>The GPUs all the pods of a Kubernetes job may use together.\<close>

definition job_gpus :: "apply_object \<Rightarrow> Quantity list" where
  "job_gpus obj = (case obj of Apply_Job m s \<Rightarrow> concat (replicate (nat (case js_Parallelism s of None \<Rightarrow> 1 | Some n \<Rightarrow> n)) (template_gpus (js_Template s)))
     | _ \<Rightarrow> [])"

lemma bj_job_gpus:
  "job_gpus (bj_job m job ks urls) = concat (replicate (nat (ks_replicas ks)) (map snd (bj_limits (BatchJob_Resources job))))"
  by (simp add: job_gpus_def bj_job_def template_gpus_def bj_pod_spec_def bj_limits_def Let_def split: option.split)

context kube_api
begin

lemma batch_applyObject_writes:
  assumes "bm_k8sClient m = K" and "P (W_Apply bjManagerName obj)"
  shows "tracks (writes accepted P) (BatchJobManager_applyObject m obj)"
  unfolding BatchJobManager_applyObject_def assms(1)
  by (intro tracks_intros writes_preorder kube_tracks) (use assms(2) in \<open>auto dest!: unstructured\<close>)

end

end
