(* ===== verification/ClusterReporter.thy ===== *)
theory ClusterReporter
  imports Clients
begin

text \<open>
  \<^verbatim>\<open>dispatcher/internal/clusterstatus/manager.go\<close>: the report of the GPU nodes, GPU pods and node pools of a cluster. \<^verbatim>\<open>Quantity.AsInt64\<close> is a
  parameter; the sum over the containers of a pod is a 64-bit \<^verbatim>\<open>int\<close> and the reported counts are cast to \<^verbatim>\<open>int32\<close>.
\<close>

section \<open>Code\<close>

definition int64 :: "int \<Rightarrow> int" where
  "int64 x = (x + 2 ^ 63) mod 2 ^ 64 - 2 ^ 63"

fun instance_requirements :: "NodeSelectorRequirement list \<Rightarrow> string \<times> string \<Rightarrow> string \<times> string" where
  "instance_requirements [] acc = acc"
| "instance_requirements (t # ts) (instType, instFamily) =
     instance_requirements ts
       (if nsr_Operator t \<noteq> ''In'' then (instType, instFamily)
        else (case nsr_Values t of [] \<Rightarrow> (instType, instFamily)
          | v # _ \<Rightarrow> if nsr_Key t = ''karpenter.k8s.aws/instance-type'' then (v, instFamily)
              else if nsr_Key t = ''karpenter.k8s.aws/instance-family'' then (instType, v) else (instType, instFamily)))"

definition toProvisionableResource :: "NodePool \<Rightarrow> ProvisionableResource" where
  "toProvisionableResource np = (let (instType, instFamily) = instance_requirements (np_Requirements np) ([], [])
     in \<lparr>PR_InstanceFamily = instFamily, PR_InstanceType = instType\<rparr>)"

definition toGPUNode :: "(Quantity \<Rightarrow> int option) \<Rightarrow> k8s_Node \<Rightarrow> GpuNode option" where
  "toGPUNode AsInt64 node = (if node_Unschedulable node then None
     else (case map_of (node_Allocatable node) nvidiaGPU of None \<Rightarrow> None
       | Some v \<Rightarrow> (case AsInt64 v of None \<Rightarrow> None
         | Some n \<Rightarrow> Some \<lparr>GpuNode_ResourceName = nvidiaGPU, GpuNode_AllocatableCount = int32 n\<rparr>)))"

definition container_gpus :: "(Quantity \<Rightarrow> int option) \<Rightarrow> ResourceList option \<Rightarrow> int" where
  "container_gpus AsInt64 limit = (case limit of None \<Rightarrow> 0
     | Some l \<Rightarrow> (case map_of l nvidiaGPU of None \<Rightarrow> 0 | Some v \<Rightarrow> (case AsInt64 v of None \<Rightarrow> 0 | Some n \<Rightarrow> n)))"

definition toGPUPod :: "(Quantity \<Rightarrow> int option) \<Rightarrow> k8s_Pod \<Rightarrow> GpuPod option" where
  "toGPUPod AsInt64 pod = (if pod_Phase pod \<noteq> ''Running'' then None
     else let total = foldl (\<lambda>total limit. int64 (total + container_gpus AsInt64 limit)) 0 (pod_Limits pod)
          in if total = 0 then None
             else Some \<lparr>GpuPod_ResourceName = nvidiaGPU, GpuPod_AllocatedCount = int32 total,
                     GpuPod_NamespacedName = pod_Namespace pod @ ''/'' @ pod_Name pod\<rparr>)"

definition buildClusterStaus :: "'w kube \<Rightarrow> (Quantity \<Rightarrow> int option) \<Rightarrow> ('w, ClusterStatus) io" where
  "buildClusterStaus K AsInt64 =
     bindE (k_ListNodes K) (\<lambda>nodes.
     bindE (k_ListPods K None []) (\<lambda>pods.
     bindE (catchE (bindE (k_ListNodePools K) (\<lambda>nps. ret (map toProvisionableResource nps))) (\<lambda>e. ret [])) (\<lambda>prs.
       ret \<lparr>CS_GpuNodes = List.map_filter (toGPUNode AsInt64) nodes, CS_ProvisionableResources = prs,
            CS_GpuPods = List.map_filter (toGPUPod AsInt64) pods\<rparr>)))"

definition updateClusterStaus :: "'w kube \<Rightarrow> (Quantity \<Rightarrow> int option) \<Rightarrow> (ClusterStatus \<Rightarrow> ('w, unit) io) \<Rightarrow> ('w, unit) io" where
  "updateClusterStaus K AsInt64 UpdateStatus = bindE (buildClusterStaus K AsInt64) UpdateStatus"

text \<open>\<^verbatim>\<open>Start\<close>: one update at once and one per tick delivered before the context is done, whose error is then returned.\<close>

definition status_Start :: "'w kube \<Rightarrow> (Quantity \<Rightarrow> int option) \<Rightarrow> (ClusterStatus \<Rightarrow> ('w, unit) io) \<Rightarrow> unit list \<Rightarrow> go_error \<Rightarrow> ('w, unit) io" where
  "status_Start K AsInt64 UpdateStatus ticks ctx_Err =
     bindE (updateClusterStaus K AsInt64 UpdateStatus) (\<lambda>_.
     bindE (forE (\<lambda>_. updateClusterStaus K AsInt64 UpdateStatus) ticks) (\<lambda>_. throw ctx_Err))"

section \<open>What is counted\<close>

lemma int64_id [simp]: "- (2 ^ 63) \<le> x \<Longrightarrow> x < 2 ^ 63 \<Longrightarrow> int64 x = x"
  by (simp add: int64_def)

text \<open>While no container asks for a negative number of GPUs and the sum fits, nothing wraps around.\<close>

lemma pod_total:
  assumes "\<forall>l \<in> set ls. 0 \<le> container_gpus A l" and "0 \<le> a" and "a + sum_list (map (container_gpus A) ls) < 2 ^ 63"
  shows "foldl (\<lambda>total limit. int64 (total + container_gpus A limit)) a ls = a + sum_list (map (container_gpus A) ls)"
  using assms
proof (induction ls arbitrary: a)
  case (Cons l ls)
  have "0 \<le> container_gpus A l" "0 \<le> sum_list (map (container_gpus A) ls)"
    using Cons.prems(1) by (auto intro!: sum_list_nonneg)
  then have "int64 (a + container_gpus A l) = a + container_gpus A l"
    using Cons.prems by (intro int64_id) auto
  then show ?case using Cons.IH [of "a + container_gpus A l"] Cons.prems \<open>0 \<le> container_gpus A l\<close> by (simp add: algebra_simps)
qed simp

lemma toGPUPod_count:
  assumes "\<forall>l \<in> set (pod_Limits pod). 0 \<le> container_gpus A l" and "sum_list (map (container_gpus A) (pod_Limits pod)) < 2 ^ 31"
  shows "toGPUPod A pod = (if pod_Phase pod = ''Running'' \<and> sum_list (map (container_gpus A) (pod_Limits pod)) \<noteq> 0
     then Some \<lparr>GpuPod_ResourceName = nvidiaGPU, GpuPod_AllocatedCount = sum_list (map (container_gpus A) (pod_Limits pod)),
            GpuPod_NamespacedName = pod_Namespace pod @ ''/'' @ pod_Name pod\<rparr> else None)"
proof -
  let ?n = "sum_list (map (container_gpus A) (pod_Limits pod))"
  have n: "0 \<le> ?n" using assms(1) by (auto intro!: sum_list_nonneg)
  have "foldl (\<lambda>total limit. int64 (total + container_gpus A limit)) 0 (pod_Limits pod) = ?n"
    using pod_total [OF assms(1)] assms(2) by simp
  moreover have "int32 ?n = ?n" by (rule int32_id) (use n assms(2) in \<open>simp add: is_int32_def\<close>)
  ultimately show ?thesis by (simp add: toGPUPod_def Let_def)
qed

lemma reported_counts_int32:
  "toGPUNode A node = Some n \<Longrightarrow> is_int32 (GpuNode_AllocatableCount n)"
  "toGPUPod A pod = Some p \<Longrightarrow> is_int32 (GpuPod_AllocatedCount p)"
  by (auto simp: toGPUNode_def toGPUPod_def Let_def split: if_splits option.splits)

lemma buildClusterStaus_ok:
  assumes "buildClusterStaus K A w = (Inr status, w')"
  obtains nodes pods w1 w2 where "k_ListNodes K w = (Inr nodes, w1)" "k_ListPods K None [] w1 = (Inr pods, w2)"
    "CS_GpuNodes status = List.map_filter (toGPUNode A) nodes" "CS_GpuPods status = List.map_filter (toGPUPod A) pods"
  using assms by (auto simp: buildClusterStaus_def bindE_def ret_def split: prod.splits sum.splits)

end
