(* ===== verification/Dispatcher.thy ===== *)
theory Dispatcher
  imports JobReconciler BatchJobManager ClusterReporter
begin

text \<open>
  \<^verbatim>\<open>dispatcher/internal/dispatcher/dispatcher.go\<close>: the dispatcher of a cluster polls the server for queued jobs, notebooks and batch jobs, performs
  the queued action in Kubernetes and reports the new state. Its collaborators are the interfaces of the source: the clients of the server, the
  job, notebook and batch job managers and the pre-processor. \<^verbatim>\<open>retry.Do\<close> (\<^verbatim>\<open>avast/retry-go\<close>) is third-party: a field of the record, with the locale
  \<open>retrier\<close>.
\<close>

section \<open>Code\<close>

record 'w D =
  d_ftClient :: "'w ftClient"
  d_wsClient :: "'w wsClient"
  d_bwClient :: "'w bwClient"
  jm_createJob :: "InternalJob \<Rightarrow> PreProcessResult \<Rightarrow> ('w, unit) io"
  jm_cancelJob :: "InternalJob \<Rightarrow> ('w, unit) io"
  d_preProcessor :: "InternalJob \<Rightarrow> ('w, PreProcessResult) io"
  nb_createNotebook :: "InternalNotebook \<Rightarrow> ('w, unit) io"
  nb_stopNotebook :: "InternalNotebook \<Rightarrow> ('w, unit) io"
  nb_deleteNotebook :: "InternalNotebook \<Rightarrow> ('w, unit) io"
  bj_createBatchJob :: "InternalBatchJob \<Rightarrow> ('w, unit) io"
  bj_cancelBatchJob :: "InternalBatchJob \<Rightarrow> ('w, unit) io"
  bj_deleteBatchJob :: "InternalBatchJob \<Rightarrow> ('w, unit) io"
  retry_Do :: "('w, unit) io \<Rightarrow> ('w, unit) io"

subsection \<open>Fine-tuning jobs\<close>

definition D_createJob :: "'w D \<Rightarrow> InternalJob \<Rightarrow> ('w, unit) io" where
  "D_createJob d job = tryE (d_preProcessor d job)
     (\<lambda>err. failing (\<lambda>uerr. Errorf (''pre-processing failed (also failed to update job phase: '' @ Error uerr @ ''): '' @ Error err))
        (ft_UpdateJobPhase (d_ftClient d)
          ((phase_request (Job_Id (IJ_Job job)) PHASE_FAILED)\<lparr>UJP_Message := ''Pre-processing failed: '' @ Error err\<rparr>)))
     (\<lambda>presult.
        bindE (ft_UpdateJobPhase (d_ftClient d) ((phase_request (Job_Id (IJ_Job job)) PHASE_PREPROCESSED)\<lparr>UJP_ModelId := OutputModelID presult\<rparr>)) (\<lambda>_.
        bindE (jm_createJob d job presult) (\<lambda>_.
        ft_UpdateJobPhase (d_ftClient d) (phase_request (Job_Id (IJ_Job job)) PHASE_JOB_CREATED))))"

definition process_job :: "'w D \<Rightarrow> InternalJob \<Rightarrow> ('w, unit) io" where
  "process_job d job =
     (if IJ_QueuedAction job = InternalJob_CREATING then D_createJob d job
      else if IJ_QueuedAction job = InternalJob_CANCELING then
        bindE (failing (\<lambda>e. Errorf (''failed to cancel the job: '' @ Error e)) (jm_cancelJob d job)) (\<lambda>_.
        failing (\<lambda>e. Errorf (''failed to update the job phase: '' @ Error e))
          (ft_UpdateJobPhase (d_ftClient d) (phase_request (Job_Id (IJ_Job job)) PHASE_CANCELED)))
      else throw (Errorf (''unknown queued action: '' @ enum_String InternalJob_Action_name (IJ_QueuedAction job))))"

definition processQueuedJobs :: "'w D \<Rightarrow> ('w, unit) io" where
  "processQueuedJobs d = bindE (ft_ListQueuedInternalJobs (d_ftClient d)) (forE (process_job d))"

subsection \<open>Notebooks\<close>

definition notebook_action :: "'w D \<Rightarrow> InternalNotebook \<Rightarrow> go_error + (('w, unit) io \<times> int)" where
  "notebook_action d nb =
     (if IN_QueuedAction nb = NotebookQueuedAction_STARTING then Inr (nb_createNotebook d nb, NotebookState_INITIALIZING)
      else if IN_QueuedAction nb = NotebookQueuedAction_STOPPING then Inr (nb_stopNotebook d nb, NotebookState_STOPPED)
      else if IN_QueuedAction nb = NotebookQueuedAction_DELETING then Inr (nb_deleteNotebook d nb, NotebookState_DELETED)
      else if IN_QueuedAction nb = NotebookQueuedAction_REQUEUEING then Inr (nb_deleteNotebook d nb, NotebookState_REQUEUED)
      else if IN_QueuedAction nb = NotebookQueuedAction_ACTION_UNSPECIFIED then Inl (Errorf ''notebook queued action is not specified'')
      else Inl (Errorf (''unknown notebook queued action: '' @ enum_String NotebookQueuedAction_name (IN_QueuedAction nb))))"

definition process_notebook :: "'w D \<Rightarrow> InternalNotebook \<Rightarrow> ('w, unit) io" where
  "process_notebook d nb = (case notebook_action d nb of Inl e \<Rightarrow> throw e
     | Inr (act, state) \<Rightarrow>
         bindE (failing (\<lambda>e. Errorf (''failed to '' @ enum_String NotebookQueuedAction_name (IN_QueuedAction nb) @ '' the notebook: '' @ Error e)) act) (\<lambda>_.
         ws_UpdateNotebookState (d_wsClient d) \<lparr>UNS_Id = Notebook_Id (IN_Notebook nb), UNS_State = state, UNS_Reason = []\<rparr>))"

definition processNotebooks :: "'w D \<Rightarrow> ('w, unit) io" where
  "processNotebooks d = bindE (ws_ListQueuedInternalNotebooks (d_wsClient d)) (forE (process_notebook d))"

subsection \<open>Batch jobs\<close>

definition batch_action :: "'w D \<Rightarrow> InternalBatchJob \<Rightarrow> go_error + (('w, unit) io \<times> int)" where
  "batch_action d job =
     (if IB_QueuedAction job = InternalBatchJob_CREATING then Inr (bj_createBatchJob d job, InternalBatchJob_RUNNING)
      else if IB_QueuedAction job = InternalBatchJob_CANCELING then Inr (bj_cancelBatchJob d job, InternalBatchJob_CANCELED)
      else if IB_QueuedAction job = InternalBatchJob_DELETING then Inr (bj_deleteBatchJob d job, InternalBatchJob_DELETED)
      else if IB_QueuedAction job = InternalBatchJob_ACTION_UNSPECIFIED then Inl (Errorf ''batch job queued action is not specified'')
      else Inl (Errorf (''unknown batch job queued action: '' @ enum_String InternalBatchJob_Action_name (IB_QueuedAction job))))"

definition process_batch_job :: "'w D \<Rightarrow> InternalBatchJob \<Rightarrow> ('w, unit) io" where
  "process_batch_job d job = (case batch_action d job of Inl e \<Rightarrow> throw e
     | Inr (act, state) \<Rightarrow>
         bindE (failing (\<lambda>e. Errorf (''failed to '' @ enum_String InternalBatchJob_Action_name (IB_QueuedAction job) @ '' the batch job: '' @ Error e)) act) (\<lambda>_.
         bw_UpdateBatchJobState (d_bwClient d) \<lparr>UBS_Id = BatchJob_Id (IB_Job job), UBS_State = state, UBS_Reason = [], UBS_Message = []\<rparr>))"

definition processBatchJobs :: "'w D \<Rightarrow> ('w, unit) io" where
  "processBatchJobs d = bindE (bw_ListQueuedInternalBatchJobs (d_bwClient d)) (forE (process_batch_job d))"

subsection \<open>The workers\<close>

text \<open>
  A worker of \<^verbatim>\<open>Start\<close>: one round at once, which is not retried, then a round with retries per tick that is delivered before the context is done.
\<close>

definition worker :: "'w D \<Rightarrow> ('w, unit) io \<Rightarrow> unit list \<Rightarrow> go_error \<Rightarrow> ('w, unit) io" where
  "worker d fn ticks ctx_Err = bindE fn (\<lambda>_. bindE (forE (\<lambda>_. retry_Do d fn) ticks) (\<lambda>_. throw ctx_Err))"

section \<open>What a dispatcher does through its collaborators\<close>

text \<open>
  \<open>retrier\<close>: a retry runs the function some times in sequence and stops at the first success; the errors of the failed attempts are combined into one.
\<close>

fun attempts :: "nat \<Rightarrow> ('w, unit) io \<Rightarrow> ('w, unit) io" where
  "attempts 0 m = m"
| "attempts (Suc n) m = catchE m (\<lambda>e. attempts n m)"

locale retrier =
  fixes retry :: "('w, unit) io \<Rightarrow> ('w, unit) io" and limit :: nat
  assumes retry_attempts: "\<exists>n f. n \<le> limit \<and> retry m w = failing f (attempts n m) w"
begin

lemma tracks_attempts: "transp R \<Longrightarrow> tracks R m \<Longrightarrow> tracks R (attempts n m)"
  by (induction n) (auto intro: tracks_catchE)

lemma retry_run: obtains n f where "retry m w = failing f (attempts n m) w"
  using retry_attempts by blast

lemma tracks_retry: "transp R \<Longrightarrow> tracks R m \<Longrightarrow> tracks R (retry m)"
  unfolding tracks_def [of R "retry m"]
proof
  fix w
  assume R: "transp R" "tracks R m"
  obtain n f where "retry m w = failing f (attempts n m) w" by (rule retry_run)
  then show "R w (snd (retry m w))"
    using tracks_failing [OF tracks_attempts [OF R]] by (simp add: tracks_def)
qed

lemma attempts_ok: "achieves P m Q \<Longrightarrow> achieves P (attempts n m) Q"
  by (induction n) (auto intro: achieves_catchE)

lemma achieves_retry: "achieves P m Q \<Longrightarrow> achieves P (retry m) Q"
  unfolding achieves_def [of P "retry m"]
proof (intro allI impI)
  fix w
  assume ok: "achieves P m Q" "P w"
  obtain n f where "retry m w = failing f (attempts n m) w" by (rule retry_run)
  then show "\<exists>x w'. retry m w = (Inr x, w') \<and> Q x w'"
    using achievesD [OF achieves_failing [OF attempts_ok [OF ok(1)]] ok(2)] by simp
qed

end

text \<open>The source sets \<^verbatim>\<open>retry.Attempts(5)\<close>: one attempt and four more.\<close>

lemma failing_id: "failing (\<lambda>e. e) m = m"
  by (rule ext) (auto simp: failing_def split: prod.split sum.split)

interpretation five: retrier "attempts 4" 4
  by unfold_locales (metis failing_id order_refl)

text \<open>
  The collaborators of a dispatcher that all move the world along one preorder: then so do the rounds and the workers.
\<close>

locale tracking_dispatcher =
  fixes d :: "'w D" and R :: "'w \<Rightarrow> 'w \<Rightarrow> bool" and limit :: nat
  assumes preorder: "reflp R" "transp R"
    and retries: "retrier (retry_Do d) limit"
    and ft: "tracks R (ft_ListQueuedInternalJobs (d_ftClient d))" "tracks R (ft_UpdateJobPhase (d_ftClient d) q1)"
    and ws: "tracks R (ws_ListQueuedInternalNotebooks (d_wsClient d))" "tracks R (ws_UpdateNotebookState (d_wsClient d) q2)"
    and bw: "tracks R (bw_ListQueuedInternalBatchJobs (d_bwClient d))" "tracks R (bw_UpdateBatchJobState (d_bwClient d) q3)"
    and jm: "tracks R (d_preProcessor d job)" "tracks R (jm_createJob d job presult)" "tracks R (jm_cancelJob d job)"
    and nm: "tracks R (nb_createNotebook d nb)" "tracks R (nb_stopNotebook d nb)" "tracks R (nb_deleteNotebook d nb)"
    and bm: "tracks R (bj_createBatchJob d bj)" "tracks R (bj_cancelBatchJob d bj)" "tracks R (bj_deleteBatchJob d bj)"
begin

lemmas collaborators = preorder ft ws bw jm nm bm

lemma process_job_tracks: "tracks R (process_job d job)"
  unfolding process_job_def D_createJob_def by (intro tracks_intros collaborators)

lemma process_notebook_tracks: "tracks R (process_notebook d nb)"
  unfolding process_notebook_def notebook_action_def
  by (auto intro!: tracks_intros collaborators)

lemma process_batch_job_tracks: "tracks R (process_batch_job d bj)"
  unfolding process_batch_job_def batch_action_def
  by (auto intro!: tracks_intros collaborators)

lemma rounds_track: "tracks R (processQueuedJobs d)" "tracks R (processNotebooks d)" "tracks R (processBatchJobs d)"
  unfolding processQueuedJobs_def processNotebooks_def processBatchJobs_def
  by (intro tracks_intros collaborators process_job_tracks process_notebook_tracks process_batch_job_tracks)+

lemma worker_tracks: "tracks R fn \<Longrightarrow> tracks R (worker d fn ticks err)"
  unfolding worker_def by (intro tracks_intros collaborators retrier.tracks_retry [OF retries])

end

end
