(* ===== verification/Fleet.thy ===== *)
theory Fleet
  imports System Dispatcher
begin

text \<open>
  A cluster and the server together, wired as in \<^verbatim>\<open>dispatcher/cmd/run.go\<close>: the clients of the dispatcher are the server's own handlers behind a network.
  The \<open>n\<close>-th remote call is made at the time \<open>net_clock n\<close>; before it arrives the server has served the calls \<open>net_others n\<close> of anyone else; it is
  delivered, or its request or its response is lost. So every interleaving of a round of the dispatcher with other calls is covered,
  as well as calls that took effect although the dispatcher sees an error.

  \<open>fleet_trace\<close> says that the server has moved by a sequence of calls each of which is a report of this cluster or a call of someone else;
  \<open>tracking_dispatcher\<close> is interpreted on the whole dispatcher with this relation.
\<close>

section \<open>The network\<close>

datatype delivery = Delivered | RequestLost go_error | ResponseLost go_error

record network =
  net_clock :: "nat \<Rightarrow> time"
  net_delivery :: "nat \<Rightarrow> delivery"
  net_others :: "nat \<Rightarrow> (time \<times> server_call) list"

record 'k fleet =
  fl_server :: server_state
  fl_rpcs :: nat
  fl_kube :: 'k
  fl_published :: "string list"

text \<open>gRPC sends an error that is not a status error as one: its code, or \<^verbatim>\<open>Unknown\<close>, and its text.\<close>

fun grpc_error :: "go_error \<Rightarrow> go_error" where
  "grpc_error (Status c m) = Status c m"
| "grpc_error e = Status (status_Code e) (Error e)"

definition rpc :: "network \<Rightarrow> server_env \<Rightarrow> (time \<Rightarrow> server_state \<Rightarrow> (go_error + 'a) \<times> server_state) \<Rightarrow> ('k fleet, 'a) io" where
  "rpc net env h w =
     (let n = fl_rpcs w; st = serves env (net_others net n) (fl_server w); w1 = w\<lparr>fl_rpcs := Suc n, fl_server := st\<rparr>
      in case net_delivery net n of
           RequestLost e \<Rightarrow> (Inl e, w1)
         | ResponseLost e \<Rightarrow> (Inl e, w1\<lparr>fl_server := snd (h (net_clock net n) st)\<rparr>)
         | Delivered \<Rightarrow> (case h (net_clock net n) st of
               (Inl e, st') \<Rightarrow> (Inl (grpc_error e), w1\<lparr>fl_server := st'\<rparr>) | (Inr x, st') \<Rightarrow> (Inr x, w1\<lparr>fl_server := st'\<rparr>)))"

lemma serves_append: "serves env (xs @ ys) st = serves env ys (serves env xs st)"
  by (simp add: serves_def)

lemma serves_Nil [simp]: "serves env [] st = st"
  by (simp add: serves_def)

text \<open>A network on which every call is delivered and nobody else calls.\<close>

definition quiet :: "network \<Rightarrow> bool" where
  "quiet net \<longleftrightarrow> (\<forall>n. net_delivery net n = Delivered \<and> net_others net n = [])"

lemma quiet_rpc:
  assumes "quiet net" and "h (net_clock net (fl_rpcs w)) (fl_server w) = (Inr x, st')"
  shows "rpc net env h w = (Inr x, w\<lparr>fl_rpcs := Suc (fl_rpcs w), fl_server := st'\<rparr>)"
  using assms by (simp add: rpc_def quiet_def Let_def)

lemma quiet_rpc_error:
  assumes "quiet net" and "h (net_clock net (fl_rpcs w)) (fl_server w) = (Inl e, st')"
  shows "rpc net env h w = (Inl (grpc_error e), w\<lparr>fl_rpcs := Suc (fl_rpcs w), fl_server := st'\<rparr>)"
  using assms by (simp add: rpc_def quiet_def Let_def)

definition rpc_read :: "network \<Rightarrow> server_env \<Rightarrow> (time \<Rightarrow> server_state \<Rightarrow> go_error + 'a) \<Rightarrow> ('k fleet, 'a) io" where
  "rpc_read net env h = rpc net env (\<lambda>now st. (h now st, st))"

definition fleet_ftClient :: "network \<Rightarrow> server_env \<Rightarrow> context_info \<Rightarrow> 'k fleet ftClient" where
  "fleet_ftClient net env ctx = \<lparr>
     ft_ListQueuedInternalJobs = rpc_read net env (\<lambda>now. ListQueuedInternalJobs env now ctx),
     ft_GetInternalJob = (\<lambda>k. rpc_read net env (\<lambda>now. GetInternalJob env now ctx k)),
     ft_UpdateJobPhase = (\<lambda>req. rpc net env (\<lambda>now. UpdateJobPhase env now ctx req))\<rparr>"

definition fleet_wsClient :: "network \<Rightarrow> server_env \<Rightarrow> context_info \<Rightarrow> 'k fleet wsClient" where
  "fleet_wsClient net env ctx = \<lparr>
     ws_ListQueuedInternalNotebooks = rpc_read net env (\<lambda>now. ListQueuedInternalNotebooks env now ctx),
     ws_UpdateNotebookState = (\<lambda>req. rpc net env (\<lambda>now. UpdateNotebookState env now ctx req))\<rparr>"

definition fleet_bwClient :: "network \<Rightarrow> server_env \<Rightarrow> context_info \<Rightarrow> 'k fleet bwClient" where
  "fleet_bwClient net env ctx = \<lparr>
     bw_ListQueuedInternalBatchJobs = rpc_read net env (\<lambda>now. ListQueuedInternalBatchJobs env now ctx),
     bw_GetInternalBatchJob = (\<lambda>k. rpc_read net env (\<lambda>now. GetInternalBatchJob env now ctx k)),
     bw_UpdateBatchJobState = (\<lambda>req. rpc net env (\<lambda>now. UpdateBatchJobState env now ctx req))\<rparr>"

definition fleet_UpdateClusterStatus :: "network \<Rightarrow> server_env \<Rightarrow> context_info \<Rightarrow> ClusterStatus \<Rightarrow> ('k fleet, unit) io" where
  "fleet_UpdateClusterStatus net env ctx status = rpc net env (\<lambda>now. UpdateClusterStatus env now ctx (Some status))"

section \<open>The cluster\<close>

definition on_kube :: "('k, 'a) io \<Rightarrow> ('k fleet, 'a) io" where
  "on_kube m w = (case m (fl_kube w) of (r, k) \<Rightarrow> (r, w\<lparr>fl_kube := k\<rparr>))"

definition fleet_kube :: "'k kube \<Rightarrow> 'k fleet kube" where
  "fleet_kube K = \<lparr>k_GetJob = (\<lambda>nn. on_kube (k_GetJob K nn)), k_GetDeployment = (\<lambda>nn. on_kube (k_GetDeployment K nn)),
     k_ListPods = (\<lambda>ns ls. on_kube (k_ListPods K ns ls)), k_ListNodes = on_kube (k_ListNodes K), k_ListNodePools = on_kube (k_ListNodePools K),
     k_Write = (\<lambda>x. on_kube (k_Write K x)), k_IsNotFound = k_IsNotFound K, k_ToUnstructured = k_ToUnstructured K\<rparr>"

text \<open>The model manager publishes a model, or refuses.\<close>

definition fleet_PublishModel :: "(string \<Rightarrow> go_error + unit) \<Rightarrow> string \<Rightarrow> ('k fleet, unit) io" where
  "fleet_PublishModel publish m w = (case publish m of Inl e \<Rightarrow> (Inl e, w) | Inr _ \<Rightarrow> (Inr (), w\<lparr>fl_published := fl_published w @ [m]\<rparr>))"

section \<open>The dispatcher of a cluster\<close>

text \<open>
  What \<^verbatim>\<open>run\<close> builds from the configuration. The S3, file and model clients enter through \<open>pre\<close>, the result of \<^verbatim>\<open>PreProcessor.Process\<close> (a
  function, so this is the dispatcher of a run in which pre-processing returns), \<open>presign\<close>, \<open>filePath\<close> and \<open>publish\<close>.
\<close>

record services =
  svc_pre :: "InternalJob \<Rightarrow> go_error + PreProcessResult"
  svc_presign :: "string \<Rightarrow> string \<Rightarrow> duration \<Rightarrow> go_error + string"
  svc_filePath :: "string \<Rightarrow> go_error + (string \<times> string)"
  svc_publish :: "string \<Rightarrow> go_error + unit"

definition run_JobClient :: "'k kube \<Rightarrow> 's Config \<Rightarrow> 'k fleet JobClient" where
  "run_JobClient K c = \<lparr>jc_k8sClient = fleet_kube K, jc_jobConfig = cfg_Job c, jc_kueueConfig = KueueIntegration c, jc_workloadConfig = cfg_Workload c\<rparr>"

definition run_NotebookManager :: "network \<Rightarrow> server_env \<Rightarrow> context_info \<Rightarrow> 'k kube \<Rightarrow> 's Config \<Rightarrow> 'k fleet NotebookManager" where
  "run_NotebookManager net env ctx K c = NewNotebookManager (fleet_kube K) (fleet_wsClient net env ctx) (cfg_Notebook c) (cfg_Workload c)"

definition run_BatchJobManager :: "network \<Rightarrow> server_env \<Rightarrow> context_info \<Rightarrow> 'k kube \<Rightarrow> services \<Rightarrow> 's Config \<Rightarrow> 'k fleet BatchJobManager" where
  "run_BatchJobManager net env ctx K svc c = \<lparr>bm_k8sClient = fleet_kube K, bm_presign = svc_presign svc, bm_GetFilePath = svc_filePath svc,
     bm_bwClient = fleet_bwClient net env ctx, bm_llmaBaseURL = LLMarinerBaseURL (cfg_Notebook c), bm_wandbConfig = WandbAPIKeySecret (cfg_Job c),
     bm_kueueConfig = KueueIntegration c, bm_workloadConfig = cfg_Workload c, bm_s3Bucket = Bucket (cfg_S3 (ObjectStore c))\<rparr>"

definition run_LifecycleManager :: "network \<Rightarrow> server_env \<Rightarrow> context_info \<Rightarrow> 'k kube \<Rightarrow> services \<Rightarrow> 's Config \<Rightarrow> 'k fleet LifecycleManager" where
  "run_LifecycleManager net env ctx K svc c = \<lparr>lm_ftClient = fleet_ftClient net env ctx, lm_k8sClient = fleet_kube K,
     lm_postProcessor = (if Standalone c then NoopPostProcessor_Process else PostProcessor_Process (fleet_PublishModel (svc_publish svc)))\<rparr>"

definition run_dispatcher :: "network \<Rightarrow> server_env \<Rightarrow> context_info \<Rightarrow> 'k kube \<Rightarrow> services \<Rightarrow> 's Config \<Rightarrow> 'k fleet D" where
  "run_dispatcher net env ctx K svc c = \<lparr>d_ftClient = fleet_ftClient net env ctx, d_wsClient = fleet_wsClient net env ctx,
     d_bwClient = fleet_bwClient net env ctx,
     jm_createJob = JobClient_createJob (run_JobClient K c), jm_cancelJob = JobClient_cancelJob (run_JobClient K c),
     d_preProcessor = (\<lambda>job. lift_result (if Standalone c then NoopPreProcessor_Process job else svc_pre svc job)),
     nb_createNotebook = createNotebook (run_NotebookManager net env ctx K c), nb_stopNotebook = stopNotebook (run_NotebookManager net env ctx K c),
     nb_deleteNotebook = deleteNotebook (run_NotebookManager net env ctx K c),
     bj_createBatchJob = createBatchJob (run_BatchJobManager net env ctx K svc c), bj_cancelBatchJob = cancelBatchJob (run_BatchJobManager net env ctx K svc c),
     bj_deleteBatchJob = deleteBatchJob (run_BatchJobManager net env ctx K svc c), retry_Do = attempts 4\<rparr>"

section \<open>What a cluster does to the server\<close>

fun report_of :: "context_info \<Rightarrow> server_call \<Rightarrow> bool" where
  "report_of ctx (Call_UpdateJobPhase c req) = (c = ctx)"
| "report_of ctx (Call_UpdateNotebookState c req) = (c = ctx)"
| "report_of ctx (Call_UpdateBatchJobState c req) = (c = ctx)"
| "report_of ctx (Call_UpdateClusterStatus c req) = (c = ctx)"
| "report_of ctx _ = False"

text \<open>A call that satisfies \<open>P\<close>, or that somebody else has made; and a run of the server by such calls.\<close>

definition fleet_call :: "network \<Rightarrow> (server_call \<Rightarrow> bool) \<Rightarrow> time \<times> server_call \<Rightarrow> bool" where
  "fleet_call net P x \<longleftrightarrow> P (snd x) \<or> (\<exists>n. x \<in> set (net_others net n))"

definition fleet_trace :: "network \<Rightarrow> server_env \<Rightarrow> (server_call \<Rightarrow> bool) \<Rightarrow> 'k fleet \<Rightarrow> 'k fleet \<Rightarrow> bool" where
  "fleet_trace net env P w w' \<longleftrightarrow> 
     (\<exists>calls. fl_server w' = serves env calls (fl_server w) \<and> list_all (fleet_call net P) calls)"

lemma fleet_traceI: "fl_server w' = serves env calls (fl_server w) \<Longrightarrow> list_all (fleet_call net P) calls \<Longrightarrow> fleet_trace net env P w w'"
  for w w' :: "'k fleet"
  unfolding fleet_trace_def by blast

lemma fleet_trace_preorder:
  "reflp (fleet_trace net env P :: 'k fleet \<Rightarrow> 'k fleet \<Rightarrow> bool)" "transp (fleet_trace net env P :: 'k fleet \<Rightarrow> 'k fleet \<Rightarrow> bool)"
proof -
  show "reflp (fleet_trace net env P :: 'k fleet \<Rightarrow> 'k fleet \<Rightarrow> bool)"
    by (rule reflpI, rule fleet_traceI [of _ _ "[]"]) simp_all
  show "transp (fleet_trace net env P :: 'k fleet \<Rightarrow> 'k fleet \<Rightarrow> bool)"
  proof (rule transpI)
    fix w1 w2 w3 :: "'k fleet"
    assume "fleet_trace net env P w1 w2" "fleet_trace net env P w2 w3"
    then obtain xs ys where "fl_server w2 = serves env xs (fl_server w1)" "fl_server w3 = serves env ys (fl_server w2)"
      "list_all (fleet_call net P) xs" "list_all (fleet_call net P) ys"
      unfolding fleet_trace_def by blast
    then show "fleet_trace net env P w1 w3" by (intro fleet_traceI [of _ _ "xs @ ys"]) (simp_all add: serves_append)
  qed
qed

text \<open>A remote call is traced when its handler, at any time and state, does what a list of reports does.\<close>

lemma rpc_traced:
  assumes "\<And>now st. \<exists>calls. snd (h now st) = serves env calls st \<and> list_all (P \<circ> snd) calls"
  shows "tracks (fleet_trace net env P :: 'k fleet \<Rightarrow> 'k fleet \<Rightarrow> bool) (rpc net env h)"
  unfolding tracks_def
proof
  fix w :: "'k fleet"
  let ?n = "fl_rpcs w"
  let ?st = "serves env (net_others net ?n) (fl_server w)"
  obtain calls where calls: "snd (h (net_clock net ?n) ?st) = serves env calls ?st" "list_all (P \<circ> snd) calls"
    using assms by blast
  have others: "list_all (fleet_call net P) (net_others net ?n)" by (auto simp: list_all_iff fleet_call_def)
  have "fl_server (snd (rpc net env h w)) = ?st \<or> fl_server (snd (rpc net env h w)) = serves env calls ?st"
    using calls(1) by (auto simp: rpc_def Let_def split: delivery.split prod.split sum.split)
  then show "fleet_trace net env P w (snd (rpc net env h w))"
  proof
    assume "fl_server (snd (rpc net env h w)) = ?st"
    then show ?thesis by (rule fleet_traceI) (rule others)
  next
    assume "fl_server (snd (rpc net env h w)) = serves env calls ?st"
    then show ?thesis
      using others calls(2) by (intro fleet_traceI [of _ _ "net_others net ?n @ calls"]) (auto simp: serves_append list_all_iff fleet_call_def)
  qed
qed

lemma rpc_read_traced: "tracks (fleet_trace net env P) (rpc_read net env h)"
  unfolding rpc_read_def by (rule rpc_traced) (auto intro: exI [of _ "[]"])

lemma report_traced:
  "tracks (fleet_trace net env (report_of ctx)) (rpc net env (\<lambda>now. UpdateJobPhase env now ctx req))"
  "tracks (fleet_trace net env (report_of ctx)) (rpc net env (\<lambda>now. UpdateNotebookState env now ctx nreq))"
  "tracks (fleet_trace net env (report_of ctx)) (rpc net env (\<lambda>now. UpdateBatchJobState env now ctx breq))"
  "tracks (fleet_trace net env (report_of ctx)) (rpc net env (\<lambda>now. UpdateClusterStatus env now ctx creq))"
proof -
  have one: "\<exists>calls. serve env now call st = serves env calls st \<and> list_all (report_of ctx \<circ> snd) calls"
    if "report_of ctx call" for now call st
    using that by (intro exI [of _ "[(now, call)]"]) (simp add: serves_def)
  show "tracks (fleet_trace net env (report_of ctx)) (rpc net env (\<lambda>now. UpdateJobPhase env now ctx req))"
    by (rule rpc_traced) (use one [of "Call_UpdateJobPhase ctx req"] in simp)
  show "tracks (fleet_trace net env (report_of ctx)) (rpc net env (\<lambda>now. UpdateNotebookState env now ctx nreq))"
    by (rule rpc_traced) (use one [of "Call_UpdateNotebookState ctx nreq"] in simp)
  show "tracks (fleet_trace net env (report_of ctx)) (rpc net env (\<lambda>now. UpdateBatchJobState env now ctx breq))"
    by (rule rpc_traced) (use one [of "Call_UpdateBatchJobState ctx breq"] in simp)
  show "tracks (fleet_trace net env (report_of ctx)) (rpc net env (\<lambda>now. UpdateClusterStatus env now ctx creq))"
    by (rule rpc_traced) (use one [of "Call_UpdateClusterStatus ctx creq"] in simp)
qed

lemma on_kube_traced: "tracks (fleet_trace net env P) (on_kube m)"
  by (auto simp: tracks_def on_kube_def split: prod.split intro!: fleet_traceI [of _ _ "[]"])

lemma publish_traced: "tracks (fleet_trace net env P) (fleet_PublishModel p m)"
  by (auto simp: tracks_def fleet_PublishModel_def split: sum.split intro!: fleet_traceI [of _ _ "[]"])

lemma run_sel [simp]:
  "lm_ftClient (run_LifecycleManager net env ctx K svc c) = fleet_ftClient net env ctx"
  "lm_k8sClient (run_LifecycleManager net env ctx K svc c) = fleet_kube K"
  "nm_k8sClient (run_NotebookManager net env ctx K c) = fleet_kube K"
  "nm_wsClient (run_NotebookManager net env ctx K c) = fleet_wsClient net env ctx"
  "bm_k8sClient (run_BatchJobManager net env ctx K svc c) = fleet_kube K"
  "bm_bwClient (run_BatchJobManager net env ctx K svc c) = fleet_bwClient net env ctx"
  "jc_k8sClient (run_JobClient K c) = fleet_kube K"
  by (simp_all add: run_LifecycleManager_def run_NotebookManager_def NewNotebookManager_def run_BatchJobManager_def run_JobClient_def)

lemmas calls_traced = rpc_read_traced report_traced on_kube_traced publish_traced fleet_trace_preorder

lemma k_Write_unit_traced: "tracks (fleet_trace net env (report_of ctx)) (k_Write_unit (fleet_kube K) x)"
  unfolding k_Write_unit_def by (intro tracks_intros calls_traced) (simp add: fleet_kube_def on_kube_traced)

lemma kube_traced:
  "tracks (fleet_trace net env (report_of ctx)) (k_GetJob (fleet_kube K) nn)" "tracks (fleet_trace net env (report_of ctx)) (k_GetDeployment (fleet_kube K) nn)"
  "tracks (fleet_trace net env (report_of ctx)) (k_ListPods (fleet_kube K) ns ls)" "tracks (fleet_trace net env (report_of ctx)) (k_ListNodes (fleet_kube K))"
  "tracks (fleet_trace net env (report_of ctx)) (k_ListNodePools (fleet_kube K))" "tracks (fleet_trace net env (report_of ctx)) (k_Write (fleet_kube K) x)"
  by (simp_all add: fleet_kube_def on_kube_traced)

lemma client_traced:
  "tracks (fleet_trace net env (report_of ctx)) (ft_ListQueuedInternalJobs (fleet_ftClient net env ctx))"
  "tracks (fleet_trace net env (report_of ctx)) (ft_GetInternalJob (fleet_ftClient net env ctx) k)"
  "tracks (fleet_trace net env (report_of ctx)) (ft_UpdateJobPhase (fleet_ftClient net env ctx) q1)"
  "tracks (fleet_trace net env (report_of ctx)) (ws_ListQueuedInternalNotebooks (fleet_wsClient net env ctx))"
  "tracks (fleet_trace net env (report_of ctx)) (ws_UpdateNotebookState (fleet_wsClient net env ctx) q2)"
  "tracks (fleet_trace net env (report_of ctx)) (bw_ListQueuedInternalBatchJobs (fleet_bwClient net env ctx))"
  "tracks (fleet_trace net env (report_of ctx)) (bw_GetInternalBatchJob (fleet_bwClient net env ctx) k)"
  "tracks (fleet_trace net env (report_of ctx)) (bw_UpdateBatchJobState (fleet_bwClient net env ctx) q3)"
  "tracks (fleet_trace net env (report_of ctx)) (fleet_UpdateClusterStatus net env ctx status)"
  by (simp_all add: fleet_ftClient_def fleet_wsClient_def fleet_bwClient_def fleet_UpdateClusterStatus_def calls_traced)

lemmas fleet_traced = client_traced kube_traced k_Write_unit_traced publish_traced fleet_trace_preorder

lemma JobClient_traced:
  "tracks (fleet_trace net env (report_of ctx)) (JobClient_createJob (run_JobClient K c) job presult)"
  "tracks (fleet_trace net env (report_of ctx)) (JobClient_cancelJob (run_JobClient K c) job)"
  unfolding JobClient_createJob_def JobClient_cancelJob_def run_sel Let_def by (intro tracks_intros fleet_traced)+

lemma applyObject_traced:
  "tracks (fleet_trace net env (report_of ctx)) (NotebookManager_applyObject (run_NotebookManager net' env' ctx' K c) obj)"
  "tracks (fleet_trace net env (report_of ctx)) (BatchJobManager_applyObject (run_BatchJobManager net' env' ctx' K svc c) obj)"
  unfolding NotebookManager_applyObject_def BatchJobManager_applyObject_def run_sel by (intro tracks_intros fleet_traced)+

lemma NotebookManager_traced:
  "tracks (fleet_trace net env (report_of ctx)) (createNotebook (run_NotebookManager net env ctx K c) nb)"
  "tracks (fleet_trace net env (report_of ctx)) (stopNotebook (run_NotebookManager net env ctx K c) nb)"
  "tracks (fleet_trace net env (report_of ctx)) (deleteNotebook (run_NotebookManager net env ctx K c) nb)"
  unfolding createNotebook_def stopNotebook_def deleteNotebook_def run_sel
  by (intro tracks_intros fleet_traced applyObject_traced)+

lemma BatchJobManager_traced:
  "tracks (fleet_trace net env (report_of ctx)) (createBatchJob (run_BatchJobManager net env ctx K svc c) bj)"
  "tracks (fleet_trace net env (report_of ctx)) (cancelBatchJob (run_BatchJobManager net env ctx K svc c) bj)"
  "tracks (fleet_trace net env (report_of ctx)) (deleteBatchJob (run_BatchJobManager net env ctx K svc c) bj)"
  unfolding createBatchJob_def cancelBatchJob_def deleteBatchJob_def Let_def run_sel
  by (intro tracks_intros fleet_traced applyObject_traced)+

interpretation fleet_rounds: tracking_dispatcher "run_dispatcher net env ctx K svc c" "fleet_trace net env (report_of ctx)" 4
  for net env ctx K svc and c :: "'s Config"
  by (rule tracking_dispatcher.intro)
    (simp_all add: run_dispatcher_def fleet_traced JobClient_traced NotebookManager_traced BatchJobManager_traced five.retrier_axioms tracks_result)

text \<open>The reconcilers and the status reporter of the cluster are traced in the same way.\<close>

lemma reap_canceled_traced: "tracks (fleet_trace net env (report_of ctx)) (reap_canceled (fleet_kube K) now s job)"
  unfolding reap_canceled_def Let_def by (intro tracks_intros fleet_traced)

lemma postProcessor_traced: "tracks (fleet_trace net env (report_of ctx)) (lm_postProcessor (run_LifecycleManager net env ctx K svc c) ijob)"
  by (simp add: run_LifecycleManager_def PostProcessor_Process_def NoopPostProcessor_Process_def tracks_result fleet_traced)

lemma Reconcile_traced:
  "tracks (fleet_trace net env (report_of ctx)) (LifecycleManager_Reconcile (run_LifecycleManager net env ctx K svc c) now nn)"
  "tracks (fleet_trace net env (report_of ctx)) (NotebookManager_Reconcile (run_NotebookManager net env ctx K c) nn)"
  "tracks (fleet_trace net env (report_of ctx)) (BatchJobManager_Reconcile (run_BatchJobManager net env ctx K svc c) now nn)"
proof -
  show "tracks (fleet_trace net env (report_of ctx)) (LifecycleManager_Reconcile (run_LifecycleManager net env ctx K svc c) now nn)"
    unfolding LifecycleManager_Reconcile_def reconcile_missing_def reconcile_state_def reconcile_finished_def getTerminationLog_def run_sel
    by (intro tracks_intros fleet_traced reap_canceled_traced postProcessor_traced)
  show "tracks (fleet_trace net env (report_of ctx)) (NotebookManager_Reconcile (run_NotebookManager net env ctx K c) nn)"
    unfolding NotebookManager_Reconcile_def Let_def run_sel by (intro tracks_intros fleet_traced)
  show "tracks (fleet_trace net env (report_of ctx)) (BatchJobManager_Reconcile (run_BatchJobManager net env ctx K svc c) now nn)"
    unfolding BatchJobManager_Reconcile_def batch_reconcile_state_def batch_reconcile_finished_def run_sel
    by (intro tracks_intros fleet_traced reap_canceled_traced)
qed

lemma status_traced: "tracks (fleet_trace net env (report_of ctx)) (updateClusterStaus (fleet_kube K) A (fleet_UpdateClusterStatus net env ctx))"
  unfolding updateClusterStaus_def buildClusterStaus_def by (intro tracks_intros fleet_traced)

text \<open>Everything that runs in a cluster.\<close>

inductive cluster_activity :: "network \<Rightarrow> server_env \<Rightarrow> context_info \<Rightarrow> 'k kube \<Rightarrow> services \<Rightarrow> 's Config \<Rightarrow> 'k fleet \<Rightarrow> 'k fleet \<Rightarrow> bool"
  for net env ctx K svc c where
  jobs: "cluster_activity net env ctx K svc c w (snd (worker (run_dispatcher net env ctx K svc c) (processQueuedJobs (run_dispatcher net env ctx K svc c)) ticks err w))"
| notebooks: "cluster_activity net env ctx K svc c w (snd (worker (run_dispatcher net env ctx K svc c) (processNotebooks (run_dispatcher net env ctx K svc c)) ticks err w))"
| batch_jobs: "cluster_activity net env ctx K svc c w (snd (worker (run_dispatcher net env ctx K svc c) (processBatchJobs (run_dispatcher net env ctx K svc c)) ticks err w))"
| job_reconciler: "cluster_activity net env ctx K svc c w (snd (LifecycleManager_Reconcile (run_LifecycleManager net env ctx K svc c) now nn w))"
| notebook_reconciler: "cluster_activity net env ctx K svc c w (snd (NotebookManager_Reconcile (run_NotebookManager net env ctx K c) nn w))"
| batch_reconciler: "cluster_activity net env ctx K svc c w (snd (BatchJobManager_Reconcile (run_BatchJobManager net env ctx K svc c) now nn w))"
| status_report: "cluster_activity net env ctx K svc c w (snd (updateClusterStaus (fleet_kube K) A (fleet_UpdateClusterStatus net env ctx) w))"

lemma cluster_activity_trace: "cluster_activity net env ctx K svc c w w' \<Longrightarrow> fleet_trace net env (report_of ctx) w w'"
  by (induction rule: cluster_activity.induct)
    (rule tracksD [OF _ prod.collapse [symmetric]]; intro fleet_rounds.worker_tracks fleet_rounds.rounds_track Reconcile_traced status_traced)+

lemma cluster_activities_trace:
  assumes "(cluster_activity net env ctx K svc c)\<^sup>*\<^sup>* w w'"
  shows "fleet_trace net env (report_of ctx) w w'"
  using assms
proof (induction rule: rtranclp_induct)
  case base
  show ?case by (rule reflpD [OF fleet_trace_preorder(1)])
next
  case (step y z)
  then show ?case using transpD [OF fleet_trace_preorder(2)] cluster_activity_trace by blast
qed

end
