(* ===== verification/Rounds.thy ===== *)
theory Rounds
  imports Fleet
begin

text \<open>
  A round of the dispatcher over the queued fine-tuning jobs when nothing goes wrong: every call is delivered, nobody else calls the server, the
  database and the cluster accept what they are asked to. Then the round returns and every queued job of the cluster has been settled: a job
  to be created is running and its Kubernetes job has been applied, a job to be canceled is canceled.
\<close>

section \<open>A server that can be reached\<close>

lemma quiet_report:
  assumes "quiet net" and "UpdateJobPhase env (net_clock net (fl_rpcs w)) ctx req (fl_server w) = (Inr (), st')"
  shows "rpc net env (\<lambda>now. UpdateJobPhase env now ctx req) w = (Inr (), w\<lparr>fl_rpcs := Suc (fl_rpcs w), fl_server := st'\<rparr>)"
  by (rule quiet_rpc [OF assms(1), where h = "\<lambda>now. UpdateJobPhase env now ctx req"]) (rule assms(2))

text \<open>The row of job \<open>k\<close> is written.\<close>

definition put_job :: "string \<Rightarrow> time \<Rightarrow> (Job \<Rightarrow> Job) \<Rightarrow> server_state \<Rightarrow> server_state" where
  "put_job k now f st = st\<lparr>st_jobs := set_rows (\<lambda>j. jJobID j = k) (job_touch now \<circ> f) (st_jobs st)\<rparr>"

lemma put_job_row:
  assumes "\<And>j. jJobID (f j) = jJobID j"
  shows "row_of jJobID (st_jobs (put_job k now f st)) = (row_of jJobID (st_jobs st))(k := map_option (job_touch now \<circ> f) (row_of jJobID (st_jobs st) k))"
    and "map jJobID (st_jobs (put_job k now f st)) = map jJobID (st_jobs st)"
  using assms by (simp_all add: put_job_def row_of_set_rows map_set_rows)

text \<open>The row \<open>r\<close> is stored and the worker with the context \<open>ctx\<close> may report on it.\<close>

definition reportable :: "server_env \<Rightarrow> context_info \<Rightarrow> ClusterInfo \<Rightarrow> server_state \<Rightarrow> Job \<Rightarrow> bool" where
  "reportable env ctx ci st r \<longleftrightarrow> reliable_job_db (jobDB env) \<and> distinct (map jJobID (st_jobs st)) \<and>
     extractClusterInfoFromContext (enableAuth env) ctx = Inr ci \<and>
     row_of jJobID (st_jobs st) (jJobID r) = Some r \<and> jTenantID r = ci_TenantID ci \<and> jJobID r \<noteq> []"

lemma report_applied:
  assumes "reportable env ctx ci st r" and "UJP_Id req = jJobID r"
  shows "UpdateJobPhase env now ctx req st = (let (res, t) = apply_phase env now req r (st_jobs st) in (res, st\<lparr>st_jobs := t\<rparr>))"
proof -
  have "GetJobByJobID (jobDB env) now (jJobID r) (st_jobs st) = Inr r"
    unfolding GetJobByJobID_def using assms by (auto simp: reportable_def intro!: reliable_gorm.take_key)
  then show ?thesis using assms by (auto simp: UpdateJobPhase_def reportable_def)
qed

lemma update_row:
  assumes "reportable env ctx ci st r" and "\<And>j. jJobID (f j) = jJobID j"
  shows "updates_versioned (jobDB env) jJobID jVersion what now zero_job (jJobID r) (jVersion r) f (st_jobs st) =
    (Inr (job_touch now (f zero_job)), set_rows (\<lambda>j. jJobID j = jJobID r) (job_touch now \<circ> f) (st_jobs st))"
  using assms by (auto simp: reportable_def intro!: reliable_gorm.updates_versioned_current_rows)

lemma report_preprocessed:
  assumes "reportable env ctx ci st r" "jState r = JobStateQueued" and "m \<noteq> []"
  shows "UpdateJobPhase env now ctx ((phase_request (jJobID r) PHASE_PREPROCESSED)\<lparr>UJP_ModelId := m\<rparr>) st =
    (Inr (), put_job (jJobID r) now (\<lambda>j. j\<lparr>jOutputModelID := m, jVersion := jVersion r + 1\<rparr>) st)"
  using assms(2,3) by (simp add: report_applied [OF assms(1)] phase_request_def apply_phase_def UpdateOutputModelID_def update_row [OF assms(1)] put_job_def)

lemma report_job_created:
  assumes "reportable env ctx ci st r" "jState r = JobStateQueued"
  shows "UpdateJobPhase env now ctx (phase_request (jJobID r) PHASE_JOB_CREATED) st =
    (Inr (), put_job (jJobID r) now (\<lambda>j. j\<lparr>jState := JobStateRunning, jQueuedAction := [], jVersion := jVersion r + 1\<rparr>) st)"
  using assms(2) by (simp add: report_applied [OF assms(1)] phase_request_def apply_phase_def UpdateJobState_def update_row [OF assms(1)] put_job_def)

lemma report_canceled:
  assumes "reportable env ctx ci st r" and "V1Job (jobCodec env) r = Inr p" and "Marshal (jobCodec env) (p\<lparr>Job_FinishedAt := Unix now\<rparr>) = Inr msg"
  shows "UpdateJobPhase env now ctx (phase_request (jJobID r) PHASE_CANCELED) st =
    (Inr (), put_job (jJobID r) now (\<lambda>j. j\<lparr>jState := JobStateCanceled, jQueuedAction := [], jMessage := msg, jVersion := jVersion r + 1\<rparr>) st)"
  using assms(2,3)
  by (simp add: report_applied [OF assms(1)] phase_request_def apply_phase_def finish_job_def Job_MutateMessage_def UpdateJobStateAndMessage_def
      update_row [OF assms(1)] put_job_def)

lemma report_finished:
  assumes "reportable env ctx ci st r" and "V1Job (jobCodec env) r = Inr p"
  shows "jState r = JobStateRunning \<Longrightarrow> m \<noteq> [] \<Longrightarrow>
      Marshal (jobCodec env) (p\<lparr>Job_FinishedAt := Unix now, Job_FineTunedModel := m\<rparr>) = Inr msg \<Longrightarrow>
      UpdateJobPhase env now ctx ((phase_request (jJobID r) PHASE_FINETUNED)\<lparr>UJP_ModelId := m\<rparr>) st =
      (Inr (), put_job (jJobID r) now (\<lambda>j. j\<lparr>jState := JobStateSucceeded, jQueuedAction := [], jMessage := msg, jVersion := jVersion r + 1\<rparr>) st)"
    and "Marshal (jobCodec env) (p\<lparr>Job_FinishedAt := Unix now,
        Job_Error_field := Some \<lparr>Job_Error_Code = [], Job_Error_Message = x, Job_Error_Param = []\<rparr>\<rparr>) = Inr msg \<Longrightarrow>
      UpdateJobPhase env now ctx ((phase_request (jJobID r) PHASE_FAILED)\<lparr>UJP_Message := x\<rparr>) st =
      (Inr (), put_job (jJobID r) now (\<lambda>j. j\<lparr>jState := JobStateFailed, jQueuedAction := [], jMessage := msg, jVersion := jVersion r + 1\<rparr>) st)"
  using assms(2)
  by (simp_all add: report_applied [OF assms(1)] phase_request_def apply_phase_def finish_job_def Job_MutateMessage_def UpdateJobStateAndMessage_def
      update_row [OF assms(1)] put_job_def)

lemma internal_job_read:
  assumes "reportable env ctx ci st r" and "V1InternalJob (jobCodec env) r = Inr ij"
  shows "GetInternalJob env now ctx (jJobID r) st = Inr ij"
proof -
  have "GetJobByJobID (jobDB env) now (jJobID r) (st_jobs st) = Inr r"
    unfolding GetJobByJobID_def using assms by (auto simp: reportable_def intro!: reliable_gorm.take_key)
  then show ?thesis using assms by (auto simp: GetInternalJob_def reportable_def)
qed

section \<open>The queued jobs\<close>

definition queued_here :: "ClusterInfo \<Rightarrow> Job \<Rightarrow> bool" where
  "queued_here ci j \<longleftrightarrow> jTenantID j = ci_TenantID ci \<and> jClusterID j = ci_ClusterID ci \<and> jState j = JobStateQueued"

lemma queued_listing:
  assumes db: "reliable_job_db (jobDB env)" and order: "is_order (\<lambda>x y :: Job. collation env (jJobID x) (jJobID y))"
    and wf: "jobs_wf (st_jobs st)" and ci: "extractClusterInfoFromContext (enableAuth env) ctx = Inr ci"
    and dec: "\<forall>j \<in> set (st_jobs st). queued_here ci j \<longrightarrow> (\<exists>p. Unmarshal (jobCodec env) (jMessage j) = Inr p)"
  shows "\<exists>rows ijobs. ListQueuedInternalJobs env now ctx st = Inr ijobs \<and> mset rows = mset (filter (queued_here ci) (st_jobs st)) \<and>
    list_all2 (\<lambda>j ij. V1InternalJob (jobCodec env) j = Inr ij \<and> IJ_State ij = InternalJob_QUEUED \<and>
      IJ_QueuedAction ij = (if jQueuedAction j = JobQueuedActionCreate then InternalJob_CREATING else InternalJob_CANCELING)) rows ijobs"
proof -
  let ?q = "\<lparr>q_where = queued_here ci, q_order = (\<lambda>x y. collation env (jJobID x) (jJobID y)), q_limit = None\<rparr>"
  let ?ok = "\<lambda>j ij. V1InternalJob (jobCodec env) j = Inr ij \<and> IJ_State ij = InternalJob_QUEUED \<and>
      IJ_QueuedAction ij = (if jQueuedAction j = JobQueuedActionCreate then InternalJob_CREATING else InternalJob_CANCELING)"
  obtain rows where find: "gFind (jobDB env) now ?q (st_jobs st) = Inr rows" using reliable_gorm.find_reliable [OF db] by blast
  have "find_result ?q (st_jobs st) rows"
    using gorm.find_found [OF reliable_gorm.axioms(1) [OF db] find] order by simp
  from find_result_mset [OF this] have rows: "mset rows = mset (filter (queued_here ci) (st_jobs st))" by simp
  have conv: "\<exists>ij. ?ok j ij" if "j \<in> set rows" for j
  proof -
    have j: "j \<in> set (st_jobs st)" "queued_here ci j" using that mset_eq_setD [OF rows] by auto
    then have "job_inv j" using wf by (auto simp: table_wf_def list_all_iff)
    then show ?thesis using j dec by (auto simp: job_inv_def queued_here_def V1InternalJob_def V1Job_def)
  qed
  then obtain ijobs where col: "collect (V1InternalJob (jobCodec env)) rows = Inr ijobs"
    using collect_total [of rows "V1InternalJob (jobCodec env)"] by blast
  have "list_all2 ?ok rows ijobs"
    using collect_ok [OF col] by (rule list.rel_mono_strong) (use conv in fastforce)
  moreover have "ListQueuedInternalJobs env now ctx st = Inr ijobs"
    using find col by (simp add: ListQueuedInternalJobs_def ci ListQueuedJobsByTenantIDAndClusterID_def queued_here_def [abs_def])
  ultimately show ?thesis using rows by blast
qed

section \<open>A cluster that accepts what it is asked to\<close>

locale willing_kube = kube_api +
  assumes apply_ok: "\<exists>a w'. k_Write K (W_Apply mgr obj) w = (Inr a, w')"
    and get_job_ok: "k_GetJob K nn w = (Inl e, w') \<Longrightarrow> k_IsNotFound K e"
    and suspend_ok: "k_GetJob K nn w = (Inr j, w') \<Longrightarrow> \<exists>a w''. k_Write K (W_UpdateJob mgr (j\<lparr>kj_Suspend := Some True\<rparr>)) w' = (Inr a, w'')"
    and convert_ok: "k_ToUnstructured K obj = Inr obj"
begin

lemma create_job_applied:
  assumes "jc_k8sClient p = fleet_kube K" and "jobSpec (jc_jobConfig p) (jc_workloadConfig p) (IJ_Job ijob) presult = Inr spec"
  shows "\<exists>k' meta. JobClient_createJob p ijob presult w = (Inr (), w\<lparr>fl_kube := k'\<rparr>) \<and>
    om_Name meta = Job_Id (IJ_Job ijob) \<and> om_Namespace meta = Job_KubernetesNamespace (IJ_Job ijob) \<and>
    accepted k' = accepted (fl_kube w) @ [W_Apply jobManagerName (Apply_Job meta spec)]"
proof -
  define meta where "meta = (new_meta (Job_Id (IJ_Job ijob)) (Job_KubernetesNamespace (IJ_Job ijob)))\<lparr>
     om_Annotations := [(managedJobAnnotationKey, ''true''), (jobIDAnnotationKey, Job_Id (IJ_Job ijob))],
     om_Labels := (if kueue_Enable (jc_kueueConfig p) then [(kueueQueueNameLabelKey, getQueueName p (Job_KubernetesNamespace (IJ_Job ijob)))] else [])\<rparr>"
  obtain a k' where k': "k_Write K (W_Apply jobManagerName (Apply_Job meta spec)) (fl_kube w) = (Inr a, k')" using apply_ok by blast
  have "JobClient_createJob p ijob presult w = (Inr (), w\<lparr>fl_kube := k'\<rparr>)"
    using k' by (simp add: JobClient_createJob_def assms fleet_kube_def convert_ok k_Write_unit_def bindE_def ret_def on_kube_def Let_def meta_def)
  moreover have "om_Name meta = Job_Id (IJ_Job ijob)" "om_Namespace meta = Job_KubernetesNamespace (IJ_Job ijob)"
    by (simp_all add: meta_def new_meta_def)
  ultimately show ?thesis using write_ok [OF k'] by blast
qed

lemma cancel_job_done:
  assumes "jc_k8sClient p = fleet_kube K"
  shows "\<exists>k' xs. JobClient_cancelJob p ijob w = (Inr (), w\<lparr>fl_kube := k'\<rparr>) \<and> accepted k' = accepted (fl_kube w) @ xs"
proof -
  let ?nn = "(Job_KubernetesNamespace (IJ_Job ijob), Job_Id (IJ_Job ijob))"
  obtain g k1 where g: "k_GetJob K ?nn (fl_kube w) = (g, k1)" by fastforce
  have k1: "k1 = fl_kube w" by (rule get_job [OF g])
  show ?thesis
  proof (cases g)
    case (Inl e)
    then show ?thesis
      using g get_job_ok [OF g [unfolded Inl]] k1
      by (intro exI [of _ "fl_kube w"] exI [of _ "[]"])
        (simp add: JobClient_cancelJob_def assms tryE_def fleet_kube_def on_kube_def lift_result_def IgnoreNotFound_def)
  next
    case (Inr j)
    obtain a k' where k': "k_Write K (W_UpdateJob jobManagerName (j\<lparr>kj_Suspend := Some True\<rparr>)) k1 = (Inr a, k')"
      using suspend_ok g Inr by blast
    then show ?thesis
      using g Inr write_ok [OF k'] k1
      by (auto simp: JobClient_cancelJob_def assms tryE_def fleet_kube_def on_kube_def k_Write_unit_def bindE_def ret_def)
  qed
qed

end

lemma live_job_name: "live_job nn ws = Some j \<Longrightarrow> (kj_Namespace j, kj_Name j) = nn"
  by (induction nn ws rule: live_job.induct) (auto split: if_splits)

interpretation sim_willing: willing_kube sim_kube "\<lambda>ws. ws"
proof unfold_locales
  fix nn mgr j w w'
  assume "k_GetJob sim_kube nn w = (Inr j, w')"
  then have "live_job nn (rev w) = Some j" "w' = w" by (auto simp: sim_kube_def split: option.splits)
  then show "\<exists>a w''. k_Write sim_kube (W_UpdateJob mgr (j\<lparr>kj_Suspend := Some True\<rparr>)) w' = (Inr a, w'')"
    using live_job_name [of nn "rev w" j] by (auto simp: sim_kube_def)
qed (auto simp: sim_kube_def split: option.splits)

section \<open>A round\<close>

text \<open>
  A queued row the dispatcher can settle: its message decodes to a message with the identifier of the row; when it is to be created,
  pre-processing yields a model and the specification of the Kubernetes job can be built; when it is to be canceled, its message can be written back
  with the time of the report.
\<close>

definition dispatchable :: "network \<Rightarrow> server_env \<Rightarrow> services \<Rightarrow> 's Config \<Rightarrow> Job \<Rightarrow> bool" where
  "dispatchable net env svc c r \<longleftrightarrow> (\<exists>ij. V1InternalJob (jobCodec env) r = Inr ij \<and> Job_Id (IJ_Job ij) = jJobID r \<and> jJobID r \<noteq> [] \<and>
     (if jQueuedAction r = JobQueuedActionCreate
      then (\<exists>presult spec. svc_pre svc ij = Inr presult \<and> OutputModelID presult \<noteq> [] \<and>
        jobSpec (cfg_Job c) (cfg_Workload c) (IJ_Job ij) presult = Inr spec)
      else (\<forall>n. \<exists>b. Marshal (jobCodec env) ((IJ_Job ij)\<lparr>Job_FinishedAt := Unix (net_clock net n)\<rparr>) = Inr b)))"

text \<open>What has become of a queued row \<open>r\<close>.\<close>

definition settled :: "server_env \<Rightarrow> services \<Rightarrow> kube_write list \<Rightarrow> Job list \<Rightarrow> Job \<Rightarrow> bool" where
  "settled env svc ws t r \<longleftrightarrow> (\<exists>r' ij. row_of jJobID t (jJobID r) = Some r' \<and> V1InternalJob (jobCodec env) r = Inr ij \<and> jQueuedAction r' = [] \<and>
     (if jQueuedAction r = JobQueuedActionCreate
      then jState r' = JobStateRunning \<and> jVersion r' = jVersion r + 2 \<and>
        (\<exists>presult meta spec. svc_pre svc ij = Inr presult \<and> jOutputModelID r' = OutputModelID presult \<and>
          W_Apply jobManagerName (Apply_Job meta spec) \<in> set ws \<and> om_Name meta = jJobID r \<and> om_Namespace meta = Job_KubernetesNamespace (IJ_Job ij))
      else jState r' = JobStateCanceled \<and> jVersion r' = jVersion r + 1))"

lemma settled_writes: "settled env svc ws t r \<Longrightarrow> settled env svc (ws @ xs) t r"
  unfolding settled_def by (simp split: if_splits) blast+

lemma settled_row: "row_of jJobID t' (jJobID r) = row_of jJobID t (jJobID r) \<Longrightarrow> settled env svc ws t r \<Longrightarrow> settled env svc ws t' r"
  unfolding settled_def by simp

text \<open>What is true after the rows \<open>past\<close> of the table \<open>t0\<close> have been processed.\<close>

definition progress :: "server_env \<Rightarrow> services \<Rightarrow> ('k \<Rightarrow> kube_write list) \<Rightarrow> Job list \<Rightarrow> Job list \<Rightarrow> 'k fleet \<Rightarrow> bool" where
  "progress env svc accepted t0 past w \<longleftrightarrow> map jJobID (st_jobs (fl_server w)) = map jJobID t0 \<and>
     (\<forall>k. k \<notin> jJobID ` set past \<longrightarrow> row_of jJobID (st_jobs (fl_server w)) k = row_of jJobID t0 k) \<and>
     (\<forall>r \<in> set past. settled env svc (accepted (fl_kube w)) (st_jobs (fl_server w)) r)"

lemma progress_step:
  assumes "progress env svc accepted t0 past w" and "jJobID r \<notin> jJobID ` set past"
    and "map jJobID (st_jobs (fl_server w')) = map jJobID (st_jobs (fl_server w))"
    and "row_of jJobID (st_jobs (fl_server w')) = (row_of jJobID (st_jobs (fl_server w)))(jJobID r := Some r')"
    and "accepted (fl_kube w') = accepted (fl_kube w) @ xs"
    and "settled env svc (accepted (fl_kube w')) (st_jobs (fl_server w')) r"
  shows "progress env svc accepted t0 (past @ [r]) w'"
proof -
  have "settled env svc (accepted (fl_kube w')) (st_jobs (fl_server w')) q" if "q \<in> set past" for q :: Job
  proof -
    have "jJobID q \<noteq> jJobID r" using assms(2) that by (metis imageI)
    then show ?thesis
      using settled_row [of "st_jobs (fl_server w')" q "st_jobs (fl_server w)"] settled_writes assms(1,4,5) that
      by (fastforce simp: progress_def)
  qed
  then show ?thesis using assms by (auto simp: progress_def)
qed

context willing_kube
begin

lemma create_settles:
  assumes net: "quiet net" and std: "\<not> Standalone c" and rep: "reportable env ctx ci (fl_server w) r"
    and q: "jState r = JobStateQueued" "jQueuedAction r = JobQueuedActionCreate" and ij: "V1InternalJob (jobCodec env) r = Inr ij"
    and disp: "dispatchable net env svc c r" and act: "IJ_QueuedAction ij = InternalJob_CREATING"
  shows "\<exists>w' r' x. process_job (run_dispatcher net env ctx K svc c) ij w = (Inr (), w') \<and>
    map jJobID (st_jobs (fl_server w')) = map jJobID (st_jobs (fl_server w)) \<and>
    row_of jJobID (st_jobs (fl_server w')) = (row_of jJobID (st_jobs (fl_server w)))(jJobID r := Some r') \<and>
    accepted (fl_kube w') = accepted (fl_kube w) @ [x] \<and> settled env svc (accepted (fl_kube w')) (st_jobs (fl_server w')) r"
proof -
  obtain presult spec where pre: "svc_pre svc ij = Inr presult" "OutputModelID presult \<noteq> []"
    and spec: "jobSpec (jc_jobConfig (run_JobClient K c)) (jc_workloadConfig (run_JobClient K c)) (IJ_Job ij) presult = Inr spec" and id: "Job_Id (IJ_Job ij) = jJobID r"
    using disp ij q unfolding dispatchable_def by (auto simp: run_JobClient_def)
  let ?f = "\<lambda>j. j\<lparr>jOutputModelID := OutputModelID presult, jVersion := jVersion r + 1\<rparr>"
  let ?now = "net_clock net (fl_rpcs w)" and ?now' = "net_clock net (Suc (fl_rpcs w))"
  define r1 where "r1 = job_touch ?now (?f r)"
  let ?g = "\<lambda>j. j\<lparr>jState := JobStateRunning, jQueuedAction := [], jVersion := jVersion r1 + 1\<rparr>"
  define w1 where "w1 = w\<lparr>fl_rpcs := Suc (fl_rpcs w), fl_server := put_job (jJobID r) ?now ?f (fl_server w)\<rparr>"
  have one: "rpc net env (\<lambda>now. UpdateJobPhase env now ctx ((phase_request (jJobID r) PHASE_PREPROCESSED)\<lparr>UJP_ModelId := OutputModelID presult\<rparr>)) w = (Inr (), w1)"
    unfolding w1_def by (rule quiet_report [OF net report_preprocessed [OF rep q(1) pre(2)]])
  have row: "row_of jJobID (st_jobs (fl_server w)) (jJobID r) = Some r" using rep by (simp add: reportable_def)
  have rows1: "row_of jJobID (st_jobs (fl_server w1)) = (row_of jJobID (st_jobs (fl_server w)))(jJobID r := Some r1)"
    "map jJobID (st_jobs (fl_server w1)) = map jJobID (st_jobs (fl_server w))"
    using row by (simp_all add: w1_def put_job_row r1_def)
  obtain k' meta where two: "JobClient_createJob (run_JobClient K c) ij presult w1 = (Inr (), w1\<lparr>fl_kube := k'\<rparr>)"
    and meta: "om_Name meta = jJobID r" "om_Namespace meta = Job_KubernetesNamespace (IJ_Job ij)"
    and acc: "accepted k' = accepted (fl_kube w1) @ [W_Apply jobManagerName (Apply_Job meta spec)]"
    using create_job_applied [OF run_sel(7) spec] id by metis
  have id1: "jJobID r1 = jJobID r" "jState r1 = JobStateQueued" using q by (simp_all add: r1_def)
  have rep1: "reportable env ctx ci (fl_server (w1\<lparr>fl_kube := k'\<rparr>)) r1"
    using rep rows1 unfolding reportable_def by (simp add: r1_def)
  define w3 where "w3 = w1\<lparr>fl_kube := k', fl_rpcs := Suc (fl_rpcs w1), fl_server := put_job (jJobID r) ?now' ?g (fl_server w1)\<rparr>"
  have three: "rpc net env (\<lambda>now. UpdateJobPhase env now ctx (phase_request (jJobID r) PHASE_JOB_CREATED)) (w1\<lparr>fl_kube := k'\<rparr>) = (Inr (), w3)"
    using quiet_report [OF net report_job_created [OF rep1 id1(2)]] by (simp add: w3_def id1 w1_def)
  have "process_job (run_dispatcher net env ctx K svc c) ij w = (Inr (), w3)"
    using std act pre one two three id
    by (simp add: process_job_def D_createJob_def tryE_def bindE_def lift_result_def run_dispatcher_def fleet_ftClient_def)
  moreover have rows3: "row_of jJobID (st_jobs (fl_server w3)) = (row_of jJobID (st_jobs (fl_server w)))(jJobID r := Some (job_touch ?now' (?g r1)))"
    "map jJobID (st_jobs (fl_server w3)) = map jJobID (st_jobs (fl_server w))"
    using rows1 by (simp_all add: w3_def put_job_row)
  moreover have "accepted (fl_kube w3) = accepted (fl_kube w) @ [W_Apply jobManagerName (Apply_Job meta spec)]"
    using acc by (simp add: w3_def w1_def)
  moreover have "settled env svc (accepted (fl_kube w3)) (st_jobs (fl_server w3)) r"
    unfolding settled_def using rows3(1) ij q pre meta acc by (auto simp: w3_def r1_def)
  ultimately show ?thesis by blast
qed

lemma cancel_settles:
  assumes net: "quiet net" and rep: "reportable env ctx ci (fl_server w) r"
    and q: "jState r = JobStateQueued" "jQueuedAction r \<noteq> JobQueuedActionCreate" and ij: "V1InternalJob (jobCodec env) r = Inr ij"
    and disp: "dispatchable net env svc c r" and act: "IJ_QueuedAction ij = InternalJob_CANCELING"
  shows "\<exists>w' r' xs. process_job (run_dispatcher net env ctx K svc c) ij w = (Inr (), w') \<and>
    map jJobID (st_jobs (fl_server w')) = map jJobID (st_jobs (fl_server w)) \<and>
    row_of jJobID (st_jobs (fl_server w')) = (row_of jJobID (st_jobs (fl_server w)))(jJobID r := Some r') \<and>
    accepted (fl_kube w') = accepted (fl_kube w) @ xs \<and> settled env svc (accepted (fl_kube w')) (st_jobs (fl_server w')) r"
proof -
  let ?now = "net_clock net (fl_rpcs w)"
  obtain msg where msg: "Marshal (jobCodec env) ((IJ_Job ij)\<lparr>Job_FinishedAt := Unix ?now\<rparr>) = Inr msg" and id: "Job_Id (IJ_Job ij) = jJobID r"
    using disp ij q unfolding dispatchable_def by auto
  let ?f = "\<lambda>j. j\<lparr>jState := JobStateCanceled, jQueuedAction := [], jMessage := msg, jVersion := jVersion r + 1\<rparr>"
  obtain k' xs where one: "JobClient_cancelJob (run_JobClient K c) ij w = (Inr (), w\<lparr>fl_kube := k'\<rparr>)"
    and acc: "accepted k' = accepted (fl_kube w) @ xs"
    using cancel_job_done [OF run_sel(7)] by metis
  have v1: "V1Job (jobCodec env) r = Inr (IJ_Job ij)" using ij by (auto simp: V1InternalJob_def split: sum.splits)
  define w2 where "w2 = w\<lparr>fl_kube := k', fl_rpcs := Suc (fl_rpcs w), fl_server := put_job (jJobID r) ?now ?f (fl_server w)\<rparr>"
  have two: "rpc net env (\<lambda>now. UpdateJobPhase env now ctx (phase_request (jJobID r) PHASE_CANCELED)) (w\<lparr>fl_kube := k'\<rparr>) = (Inr (), w2)"
    using quiet_report [OF net, of env "w\<lparr>fl_kube := k'\<rparr>"] report_canceled [OF rep v1 msg] by (simp add: w2_def)
  have "process_job (run_dispatcher net env ctx K svc c) ij w = (Inr (), w2)"
    using act one two id by (simp add: process_job_def failing_def bindE_def run_dispatcher_def fleet_ftClient_def)
  moreover have row: "row_of jJobID (st_jobs (fl_server w)) (jJobID r) = Some r" using rep by (simp add: reportable_def)
  then have rows: "row_of jJobID (st_jobs (fl_server w2)) = (row_of jJobID (st_jobs (fl_server w)))(jJobID r := Some (job_touch ?now (?f r)))"
    "map jJobID (st_jobs (fl_server w2)) = map jJobID (st_jobs (fl_server w))"
    by (simp_all add: w2_def put_job_row)
  moreover have "settled env svc (accepted (fl_kube w2)) (st_jobs (fl_server w2)) r"
    unfolding settled_def using rows(1) ij q by (auto simp: w2_def)
  moreover have "accepted (fl_kube w2) = accepted (fl_kube w) @ xs" using acc by (simp add: w2_def)
  ultimately show ?thesis by blast
qed

lemma process_job_settles:
  assumes net: "quiet net" and std: "\<not> Standalone c" and rep: "reportable env ctx ci (fl_server w) r"
    and q: "jState r = JobStateQueued" and disp: "dispatchable net env svc c r" and ij: "V1InternalJob (jobCodec env) r = Inr ij"
      "IJ_QueuedAction ij = (if jQueuedAction r = JobQueuedActionCreate then InternalJob_CREATING else InternalJob_CANCELING)"
    and before: "progress env svc accepted t0 past w" and new: "jJobID r \<notin> jJobID ` set past"
  shows "\<exists>w'. process_job (run_dispatcher net env ctx K svc c) ij w = (Inr (), w') \<and> progress env svc accepted t0 (past @ [r]) w'"
proof (cases "jQueuedAction r = JobQueuedActionCreate")
  case True
  with ij(2) have "IJ_QueuedAction ij = InternalJob_CREATING" by simp
  from create_settles [OF net std rep q True ij(1) disp this] show ?thesis
    using progress_step [OF before new] by blast
next
  case False
  with ij(2) have "IJ_QueuedAction ij = InternalJob_CANCELING" by simp
  from cancel_settles [OF net rep q False ij(1) disp this] show ?thesis
    using progress_step [OF before new] by blast
qed

lemma jobs_round:
  assumes net: "quiet net" and std: "\<not> Standalone c" and db: "reliable_job_db (jobDB env)"
    and order: "is_order (\<lambda>x y :: Job. collation env (jJobID x) (jJobID y))"
    and wf: "jobs_wf (st_jobs (fl_server w))" and ci: "extractClusterInfoFromContext (enableAuth env) ctx = Inr ci"
    and disp: "\<forall>r \<in> set (st_jobs (fl_server w)). queued_here ci r \<longrightarrow> dispatchable net env svc c r"
  shows "\<exists>w' rows. processQueuedJobs (run_dispatcher net env ctx K svc c) w = (Inr (), w') \<and>
    set rows = {r \<in> set (st_jobs (fl_server w)). queued_here ci r} \<and> progress env svc accepted (st_jobs (fl_server w)) rows w'"
proof -
  let ?t0 = "st_jobs (fl_server w)" and ?d = "run_dispatcher net env ctx K svc c"
  note dist = jobs_wf_distinct [OF wf]
  have dec: "\<forall>j \<in> set ?t0. queued_here ci j \<longrightarrow> (\<exists>p. Unmarshal (jobCodec env) (jMessage j) = Inr p)"
    using disp by (fastforce simp: dispatchable_def V1InternalJob_def V1Job_def split: sum.splits)
  obtain rows ijobs where list: "ListQueuedInternalJobs env (net_clock net (fl_rpcs w)) ctx (fl_server w) = Inr ijobs"
    and rows: "mset rows = mset (filter (queued_here ci) ?t0)"
    and conv: "list_all2 (\<lambda>j ij. V1InternalJob (jobCodec env) j = Inr ij \<and> IJ_State ij = InternalJob_QUEUED \<and>
      IJ_QueuedAction ij = (if jQueuedAction j = JobQueuedActionCreate then InternalJob_CREATING else InternalJob_CANCELING)) rows ijobs"
    using queued_listing [OF db order wf ci dec] by blast
  have set_rows: "set rows = {r \<in> set ?t0. queued_here ci r}" using mset_eq_setD [OF rows] by auto
  have "distinct (map jJobID (filter (queued_here ci) ?t0))" using dist by (rule distinct_map_filter)
  then have dist_rows: "distinct (map jJobID rows)" by (rule distinct_map_mset [OF rows])
  define w0 where "w0 = w\<lparr>fl_rpcs := Suc (fl_rpcs w)\<rparr>"
  have read: "rpc_read net env (\<lambda>now. ListQueuedInternalJobs env now ctx) w = (Inr ijobs, w0)"
    unfolding rpc_read_def w0_def by (subst quiet_rpc [OF net, where st' = "fl_server w"]) (simp_all add: list)
  have len: "length rows = length ijobs" using conv by (rule list_all2_lengthD)
  let ?I = "\<lambda>(past :: (Job \<times> InternalJob) list) (rest :: (Job \<times> InternalJob) list). progress env svc accepted ?t0 (map fst past)"
  have "achieves (?I [] (zip rows ijobs)) (forE (\<lambda>x. process_job ?d (snd x)) (zip rows ijobs)) (\<lambda>_. ?I (zip rows ijobs) [])"
  proof (rule achieves_forE [where I = ?I])
    fix past x rest
    assume split: "zip rows ijobs = past @ x # rest"
    then have x: "(fst x, snd x) \<in> set (zip rows ijobs)" by simp
    have ij: "V1InternalJob (jobCodec env) (fst x) = Inr (snd x)"
      "IJ_QueuedAction (snd x) = (if jQueuedAction (fst x) = JobQueuedActionCreate then InternalJob_CREATING else InternalJob_CANCELING)"
      using conv x by (auto simp: list_all2_iff)
    have r: "fst x \<in> set ?t0" "queued_here ci (fst x)" using set_zip_leftD [OF x] set_rows by auto
    have "rows = map fst past @ fst x # map fst rest" using arg_cong [OF split, of "map fst"] len by simp
    then have new: "jJobID (fst x) \<notin> jJobID ` set (map fst past)" using dist_rows by auto
    show "achieves (?I past (x # rest)) (process_job ?d (snd x)) (\<lambda>_. ?I (past @ [x]) rest)"
      unfolding achieves_def
    proof (intro allI impI)
      fix w1
      assume before: "progress env svc accepted ?t0 (map fst past) w1"
      have "row_of jJobID ?t0 (jJobID (fst x)) = Some (fst x)" by (rule row_of_distinct [OF dist r(1)])
      then have rep: "reportable env ctx ci (fl_server w1) (fst x)"
        using before new dist db ci r(2) disp r(1) unfolding reportable_def progress_def queued_here_def dispatchable_def by metis
      show "\<exists>y w2. process_job ?d (snd x) w1 = (Inr y, w2) \<and> progress env svc accepted ?t0 (map fst (past @ [x])) w2"
        using process_job_settles [OF net std rep _ _ ij before new] r disp by (auto simp: queued_here_def)
    qed
  qed
  then have loop: "achieves (progress env svc accepted ?t0 []) (forE (process_job ?d) ijobs) (\<lambda>_. progress env svc accepted ?t0 rows)"
    using forE_map [of "process_job ?d" snd "zip rows ijobs"] len by simp
  have "progress env svc accepted ?t0 [] w0" by (simp add: progress_def w0_def)
  from achievesD [OF loop this] obtain w' where "forE (process_job ?d) ijobs w0 = (Inr (), w')" "progress env svc accepted ?t0 rows w'" by auto
  then show ?thesis
    using read set_rows by (auto simp: processQueuedJobs_def bindE_def run_dispatcher_def fleet_ftClient_def)
qed

end

section \<open>Standalone mode\<close>

text \<open>
  The pre-processor of standalone mode yields no output model, and the server refuses the phase \<^verbatim>\<open>PREPROCESSED\<close> without a model: no job is created.
\<close>

lemma standalone_refused:
  assumes net: "quiet net" and std: "Standalone c" and rep: "reportable env ctx ci (fl_server w) r" and q: "jState r = JobStateQueued"
    and id: "Job_Id (IJ_Job ij) = jJobID r"
  shows "D_createJob (run_dispatcher net env ctx K svc c) ij w =
    (Inl (Status InvalidArgument ''model id is required for preprocessed phase''), w\<lparr>fl_rpcs := Suc (fl_rpcs w)\<rparr>)"
proof -
  have "UpdateJobPhase env now ctx ((phase_request (jJobID r) PHASE_PREPROCESSED)\<lparr>UJP_ModelId := []\<rparr>) (fl_server w) =
      (Inl (Status InvalidArgument ''model id is required for preprocessed phase''), fl_server w)" for now
    using q by (simp add: report_applied [OF rep] phase_request_def apply_phase_def)
  then have "rpc net env (\<lambda>now. UpdateJobPhase env now ctx ((phase_request (jJobID r) PHASE_PREPROCESSED)\<lparr>UJP_ModelId := []\<rparr>)) w =
      (Inl (Status InvalidArgument ''model id is required for preprocessed phase''), w\<lparr>fl_rpcs := Suc (fl_rpcs w)\<rparr>)"
    using net by (simp add: rpc_def quiet_def Let_def)
  then show ?thesis
    using std id by (simp add: D_createJob_def run_dispatcher_def lift_result_def tryE_def bindE_def NoopPreProcessor_Process_def fleet_ftClient_def)
qed

section \<open>A finished Kubernetes job\<close>

text \<open>The reconciler has read the Kubernetes job, and the internal job over a quiet network.\<close>

lemma reconcile_reads:
  assumes net: "quiet net" and rep: "reportable env ctx ci (fl_server w) r" and ij: "V1InternalJob (jobCodec env) r = Inr ij"
    and get: "k_GetJob K (ns, jJobID r) (fl_kube w) = (Inr job, fl_kube w)"
  shows "LifecycleManager_Reconcile (run_LifecycleManager net env ctx K svc c) now (ns, jJobID r) w =
    reconcile_state (run_LifecycleManager net env ctx K svc c) now (ns, jJobID r) job ij (w\<lparr>fl_rpcs := Suc (fl_rpcs w)\<rparr>)"
proof -
  have "rpc_read net env (\<lambda>now. GetInternalJob env now ctx (jJobID r)) w = (Inr ij, w\<lparr>fl_rpcs := Suc (fl_rpcs w)\<rparr>)"
    unfolding rpc_read_def using internal_job_read [OF rep ij] by (subst quiet_rpc [OF net, where st' = "fl_server w"]) simp_all
  then show ?thesis
    using get by (simp add: LifecycleManager_Reconcile_def tryE_def bindE_def fleet_kube_def on_kube_def fleet_ftClient_def)
qed

lemma reconcile_succeeded:
  assumes net: "quiet net" and std: "\<not> Standalone c" and rep: "reportable env ctx ci (fl_server w) r"
    and ij: "V1InternalJob (jobCodec env) r = Inr ij" and get: "k_GetJob K (ns, jJobID r) (fl_kube w) = (Inr job, fl_kube w)"
    and run: "jState r = JobStateRunning" "jOutputModelID r \<noteq> []" and fin: "kj_Succeeded job \<noteq> 0" "kj_Failed job \<le> 0"
    and msg: "Marshal (jobCodec env) ((IJ_Job ij)\<lparr>Job_FinishedAt := Unix (net_clock net (Suc (fl_rpcs w))), Job_FineTunedModel := jOutputModelID r\<rparr>) = Inr msg"
  shows "LifecycleManager_Reconcile (run_LifecycleManager net env ctx K svc c) now (ns, jJobID r) w =
    (case svc_publish svc (jOutputModelID r) of
       Inl e \<Rightarrow> (Inl e, w\<lparr>fl_rpcs := Suc (fl_rpcs w)\<rparr>)
     | Inr _ \<Rightarrow> (Inr no_requeue, w\<lparr>fl_rpcs := Suc (Suc (fl_rpcs w)), fl_published := fl_published w @ [jOutputModelID r],
         fl_server := put_job (jJobID r) (net_clock net (Suc (fl_rpcs w)))
           (\<lambda>j. j\<lparr>jState := JobStateSucceeded, jQueuedAction := [], jMessage := msg, jVersion := jVersion r + 1\<rparr>) (fl_server w)\<rparr>))"
proof -
  have v: "V1Job (jobCodec env) r = Inr (IJ_Job ij)" "IJ_OutputModelId ij = jOutputModelID r" "IJ_State ij = InternalJob_RUNNING"
    using ij run(1) by (auto simp: V1InternalJob_def split: sum.splits)
  let ?w = "w\<lparr>fl_rpcs := Suc (fl_rpcs w), fl_published := fl_published w @ [jOutputModelID r]\<rparr>"
  have "rpc net env (\<lambda>now. UpdateJobPhase env now ctx ((phase_request (jJobID r) PHASE_FINETUNED)\<lparr>UJP_ModelId := jOutputModelID r\<rparr>)) ?w =
      (Inr (), ?w\<lparr>fl_rpcs := Suc (fl_rpcs ?w), fl_server := put_job (jJobID r) (net_clock net (Suc (fl_rpcs w)))
        (\<lambda>j. j\<lparr>jState := JobStateSucceeded, jQueuedAction := [], jMessage := msg, jVersion := jVersion r + 1\<rparr>) (fl_server w)\<rparr>)"
    by (rule quiet_report [OF net]) (use report_finished(1) [OF rep v(1) run msg] in simp)
  moreover have "lm_postProcessor (run_LifecycleManager net env ctx K svc c) ij = fleet_PublishModel (svc_publish svc) (jOutputModelID r)"
    using std run(2) v(2) by (simp add: run_LifecycleManager_def PostProcessor_Process_def)
  ultimately show ?thesis
    using fin v by (simp add: reconcile_reads [OF net rep ij get] reconcile_state_def reconcile_finished_def
        fleet_PublishModel_def bindE_def ret_def fleet_ftClient_def split: sum.split)
qed

lemma reconcile_failed:
  assumes net: "quiet net" and rep: "reportable env ctx ci (fl_server w) r"
    and ij: "V1InternalJob (jobCodec env) r = Inr ij" and get: "k_GetJob K (ns, jJobID r) (fl_kube w) = (Inr job, fl_kube w)"
    and run: "jState r = JobStateRunning" and fin: "0 < kj_Failed job"
    and pods: "k_ListPods K (Some ns) [(''job-name'', jJobID r)] (fl_kube w) = (Inr pods, fl_kube w)"
    and x: "x = (case pods of [] \<Rightarrow> [] | pod # _ \<Rightarrow> termination_message (pod_ContainerStatuses pod))"
    and msg: "Marshal (jobCodec env) ((IJ_Job ij)\<lparr>Job_FinishedAt := Unix (net_clock net (Suc (fl_rpcs w))),
        Job_Error_field := Some \<lparr>Job_Error_Code = [], Job_Error_Message = x, Job_Error_Param = []\<rparr>\<rparr>) = Inr msg"
  shows "LifecycleManager_Reconcile (run_LifecycleManager net env ctx K svc c) now (ns, jJobID r) w =
    (Inr no_requeue, w\<lparr>fl_rpcs := Suc (Suc (fl_rpcs w)), fl_server := put_job (jJobID r) (net_clock net (Suc (fl_rpcs w)))
       (\<lambda>j. j\<lparr>jState := JobStateFailed, jQueuedAction := [], jMessage := msg, jVersion := jVersion r + 1\<rparr>) (fl_server w)\<rparr>)"
proof -
  have v: "V1Job (jobCodec env) r = Inr (IJ_Job ij)" "IJ_State ij = InternalJob_RUNNING"
    using ij run(1) by (auto simp: V1InternalJob_def split: sum.splits)
  let ?w = "w\<lparr>fl_rpcs := Suc (fl_rpcs w)\<rparr>"
  have "rpc net env (\<lambda>now. UpdateJobPhase env now ctx ((phase_request (jJobID r) PHASE_FAILED)\<lparr>UJP_Message := x\<rparr>)) ?w =
      (Inr (), ?w\<lparr>fl_rpcs := Suc (fl_rpcs ?w), fl_server := put_job (jJobID r) (net_clock net (Suc (fl_rpcs w)))
        (\<lambda>j. j\<lparr>jState := JobStateFailed, jQueuedAction := [], jMessage := msg, jVersion := jVersion r + 1\<rparr>) (fl_server w)\<rparr>)"
    by (rule quiet_report [OF net]) (use report_finished(2) [OF rep v(1) msg] in simp)
  then show ?thesis
    using fin v pods by (simp add: reconcile_reads [OF net rep ij get] reconcile_state_def reconcile_finished_def getTerminationLog_def
        x [symmetric] bindE_def ret_def fleet_ftClient_def fleet_kube_def on_kube_def)
qed

end
