(* ===== verification/SyncObjects.thy ===== *)
theory SyncObjects
  imports Clients "HOL-Library.Word"
begin

text \<open>
  The objects the syncer (\<^verbatim>\<open>syncer/internal/controller\<close>) copies between clusters: Kubernetes jobs and job sets, with the fields its code reads
  or changes; what it only passes on is the opaque field \<open>Other\<close>. A map that may be nil is an \<open>option\<close> where the code tells the difference or
  shares it.

  The client of one kind of object (\<^verbatim>\<open>client.Client\<close> of controller-runtime, third-party) is the record \<open>objects\<close> over the world \<open>'w\<close>. The locale \<open>object_store\<close>
  states what the code relies on: optimistic locking of \<^verbatim>\<open>Update\<close>, removal of a deleted object with its last finalizer, and merge patches
  that change the part in which the new object differs from the old one. \<open>reliable_store\<close> says in addition that the calls succeed on
  objects that exist. \<open>sim_objects\<close> is an executable store.
\<close>

section \<open>Objects\<close>

record sync_meta =
  sm_Namespace :: string
  sm_Name :: string
  sm_ResourceVersion :: nat
  sm_Labels :: "labels option"
  sm_Annotations :: labels
  sm_Finalizers :: "string list"
  sm_DeletionTimestamp :: "time option"

record ('s, 't) sync_object =
  so_Meta :: sync_meta
  so_Spec :: 's
  so_Status :: 't

definition so_key :: "('s, 't) sync_object \<Rightarrow> NamespacedName" where
  "so_key obj = (sm_Namespace (so_Meta obj), sm_Name (so_Meta obj))"

record batch_JobSpec =
  sj_ManagedBy :: "string option"
  sj_Selector :: "labels option"                  \<comment> \<open>\<^verbatim>\<open>Selector.MatchLabels\<close> of a selector that is not nil\<close>
  sj_Parallelism :: "int option"
  sj_Completions :: "int option"
  sj_TemplateLabels :: labels
  sj_Limits :: "ResourceList option list"         \<comment> \<open>\<^verbatim>\<open>Resources.Limits\<close> of each container of the template\<close>
  sj_Other :: bytes

record JobCondition_full =
  jcf_Type :: string
  jcf_Status :: string
  jcf_LastProbeTime :: time
  jcf_LastTransitionTime :: time
  jcf_Reason :: string
  jcf_Message :: string

record batch_JobStatus =
  sjs_Conditions :: "JobCondition_full list"
  sjs_Other :: bytes

record ReplicatedJob =
  rj_Name :: string
  rj_Spec :: batch_JobSpec                        \<comment> \<open>\<^verbatim>\<open>Template.Spec\<close>\<close>
  rj_Other :: bytes

record JobSetSpec =
  jss_ManagedBy :: "string option"
  jss_ReplicatedJobs :: "ReplicatedJob list"
  jss_Other :: bytes

record meta_Condition =
  mc_Type :: string
  mc_Status :: string
  mc_LastTransitionTime :: time
  mc_Reason :: string
  mc_Message :: string

record JobSetStatus =
  jsst_Conditions :: "meta_Condition list"
  jsst_Other :: bytes

type_synonym sync_Job = "(batch_JobSpec, batch_JobStatus) sync_object"
type_synonym sync_JobSet = "(JobSetSpec, JobSetStatus) sync_object"

section \<open>The client\<close>

record ('w, 's, 't) objects =
  oc_Get :: "NamespacedName \<Rightarrow> ('w, ('s, 't) sync_object) io"
  oc_Update :: "('s, 't) sync_object \<Rightarrow> ('w, ('s, 't) sync_object) io"                        \<comment> \<open>returns the object as stored\<close>
  oc_Patch :: "('s, 't) sync_object \<Rightarrow> ('s, 't) sync_object \<Rightarrow> ('w, unit) io"         \<comment> \<open>\<^verbatim>\<open>Patch(ctx, obj, MergeFrom(base))\<close> of base and object\<close>
  oc_StatusPatch :: "('s, 't) sync_object \<Rightarrow> ('s, 't) sync_object \<Rightarrow> ('w, unit) io"
  oc_IsNotFound :: "go_error \<Rightarrow> bool"

definition oc_IgnoreNotFound :: "('w, 's, 't) objects \<Rightarrow> go_error \<Rightarrow> go_error + unit" where
  "oc_IgnoreNotFound K e = (if oc_IsNotFound K e then Inr () else Inl e)"

definition set_annotations :: "labels \<Rightarrow> ('s, 't) sync_object \<Rightarrow> ('s, 't) sync_object" where
  "set_annotations a obj = obj\<lparr>so_Meta := (so_Meta obj)\<lparr>sm_Annotations := a\<rparr>\<rparr>"

definition set_version :: "nat \<Rightarrow> ('s, 't) sync_object \<Rightarrow> ('s, 't) sync_object" where
  "set_version v obj = obj\<lparr>so_Meta := (so_Meta obj)\<lparr>sm_ResourceVersion := v\<rparr>\<rparr>"

text \<open>An object that is being deleted is gone once it has no finalizer.\<close>

definition finalized :: "('s, 't) sync_object \<Rightarrow> bool" where
  "finalized obj \<longleftrightarrow> sm_DeletionTimestamp (so_Meta obj) \<noteq> None \<and> sm_Finalizers (so_Meta obj) = []"

locale object_store =
  fixes K :: "('w, 's, 't) objects" and lookup :: "'w \<Rightarrow> NamespacedName \<rightharpoonup> ('s, 't) sync_object"
  assumes get_reads: "oc_Get K nn w = (r, w') \<Longrightarrow> w' = w"
    and get_ok: "oc_Get K nn w = (Inr obj, w') \<Longrightarrow> lookup w nn = Some obj"
    and update_ok: "oc_Update K obj w = (Inr obj', w') \<Longrightarrow> \<exists>old v. lookup w (so_key obj) = Some old \<and>
        sm_ResourceVersion (so_Meta old) = sm_ResourceVersion (so_Meta obj) \<and> obj' = (set_version v obj)\<lparr>so_Status := so_Status old\<rparr> \<and>
        lookup w' = (lookup w)(so_key obj := if finalized obj' then None else Some obj')"
    and patch_ok: "oc_Patch K base (set_annotations a base) w = (Inr u, w') \<Longrightarrow> \<exists>old v. lookup w (so_key base) = Some old \<and>
        (sm_Annotations (so_Meta old) = sm_Annotations (so_Meta base) \<longrightarrow> lookup w' = (lookup w)(so_key base \<mapsto> set_version v (set_annotations a old)))"
    and status_patch_ok: "oc_StatusPatch K base (base\<lparr>so_Status := t\<rparr>) w = (Inr u, w') \<Longrightarrow> \<exists>old v. lookup w (so_key base) = Some old \<and>
        (so_Status old = so_Status base \<longrightarrow> lookup w' = (lookup w)(so_key base \<mapsto> set_version v (old\<lparr>so_Status := t\<rparr>)))"
    and stored_key: "lookup w nn = Some obj \<Longrightarrow> so_key obj = nn"

locale reliable_store = object_store +
  assumes get_found: "lookup w nn = Some obj \<Longrightarrow> oc_Get K nn w = (Inr obj, w)"
    and get_missing: "lookup w nn = None \<Longrightarrow> \<exists>e. oc_Get K nn w = (Inl e, w) \<and> oc_IsNotFound K e"
    and update_found: "lookup w (so_key obj) = Some old \<Longrightarrow> sm_ResourceVersion (so_Meta old) = sm_ResourceVersion (so_Meta obj) \<Longrightarrow>
        \<exists>obj' w'. oc_Update K obj w = (Inr obj', w')"
    and update_missing: "lookup w (so_key obj) = None \<Longrightarrow> \<exists>e. oc_Update K obj w = (Inl e, w) \<and> oc_IsNotFound K e"
    and patch_found: "lookup w (so_key obj) = Some old \<Longrightarrow> \<exists>w'. oc_Patch K base obj w = (Inr (), w')"
    and patch_missing: "lookup w (so_key obj) = None \<Longrightarrow> \<exists>e. oc_Patch K base obj w = (Inl e, w)"
    and status_patch_found: "lookup w (so_key obj) = Some old \<Longrightarrow> \<exists>w'. oc_StatusPatch K base obj w = (Inr (), w')"

section \<open>An executable store\<close>

text \<open>
  The objects by key and the number of the next version. \<open>changed\<close> is a merge patch of one part of an object: what the new object has in common with the
  base is left as it is.
\<close>

type_synonym ('s, 't) sim_world = "nat \<times> (NamespacedName \<rightharpoonup> ('s, 't) sync_object)"

definition changed :: "'a \<Rightarrow> 'a \<Rightarrow> 'a \<Rightarrow> 'a" where
  "changed base new old = (if new = base then old else new)"

definition sim_lookup :: "('s, 't) sim_world \<Rightarrow> NamespacedName \<rightharpoonup> ('s, 't) sync_object" where
  "sim_lookup w nn = (case snd w nn of None \<Rightarrow> None | Some obj \<Rightarrow> if so_key obj = nn then Some obj else None)"

definition sim_put :: "('s, 't) sync_object \<Rightarrow> ('s, 't) sim_world \<Rightarrow> ('s, 't) sim_world" where
  "sim_put obj w = (Suc (fst w), (snd w)(so_key obj := if finalized obj then None else Some (set_version (fst w) obj)))"

definition sim_objects :: "(('s, 't) sim_world, 's, 't) objects" where
  "sim_objects = \<lparr>
     oc_Get = (\<lambda>nn w. case sim_lookup w nn of None \<Rightarrow> (Inl k8s_not_found, w) | Some obj \<Rightarrow> (Inr obj, w)),
     oc_Update = (\<lambda>obj w. case sim_lookup w (so_key obj) of None \<Rightarrow> (Inl k8s_not_found, w)
        | Some old \<Rightarrow> if sm_ResourceVersion (so_Meta old) = sm_ResourceVersion (so_Meta obj)
            then (let obj' = obj\<lparr>so_Status := so_Status old\<rparr> in (Inr (set_version (fst w) obj'), sim_put obj' w))
            else (Inl (Errorf ''conflict''), w)),
     oc_Patch = (\<lambda>base obj w. case sim_lookup w (so_key obj) of None \<Rightarrow> (Inl k8s_not_found, w)
        | Some old \<Rightarrow> let new = set_annotations (changed (sm_Annotations (so_Meta base)) (sm_Annotations (so_Meta obj)) (sm_Annotations (so_Meta old)))
              (old\<lparr>so_Spec := changed (so_Spec base) (so_Spec obj) (so_Spec old)\<rparr>)
            in (Inr (), fst (sim_put new w), (snd w)(so_key new \<mapsto> set_version (fst w) new))),
     oc_StatusPatch = (\<lambda>base obj w. case sim_lookup w (so_key obj) of None \<Rightarrow> (Inl k8s_not_found, w)
        | Some old \<Rightarrow> let new = old\<lparr>so_Status := changed (so_Status base) (so_Status obj) (so_Status old)\<rparr>
            in (Inr (), fst (sim_put new w), (snd w)(so_key new \<mapsto> set_version (fst w) new))),
     oc_IsNotFound = (\<lambda>e. e = k8s_not_found)\<rparr>"

lemma so_key_simps [simp]:
  "so_key (set_version v obj) = so_key obj" "so_key (set_annotations a obj) = so_key obj" "so_key (obj\<lparr>so_Status := t\<rparr>) = so_key obj"
  "so_key (obj\<lparr>so_Spec := s\<rparr>) = so_key obj"
  by (simp_all add: so_key_def set_version_def set_annotations_def)

lemma finalized_simps [simp]:
  "finalized (set_version v obj) = finalized obj" "finalized (set_annotations a obj) = finalized obj" "finalized (obj\<lparr>so_Status := t\<rparr>) = finalized obj"
  by (simp_all add: finalized_def set_version_def set_annotations_def)

lemma set_version_simps [simp]:
  "sm_Annotations (so_Meta (set_version v obj)) = sm_Annotations (so_Meta obj)" "so_Status (set_version v obj) = so_Status obj"
  "so_Spec (set_version v obj) = so_Spec obj" "sm_Finalizers (so_Meta (set_version v obj)) = sm_Finalizers (so_Meta obj)"
  "sm_Labels (so_Meta (set_version v obj)) = sm_Labels (so_Meta obj)" "sm_DeletionTimestamp (so_Meta (set_version v obj)) = sm_DeletionTimestamp (so_Meta obj)"
  "sm_Annotations (so_Meta (set_annotations a obj)) = a" "so_Status (set_annotations a obj) = so_Status obj"
  "so_Spec (set_annotations a obj) = so_Spec obj" "sm_Finalizers (so_Meta (set_annotations a obj)) = sm_Finalizers (so_Meta obj)"
  "sm_Labels (so_Meta (set_annotations a obj)) = sm_Labels (so_Meta obj)" "sm_DeletionTimestamp (so_Meta (set_annotations a obj)) = sm_DeletionTimestamp (so_Meta obj)"
  by (simp_all add: set_version_def set_annotations_def)

lemma changed_simps [simp]: "changed b n b = n" "changed b b x = x"
  by (auto simp: changed_def)

lemma set_version_status: "(set_version v obj)\<lparr>so_Status := t\<rparr> = set_version v (obj\<lparr>so_Status := t\<rparr>)"
  by (simp add: set_version_def)

lemma sim_lookup_put:
  "sim_lookup (n, (snd w)(so_key obj := x)) = (sim_lookup w)(so_key obj := case x of None \<Rightarrow> None | Some y \<Rightarrow> if so_key y = so_key obj then Some y else None)"
  by (auto simp: sim_lookup_def fun_eq_iff split: option.splits)

lemma sim_lookup_key: "sim_lookup w nn = Some obj \<Longrightarrow> so_key obj = nn"
  by (auto simp: sim_lookup_def split: option.splits if_splits)

interpretation sim_store: reliable_store "sim_objects :: (('s, 't) sim_world, 's, 't) objects" sim_lookup
proof unfold_locales
  fix obj obj' :: "('s, 't) sync_object" and w w' :: "('s, 't) sim_world"
  assume "oc_Update sim_objects obj w = (Inr obj', w')"
  then obtain old where old: "sim_lookup w (so_key obj) = Some old" "sm_ResourceVersion (so_Meta old) = sm_ResourceVersion (so_Meta obj)"
    "obj' = set_version (fst w) (obj\<lparr>so_Status := so_Status old\<rparr>)" "w' = sim_put (obj\<lparr>so_Status := so_Status old\<rparr>) w"
    by (auto simp: sim_objects_def Let_def split: option.splits if_splits)
  then show "\<exists>old v. sim_lookup w (so_key obj) = Some old \<and> sm_ResourceVersion (so_Meta old) = sm_ResourceVersion (so_Meta obj) \<and>
      obj' = (set_version v obj)\<lparr>so_Status := so_Status old\<rparr> \<and> sim_lookup w' = (sim_lookup w)(so_key obj := if finalized obj' then None else Some obj')"
    by (intro exI [of _ old] exI [of _ "fst w"]) (simp add: sim_put_def sim_lookup_put [of _ _ obj] set_version_status)
next
  fix base :: "('s, 't) sync_object" and a u and w w' :: "('s, 't) sim_world"
  assume "oc_Patch sim_objects base (set_annotations a base) w = (Inr u, w')"
  then obtain old where old: "sim_lookup w (so_key base) = Some old"
    and w': "sm_Annotations (so_Meta old) = sm_Annotations (so_Meta base) \<Longrightarrow>
      w' = (Suc (fst w), (snd w)(so_key base \<mapsto> set_version (fst w) (set_annotations a old)))"
    by (cases "sim_lookup w (so_key base)") (auto simp: sim_objects_def Let_def sim_put_def sim_lookup_key)
  have "so_key old = so_key base" by (rule sim_lookup_key [OF old])
  then show "\<exists>old v. sim_lookup w (so_key base) = Some old \<and> (sm_Annotations (so_Meta old) = sm_Annotations (so_Meta base) \<longrightarrow>
      sim_lookup w' = (sim_lookup w)(so_key base \<mapsto> set_version v (set_annotations a old)))"
    using old w' by (intro exI [of _ old] exI [of _ "fst w"]) (auto simp: sim_lookup_put)
next
  fix base :: "('s, 't) sync_object" and t u and w w' :: "('s, 't) sim_world"
  assume "oc_StatusPatch sim_objects base (base\<lparr>so_Status := t\<rparr>) w = (Inr u, w')"
  then obtain old where old: "sim_lookup w (so_key base) = Some old"
    and w': "so_Status old = so_Status base \<Longrightarrow> w' = (Suc (fst w), (snd w)(so_key base \<mapsto> set_version (fst w) (old\<lparr>so_Status := t\<rparr>)))"
    by (cases "sim_lookup w (so_key base)") (auto simp: sim_objects_def Let_def sim_put_def sim_lookup_key)
  have "so_key old = so_key base" by (rule sim_lookup_key [OF old])
  then show "\<exists>old v. sim_lookup w (so_key base) = Some old \<and> (so_Status old = so_Status base \<longrightarrow>
      sim_lookup w' = (sim_lookup w)(so_key base \<mapsto> set_version v (old\<lparr>so_Status := t\<rparr>)))"
    using old w' by (intro exI [of _ old] exI [of _ "fst w"]) (auto simp: sim_lookup_put)
qed (auto simp: sim_objects_def Let_def sim_lookup_key split: option.splits if_splits)

section \<open>A store in a larger world\<close>

definition zoom :: "('w \<Rightarrow> 'v) \<Rightarrow> ('v \<Rightarrow> 'w \<Rightarrow> 'w) \<Rightarrow> ('v, 's, 't) objects \<Rightarrow> ('w, 's, 't) objects" where
  "zoom get put K = \<lparr>
     oc_Get = (\<lambda>nn w. case oc_Get K nn (get w) of (r, v) \<Rightarrow> (r, put v w)), oc_Update = (\<lambda>obj w. case oc_Update K obj (get w) of (r, v) \<Rightarrow> (r, put v w)),
     oc_Patch = (\<lambda>base obj w. case oc_Patch K base obj (get w) of (r, v) \<Rightarrow> (r, put v w)),
     oc_StatusPatch = (\<lambda>base obj w. case oc_StatusPatch K base obj (get w) of (r, v) \<Rightarrow> (r, put v w)), oc_IsNotFound = oc_IsNotFound K\<rparr>"

lemma zoom_reliable:
  fixes K :: "('v, 's, 't) objects" and get :: "'w \<Rightarrow> 'v"
  assumes K: "reliable_store K objs" and lens: "\<And>v w. get (put v w) = v" "\<And>w. put (get w) w = w"
  shows "reliable_store (zoom get put K) (\<lambda>w. objs (get w))"
proof -
  note laws = object_store.get_reads [OF reliable_store.axioms(1) [OF K]] object_store.get_ok [OF reliable_store.axioms(1) [OF K]]
    object_store.update_ok [OF reliable_store.axioms(1) [OF K]] object_store.patch_ok [OF reliable_store.axioms(1) [OF K]]
    object_store.status_patch_ok [OF reliable_store.axioms(1) [OF K]] object_store.stored_key [OF reliable_store.axioms(1) [OF K]]
  show ?thesis
  proof
    fix nn w assume "objs (get w) nn = None"
    then obtain e where "oc_Get K nn (get w) = (Inl e, get w)" "oc_IsNotFound K e" using reliable_store.get_missing [OF K] by blast
    then show "\<exists>e. oc_Get (zoom get put K) nn w = (Inl e, w) \<and> oc_IsNotFound (zoom get put K) e" by (simp add: zoom_def lens)
  next
    fix obj :: "('s, 't) sync_object" and w assume "objs (get w) (so_key obj) = None"
    then obtain e where "oc_Update K obj (get w) = (Inl e, get w)" "oc_IsNotFound K e" using reliable_store.update_missing [OF K] by blast
    then show "\<exists>e. oc_Update (zoom get put K) obj w = (Inl e, w) \<and> oc_IsNotFound (zoom get put K) e" by (simp add: zoom_def lens)
  next
    fix base obj :: "('s, 't) sync_object" and w assume "objs (get w) (so_key obj) = None"
    then obtain e where "oc_Patch K base obj (get w) = (Inl e, get w)" using reliable_store.patch_missing [OF K] by blast
    then show "\<exists>e. oc_Patch (zoom get put K) base obj w = (Inl e, w)" by (simp add: zoom_def lens)
  next
    fix nn w obj assume "objs (get w) nn = Some obj"
    then show "oc_Get (zoom get put K) nn w = (Inr obj, w)" and "so_key obj = nn"
      using reliable_store.get_found [OF K] laws(6) by (simp_all add: zoom_def lens)
  next
    fix base obj :: "('s, 't) sync_object" and w old assume old: "objs (get w) (so_key obj) = Some old"
    obtain v1 v2 where "oc_Patch K base obj (get w) = (Inr (), v1)" "oc_StatusPatch K base obj (get w) = (Inr (), v2)"
      using reliable_store.patch_found [OF K old] reliable_store.status_patch_found [OF K old] by metis
    then show "\<exists>w'. oc_Patch (zoom get put K) base obj w = (Inr (), w')" "\<exists>w'. oc_StatusPatch (zoom get put K) base obj w = (Inr (), w')"
      by (simp_all add: zoom_def)
  next
    fix obj :: "('s, 't) sync_object" and w old assume "objs (get w) (so_key obj) = Some old" "sm_ResourceVersion (so_Meta old) = sm_ResourceVersion (so_Meta obj)"
    then obtain obj' v where "oc_Update K obj (get w) = (Inr obj', v)" using reliable_store.update_found [OF K] by blast
    then show "\<exists>obj' w'. oc_Update (zoom get put K) obj w = (Inr obj', w')" by (simp add: zoom_def)
  qed (auto simp: zoom_def lens split: prod.splits dest!: laws(1-5))
qed

end
