(* ===== verification/Unstructured.thy ===== *)
theory Unstructured
  imports Prelude
begin

text \<open>
  The part of \<^verbatim>\<open>syncer/internal/controller/jobset.go\<close> that works on JSON. \<open>json\<close> is the value of an \<^verbatim>\<open>unstructured.Unstructured\<close>; the functions of
  that package (third-party) are the record \<open>unstructured\<close> with the laws \<open>unstructured_api\<close>, stated in terms of the value at a path: a removed
  field is gone, a field that is set is there, and paths beside it are as before. An executable implementation interprets them.
\<close>

datatype json = JNull | JBool bool | JNumber int | JString string | JArray "json list" | JObject "(string \<times> json) list"

type_synonym json_object = "(string \<times> json) list"

fun json_at :: "string list \<Rightarrow> json \<Rightarrow> json option" where
  "json_at [] j = Some j"
| "json_at (k # p) (JObject m) = (case map_of m k of None \<Rightarrow> None | Some j \<Rightarrow> json_at p j)"
| "json_at (k # p) _ = None"

record unstructured =
  NestedSlice :: "json_object \<Rightarrow> string list \<Rightarrow> go_error + json list option"
  RemoveNestedField :: "json_object \<Rightarrow> string list \<Rightarrow> json_object"
  SetNestedSlice :: "json_object \<Rightarrow> json list \<Rightarrow> string list \<Rightarrow> go_error + json_object"

abbreviation beside :: "string list \<Rightarrow> string list \<Rightarrow> bool" where
  "beside p q \<equiv> \<not> prefix p q \<and> \<not> prefix q p"

section \<open>The code\<close>

abbreviation (input) replicatedJobs_path :: "string list" where "replicatedJobs_path \<equiv> [''spec'', ''replicatedJobs'']"
abbreviation (input) pod_creation_path :: "string list" where
  "pod_creation_path \<equiv> [''template'', ''spec'', ''template'', ''metadata'', ''creationTimestamp'']"
abbreviation (input) job_creation_path :: "string list" where "job_creation_path \<equiv> [''template'', ''metadata'', ''creationTimestamp'']"

text \<open>The slice that \<^verbatim>\<open>NestedSlice\<close> returns is a copy; the loop changes the maps in it in place.\<close>

definition without_creation :: "unstructured \<Rightarrow> json \<Rightarrow> json" where
  "without_creation U job = (case job of JObject jobMap \<Rightarrow> JObject (RemoveNestedField U (RemoveNestedField U jobMap pod_creation_path) job_creation_path)
     | _ \<Rightarrow> job)"

definition removeCreationTime :: "unstructured \<Rightarrow> json_object \<Rightarrow> go_error + json_object" where
  "removeCreationTime U uobj = (case NestedSlice U uobj replicatedJobs_path of
       Inl e \<Rightarrow> Inl (Wrapf ''error accessing replicatedJobs: '' e)
     | Inr None \<Rightarrow> Inr uobj
     | Inr (Some replicatedJobs) \<Rightarrow> (case SetNestedSlice U uobj (map (without_creation U) replicatedJobs) replicatedJobs_path of
           Inl e \<Rightarrow> Inl (Wrapf ''error updating replicatedJobs in uobj: '' e)
         | Inr uobj' \<Rightarrow> Inr uobj'))"

section \<open>What the package promises\<close>

locale unstructured_api =
  fixes U :: unstructured
  assumes slice_found: "NestedSlice U m p = Inr (Some xs) \<Longrightarrow> json_at p (JObject m) = Some (JArray xs)"
    and slice_missing: "NestedSlice U m p = Inr None \<Longrightarrow> json_at p (JObject m) = None"
    and remove_gone: "p \<noteq> [] \<Longrightarrow> json_at p (JObject (RemoveNestedField U m p)) = None"
    and remove_beside: "beside p q \<Longrightarrow> json_at q (JObject (RemoveNestedField U m p)) = json_at q (JObject m)"
    and set_there: "p \<noteq> [] \<Longrightarrow> SetNestedSlice U m xs p = Inr m' \<Longrightarrow> json_at p (JObject m') = Some (JArray xs)"
    and set_beside: "beside p q \<Longrightarrow> SetNestedSlice U m xs p = Inr m' \<Longrightarrow> json_at q (JObject m') = json_at q (JObject m)"
begin

lemma without_creation:
  "json_at pod_creation_path (without_creation U job) = None" "json_at job_creation_path (without_creation U job) = None"
  "beside pod_creation_path q \<Longrightarrow> beside job_creation_path q \<Longrightarrow> json_at q (without_creation U job) = json_at q job"
proof -
  have apart: "beside job_creation_path pod_creation_path" by simp
  show "json_at pod_creation_path (without_creation U job) = None"
    using remove_beside [OF apart] remove_gone [of pod_creation_path] by (simp add: without_creation_def split: json.split)
  show "json_at job_creation_path (without_creation U job) = None"
    using remove_gone [of job_creation_path] by (simp add: without_creation_def split: json.split)
  show "json_at q (without_creation U job) = json_at q job" if "beside pod_creation_path q" "beside job_creation_path q"
    using that by (simp add: without_creation_def remove_beside split: json.split)
qed

lemma removeCreationTime_cases:
  assumes "removeCreationTime U m = Inr m'"
  obtains "m' = m" "json_at replicatedJobs_path (JObject m) = None"
  | jobs where "json_at replicatedJobs_path (JObject m) = Some (JArray jobs)"
      "json_at replicatedJobs_path (JObject m') = Some (JArray (map (without_creation U) jobs))"
      "\<And>q. beside replicatedJobs_path q \<Longrightarrow> json_at q (JObject m') = json_at q (JObject m)"
proof (cases "NestedSlice U m replicatedJobs_path")
  case (Inr slice)
  show ?thesis
  proof (cases slice)
    case None
    then have "m' = m" using Inr assms by (simp add: removeCreationTime_def)
    then show ?thesis using slice_missing [OF Inr [unfolded None]] by (rule that(1))
  next
    case (Some jobs)
    with Inr assms have "SetNestedSlice U m (map (without_creation U) jobs) replicatedJobs_path = Inr m'"
      by (simp add: removeCreationTime_def split: sum.splits)
    then show ?thesis
      using slice_found [OF Inr [unfolded Some]] set_there [of replicatedJobs_path] set_beside [of replicatedJobs_path] by (intro that(2)) blast+
  qed
qed (use assms in \<open>simp add: removeCreationTime_def\<close>)

end

section \<open>An executable implementation\<close>

fun remove_at :: "json_object \<Rightarrow> string list \<Rightarrow> json_object" where
  "remove_at m [] = m"
| "remove_at m [k] = filter (\<lambda>(k', j). k' \<noteq> k) m"
| "remove_at m (k # p) = (case map_of m k of Some (JObject m1) \<Rightarrow> map_put k (JObject (remove_at m1 p)) m | _ \<Rightarrow> m)"

fun set_at :: "json_object \<Rightarrow> json list \<Rightarrow> string list \<Rightarrow> go_error + json_object" where
  "set_at m xs [] = Inl (Errorf ''no field'')"
| "set_at m xs [k] = Inr (map_put k (JArray xs) m)"
| "set_at m xs (k # p) = (case map_of m k of
       None \<Rightarrow> (case set_at [] xs p of Inl e \<Rightarrow> Inl e | Inr m1 \<Rightarrow> Inr (map_put k (JObject m1) m))
     | Some (JObject m0) \<Rightarrow> (case set_at m0 xs p of Inl e \<Rightarrow> Inl e | Inr m1 \<Rightarrow> Inr (map_put k (JObject m1) m))
     | _ \<Rightarrow> Inl (Errorf ''not a map''))"

definition json_unstructured :: unstructured where
  "json_unstructured = \<lparr>
     NestedSlice = (\<lambda>m p. case json_at p (JObject m) of None \<Rightarrow> Inr None | Some (JArray xs) \<Rightarrow> Inr (Some xs) | _ \<Rightarrow> Inl (Errorf ''not a slice'')),
     RemoveNestedField = remove_at, SetNestedSlice = set_at\<rparr>"

lemma map_of_filter_key: "map_of (filter (\<lambda>(k', j). k' \<noteq> k) m) = (map_of m)(k := None)"
  by (induction m) (auto simp: fun_eq_iff)

lemma remove_at_gone: "p \<noteq> [] \<Longrightarrow> json_at p (JObject (remove_at m p)) = None"
  by (induction m p rule: remove_at.induct) (auto simp: map_of_filter_key split: option.splits json.splits)

lemma remove_at_beside: "beside p q \<Longrightarrow> json_at q (JObject (remove_at m p)) = json_at q (JObject m)"
proof (induction m p arbitrary: q rule: remove_at.induct)
  case (2 m k)
  then show ?case by (cases q) (auto simp: map_of_filter_key)
next
  case (3 m k k2 p)
  then obtain k' q' where "q = k' # q'" by (cases q) auto
  then show ?case using 3 by (auto split: option.splits json.splits)
qed simp

lemma set_at_there: "p \<noteq> [] \<Longrightarrow> set_at m xs p = Inr m' \<Longrightarrow> json_at p (JObject m') = Some (JArray xs)"
  by (induction m xs p arbitrary: m' rule: set_at.induct) (auto split: option.splits json.splits sum.splits)

lemma set_at_beside: "beside p q \<Longrightarrow> set_at m xs p = Inr m' \<Longrightarrow> json_at q (JObject m') = json_at q (JObject m)"
proof (induction m xs p arbitrary: q m' rule: set_at.induct)
  case (2 m xs k)
  then show ?case by (cases q) auto
next
  case (3 m xs k k2 p)
  then obtain k' q' where q: "q = k' # q'" by (cases q) auto
  have "json_at q'' (JObject []) = None" if "beside (k2 # p) q''" for q'' using that by (cases q'') auto
  then show ?case using 3 by (cases "k = k'") (auto simp: q split: option.splits json.splits sum.splits)
qed simp

interpretation json_api: unstructured_api json_unstructured
  by unfold_locales
    (auto simp: json_unstructured_def remove_at_gone remove_at_beside intro: set_at_there set_at_beside split: option.splits json.splits)

end
