(* ===== verification/SyncController.thy ===== *)
theory SyncController
  imports SyncObjects Unstructured
begin

text \<open>
  \<^verbatim>\<open>syncer/internal/controller/common.go\<close>, \<^verbatim>\<open>job.go\<close> and \<^verbatim>\<open>jobset.go\<close>: the controllers of a tenant's cluster that deploy jobs and job sets to a worker cluster
  through the syncer service of the server, and delete them there. \<open>reconcile_with\<close> and \<open>sync_deploy\<close> are the two halves that the \<^verbatim>\<open>Reconcile\<close> methods of
  both kinds have in common; an object is a value, and where the source shares a map between two objects the shared change is written out.
  \<^verbatim>\<open>uint32\<close> is \<open>32 word\<close>.

  Parameters are the clients, \<^verbatim>\<open>ToUnstructured\<close> and \<^verbatim>\<open>MarshalJSON\<close> (\<open>converter\<close>), and \<^verbatim>\<open>Quantity.Value\<close>.
\<close>

section \<open>Constants\<close>

abbreviation (input) annoKeyUID :: string where "annoKeyUID \<equiv> ''cloudnatix.com/uid''"
abbreviation (input) annoKeyClusterID :: string where "annoKeyClusterID \<equiv> ''cloudnatix.com/cluster-id''"
abbreviation (input) annoKeyDeployedAt :: string where "annoKeyDeployedAt \<equiv> ''cloudnatix.com/deployed-at''"
abbreviation (input) deployedByLabelKey :: string where "deployedByLabelKey \<equiv> ''cloudnatix.com/deployed-by''"

definition excludeLabelKeys :: "string list" where
  "excludeLabelKeys = [''batch.kubernetes.io/controller-uid'', ''batch.kubernetes.io/src-name'', ''controller-uid'', ''src-name'']"

abbreviation (input) jobControllerName :: string where "jobControllerName \<equiv> ''job-controller''"
abbreviation (input) fullJobControllerName :: string where "fullJobControllerName \<equiv> ''cloudnatix.com/job-controller''"
abbreviation (input) jobSetControllerName :: string where "jobSetControllerName \<equiv> ''jobset-controller''"
abbreviation (input) fullJobSetControllerName :: string where "fullJobSetControllerName \<equiv> ''cloudnatix.com/jobset-controller''"

type_synonym GroupVersionResource = "string \<times> string \<times> string"

definition jobGVR :: GroupVersionResource where "jobGVR = (''batch'', ''v1'', ''jobs'')"
definition jobSetGVR :: GroupVersionResource where "jobSetGVR = (''jobset.x-k8s.io'', ''v1alpha2'', ''jobsets'')"

text \<open>\<^verbatim>\<open>t.UTC().Format(time.RFC3339)\<close>.\<close>

definition civil_date :: "int \<Rightarrow> int \<times> int \<times> int" where
  "civil_date days = (let z = days + 719468; era = z div 146097; doe = z mod 146097;
      yoe = (doe - doe div 1460 + doe div 36524 - doe div 146096) div 365; doy = doe - (365 * yoe + yoe div 4 - yoe div 100);
      mp = (5 * doy + 2) div 153; m = (if mp < 10 then mp + 3 else mp - 9)
    in (yoe + era * 400 + (if m \<le> 2 then 1 else 0), m, doy - (153 * mp + 2) div 5 + 1))"

definition zero_pad :: "nat \<Rightarrow> int \<Rightarrow> string" where
  "zero_pad n x = (let s = Itoa x in replicate (n - length s) CHR ''0'' @ s)"

definition RFC3339 :: "time \<Rightarrow> string" where
  "RFC3339 t = (let s = Unix t; (y, m, d) = civil_date (s div 86400); r = s mod 86400
     in zero_pad 4 y @ ''-'' @ zero_pad 2 m @ ''-'' @ zero_pad 2 d @ ''T'' @ zero_pad 2 (r div 3600) @ '':'' @ zero_pad 2 (r div 60 mod 60) @
        '':'' @ zero_pad 2 (r mod 60) @ ''Z'')"

section \<open>The controllers\<close>

record 'w ssClient =
  ss_PatchKubernetesObject :: "PatchKubernetesObjectRequest \<Rightarrow> ('w, PatchKubernetesObjectResponse) io"
  ss_DeleteKubernetesObject :: "DeleteKubernetesObjectRequest \<Rightarrow> ('w, unit) io"
  ss_ListClusterIDs :: "('w, string list) io"

record ('w, 's, 't) syncController =
  controllerName :: string
  sy_k8sClient :: "('w, 's, 't) objects"
  sy_ssClient :: "'w ssClient"

text \<open>\<^verbatim>\<open>JobController\<close> and \<^verbatim>\<open>JobSetController\<close> embed a \<^verbatim>\<open>syncController\<close> and add a recorder of events.\<close>

record ('w, 's, 't) Controller = "('w, 's, 't) syncController" +
  recorder :: "NamespacedName \<Rightarrow> string \<Rightarrow> string \<Rightarrow> 'w \<Rightarrow> 'w"

record 'o converter =
  cv_ToUnstructured :: "'o \<Rightarrow> go_error + json_object"
  cv_MarshalJSON :: "json_object \<Rightarrow> go_error + bytes"

definition annotation :: "string \<Rightarrow> ('s, 't) sync_object \<Rightarrow> string" where
  "annotation k obj = (case map_of (sm_Annotations (so_Meta obj)) k of None \<Rightarrow> [] | Some v \<Rightarrow> v)"

definition isDeployed :: "('s, 't) sync_object \<Rightarrow> bool" where
  "isDeployed obj \<longleftrightarrow> annotation annoKeyDeployedAt obj \<noteq> []"

definition isDeleted :: "('s, 't) sync_object \<Rightarrow> bool" where
  "isDeleted obj \<longleftrightarrow> sm_DeletionTimestamp (so_Meta obj) \<noteq> None"

definition set_finalizers :: "string list \<Rightarrow> ('s, 't) sync_object \<Rightarrow> ('s, 't) sync_object" where
  "set_finalizers fs obj = obj\<lparr>so_Meta := (so_Meta obj)\<lparr>sm_Finalizers := fs\<rparr>\<rparr>"

definition ContainsFinalizer :: "('s, 't) sync_object \<Rightarrow> string \<Rightarrow> bool" where
  "ContainsFinalizer obj f \<longleftrightarrow> f \<in> set (sm_Finalizers (so_Meta obj))"

definition RemoveFinalizer :: "('s, 't) sync_object \<Rightarrow> string \<Rightarrow> ('s, 't) sync_object" where
  "RemoveFinalizer obj f = set_finalizers (filter (\<lambda>x. x \<noteq> f) (sm_Finalizers (so_Meta obj))) obj"

definition AddFinalizer :: "('s, 't) sync_object \<Rightarrow> string \<Rightarrow> ('s, 't) sync_object" where
  "AddFinalizer obj f = (if ContainsFinalizer obj f then obj else set_finalizers (sm_Finalizers (so_Meta obj) @ [f]) obj)"

definition syncDeleted :: "('w, 's, 't, 'z) syncController_scheme \<Rightarrow> NamespacedName \<Rightarrow> ('s, 't) sync_object \<Rightarrow> GroupVersionResource \<Rightarrow> ('w, Result) io" where
  "syncDeleted c req obj gvr =
     (if \<not> ContainsFinalizer obj (controllerName c) then ret no_requeue
      else let clusterID = annotation annoKeyClusterID obj
        in bindE (if clusterID \<noteq> []
             then ss_DeleteKubernetesObject (sy_ssClient c) \<lparr>DKO_ClusterId = clusterID, DKO_Namespace = fst req, DKO_Name = snd req,
                    DKO_Group = fst gvr, DKO_Version = fst (snd gvr), DKO_Resource = snd (snd gvr)\<rparr>
             else ret ()) (\<lambda>_.
           tryE (oc_Update (sy_k8sClient c) (RemoveFinalizer obj (controllerName c)))
             (\<lambda>e. bindE (lift_result (oc_IgnoreNotFound (sy_k8sClient c) e)) (\<lambda>_. ret no_requeue))
             (\<lambda>_. ret no_requeue)))"

text \<open>The object is changed in place: by \<^verbatim>\<open>AddFinalizer\<close>, and by \<^verbatim>\<open>Update\<close> with the object as stored. An update of an object that no longer exists is
  not an error.\<close>

definition tagWithFinalizer :: "string \<Rightarrow> ('w, 's, 't) objects \<Rightarrow> ('s, 't) sync_object \<Rightarrow> ('w, ('s, 't) sync_object) io" where
  "tagWithFinalizer name K obj =
     (if ContainsFinalizer obj name then ret obj
      else let obj = AddFinalizer obj name
        in tryE (oc_Update K obj) (\<lambda>e. bindE (lift_result (oc_IgnoreNotFound K e)) (\<lambda>_. ret obj)) ret)"

definition deployed_annotations :: "time \<Rightarrow> PatchKubernetesObjectResponse \<Rightarrow> labels \<Rightarrow> labels" where
  "deployed_annotations now resp a =
     map_put annoKeyDeployedAt (RFC3339 now) (map_put annoKeyUID (PKR_Uid resp) (map_put annoKeyClusterID (PKR_ClusterId resp) a))"

definition storeObjectData :: "('w, 's, 't) objects \<Rightarrow> time \<Rightarrow> ('s, 't) sync_object \<Rightarrow> PatchKubernetesObjectResponse \<Rightarrow> ('s, 't) sync_object \<Rightarrow> ('w, unit) io" where
  "storeObjectData K now obj resp base =
     oc_Patch K base (set_annotations (deployed_annotations now resp (sm_Annotations (so_Meta obj))) obj)"

text \<open>The loop over the conditions: the first condition of the type is replaced, or the new one appended.\<close>

fun put_condition :: "('c \<Rightarrow> bool) \<Rightarrow> ('c \<Rightarrow> 'c) \<Rightarrow> 'c \<Rightarrow> 'c list \<Rightarrow> 'c list" where
  "put_condition same update new [] = [new]"
| "put_condition same update new (c # cs) = (if same c then update c # cs else c # put_condition same update new cs)"

definition attachSchedulerErr :: "time \<Rightarrow> meta_Condition list \<Rightarrow> go_error \<Rightarrow> meta_Condition list" where
  "attachSchedulerErr now conditions patchErr =
     (let newCond = \<lparr>mc_Type = ''FailedClusterSchedule'', mc_Status = ''True'', mc_LastTransitionTime = now, mc_Reason = ''FailedScheduling'',
            mc_Message = Error patchErr\<rparr>
      in put_condition (\<lambda>cur. mc_Type cur = mc_Type newCond) (\<lambda>cur. newCond\<lparr>mc_LastTransitionTime := mc_LastTransitionTime cur\<rparr>) newCond conditions)"

definition attachDeployedByLabel :: "labels option \<Rightarrow> string \<Rightarrow> labels" where
  "attachDeployedByLabel labels name = map_put deployedByLabelKey name (case labels of None \<Rightarrow> [] | Some l \<Rightarrow> l)"

definition filterLabels :: "labels \<Rightarrow> labels" where
  "filterLabels labels = filter (\<lambda>(k, v). k \<notin> set excludeLabelKeys) labels"

fun mutate :: "(json_object \<Rightarrow> go_error + json_object) list \<Rightarrow> json_object \<Rightarrow> go_error + json_object" where
  "mutate [] uobj = Inr uobj"
| "mutate (m # ms) uobj = (case m uobj of Inl e \<Rightarrow> Inl e | Inr uobj' \<Rightarrow> mutate ms uobj')"

definition prepareSyncPatchRequest ::
  "('s, 't) sync_object converter \<Rightarrow> ('s, 't) sync_object \<Rightarrow> 32 word \<Rightarrow> GroupVersionResource \<Rightarrow> (json_object \<Rightarrow> go_error + json_object) list \<Rightarrow>
    go_error + PatchKubernetesObjectRequest" where
  "prepareSyncPatchRequest cv deployObj totalGPUs gvr mutators =
     (case cv_ToUnstructured cv deployObj of Inl e \<Rightarrow> Inl e
      | Inr obj \<Rightarrow> (case mutate mutators obj of Inl e \<Rightarrow> Inl e
      | Inr uobj \<Rightarrow> (case cv_MarshalJSON cv uobj of Inl e \<Rightarrow> Inl e
      | Inr data \<Rightarrow> Inr \<lparr>PKO_Namespace = sm_Namespace (so_Meta deployObj), PKO_Name = sm_Name (so_Meta deployObj), PKO_Group = fst gvr,
            PKO_Version = fst (snd gvr), PKO_Resource = snd (snd gvr),
            PKO_Resources = (if totalGPUs > 0 then Some (sint totalGPUs) else None), PKO_Data = data\<rparr>)))"

section \<open>Reconciling\<close>

text \<open>The metadata of the copy that is deployed. Its label map is that of the local object, which therefore changes with it unless it is nil.\<close>

definition deploy_meta :: "string \<Rightarrow> sync_meta \<Rightarrow> sync_meta" where
  "deploy_meta name m = \<lparr>sm_Namespace = sm_Namespace m, sm_Name = sm_Name m, sm_ResourceVersion = 0,
     sm_Labels = Some (attachDeployedByLabel (map_option filterLabels (sm_Labels m)) name), sm_Annotations = [], sm_Finalizers = [],
     sm_DeletionTimestamp = None\<rparr>"

definition share_labels :: "string \<Rightarrow> ('s, 't) sync_object \<Rightarrow> ('s, 't) sync_object" where
  "share_labels name obj = obj\<lparr>so_Meta := (so_Meta obj)\<lparr>sm_Labels :=
     map_option (\<lambda>l. attachDeployedByLabel (Some (filterLabels l)) name) (sm_Labels (so_Meta obj))\<rparr>\<rparr>"

definition reconcile_with ::
  "('w, 's, 't, 'z) syncController_scheme \<Rightarrow> ('s \<Rightarrow> string option) \<Rightarrow> GroupVersionResource \<Rightarrow> (('s, 't) sync_object \<Rightarrow> ('w, Result) io) \<Rightarrow>
    NamespacedName \<Rightarrow> ('w, Result) io" where
  "reconcile_with c managedBy gvr deploy req = tryE (oc_Get (sy_k8sClient c) req)
     (\<lambda>e. bindE (lift_result (oc_IgnoreNotFound (sy_k8sClient c) e)) (\<lambda>_. ret no_requeue))
     (\<lambda>obj. if (case managedBy (so_Spec obj) of None \<Rightarrow> [] | Some m \<Rightarrow> m) \<noteq> controllerName c then ret no_requeue
        else if isDeleted obj then syncDeleted c req obj gvr
        else bindE (tagWithFinalizer (controllerName c) (sy_k8sClient c) obj) (\<lambda>obj. if isDeployed obj then ret no_requeue else deploy obj))"

text \<open>The request to the server, the condition that reports its failure, and the annotations that record its success.\<close>

definition sync_deploy ::
  "('w, 's, 't) Controller \<Rightarrow> time \<Rightarrow> string \<Rightarrow> (go_error \<Rightarrow> 't \<Rightarrow> 't) \<Rightarrow> PatchKubernetesObjectRequest \<Rightarrow> ('s, 't) sync_object \<Rightarrow> ('w, Result) io" where
  "sync_deploy c now kind failed patchReq obj = tryE (ss_PatchKubernetesObject (sy_ssClient c) patchReq)
     (\<lambda>patchErr. let new = obj\<lparr>so_Status := failed patchErr (so_Status obj)\<rparr>
        in tryE (if so_Status obj \<noteq> so_Status new then oc_StatusPatch (sy_k8sClient c) obj new else ret ()) (\<lambda>e. throw patchErr) (\<lambda>_. throw patchErr))
     (\<lambda>resp. bindE (storeObjectData (sy_k8sClient c) now obj resp obj) (\<lambda>_ w.
        ret no_requeue (recorder c (so_key obj) ''Deployed''
          (kind @ ''('' @ PKR_Uid resp @ '') is deployed to the Cluster('' @ PKR_ClusterId resp @ '')'') w)))"

section \<open>Jobs\<close>

definition gpu_limit :: "(Quantity \<Rightarrow> int) \<Rightarrow> ResourceList option \<Rightarrow> 32 word option" where
  "gpu_limit V limits = (case limits of None \<Rightarrow> None | Some l \<Rightarrow> map_option (\<lambda>q. word_of_int (V q)) (map_of l nvidiaGPU))"

definition job_totalGPUs :: "(Quantity \<Rightarrow> int) \<Rightarrow> batch_JobSpec \<Rightarrow> 32 word" where
  "job_totalGPUs V spec = foldl (\<lambda>total l. case gpu_limit V l of None \<Rightarrow> total | Some gpu \<Rightarrow> total + gpu) 0 (sj_Limits spec)"

definition job_deployObj :: "sync_Job \<Rightarrow> sync_Job" where
  "job_deployObj job = job\<lparr>so_Meta := deploy_meta jobControllerName (so_Meta job),
     so_Spec := (so_Spec job)\<lparr>sj_ManagedBy := None, sj_Selector := map_option filterLabels (sj_Selector (so_Spec job)),
       sj_TemplateLabels := filterLabels (sj_TemplateLabels (so_Spec job))\<rparr>\<rparr>"

definition job_failed :: "time \<Rightarrow> go_error \<Rightarrow> batch_JobStatus \<Rightarrow> batch_JobStatus" where
  "job_failed now patchErr status =
     (let newCond = \<lparr>jcf_Type = ''FailedClusterSchedule'', jcf_Status = ''True'', jcf_LastProbeTime = now, jcf_LastTransitionTime = now,
            jcf_Reason = ''FailedScheduling'', jcf_Message = Error patchErr\<rparr>
      in status\<lparr>sjs_Conditions := put_condition (\<lambda>cur. jcf_Type cur = jcf_Type newCond)
           (\<lambda>cur. newCond\<lparr>jcf_LastTransitionTime := jcf_LastTransitionTime cur\<rparr>) newCond (sjs_Conditions status)\<rparr>)"

definition JobController_Reconcile ::
  "('w, batch_JobSpec, batch_JobStatus) Controller \<Rightarrow> sync_Job converter \<Rightarrow> (Quantity \<Rightarrow> int) \<Rightarrow> time \<Rightarrow> NamespacedName \<Rightarrow> ('w, Result) io" where
  "JobController_Reconcile c cv V now req = reconcile_with c sj_ManagedBy jobGVR
     (\<lambda>job. bindE (lift_result (prepareSyncPatchRequest cv (job_deployObj job) (job_totalGPUs V (so_Spec job)) jobGVR []))
        (\<lambda>patchReq. sync_deploy c now ''Job'' (job_failed now) patchReq (share_labels jobControllerName job))) req"

section \<open>Job sets\<close>

definition deploy_replicated :: "ReplicatedJob \<Rightarrow> ReplicatedJob" where
  "deploy_replicated job = job\<lparr>rj_Spec := (rj_Spec job)\<lparr>sj_TemplateLabels := filterLabels (sj_TemplateLabels (rj_Spec job)),
     sj_Selector := map_option filterLabels (sj_Selector (rj_Spec job))\<rparr>\<rparr>"

definition jobset_deployObj :: "sync_JobSet \<Rightarrow> sync_JobSet" where
  "jobset_deployObj jobSet = jobSet\<lparr>so_Meta := deploy_meta jobSetControllerName (so_Meta jobSet),
     so_Spec := (so_Spec jobSet)\<lparr>jss_ManagedBy := None, jss_ReplicatedJobs := map deploy_replicated (jss_ReplicatedJobs (so_Spec jobSet))\<rparr>\<rparr>"

definition instanceCount :: "batch_JobSpec \<Rightarrow> int" where
  "instanceCount jobSpec = (let parallelJobs = (case sj_Parallelism jobSpec of None \<Rightarrow> 1 | Some n \<Rightarrow> n);
       mustCompleteCount = (case sj_Completions jobSpec of None \<Rightarrow> parallelJobs | Some n \<Rightarrow> n)
     in min mustCompleteCount parallelJobs)"

definition calcMinJobSetGPUs :: "(Quantity \<Rightarrow> int) \<Rightarrow> JobSetSpec \<Rightarrow> 32 word" where
  "calcMinJobSetGPUs V spec = foldl (\<lambda>maxJobGPU job. foldl (\<lambda>maxJobGPU l. case gpu_limit V l of None \<Rightarrow> maxJobGPU
       | Some gpu \<Rightarrow> let gpuCount = gpu * word_of_int (instanceCount (rj_Spec job)) in if gpuCount > maxJobGPU then gpuCount else maxJobGPU)
     maxJobGPU (sj_Limits (rj_Spec job))) 0 (jss_ReplicatedJobs spec)"

definition jobset_failed :: "time \<Rightarrow> go_error \<Rightarrow> JobSetStatus \<Rightarrow> JobSetStatus" where
  "jobset_failed now patchErr status = status\<lparr>jsst_Conditions := attachSchedulerErr now (jsst_Conditions status) patchErr\<rparr>"

definition JobSetController_Reconcile ::
  "('w, JobSetSpec, JobSetStatus) Controller \<Rightarrow> sync_JobSet converter \<Rightarrow> unstructured \<Rightarrow> (Quantity \<Rightarrow> int) \<Rightarrow> time \<Rightarrow> NamespacedName \<Rightarrow> ('w, Result) io" where
  "JobSetController_Reconcile c cv U V now req = reconcile_with c jss_ManagedBy jobSetGVR
     (\<lambda>jobSet. let deployObj = jobset_deployObj jobSet
        in bindE (lift_result (prepareSyncPatchRequest cv deployObj (calcMinJobSetGPUs V (so_Spec deployObj)) jobSetGVR [removeCreationTime U]))
             (\<lambda>patchReq. sync_deploy c now ''JobSet'' (jobset_failed now) patchReq (share_labels jobSetControllerName jobSet))) req"

section \<open>Counting GPUs\<close>

text \<open>The counts as unbounded integers. Conversion, addition and multiplication wrap around, so a request carries the true count modulo \<open>2 ^ 32\<close>, read as
  a signed number.\<close>

definition limit_value :: "(Quantity \<Rightarrow> int) \<Rightarrow> ResourceList option \<Rightarrow> int" where
  "limit_value V limits = (case limits of None \<Rightarrow> 0 | Some l \<Rightarrow> (case map_of l nvidiaGPU of None \<Rightarrow> 0 | Some q \<Rightarrow> V q))"

definition limits_sum :: "(Quantity \<Rightarrow> int) \<Rightarrow> batch_JobSpec \<Rightarrow> int" where
  "limits_sum V spec = sum_list (map (limit_value V) (sj_Limits spec))"

definition jobset_counts :: "(Quantity \<Rightarrow> int) \<Rightarrow> JobSetSpec \<Rightarrow> int list" where
  "jobset_counts V spec = concat (map (\<lambda>job. map (\<lambda>l. limit_value V l * instanceCount (rj_Spec job)) (sj_Limits (rj_Spec job))) (jss_ReplicatedJobs spec))"

lemma gpu_limit_value: "(case gpu_limit V l of None \<Rightarrow> 0 | Some g \<Rightarrow> g) = word_of_int (limit_value V l)"
  by (auto simp: gpu_limit_def limit_value_def split: option.splits)

lemma job_totalGPUs_value: "job_totalGPUs V spec = word_of_int (limits_sum V spec)"
proof -
  have "foldl (\<lambda>total l. case gpu_limit V l of None \<Rightarrow> total | Some gpu \<Rightarrow> total + gpu) t ls = t + word_of_int (sum_list (map (limit_value V) ls))"
    for t :: "32 word" and ls
  proof (induction ls arbitrary: t)
    case (Cons l ls)
    have "(case gpu_limit V l of None \<Rightarrow> t | Some gpu \<Rightarrow> t + gpu) = t + word_of_int (limit_value V l)"
      using gpu_limit_value [of V l] by (auto split: option.splits)
    then show ?case using Cons by (simp add: add.assoc)
  qed simp
  from this [of 0] show ?thesis by (simp add: job_totalGPUs_def limits_sum_def)
qed

text \<open>As long as no count leaves the range of \<^verbatim>\<open>uint32\<close>, a job set asks for the largest of them.\<close>

definition larger :: "32 word \<Rightarrow> 32 word \<Rightarrow> 32 word" where
  "larger m c = (if c > m then c else m)"

lemma calcMinJobSetGPUs_counts: "calcMinJobSetGPUs V spec = foldl larger 0 (map word_of_int (jobset_counts V spec))"
proof -
  have step: "(case gpu_limit V l of None \<Rightarrow> m | Some gpu \<Rightarrow> let gpuCount = gpu * word_of_int n in if gpuCount > m then gpuCount else m) =
      larger m (word_of_int (limit_value V l * n))" for m :: "32 word" and l n
    using gpu_limit_value [of V l] by (auto simp: larger_def Let_def split: option.splits)
  have inner: "foldl (\<lambda>m l. larger m (word_of_int (limit_value V l * n))) m ls = foldl larger m (map word_of_int (map (\<lambda>l. limit_value V l * n) ls))"
    for m ls n
    by (induction ls arbitrary: m) simp_all
  have "foldl (\<lambda>m job. foldl larger m (f job)) m jobs = foldl larger m (concat (map f jobs))" for m jobs and f :: "ReplicatedJob \<Rightarrow> 32 word list"
    by (induction jobs arbitrary: m) simp_all
  then show ?thesis by (simp add: calcMinJobSetGPUs_def jobset_counts_def step inner map_concat del: map_map of_int_mult) (simp add: comp_def)
qed

lemma larger_max:
  assumes "0 \<le> m" "m < 2 ^ 32" "\<forall>n \<in> set ns. 0 \<le> n \<and> n < 2 ^ 32"
  shows "foldl larger (word_of_int m) (map word_of_int ns) = word_of_int (foldl max m ns)"
  using assms
proof (induction ns arbitrary: m)
  case (Cons n ns)
  have "(word_of_int m < (word_of_int n :: 32 word)) = (m < n)" using Cons.prems by (simp add: wi_less)
  then have "larger (word_of_int m) (word_of_int n) = word_of_int (max m n)" by (simp add: larger_def max_def)
  then show ?case using Cons.IH [of "max m n"] Cons.prems by simp
qed simp

lemma calcMinJobSetGPUs_value:
  "\<forall>n \<in> set (jobset_counts V spec). 0 \<le> n \<and> n < 2 ^ 32 \<Longrightarrow> calcMinJobSetGPUs V spec = word_of_int (foldl max 0 (jobset_counts V spec))"
  unfolding calcMinJobSetGPUs_counts using larger_max [of 0 "jobset_counts V spec"] by simp

lemma foldl_max_bounds:
  "0 \<le> m \<Longrightarrow> m < B \<Longrightarrow> list_all (\<lambda>n. 0 \<le> n \<and> n < B) ns \<Longrightarrow> 0 \<le> foldl max m ns \<and> foldl max m ns < B" for m B :: int
  by (induction ns arbitrary: m) auto

lemma gpu_request:
  assumes "prepareSyncPatchRequest cv obj (word_of_int n) gvr ms = Inr req"
  shows "PKO_Resources req = (if n mod 2 ^ 32 = 0 then None else Some (int32 n))"
proof -
  have "(0 < (word_of_int n :: 32 word)) = (n mod 2 ^ 32 \<noteq> 0)"
    using wi_less [of 0 n, where 'a = 32] pos_mod_sign [of "2 ^ 32" n] by (simp add: order_less_le)
  moreover have "sint (word_of_int n :: 32 word) = int32 n" by (simp add: int_word_sint int32_def)
  ultimately show ?thesis using assms by (auto simp: prepareSyncPatchRequest_def split: sum.splits)
qed

section \<open>The steps on a store that works\<close>

lemma set_finalizers_simps [simp]:
  "so_key (set_finalizers fs obj) = so_key obj" "sm_Finalizers (so_Meta (set_finalizers fs obj)) = fs" "so_Spec (set_finalizers fs obj) = so_Spec obj"
  "so_Status (set_finalizers fs obj) = so_Status obj" "sm_Annotations (so_Meta (set_finalizers fs obj)) = sm_Annotations (so_Meta obj)"
  "sm_DeletionTimestamp (so_Meta (set_finalizers fs obj)) = sm_DeletionTimestamp (so_Meta obj)"
  "sm_ResourceVersion (so_Meta (set_finalizers fs obj)) = sm_ResourceVersion (so_Meta obj)"
  by (simp_all add: set_finalizers_def so_key_def)

lemma share_labels_simps [simp]:
  "so_key (share_labels l obj) = so_key obj" "sm_Annotations (so_Meta (share_labels l obj)) = sm_Annotations (so_Meta obj)"
  "so_Status (share_labels l obj) = so_Status obj"
  by (simp_all add: share_labels_def so_key_def)

lemma object_predicates [simp]:
  "isDeleted (set_version v obj) = isDeleted obj" "isDeleted (set_finalizers fs obj) = isDeleted obj" "isDeleted (set_annotations a obj) = isDeleted obj"
  "isDeployed (set_version v obj) = isDeployed obj" "isDeployed (set_finalizers fs obj) = isDeployed obj"
  "ContainsFinalizer (set_version v obj) f = ContainsFinalizer obj f" "ContainsFinalizer (set_annotations a obj) f = ContainsFinalizer obj f"
  "annotation k (set_version v obj) = annotation k obj" "annotation k (set_finalizers fs obj) = annotation k obj"
  by (simp_all add: isDeleted_def isDeployed_def ContainsFinalizer_def annotation_def)

lemma same_status: "so_Status obj = t \<Longrightarrow> obj\<lparr>so_Status := t\<rparr> = obj"
  by simp

lemma RFC3339_nonempty: "RFC3339 t \<noteq> []"
  by (simp add: RFC3339_def Let_def split: prod.split)

lemma deployed_annotations:
  "annotation annoKeyClusterID (set_annotations (deployed_annotations now resp a) obj) = PKR_ClusterId resp"
  "annotation annoKeyUID (set_annotations (deployed_annotations now resp a) obj) = PKR_Uid resp"
  "annotation annoKeyDeployedAt (set_annotations (deployed_annotations now resp a) obj) = RFC3339 now"
  "isDeployed (set_annotations (deployed_annotations now resp a) obj)"
  by (simp_all add: annotation_def isDeployed_def deployed_annotations_def RFC3339_nonempty)

lemma prepared_address:
  "prepareSyncPatchRequest cv obj n gvr ms = Inr req \<Longrightarrow>
    (PKO_Namespace req, PKO_Name req) = so_key obj \<and> (PKO_Group req, PKO_Version req, PKO_Resource req) = gvr"
  by (auto simp: prepareSyncPatchRequest_def so_key_def split: sum.splits)

text \<open>The object that is deployed does not depend on the version and the finalizers of the local one.\<close>

lemma deploy_meta_simps [simp]:
  "deploy_meta name (m\<lparr>sm_ResourceVersion := v\<rparr>) = deploy_meta name m" "deploy_meta name (m\<lparr>sm_Finalizers := fs\<rparr>) = deploy_meta name m"
  by (simp_all add: deploy_meta_def)

lemma job_deployObj_copy: "job_deployObj (set_version v (set_finalizers fs job)) = job_deployObj job" "job_deployObj (AddFinalizer job f) = job_deployObj job"
  by (simp_all add: job_deployObj_def set_version_def set_finalizers_def AddFinalizer_def)

lemma job_deployObj_key: "so_key (job_deployObj job) = so_key job"
  by (simp add: job_deployObj_def so_key_def deploy_meta_def)

context reliable_store
begin

lemma tag_ok:
  assumes "lookup k nn = Some obj" and "\<not> isDeleted obj"
  shows "\<exists>v fs k1. tagWithFinalizer name K obj k = (Inr (set_version v (set_finalizers fs obj)), k1) \<and> name \<in> set fs \<and>
    set fs = insert name (set (sm_Finalizers (so_Meta obj))) \<and> lookup k1 = (lookup k)(nn \<mapsto> set_version v (set_finalizers fs obj))"
proof (cases "ContainsFinalizer obj name")
  case True
  let ?v = "sm_ResourceVersion (so_Meta obj)" and ?fs = "sm_Finalizers (so_Meta obj)"
  have "set_version ?v (set_finalizers ?fs obj) = obj" by (simp add: set_version_def set_finalizers_def)
  then show ?thesis
    using True assms(1) by (intro exI [of _ ?v] exI [of _ ?fs] exI [of _ k]) (auto simp: tagWithFinalizer_def ret_def ContainsFinalizer_def)
next
  case False
  let ?fs = "sm_Finalizers (so_Meta obj) @ [name]"
  have key: "so_key obj = nn" by (rule stored_key [OF assms(1)])
  have add: "AddFinalizer obj name = set_finalizers ?fs obj" using False by (simp add: AddFinalizer_def)
  obtain obj' k1 where run: "oc_Update K (set_finalizers ?fs obj) k = (Inr obj', k1)"
    using update_found [of k "set_finalizers ?fs obj" obj] assms(1) key by auto
  from update_ok [OF run] assms(1) key obtain v where obj': "obj' = set_version v (set_finalizers ?fs obj)"
    and look: "lookup k1 = (lookup k)(nn := if finalized obj' then None else Some obj')"
    by (auto simp: same_status)
  have "\<not> finalized obj'" using assms(2) by (simp add: obj' finalized_def isDeleted_def)
  then show ?thesis
    using False run look by (intro exI [of _ v] exI [of _ ?fs] exI [of _ k1]) (simp add: tagWithFinalizer_def add tryE_def ret_def obj' Let_def)
qed

lemma store_ok:
  assumes "lookup k nn = Some obj"
  shows "\<exists>v k1. storeObjectData K now (share_labels l obj) resp (share_labels l obj) k = (Inr (), k1) \<and>
    lookup k1 = (lookup k)(nn \<mapsto> set_version v (set_annotations (deployed_annotations now resp (sm_Annotations (so_Meta obj))) obj))"
proof -
  have key: "so_key obj = nn" by (rule stored_key [OF assms])
  let ?base = "share_labels l obj"
  let ?new = "set_annotations (deployed_annotations now resp (sm_Annotations (so_Meta obj))) ?base"
  obtain k1 where run: "oc_Patch K ?base ?new k = (Inr (), k1)"
    using patch_found [of k ?new obj] assms key by auto
  from patch_ok [OF run] assms key show ?thesis using run by (auto simp: storeObjectData_def)
qed

end

end
