(* ===== verification/StatusSyncer.thy ===== *)
theory StatusSyncer
  imports SyncController
begin

text \<open>
  \<^verbatim>\<open>syncer/internal/controller/syncer.go\<close>: the status syncers that copy the status of the objects in the worker clusters back to the tenant's cluster, one
  per worker cluster and kind. The controller managers that run them are third-party: \<open>status_syncers\<close> is the list of the instances that \<^verbatim>\<open>Start\<close> runs in
  an \<^verbatim>\<open>errgroup\<close>, with what each of them watches. \<^verbatim>\<open>syncer/internal/config/config.go\<close> is modelled here as well.
\<close>

section \<open>Configuration\<close>

record SyncedKindsConfig =
  sk_Jobs :: bool
  sk_JobSets :: bool

record SyncerKubernetesManagerConfig =
  skm_EnableLeaderElection :: bool
  skm_LeaderElectionID :: string
  skm_MetricsBindAddress :: string
  skm_HealthBindAddress :: string
  skm_PprofBindAddress :: string

record SyncerConfig =
  JobManagerServerSyncerServiceAddr :: string
  SessionManagerEndpoint :: string
  Tenant_TLS_Enable :: bool
  SyncedKinds :: SyncedKindsConfig
  sy_KubernetesManager :: SyncerKubernetesManagerConfig

definition SyncedKindsConfig_validate :: "SyncedKindsConfig \<Rightarrow> go_error + unit" where
  "SyncedKindsConfig_validate c = (if \<not> sk_Jobs c \<and> \<not> sk_JobSets c then Inl (Errorf ''at least one kind must be set'') else Inr ())"

definition SyncerKubernetesManagerConfig_validate :: "SyncerKubernetesManagerConfig \<Rightarrow> go_error + unit" where
  "SyncerKubernetesManagerConfig_validate c =
     (if skm_EnableLeaderElection c \<and> skm_LeaderElectionID c = [] then Inl (Errorf ''leader election ID must be set'') else Inr ())"

definition SyncerConfig_Validate :: "SyncerConfig \<Rightarrow> go_error + unit" where
  "SyncerConfig_Validate c =
     (if JobManagerServerSyncerServiceAddr c = [] then Inl (Errorf ''jobManagerServerSyncerServiceAddr must be set'')
      else if SessionManagerEndpoint c = [] then Inl (Errorf ''sessionManagerEndpoint must be set'')
      else (case SyncedKindsConfig_validate (SyncedKinds c) of Inl e \<Rightarrow> Inl (Errorf (''syncedKinds: '' @ Error e))
      | Inr _ \<Rightarrow> (case SyncerKubernetesManagerConfig_validate (sy_KubernetesManager c) of Inl e \<Rightarrow> Inl (Errorf (''kubernetesManager: '' @ Error e))
      | Inr _ \<Rightarrow> Inr ())))"

section \<open>Copying a status\<close>

text \<open>\<^verbatim>\<open>syncJobsFn\<close> and \<^verbatim>\<open>syncJobSetsFn\<close> are the same code for two kinds.\<close>

definition syncStatusFn :: "NamespacedName \<Rightarrow> ('w, 's, 't) objects \<Rightarrow> ('w, 's, 't) objects \<Rightarrow> ('w, Result) io" where
  "syncStatusFn req remote locl = tryE (oc_Get remote req)
     (\<lambda>e. bindE (lift_result (oc_IgnoreNotFound remote e)) (\<lambda>_. ret no_requeue))
     (\<lambda>remoteObj. if isDeleted remoteObj then ret no_requeue
        else tryE (oc_Get locl req) (\<lambda>e. bindE (lift_result (oc_IgnoreNotFound locl e)) (\<lambda>_. ret no_requeue))
          (\<lambda>localObj. if so_Status localObj = so_Status remoteObj then ret no_requeue
             else bindE (oc_StatusPatch locl localObj (localObj\<lparr>so_Status := so_Status remoteObj\<rparr>)) (\<lambda>_. ret no_requeue)))"

definition syncJobsFn :: "NamespacedName \<Rightarrow> ('w, batch_JobSpec, batch_JobStatus) objects \<Rightarrow> ('w, batch_JobSpec, batch_JobStatus) objects \<Rightarrow> ('w, Result) io" where
  "syncJobsFn = syncStatusFn"

definition syncJobSetsFn :: "NamespacedName \<Rightarrow> ('w, JobSetSpec, JobSetStatus) objects \<Rightarrow> ('w, JobSetSpec, JobSetStatus) objects \<Rightarrow> ('w, Result) io" where
  "syncJobSetsFn = syncStatusFn"

record ('w, 's, 't) clusterStatusSyncer =
  css_localK8sClient :: "('w, 's, 't) objects"
  css_remoteK8sClient :: "('w, 's, 't) objects"
  css_reconcileFn :: "NamespacedName \<Rightarrow> ('w, 's, 't) objects \<Rightarrow> ('w, 's, 't) objects \<Rightarrow> ('w, Result) io"

definition clusterStatusSyncer_Reconcile :: "('w, 's, 't) clusterStatusSyncer \<Rightarrow> NamespacedName \<Rightarrow> ('w, Result) io" where
  "clusterStatusSyncer_Reconcile s req = css_reconcileFn s req (css_remoteK8sClient s) (css_localK8sClient s)"

section \<open>Running the syncers\<close>

record rest_Config =
  rest_Host :: string
  rest_BearerToken :: string

definition getRestConfig :: "string \<Rightarrow> string \<Rightarrow> string \<Rightarrow> rest_Config" where
  "getRestConfig endpoint clusterID token = \<lparr>rest_Host = endpoint @ ''/sessions/'' @ clusterID, rest_BearerToken = token\<rparr>"

text \<open>What a remote manager watches: objects of a kind with the label that the controller attaches, when they are created or updated.\<close>

datatype watch_event = CreateEvent | UpdateEvent | DeleteEvent | GenericEvent

record syncer_instance =
  si_ClusterID :: string
  si_Config :: rest_Config
  si_Name :: string
  si_Kind :: string
  si_Selector :: "string \<times> string"

fun remote_filter :: "watch_event \<Rightarrow> bool" where
  "remote_filter CreateEvent = True"
| "remote_filter UpdateEvent = True"
| "remote_filter DeleteEvent = False"
| "remote_filter GenericEvent = False"

definition watches :: "syncer_instance \<Rightarrow> watch_event \<Rightarrow> ('s, 't) sync_object \<Rightarrow> bool" where
  "watches i ev obj \<longleftrightarrow> remote_filter ev \<and>
     (case sm_Labels (so_Meta obj) of None \<Rightarrow> False | Some l \<Rightarrow> map_of l (fst (si_Selector i)) = Some (snd (si_Selector i)))"

definition runStatusSyncer :: "rest_Config \<Rightarrow> string \<Rightarrow> nat \<Rightarrow> string \<Rightarrow> string \<Rightarrow> syncer_instance" where
  "runStatusSyncer rconf clusterID idx name typeName = \<lparr>si_ClusterID = clusterID, si_Config = rconf,
     si_Name = ToLower typeName @ ''-syncer'' @ zero_pad 2 (int idx), si_Kind = typeName, si_Selector = (deployedByLabelKey, name)\<rparr>"

record 'w RemoteSyncerManager =
  rm_sessionManagerEndpoint :: string
  rm_ssClient :: "'w ssClient"
  rm_syncedKinds :: SyncedKindsConfig

definition status_syncers :: "string \<Rightarrow> SyncedKindsConfig \<Rightarrow> string \<Rightarrow> string list \<Rightarrow> syncer_instance list" where
  "status_syncers endpoint kinds token ids = concat (map (\<lambda>(i, c). let rconf = getRestConfig endpoint c token
     in (if sk_Jobs kinds then [runStatusSyncer rconf c (i + 1) jobControllerName ''Job''] else []) @
        (if sk_JobSets kinds then [runStatusSyncer rconf c (i + 1) jobSetControllerName ''JobSet''] else [])) (enumerate 0 ids))"

text \<open>\<open>wait\<close> is the \<^verbatim>\<open>errgroup\<close>: it runs the instances concurrently until one fails or all have stopped.\<close>

definition RemoteSyncerManager_Start :: "'w RemoteSyncerManager \<Rightarrow> string \<Rightarrow> (syncer_instance list \<Rightarrow> ('w, unit) io) \<Rightarrow> ('w, unit) io" where
  "RemoteSyncerManager_Start m token wait = bindE (failing (\<lambda>e. Errorf (''list clusters: '' @ Error e)) (ss_ListClusterIDs (rm_ssClient m)))
     (\<lambda>ids. failing (\<lambda>e. Errorf (''wait: '' @ Error e)) (wait (status_syncers (rm_sessionManagerEndpoint m) (rm_syncedKinds m) token ids)))"

section \<open>The names of the instances\<close>

lemma digits_value_snoc: "digits_value (s @ [digit d]) = 10 * digits_value s + int d" if "d < 10"
  using that by (simp add: digits_value_def digit_def)

lemma digits_value_nat_string: "digits_value (nat_string n) = int n"
proof (induction n rule: nat_string.induct)
  case (1 n)
  show ?case
  proof (cases "n < 10")
    case True
    then show ?thesis using digits_value_snoc [of n "[]"] by (simp add: nat_string.simps [of n] digits_value_def)
  next
    case False
    have "10 * (n div 10) + n mod 10 = n" by simp
    then have "10 * int (n div 10) + int (n mod 10) = int n" by linarith
    then show ?thesis using 1 False by (simp add: nat_string.simps [of n] digits_value_snoc)
  qed
qed

lemma digits_value_zeros: "digits_value (replicate k CHR ''0'' @ s) = digits_value s"
proof -
  have "foldl (\<lambda>a c. 10 * a + (int (of_char c) - 48)) 0 (replicate k CHR ''0'') = 0" by (induction k) simp_all
  then show ?thesis by (simp add: digits_value_def)
qed

lemma zero_pad_inj: "zero_pad n (int x) = zero_pad n (int y) \<Longrightarrow> x = y"
  by (metis (mono_tags, lifting) Itoa_def digits_value_nat_string digits_value_zeros nat_int of_nat_eq_iff of_nat_less_0_iff zero_pad_def)

lemma syncer_names: "distinct (map si_Name (status_syncers endpoint kinds token ids))"
proof -
  define names where "names i = (if sk_Jobs kinds then [''job-syncer'' @ zero_pad 2 (int (i + 1))] else []) @
    (if sk_JobSets kinds then [''jobset-syncer'' @ zero_pad 2 (int (i + 1))] else [])" for i
  have lower: "ToLower ''Job'' = ''job''" "ToLower ''JobSet'' = ''jobset''" by code_simp+
  have all: "map si_Name (status_syncers endpoint kinds token ids) = concat (map names [0..<length ids])"
    unfolding status_syncers_def map_concat map_map enumerate_eq_zip
    by (rule arg_cong [where f = concat], rule nth_equalityI) (auto simp: names_def runStatusSyncer_def lower Let_def)
  have apart: "set (names i) \<inter> set (names j) = {}" if "j \<noteq> i" for i j
    using zero_pad_inj [of 2 "i + 1" "j + 1"] zero_pad_inj [of 2 "j + 1" "i + 1"] that by (auto simp: names_def)
  have one: "distinct (names i)" for i by (simp add: names_def)
  have "distinct (concat (map names is))" if "distinct is" for "is"
    using that
  proof (induction "is")
    case (Cons i "is")
    have "set (names i) \<inter> set (concat (map names is)) = {}" using Cons.prems apart [of _ i] unfolding set_concat set_map by fastforce
    then show ?case using Cons one by (simp del: set_concat)
  qed simp
  then show ?thesis unfolding all by simp
qed

end
