(* ===== verification/Federation.thy ===== *)
theory Federation
  imports Fleet StatusSyncer
begin

text \<open>
  The syncer and the server together, wired as in \<^verbatim>\<open>syncer/cmd/run.go\<close>: the client of the syncer service is the server's own handlers behind the network of
  \<open>Fleet\<close>, the tenant's cluster is a store of objects. \<open>deploy_round\<close> and \<open>delete_round\<close> say what a \<^verbatim>\<open>Reconcile\<close> does when the calls are delivered;
  \<open>syncer_activity\<close> is everything the syncer does, and leaves a trace of calls of the server.
\<close>

section \<open>Wiring\<close>

definition fleet_ssClient :: "network \<Rightarrow> server_env \<Rightarrow> context_info \<Rightarrow> 'k fleet ssClient" where
  "fleet_ssClient net env ctx = \<lparr>
     ss_PatchKubernetesObject = (\<lambda>req. rpc net env (\<lambda>now. PatchKubernetesObject env now ctx req)),
     ss_DeleteKubernetesObject = (\<lambda>req. rpc net env (\<lambda>now. DeleteKubernetesObject env ctx req)),
     ss_ListClusterIDs = rpc_read net env (\<lambda>now st. ListClusterIDs ctx)\<rparr>"

definition fleet_objects :: "('k, 's, 't) objects \<Rightarrow> ('k fleet, 's, 't) objects" where
  "fleet_objects K = \<lparr>oc_Get = (\<lambda>nn. on_kube (oc_Get K nn)), oc_Update = (\<lambda>obj. on_kube (oc_Update K obj)),
     oc_Patch = (\<lambda>base obj. on_kube (oc_Patch K base obj)), oc_StatusPatch = (\<lambda>base obj. on_kube (oc_StatusPatch K base obj)),
     oc_IsNotFound = oc_IsNotFound K\<rparr>"

text \<open>What \<^verbatim>\<open>SetupWithManager\<close> sets; \<open>rec\<close> records events in the tenant's cluster.\<close>

definition SetupWithManager ::
  "string \<Rightarrow> network \<Rightarrow> server_env \<Rightarrow> context_info \<Rightarrow> ('k, 's, 't) objects \<Rightarrow> (NamespacedName \<Rightarrow> string \<Rightarrow> string \<Rightarrow> 'k \<Rightarrow> 'k) \<Rightarrow> ('k fleet, 's, 't) Controller" where
  "SetupWithManager name net env ctx K rec = \<lparr>controllerName = name, sy_k8sClient = fleet_objects K, sy_ssClient = fleet_ssClient net env ctx,
     recorder = (\<lambda>nn reason msg w. w\<lparr>fl_kube := rec nn reason msg (fl_kube w)\<rparr>)\<rparr>"

abbreviation run_JobController where "run_JobController \<equiv> SetupWithManager fullJobControllerName"
abbreviation run_JobSetController where "run_JobSetController \<equiv> SetupWithManager fullJobSetControllerName"

lemma controller_sel [simp]:
  "controllerName (SetupWithManager name net env ctx K rec) = name" "sy_k8sClient (SetupWithManager name net env ctx K rec) = fleet_objects K"
  "sy_ssClient (SetupWithManager name net env ctx K rec) = fleet_ssClient net env ctx"
  "recorder (SetupWithManager name net env ctx K rec) nn r m w = w\<lparr>fl_kube := rec nn r m (fl_kube w)\<rparr>"
  by (simp_all add: SetupWithManager_def)

section \<open>The server's part\<close>

lemma PatchKubernetesObject_ok:
  assumes "PatchKubernetesObject env now ctx req st = (Inr resp, st')"
  shows "st_k8s st' = st_k8s st @ [PatchResource (PKR_ClusterId resp) (PKO_Name req) (PKO_Namespace req) (PKO_Group req, PKO_Version req, PKO_Resource req) (PKO_Data req)]"
  using assms by (auto simp: PatchKubernetesObject_def env_k8s_def Let_def split: sum.splits option.splits prod.splits if_splits dest!: env_tables)

lemma DeleteKubernetesObject_ok:
  assumes "DeleteKubernetesObject env ctx req st = (Inr (), st')"
  shows "st' = st\<lparr>st_k8s := st_k8s st @ [DeleteResource (DKO_ClusterId req) (DKO_Name req) (DKO_Namespace req) (DKO_Group req, DKO_Version req, DKO_Resource req)]\<rparr>"
  using assms by (auto simp: DeleteKubernetesObject_def env_k8s_def split: sum.splits)

section \<open>The store behind the wiring\<close>

lemma on_kube_simps:
  "on_kube (ret x) = ret x" "on_kube (throw e) = throw e" "on_kube (lift_result r) = lift_result r"
  "bindE (on_kube m) (\<lambda>x. on_kube (f x)) = on_kube (bindE m f)"
  "tryE (on_kube m) (\<lambda>e. on_kube (h e)) (\<lambda>x. on_kube (f x)) = on_kube (tryE m h f)"
  by (auto simp: fun_eq_iff on_kube_def ret_def throw_def lift_result_def bindE_def tryE_def split: prod.split sum.split)

lemma fleet_objects_sel [simp]:
  "oc_Get (fleet_objects K) nn = on_kube (oc_Get K nn)" "oc_Update (fleet_objects K) obj = on_kube (oc_Update K obj)"
  "oc_Patch (fleet_objects K) base obj = on_kube (oc_Patch K base obj)" "oc_StatusPatch (fleet_objects K) base obj = on_kube (oc_StatusPatch K base obj)"
  "oc_IsNotFound (fleet_objects K) = oc_IsNotFound K" "oc_IgnoreNotFound (fleet_objects K) e = oc_IgnoreNotFound K e"
  by (simp_all add: fleet_objects_def oc_IgnoreNotFound_def)

lemma tag_fleet: "tagWithFinalizer name (fleet_objects K) obj = on_kube (tagWithFinalizer name K obj)"
proof -
  have "tryE (on_kube (oc_Update K obj')) (\<lambda>e. bindE (lift_result (oc_IgnoreNotFound K e)) (\<lambda>_. ret obj')) ret =
      on_kube (tryE (oc_Update K obj') (\<lambda>e. bindE (lift_result (oc_IgnoreNotFound K e)) (\<lambda>_. ret obj')) ret)" for obj'
    unfolding on_kube_simps(5) [symmetric] on_kube_simps(4) [symmetric] on_kube_simps(1,3) ..
  then show ?thesis by (simp add: tagWithFinalizer_def Let_def on_kube_simps(1))
qed

lemma on_kube_run: "m (fl_kube w) = (r, k) \<Longrightarrow> on_kube m w = (r, w\<lparr>fl_kube := k\<rparr>)"
  by (simp add: on_kube_def)

section \<open>Deploying an object\<close>

text \<open>The code after the checks of \<^verbatim>\<open>Reconcile\<close>, as both controllers have it.\<close>

abbreviation (input) deploying where
  "deploying c now kind failed l prep \<equiv> \<lambda>obj. bindE (lift_result (prep obj)) (\<lambda>req. sync_deploy c now kind failed req (share_labels l obj))"

lemma deploy_round:
  fixes w :: "'k fleet" and K :: "('k, 's, 't) objects" and rec name net env ctx
  defines "c \<equiv> SetupWithManager name net env ctx K rec"
  assumes store: "reliable_store K objs" and rec: "\<And>nn r m k. objs (rec nn r m k) = objs k" and net: "quiet net"
    and obj: "objs (fl_kube w) nn = Some obj" "managedBy (so_Spec obj) = Some name" "\<not> isDeleted obj" "\<not> isDeployed obj"
    and prep: "\<And>v fs. prep (set_version v (set_finalizers fs obj)) = Inr req"
    and server: "PatchKubernetesObject env (net_clock net (fl_rpcs w)) ctx req (fl_server w) = (Inr resp, st')"
  shows "\<exists>w' v fs. reconcile_with c managedBy gvr (deploying c now kind failed l prep) nn w = (Inr no_requeue, w') \<and> fl_server w' = st' \<and>
    set fs = insert name (set (sm_Finalizers (so_Meta obj))) \<and>
    objs (fl_kube w') = (objs (fl_kube w))(nn \<mapsto>
      set_version v (set_annotations (deployed_annotations now resp (sm_Annotations (so_Meta obj))) (set_finalizers fs obj)))"
proof -
  have get: "oc_Get K nn (fl_kube w) = (Inr obj, fl_kube w)" by (rule reliable_store.get_found [OF store obj(1)])
  obtain v fs k1 where tag: "tagWithFinalizer name K obj (fl_kube w) = (Inr (set_version v (set_finalizers fs obj)), k1)"
    and fs: "set fs = insert name (set (sm_Finalizers (so_Meta obj)))"
    and k1: "objs k1 = (objs (fl_kube w))(nn \<mapsto> set_version v (set_finalizers fs obj))"
    using reliable_store.tag_ok [OF store obj(1,3)] by blast
  let ?obj1 = "set_version v (set_finalizers fs obj)"
  let ?w2 = "w\<lparr>fl_kube := k1, fl_rpcs := Suc (fl_rpcs w), fl_server := st'\<rparr>"
  have patch: "ss_PatchKubernetesObject (fleet_ssClient net env ctx) req (w\<lparr>fl_kube := k1\<rparr>) = (Inr resp, ?w2)"
    using quiet_rpc [OF net, where w = "w\<lparr>fl_kube := k1\<rparr>" and h = "\<lambda>now. PatchKubernetesObject env now ctx req"] server by (simp add: fleet_ssClient_def)
  have "objs k1 nn = Some ?obj1" by (simp add: k1)
  from reliable_store.store_ok [OF store this] obtain v2 k2 where
    st: "storeObjectData K now (share_labels l ?obj1) resp (share_labels l ?obj1) k1 = (Inr (), k2)"
    and k2: "objs k2 = (objs k1)(nn \<mapsto> set_version v2 (set_annotations (deployed_annotations now resp (sm_Annotations (so_Meta ?obj1))) ?obj1))"
    by blast
  have final: "objs k2 = (objs (fl_kube w))(nn \<mapsto> set_version v2 (set_annotations (deployed_annotations now resp (sm_Annotations (so_Meta obj))) (set_finalizers fs obj)))"
    by (simp add: k1 k2) (simp add: set_version_def set_annotations_def)
  have "oc_Patch K (share_labels l ?obj1) (set_annotations (deployed_annotations now resp (sm_Annotations (so_Meta obj))) (share_labels l ?obj1)) k1 = (Inr (), k2)"
    using st by (simp add: storeObjectData_def)
  then have "\<exists>w'. reconcile_with c managedBy gvr (deploying c now kind failed l prep) nn w = (Inr no_requeue, w') \<and> fl_server w' = st' \<and>
      objs (fl_kube w') = objs k2"
    using obj(2-4) prep [of v fs]
    by (simp add: c_def reconcile_with_def sync_deploy_def storeObjectData_def tryE_def bindE_def on_kube_def get tag_fleet tag patch lift_result_def
        ret_def rec)
  then show ?thesis using fs final by metis
qed

text \<open>Once it is deployed, an object is left alone.\<close>

lemma reconcile_settled:
  fixes w :: "'k fleet" and K :: "('k, 's, 't) objects"
  assumes "reliable_store K objs" and "objs (fl_kube w) nn = Some obj" and "managedBy (so_Spec obj) = Some name"
    and "\<not> isDeleted obj" "ContainsFinalizer obj name" "isDeployed obj"
  shows "reconcile_with (SetupWithManager name net env ctx K rec) managedBy gvr deploy nn w = (Inr no_requeue, w)"
  using reliable_store.get_found [OF assms(1,2)] assms(3-6)
  by (simp add: reconcile_with_def tryE_def bindE_def on_kube_def tagWithFinalizer_def ret_def)

text \<open>An object that was deleted after it has been read is deployed all the same, and nothing is left that would remove it from the worker cluster.\<close>

lemma deploy_of_deleted:
  fixes w :: "'k fleet" and K :: "('k, 's, 't) objects" and rec name net env ctx
  defines "c \<equiv> SetupWithManager name net env ctx K rec"
  assumes net: "quiet net" and get: "oc_Get K nn (fl_kube w) = (Inr obj, k)"
    and obj: "managedBy (so_Spec obj) = Some name" "\<not> isDeleted obj" "\<not> isDeployed obj" "\<not> ContainsFinalizer obj name"
    and gone: "oc_Update K (AddFinalizer obj name) k = (Inl e, k)" "oc_IsNotFound K e" "\<And>base obj. oc_Patch K base obj k = (Inl e, k)"
      "oc_Get K nn k = (Inl e, k)"
    and prep: "prep (AddFinalizer obj name) = Inr req"
    and server: "PatchKubernetesObject env (net_clock net (fl_rpcs w)) ctx req (fl_server w) = (Inr resp, st')"
  shows "\<exists>w'. reconcile_with c managedBy gvr (deploying c now kind failed l prep) nn w = (Inl e, w') \<and> fl_server w' = st' \<and> fl_kube w' = k \<and>
    reconcile_with c managedBy gvr (deploying c now kind failed l prep) nn w' = (Inr no_requeue, w')"
proof -
  let ?w1 = "w\<lparr>fl_kube := k, fl_rpcs := Suc (fl_rpcs w), fl_server := st'\<rparr>"
  have tag: "tagWithFinalizer name K obj k = (Inr (AddFinalizer obj name), k)"
    using obj(4) gone(1,2) by (simp add: tagWithFinalizer_def Let_def tryE_def bindE_def oc_IgnoreNotFound_def lift_result_def ret_def)
  have patch: "ss_PatchKubernetesObject (fleet_ssClient net env ctx) req (w\<lparr>fl_kube := k\<rparr>) = (Inr resp, ?w1)"
    using quiet_rpc [OF net, where w = "w\<lparr>fl_kube := k\<rparr>" and h = "\<lambda>now. PatchKubernetesObject env now ctx req"] server by (simp add: fleet_ssClient_def)
  have "isDeployed (AddFinalizer obj name) = isDeployed obj" by (simp add: AddFinalizer_def)
  then have "reconcile_with c managedBy gvr (deploying c now kind failed l prep) nn w = (Inl e, ?w1)"
    using obj(1-3) prep gone(3)
    by (simp add: c_def reconcile_with_def sync_deploy_def storeObjectData_def tryE_def bindE_def on_kube_def get tag_fleet tag patch lift_result_def ret_def)
  moreover have "reconcile_with c managedBy gvr (deploying c now kind failed l prep) nn ?w1 = (Inr no_requeue, ?w1)"
    using gone(2,4) by (simp add: c_def reconcile_with_def tryE_def bindE_def on_kube_def oc_IgnoreNotFound_def lift_result_def ret_def)
  ultimately show ?thesis by simp
qed

section \<open>Deleting an object\<close>

definition delete_request :: "GroupVersionResource \<Rightarrow> NamespacedName \<Rightarrow> string \<Rightarrow> DeleteKubernetesObjectRequest" where
  "delete_request gvr nn clusterID = \<lparr>DKO_ClusterId = clusterID, DKO_Namespace = fst nn, DKO_Name = snd nn,
     DKO_Group = fst gvr, DKO_Version = fst (snd gvr), DKO_Resource = snd (snd gvr)\<rparr>"

lemma reconcile_deleted:
  fixes w :: "'k fleet" and K :: "('k, 's, 't) objects"
  assumes "oc_Get K nn (fl_kube w) = (Inr obj, fl_kube w)" "managedBy (so_Spec obj) = Some name" "isDeleted obj" "ContainsFinalizer obj name"
    "annotation annoKeyClusterID obj = cid" "cid \<noteq> []"
  shows "reconcile_with (SetupWithManager name net env ctx K rec) managedBy gvr deploy nn w =
    bindE (rpc net env (\<lambda>now. DeleteKubernetesObject env ctx (delete_request gvr nn cid))) (\<lambda>_.
      tryE (on_kube (oc_Update K (RemoveFinalizer obj name))) (\<lambda>e. bindE (lift_result (oc_IgnoreNotFound K e)) (\<lambda>_. ret no_requeue)) (\<lambda>_. ret no_requeue)) w"
  using assms by (simp add: reconcile_with_def syncDeleted_def Let_def fleet_ssClient_def delete_request_def tryE_def [of "on_kube (oc_Get K nn)"] on_kube_def)

lemma delete_round:
  fixes w :: "'k fleet" and K :: "('k, 's, 't) objects"
  assumes store: "reliable_store K objs" and net: "quiet net"
    and obj: "objs (fl_kube w) nn = Some obj" "managedBy (so_Spec obj) = Some name" "isDeleted obj" "ContainsFinalizer obj name"
      "annotation annoKeyClusterID obj = cid" "cid \<noteq> []"
    and result: "reconcile_with (SetupWithManager name net env ctx K rec) managedBy gvr deploy nn w = (r, w')"
  shows "(case DeleteKubernetesObject env ctx (delete_request gvr nn cid) (fl_server w) of
       (Inl e, st') \<Rightarrow> r = Inl (grpc_error e) \<and> fl_kube w' = fl_kube w \<and> fl_server w' = st'
     | (Inr _, st') \<Rightarrow> r = Inr no_requeue \<and> fl_server w' = st' \<and> (\<exists>v. objs (fl_kube w') = (objs (fl_kube w))(nn :=
         if set (sm_Finalizers (so_Meta obj)) \<subseteq> {name} then None else Some (set_version v (RemoveFinalizer obj name)))))"
proof -
  have get: "oc_Get K nn (fl_kube w) = (Inr obj, fl_kube w)" by (rule reliable_store.get_found [OF store obj(1)])
  note run = reconcile_deleted [where managedBy = managedBy and deploy = deploy and net = net and env = env and ctx = ctx and rec = rec and gvr = gvr, OF get obj(2-)]
  obtain res st' where del: "DeleteKubernetesObject env ctx (delete_request gvr nn cid) (fl_server w) = (res, st')" by fastforce
  let ?w1 = "w\<lparr>fl_rpcs := Suc (fl_rpcs w), fl_server := st'\<rparr>"
  show ?thesis
  proof (cases res)
    case (Inl e)
    then have "rpc net env (\<lambda>now. DeleteKubernetesObject env ctx (delete_request gvr nn cid)) w = (Inl (grpc_error e), ?w1)"
      using quiet_rpc_error [OF net, where w = w and h = "\<lambda>now. DeleteKubernetesObject env ctx (delete_request gvr nn cid)"] del by simp
    then show ?thesis using result unfolding run using del Inl by (auto simp: bindE_def)
  next
    case (Inr u)
    then have rpc: "rpc net env (\<lambda>now. DeleteKubernetesObject env ctx (delete_request gvr nn cid)) w = (Inr u, ?w1)"
      using quiet_rpc [OF net, where w = w and h = "\<lambda>now. DeleteKubernetesObject env ctx (delete_request gvr nn cid)"] del by simp
    let ?obj = "RemoveFinalizer obj name"
    have key: "so_key ?obj = nn" using object_store.stored_key [OF reliable_store.axioms(1) [OF store] obj(1)] by (simp add: RemoveFinalizer_def)
    obtain obj' k where upd: "oc_Update K ?obj (fl_kube w) = (Inr obj', k)"
      using reliable_store.update_found [OF store, of "fl_kube w" ?obj obj] obj(1) key by (auto simp: RemoveFinalizer_def)
    from object_store.update_ok [OF reliable_store.axioms(1) [OF store] upd] obj(1) key
    obtain v where obj': "obj' = set_version v ?obj" and k: "objs k = (objs (fl_kube w))(nn := if finalized obj' then None else Some obj')"
      by (auto simp: same_status RemoveFinalizer_def)
    have "finalized obj' = (set (sm_Finalizers (so_Meta obj)) \<subseteq> {name})"
      using obj(3) by (auto simp: obj' finalized_def RemoveFinalizer_def isDeleted_def filter_empty_conv)
    then have look: "objs k = (objs (fl_kube w))(nn := if set (sm_Finalizers (so_Meta obj)) \<subseteq> {name} then None else Some (set_version v ?obj))"
      using k obj' by simp
    have "r = Inr no_requeue \<and> w' = ?w1\<lparr>fl_kube := k\<rparr>" using result rpc upd unfolding run by (simp add: bindE_def tryE_def on_kube_def ret_def)
    then show ?thesis using del Inr look by auto
  qed
qed

text \<open>Whatever the network does: as long as the worker cluster has not accepted the deletion, the object and its finalizer stay.\<close>

lemma rpc_delivered:
  assumes "rpc net env h w = (Inr x, w')"
  obtains st where "h (net_clock net (fl_rpcs w)) st = (Inr x, fl_server w')" "fl_kube w' = fl_kube w"
  using assms by (auto simp: rpc_def Let_def split: delivery.splits sum.splits prod.splits)

lemma rpc_kube: "fl_kube (snd (rpc net env h w)) = fl_kube w"
  by (simp add: rpc_def Let_def split: delivery.split sum.split prod.split)

lemma delete_ordered:
  fixes w :: "'k fleet" and K :: "('k, 's, 't) objects"
  assumes "oc_Get K nn (fl_kube w) = (Inr obj, fl_kube w)" "managedBy (so_Spec obj) = Some name" "isDeleted obj" "ContainsFinalizer obj name"
      "annotation annoKeyClusterID obj = cid" "cid \<noteq> []"
    and run: "reconcile_with (SetupWithManager name net env ctx K rec) managedBy gvr deploy nn w = (r, w')"
  shows "fl_kube w' = fl_kube w \<or> (\<exists>past. st_k8s (fl_server w') = past @ [DeleteResource cid (snd nn) (fst nn) gvr])"
proof (cases "rpc net env (\<lambda>now. DeleteKubernetesObject env ctx (delete_request gvr nn cid)) w")
  case (Pair res w1)
  note run = run [unfolded reconcile_deleted [where managedBy = managedBy, OF assms(1-6)] bindE_def Pair]
  show ?thesis
  proof (cases res)
    case (Inl e)
    have "fl_kube w1 = fl_kube w"
      using rpc_kube [of net env "\<lambda>now. DeleteKubernetesObject env ctx (delete_request gvr nn cid)" w] by (simp add: Pair)
    then show ?thesis using run Inl by simp
  next
    case (Inr u)
    then obtain st where "DeleteKubernetesObject env ctx (delete_request gvr nn cid) st = (Inr u, fl_server w1)"
      using Pair by (auto elim: rpc_delivered)
    then have "st_k8s (fl_server w1) = st_k8s st @ [DeleteResource cid (snd nn) (fst nn) gvr]"
      using DeleteKubernetesObject_ok [of env ctx "delete_request gvr nn cid" st "fl_server w1"] by (simp add: delete_request_def)
    moreover have "fl_server w' = fl_server w1"
      using run Inr by (auto simp: tryE_def on_kube_def bindE_def lift_result_def ret_def split: prod.splits sum.splits)
    ultimately show ?thesis by simp
  qed
qed

text \<open>And as long as the worker cluster refuses the deletion, for whatever reason, every attempt fails and the object stays.\<close>

lemma delete_refused:
  fixes w :: "'k fleet" and K :: "('k, 's, 't) objects"
  assumes "oc_Get K nn (fl_kube w) = (Inr obj, fl_kube w)" "managedBy (so_Spec obj) = Some name" "isDeleted obj" "ContainsFinalizer obj name"
      "annotation annoKeyClusterID obj = cid" "cid \<noteq> []" and refused: "k8sApply env (DeleteResource cid (snd nn) (fst nn) gvr) = Inl e"
    and run: "reconcile_with (SetupWithManager name net env ctx K rec) managedBy gvr deploy nn w = (r, w')"
  shows "fl_kube w' = fl_kube w \<and> (\<exists>e'. r = Inl e')"
proof (cases "rpc net env (\<lambda>now. DeleteKubernetesObject env ctx (delete_request gvr nn cid)) w")
  case (Pair res w1)
  have "\<nexists>x st'. DeleteKubernetesObject env ctx (delete_request gvr nn cid) st = (Inr x, st')" for st
    using refused by (auto simp: DeleteKubernetesObject_def delete_request_def env_k8s_def split: sum.splits)
  then obtain e' where res: "res = Inl e'" using Pair by (cases res) (auto elim: rpc_delivered)
  have "fl_kube w1 = fl_kube w"
    using rpc_kube [of net env "\<lambda>now. DeleteKubernetesObject env ctx (delete_request gvr nn cid)" w] by (simp add: Pair)
  then show ?thesis using run unfolding reconcile_deleted [where managedBy = managedBy, OF assms(1-6)] bindE_def Pair res by auto
qed

section \<open>Copying a status\<close>

text \<open>\<open>remote\<close> and \<open>locl\<close> are two stores of one world; patching a status in the local one leaves the remote one alone.\<close>

lemma status_round:
  assumes remote: "reliable_store R robjs" and locl: "reliable_store L lobjs"
    and apart: "\<And>base obj w. robjs (snd (oc_StatusPatch L base obj w)) = robjs w"
    and objs: "robjs w nn = Some robj" "\<not> isDeleted robj" "lobjs w nn = Some lobj"
  shows "\<exists>w' v. syncStatusFn nn R L w = (Inr no_requeue, w') \<and> robjs w' = robjs w \<and>
    lobjs w' = (lobjs w)(nn \<mapsto> set_version v (lobj\<lparr>so_Status := so_Status robj\<rparr>)) \<and> syncStatusFn nn R L w' = (Inr no_requeue, w')"
proof -
  have again: "syncStatusFn nn R L w' = (Inr no_requeue, w')"
    if "robjs w' nn = Some robj" "lobjs w' nn = Some lobj'" "so_Status lobj' = so_Status robj" for w' lobj'
    using that objs(2) reliable_store.get_found [OF remote that(1)] reliable_store.get_found [OF locl that(2)]
    by (simp add: syncStatusFn_def tryE_def ret_def)
  show ?thesis
  proof (cases "so_Status lobj = so_Status robj")
    case True
    have "lobjs w = (lobjs w)(nn \<mapsto> set_version (sm_ResourceVersion (so_Meta lobj)) (lobj\<lparr>so_Status := so_Status robj\<rparr>))"
      using objs(3) True by (auto simp: set_version_def same_status fun_upd_idem_iff)
    then show ?thesis using again [OF objs(1,3) True] by metis
  next
    case False
    have key: "so_key lobj = nn" by (rule object_store.stored_key [OF reliable_store.axioms(1) [OF locl] objs(3)])
    obtain w' where patch: "oc_StatusPatch L lobj (lobj\<lparr>so_Status := so_Status robj\<rparr>) w = (Inr (), w')"
      using reliable_store.status_patch_found [OF locl, of w "lobj\<lparr>so_Status := so_Status robj\<rparr>" lobj] objs(3) key by auto
    have rest: "robjs w' = robjs w" using apart [of lobj _ w] patch by (metis snd_conv)
    from object_store.status_patch_ok [OF reliable_store.axioms(1) [OF locl] patch] objs(3) key
    obtain v where w': "lobjs w' = (lobjs w)(nn \<mapsto> set_version v (lobj\<lparr>so_Status := so_Status robj\<rparr>))" by auto
    have "syncStatusFn nn R L w = (Inr no_requeue, w')"
      using False objs(2) patch reliable_store.get_found [OF remote objs(1)] reliable_store.get_found [OF locl objs(3)]
      by (simp add: syncStatusFn_def tryE_def bindE_def ret_def)
    moreover have "syncStatusFn nn R L w' = (Inr no_requeue, w')"
      by (rule again [of _ "set_version v (lobj\<lparr>so_Status := so_Status robj\<rparr>)"]) (simp_all add: w' rest objs(1))
    ultimately show ?thesis using w' rest by blast
  qed
qed

section \<open>What the syncer does to the server\<close>

fun sync_call_of :: "context_info \<Rightarrow> server_call \<Rightarrow> bool" where
  "sync_call_of ctx (Call_PatchKubernetesObject c req) = (c = ctx)"
| "sync_call_of ctx (Call_DeleteKubernetesObject c req) = (c = ctx)"
| "sync_call_of ctx _ = False"

lemma sync_call_tables:
  "sync_call_of ctx call \<Longrightarrow> st_jobs (serve env now call st) = st_jobs st \<and> st_notebooks (serve env now call st) = st_notebooks st \<and>
     st_batch_jobs (serve env now call st) = st_batch_jobs st \<and> st_clusters (serve env now call st) = st_clusters st"
  by (cases call) (simp_all add: call_frames)

lemma sync_calls_tables:
  "list_all (sync_call_of ctx \<circ> snd) calls \<Longrightarrow> st_jobs (serves env calls st) = st_jobs st \<and> st_notebooks (serves env calls st) = st_notebooks st \<and>
     st_batch_jobs (serves env calls st) = st_batch_jobs st \<and> st_clusters (serves env calls st) = st_clusters st"
  by (induction calls arbitrary: st) (auto simp: serves_def sync_call_tables split: prod.split)

lemma ssClient_traced:
  "tracks (fleet_trace net env (sync_call_of ctx)) (ss_PatchKubernetesObject (fleet_ssClient net env ctx) q1)"
  "tracks (fleet_trace net env (sync_call_of ctx)) (ss_DeleteKubernetesObject (fleet_ssClient net env ctx) q2)"
  "tracks (fleet_trace net env (sync_call_of ctx)) (ss_ListClusterIDs (fleet_ssClient net env ctx))"
proof -
  have one: "\<exists>calls. serve env now call st = serves env calls st \<and> list_all (sync_call_of ctx \<circ> snd) calls"
    if "sync_call_of ctx call" for now call st
    using that by (intro exI [of _ "[(now, call)]"]) (simp add: serves_def)
  show "tracks (fleet_trace net env (sync_call_of ctx)) (ss_PatchKubernetesObject (fleet_ssClient net env ctx) q1)"
    unfolding fleet_ssClient_def by simp (rule rpc_traced, use one [of "Call_PatchKubernetesObject ctx q1"] in simp)
  show "tracks (fleet_trace net env (sync_call_of ctx)) (ss_DeleteKubernetesObject (fleet_ssClient net env ctx) q2)"
    unfolding fleet_ssClient_def by simp (rule rpc_traced, use one [of "Call_DeleteKubernetesObject ctx q2"] in simp)
  show "tracks (fleet_trace net env (sync_call_of ctx)) (ss_ListClusterIDs (fleet_ssClient net env ctx))"
    by (simp add: fleet_ssClient_def rpc_read_traced)
qed

lemma kube_only_traced: "tracks (fleet_trace net env P) (\<lambda>w. (r, w\<lparr>fl_kube := f (fl_kube w)\<rparr>))"
  by (auto simp: tracks_def intro!: fleet_traceI [of _ _ "[]"])

lemma tag_traced: "tracks (fleet_trace net env P) (tagWithFinalizer name (fleet_objects K) obj)"
  unfolding tag_fleet by (rule on_kube_traced)

lemma syncDeleted_traced:
  "tracks (fleet_trace net env (sync_call_of ctx)) (syncDeleted (SetupWithManager name net env ctx K rec) nn obj gvr)"
  unfolding syncDeleted_def Let_def controller_sel fleet_objects_sel by (intro tracks_intros ssClient_traced on_kube_traced fleet_trace_preorder)

lemma sync_deploy_traced:
  "tracks (fleet_trace net env (sync_call_of ctx)) (sync_deploy (SetupWithManager name net env ctx K rec) now kind failed req obj)"
  unfolding sync_deploy_def Let_def storeObjectData_def controller_sel fleet_objects_sel ret_def [of no_requeue]
  by (intro tracks_intros ssClient_traced on_kube_traced fleet_trace_preorder kube_only_traced)

lemma reconcile_with_traced:
  assumes "\<And>obj. tracks (fleet_trace net env (sync_call_of ctx)) (deploy obj)"
  shows "tracks (fleet_trace net env (sync_call_of ctx)) (reconcile_with (SetupWithManager name net env ctx K rec) managedBy gvr deploy nn)"
  unfolding reconcile_with_def controller_sel fleet_objects_sel tag_fleet by (intro tracks_intros on_kube_traced fleet_trace_preorder syncDeleted_traced assms)

lemma syncStatusFn_traced: "tracks (fleet_trace net env P) (syncStatusFn nn (fleet_objects R) (fleet_objects L))"
  unfolding syncStatusFn_def fleet_objects_sel by (intro tracks_intros on_kube_traced fleet_trace_preorder)

text \<open>Everything the syncer does. The tenant's cluster and the worker clusters it can reach are parts of \<open>fl_kube\<close>.\<close>

inductive syncer_activity :: "network \<Rightarrow> server_env \<Rightarrow> context_info \<Rightarrow> 'k fleet \<Rightarrow> 'k fleet \<Rightarrow> bool" for net env ctx where
  jobs: "syncer_activity net env ctx w (snd (JobController_Reconcile (run_JobController net env ctx K rec) cv V now nn w))"
| job_sets: "syncer_activity net env ctx w (snd (JobSetController_Reconcile (run_JobSetController net env ctx K rec) cv U V now nn w))"
| job_status: "syncer_activity net env ctx w (snd (syncJobsFn nn (fleet_objects R) (fleet_objects L) w))"
| job_set_status: "syncer_activity net env ctx w (snd (syncJobSetsFn nn (fleet_objects R) (fleet_objects L) w))"
| start: "syncer_activity net env ctx w
    (snd (RemoteSyncerManager_Start \<lparr>rm_sessionManagerEndpoint = ep, rm_ssClient = fleet_ssClient net env ctx, rm_syncedKinds = kinds\<rparr> token (\<lambda>is. lift_result (wait is)) w))"

lemma syncer_activity_trace: "syncer_activity net env ctx w w' \<Longrightarrow> fleet_trace net env (sync_call_of ctx) w w'"
  by (induction rule: syncer_activity.induct)
    (rule tracksD [OF _ prod.collapse [symmetric]]; (unfold JobController_Reconcile_def JobSetController_Reconcile_def Let_def syncJobsFn_def syncJobSetsFn_def
        RemoteSyncerManager_Start_def)?; simp?; intro reconcile_with_traced syncStatusFn_traced tracks_intros fleet_trace_preorder sync_deploy_traced ssClient_traced)+

lemma syncer_activities_trace: "(syncer_activity net env ctx)\<^sup>*\<^sup>* w w' \<Longrightarrow> fleet_trace net env (sync_call_of ctx) w w'"
proof (induction rule: rtranclp_induct)
  case base
  show ?case by (rule reflpD [OF fleet_trace_preorder(1)])
next
  case (step y z)
  then show ?case using transpD [OF fleet_trace_preorder(2)] syncer_activity_trace by blast
qed

end
