(* ===== verification/Slurm.thy ===== *)
theory Slurm
  imports Effects
begin

text \<open>
  \<^verbatim>\<open>experimental/slurm/server\<close>: a prototype that puts several Slurm REST servers behind one. \<^verbatim>\<open>http.ResponseWriter\<close> is a value \<open>writer\<close> that keeps the first status
  and appends what is written; the body of a request can be read once. \<^verbatim>\<open>http.DefaultClient.Do\<close>, the check of the URL in \<^verbatim>\<open>http.NewRequest\<close> and the JSON of the
  generated types are parameters. A handler returns the writer and says whether it has panicked; response headers are not modelled.
\<close>

section \<open>HTTP\<close>

record writer =
  wr_Status :: "int option"
  wr_Body :: bytes
  wr_Broken :: "go_error option"      \<comment> \<open>the connection no longer takes data\<close>

definition fresh_writer :: writer where
  "fresh_writer = \<lparr>wr_Status = None, wr_Body = [], wr_Broken = None\<rparr>"

definition WriteHeader :: "int \<Rightarrow> writer \<Rightarrow> writer" where
  "WriteHeader code w = (case wr_Status w of None \<Rightarrow> w\<lparr>wr_Status := Some code\<rparr> | Some _ \<Rightarrow> w)"

definition Write :: "bytes \<Rightarrow> writer \<Rightarrow> (go_error + unit) \<times> writer" where
  "Write b w = (let w = WriteHeader 200 w in case wr_Broken w of Some e \<Rightarrow> (Inl e, w) | None \<Rightarrow> (Inr (), w\<lparr>wr_Body := wr_Body w @ b\<rparr>))"

definition http_Error :: "writer \<Rightarrow> string \<Rightarrow> int \<Rightarrow> writer" where
  "http_Error w msg code = snd (Write (msg @ [CHR 0x0A]) (WriteHeader code w))"

text \<open>What the client gets once the handler has returned.\<close>

definition sent :: "writer \<Rightarrow> int \<times> bytes" where
  "sent w = (case wr_Status w of None \<Rightarrow> 200 | Some code \<Rightarrow> code, wr_Body w)"

record http_request =
  rq_Method :: string
  rq_URL :: string
  rq_Header :: "(string \<times> string list) list"
  rq_Body :: "go_error + bytes"       \<comment> \<open>what reading the rest of the body gives\<close>

record http_response =
  rs_StatusCode :: int
  rs_Body :: "go_error + bytes"

record 'w http =
  http_URLCheck :: "string \<Rightarrow> go_error + unit"
  http_Do :: "http_request \<Rightarrow> ('w, http_response) io"

definition StatusOK :: int where "StatusOK = 200"
definition StatusInternalServerError :: int where "StatusInternalServerError = 500"

section \<open>proxy.go\<close>

record Proxy =
  px_name :: string
  px_baseURL :: string
  px_authToken :: string

definition header_add :: "string \<Rightarrow> string \<Rightarrow> (string \<times> string list) list \<Rightarrow> (string \<times> string list) list" where
  "header_add k v h = map_put k ((case map_of h k of None \<Rightarrow> [] | Some vs \<Rightarrow> vs) @ [v]) h"

text \<open>The body is read from the incoming request, so it is empty for the next proxy.\<close>

definition forward :: "'w http \<Rightarrow> Proxy \<Rightarrow> http_request \<Rightarrow> string \<Rightarrow> string \<Rightarrow> 'w \<Rightarrow> (go_error + http_response) \<times> http_request \<times> 'w" where
  "forward H p r httpMethod path w = (case rq_Body r of Inl e \<Rightarrow> (Inl e, r, w)
     | Inr reqBody \<Rightarrow> let r' = r\<lparr>rq_Body := Inr []\<rparr>
        in (case http_URLCheck H (px_baseURL p @ path) of Inl e \<Rightarrow> (Inl e, r', w)
        | Inr _ \<Rightarrow> let hreq = \<lparr>rq_Method = httpMethod, rq_URL = px_baseURL p @ path,
              rq_Header = header_add ''Authorization'' (''Bearer '' @ px_authToken p) (foldl (\<lambda>h (k, v). map_put k v h) [] (rq_Header r)), rq_Body = Inr reqBody\<rparr>
            in (case http_Do H hreq w of (resp, w') \<Rightarrow> (resp, r', w'))))"

section \<open>server.go\<close>

record slurm_S =
  s_proxies :: "Proxy list"
  jobSubmissionIndex :: nat

datatype handled = Returned writer | Panicked writer

text \<open>\<open>None\<close>: the index is out of range.\<close>

definition nextProxy :: "slurm_S \<Rightarrow> (Proxy \<times> slurm_S) option" where
  "nextProxy s = (if jobSubmissionIndex s < length (s_proxies s)
     then Some (s_proxies s ! jobSubmissionIndex s, s\<lparr>jobSubmissionIndex := (jobSubmissionIndex s + 1) mod length (s_proxies s)\<rparr>)
     else None)"

definition forwardResponse :: "writer \<Rightarrow> http_response \<Rightarrow> writer" where
  "forwardResponse w resp = (let w = WriteHeader (rs_StatusCode resp) w
     in case rs_Body resp of Inl e \<Rightarrow> http_Error w (Error e) StatusInternalServerError
        | Inr body \<Rightarrow> (case Write body w of (Inl e, w) \<Rightarrow> http_Error w (Error e) StatusInternalServerError | (Inr _, w) \<Rightarrow> w))"

text \<open>After an error the handler goes on with a response that is nil.\<close>

definition SlurmV0041PostJobSubmit :: "'w http \<Rightarrow> slurm_S \<Rightarrow> writer \<Rightarrow> http_request \<Rightarrow> 'w \<Rightarrow> handled \<times> slurm_S \<times> 'w" where
  "SlurmV0041PostJobSubmit H s wr r w = (case nextProxy s of None \<Rightarrow> (Panicked wr, s, w)
     | Some (p, s') \<Rightarrow> (case forward H p r ''POST'' ''/slurm/v0.0.41/job/submit'' w of
         (Inl e, _, w') \<Rightarrow> (Panicked (http_Error wr (Error e) StatusInternalServerError), s', w')
       | (Inr resp, _, w') \<Rightarrow> (Returned (forwardResponse wr resp), s', w')))"

record V0041OpenapiJobInfoResp =
  ji_Errors :: "bytes option"
  ji_Jobs :: "bytes list"
  ji_LastBackfill :: bytes
  ji_LastUpdate :: bytes
  ji_Meta :: "bytes option"
  ji_Warnings :: "bytes option"

definition zero_JobInfoResp :: V0041OpenapiJobInfoResp where
  "zero_JobInfoResp = \<lparr>ji_Errors = None, ji_Jobs = [], ji_LastBackfill = [], ji_LastUpdate = [], ji_Meta = None, ji_Warnings = None\<rparr>"

record job_info_json =
  json_Marshal :: "V0041OpenapiJobInfoResp \<Rightarrow> go_error + bytes"
  json_Unmarshal :: "bytes \<Rightarrow> go_error + V0041OpenapiJobInfoResp"

text \<open>The loop over the proxies: \<open>Inl\<close> is a writer with which the handler has returned. \<open>agg\<close> is \<open>None\<close> as long as \<^verbatim>\<open>isFirst\<close> is true.\<close>

fun get_jobs_loop ::
  "'w http \<Rightarrow> job_info_json \<Rightarrow> Proxy list \<Rightarrow> V0041OpenapiJobInfoResp option \<Rightarrow> writer \<Rightarrow> http_request \<Rightarrow> 'w \<Rightarrow> (writer + V0041OpenapiJobInfoResp option) \<times> 'w" where
  "get_jobs_loop H J [] agg wr r w = (Inr agg, w)"
| "get_jobs_loop H J (p # ps) agg wr r w = (case forward H p r ''GET'' ''/slurm/v0.0.41/jobs/'' w of
       (Inl e, _, w') \<Rightarrow> (Inl (http_Error wr (Error e) StatusInternalServerError), w')
     | (Inr resp, r', w') \<Rightarrow> (case rs_Body resp of Inl e \<Rightarrow> (Inl (http_Error wr (Error e) StatusInternalServerError), w')
         | Inr body \<Rightarrow> if rs_StatusCode resp \<noteq> StatusOK then (Inl (snd (Write body (WriteHeader (rs_StatusCode resp) wr))), w')
             else (case json_Unmarshal J body of Inl e \<Rightarrow> (Inl (http_Error wr (Error e) StatusInternalServerError), w')
               | Inr jr \<Rightarrow> get_jobs_loop H J ps
                   (Some (case agg of None \<Rightarrow> jr | Some aggResp \<Rightarrow> aggResp\<lparr>ji_Jobs := ji_Jobs aggResp @ ji_Jobs jr\<rparr>)) wr r' w')))"

definition SlurmV0041GetJobs :: "'w http \<Rightarrow> job_info_json \<Rightarrow> slurm_S \<Rightarrow> writer \<Rightarrow> http_request \<Rightarrow> 'w \<Rightarrow> handled \<times> slurm_S \<times> 'w" where
  "SlurmV0041GetJobs H J s wr r w = (case get_jobs_loop H J (s_proxies s) None wr r w of
       (Inl wr', w') \<Rightarrow> (Returned wr', s, w')
     | (Inr agg, w') \<Rightarrow> let wr' = WriteHeader StatusOK wr
         in (case json_Marshal J (case agg of None \<Rightarrow> zero_JobInfoResp | Some a \<Rightarrow> a) of
              Inl e \<Rightarrow> (Returned (http_Error wr' (Error e) StatusInternalServerError), s, w')
            | Inr b \<Rightarrow> (Returned (snd (Write b wr')), s, w')))"

text \<open>The other endpoints have an empty body.\<close>

definition unimplemented_endpoints :: "string list" where
  "unimplemented_endpoints =
    [''SlurmV0041GetDiag'', ''SlurmV0041PostJobAllocate'', ''SlurmV0041DeleteJob'', ''SlurmV0041GetJob'', ''SlurmV0041PostJob'',
     ''SlurmV0041DeleteJobs'', ''SlurmV0041GetJobsState'', ''SlurmV0041GetLicenses'', ''SlurmV0041DeleteNode'', ''SlurmV0041GetNode'',
     ''SlurmV0041PostNode'', ''SlurmV0041GetNodes'', ''SlurmV0041GetPartition'', ''SlurmV0041GetPartitions'', ''SlurmV0041GetPing'',
     ''SlurmV0041GetReconfigure'', ''SlurmV0041GetReservation'', ''SlurmV0041GetReservations'', ''SlurmV0041GetShares'',
     ''SlurmdbV0041DeleteAccount'', ''SlurmdbV0041GetAccount'', ''SlurmdbV0041GetAccounts'', ''SlurmdbV0041PostAccounts'',
     ''SlurmdbV0041PostAccountsAssociation'', ''SlurmdbV0041DeleteAssociation'', ''SlurmdbV0041GetAssociation'', ''SlurmdbV0041DeleteAssociations'',
     ''SlurmdbV0041GetAssociations'', ''SlurmdbV0041PostAssociations'', ''SlurmdbV0041DeleteCluster'', ''SlurmdbV0041GetCluster'',
     ''SlurmdbV0041GetClusters'', ''SlurmdbV0041PostClusters'', ''SlurmdbV0041GetConfig'', ''SlurmdbV0041PostConfig'', ''SlurmdbV0041GetDiag'',
     ''SlurmdbV0041GetInstance'', ''SlurmdbV0041GetInstances'', ''SlurmdbV0041GetJob'', ''SlurmdbV0041GetJobs'', ''SlurmdbV0041GetQos'',
     ''SlurmdbV0041PostQos'', ''SlurmdbV0041DeleteSingleQos'', ''SlurmdbV0041GetSingleQos'', ''SlurmdbV0041GetTres'', ''SlurmdbV0041PostTres'',
     ''SlurmdbV0041DeleteUser'', ''SlurmdbV0041GetUser'', ''SlurmdbV0041GetUsers'', ''SlurmdbV0041PostUsers'', ''SlurmdbV0041PostUsersAssociation'',
     ''SlurmdbV0041DeleteWckey'', ''SlurmdbV0041GetWckey'', ''SlurmdbV0041GetWckeys'', ''SlurmdbV0041PostWckeys'']"

definition slurm_handler :: "'w http \<Rightarrow> job_info_json \<Rightarrow> string \<Rightarrow> slurm_S \<Rightarrow> writer \<Rightarrow> http_request \<Rightarrow> 'w \<Rightarrow> (handled \<times> slurm_S \<times> 'w) option" where
  "slurm_handler H J endpoint s wr r w =
     (if endpoint = ''SlurmV0041PostJobSubmit'' then Some (SlurmV0041PostJobSubmit H s wr r w)
      else if endpoint = ''SlurmV0041GetJobs'' then Some (SlurmV0041GetJobs H J s wr r w)
      else if endpoint \<in> set unimplemented_endpoints then Some (Returned wr, s, w) else None)"

section \<open>Configuration\<close>

record ProxyConfig =
  pc_Name :: string
  pc_BaseURL :: string
  pc_AuthToken :: string

record slurm_Config =
  slurm_HTTPPort :: int
  slurm_Proxies :: "ProxyConfig list"

definition ProxyConfig_Validate :: "ProxyConfig \<Rightarrow> go_error + unit" where
  "ProxyConfig_Validate c = guards [(pc_Name c = [], Errorf ''name must not be empty''), (pc_BaseURL c = [], Errorf ''baseUrl must not be empty''),
     (pc_AuthToken c = [], Errorf ''authToken must not be empty'')]"

fun validate_proxies :: "nat \<Rightarrow> ProxyConfig list \<Rightarrow> go_error + unit" where
  "validate_proxies i [] = Inr ()"
| "validate_proxies i (p # ps) = (case ProxyConfig_Validate p of Inl e \<Rightarrow> Inl (Errorf (''proxies['' @ Itoa (int i) @ '']: '' @ Error e))
     | Inr _ \<Rightarrow> validate_proxies (Suc i) ps)"

definition slurm_Validate :: "slurm_Config \<Rightarrow> go_error + unit" where
  "slurm_Validate c = (if slurm_HTTPPort c \<le> 0 then Inl (Errorf ''httpPort must be greater than 0'')
     else if length (slurm_Proxies c) = 0 then Inl (Errorf ''proxies must not be empty'') else validate_proxies 0 (slurm_Proxies c))"

text \<open>\<^verbatim>\<open>NewProxy\<close> and \<^verbatim>\<open>New\<close> as \<^verbatim>\<open>run\<close> calls them.\<close>

definition slurm_New :: "slurm_Config \<Rightarrow> slurm_S" where
  "slurm_New c = \<lparr>s_proxies = map (\<lambda>p. \<lparr>px_name = pc_Name p, px_baseURL = pc_BaseURL p, px_authToken = pc_AuthToken p\<rparr>) (slurm_Proxies c), jobSubmissionIndex = 0\<rparr>"

section \<open>Round robin\<close>

text \<open>The proxies that a sequence of submissions goes to, whatever becomes of them.\<close>

fun submitted_to :: "nat \<Rightarrow> slurm_S \<Rightarrow> Proxy list \<times> slurm_S" where
  "submitted_to 0 s = ([], s)"
| "submitted_to (Suc n) s = (case nextProxy s of None \<Rightarrow> ([], s) | Some (p, s') \<Rightarrow> (case submitted_to n s' of (ps, s'') \<Rightarrow> (p # ps, s'')))"

definition slurm_ok :: "slurm_S \<Rightarrow> bool" where
  "slurm_ok s \<longleftrightarrow> jobSubmissionIndex s < length (s_proxies s)"

lemma mod_in_range: "i < n \<Longrightarrow> k mod n < n" for i k n :: nat
  by (metis mod_less_divisor not_less0 not_gr0)

lemma nextProxy_ok: "slurm_ok s \<Longrightarrow> nextProxy s = Some (s_proxies s ! jobSubmissionIndex s,
    s\<lparr>jobSubmissionIndex := (jobSubmissionIndex s + 1) mod length (s_proxies s)\<rparr>)"
  by (simp add: nextProxy_def slurm_ok_def)

lemma slurm_ok_next: "slurm_ok s \<Longrightarrow> nextProxy s = Some (p, s') \<Longrightarrow> slurm_ok s' \<and> s_proxies s' = s_proxies s"
  by (auto simp: nextProxy_def slurm_ok_def mod_in_range split: if_splits)

lemma handler_keeps_ok: "slurm_ok s \<Longrightarrow> slurm_handler H J endpoint s wr r w = Some (res, s', w') \<Longrightarrow> slurm_ok s' \<and> s_proxies s' = s_proxies s"
  by (auto simp: slurm_handler_def SlurmV0041PostJobSubmit_def SlurmV0041GetJobs_def Let_def
      split: if_splits option.splits prod.splits sum.splits dest: slurm_ok_next)

lemma validated_ok: "slurm_Validate c = Inr () \<Longrightarrow> slurm_ok (slurm_New c)"
  by (auto simp: slurm_Validate_def slurm_ok_def slurm_New_def split: if_splits)

lemma submitted_nth:
  assumes "slurm_ok s"
  shows "fst (submitted_to n s) = map (\<lambda>k. s_proxies s ! ((jobSubmissionIndex s + k) mod length (s_proxies s))) [0..<n]"
  using assms
proof (induction n arbitrary: s)
  case (Suc n)
  let ?m = "length (s_proxies s)" and ?i = "jobSubmissionIndex s"
  let ?s' = "s\<lparr>jobSubmissionIndex := (?i + 1) mod ?m\<rparr>"
  have ok: "slurm_ok ?s'" using Suc.prems by (simp add: slurm_ok_def mod_in_range)
  have "(((?i + 1) mod ?m + k) mod ?m) = (?i + Suc k) mod ?m" for k by (simp add: mod_add_left_eq)
  then have "map (\<lambda>k. s_proxies s ! (((?i + 1) mod ?m + k) mod ?m)) [0..<n] = map (\<lambda>k. s_proxies s ! ((?i + k) mod ?m)) (map Suc [0..<n])"
    by (simp del: map_Suc_upt)
  then show ?case
    using Suc.IH [OF ok] Suc.prems by (simp add: nextProxy_ok upt_conv_Cons slurm_ok_def map_Suc_upt case_prod_unfold del: upt_Suc)
qed simp

text \<open>Rotating through all positions visits each once.\<close>

lemma rotation_mset: "mset (map (\<lambda>k. xs ! ((i + k) mod length xs)) [0..<length xs]) = mset xs"
proof -
  have "map (\<lambda>k. xs ! ((i + k) mod length xs)) [0..<length xs] = rotate i xs"
    by (rule nth_equalityI) (simp_all add: nth_rotate)
  then show ?thesis by (metis append_take_drop_id mset_append rotate_drop_take union_commute)
qed

text \<open>A sequence of requests (endpoint, writer, request); the index counts the submissions among them.\<close>

fun slurm_serves :: "'w http \<Rightarrow> job_info_json \<Rightarrow> (string \<times> writer \<times> http_request) list \<Rightarrow> slurm_S \<Rightarrow> 'w \<Rightarrow> (slurm_S \<times> 'w) option" where
  "slurm_serves H J [] s w = Some (s, w)"
| "slurm_serves H J ((endpoint, wr, r) # reqs) s w = (case slurm_handler H J endpoint s wr r w of None \<Rightarrow> None
     | Some (_, s', w') \<Rightarrow> slurm_serves H J reqs s' w')"

lemma handler_index:
  assumes "slurm_ok s" "slurm_handler H J endpoint s wr r w = Some (res, s', w')"
  shows "jobSubmissionIndex s' =
    (if endpoint = ''SlurmV0041PostJobSubmit'' then (jobSubmissionIndex s + 1) mod length (s_proxies s) else jobSubmissionIndex s)"
  using assms by (auto simp: slurm_handler_def SlurmV0041PostJobSubmit_def nextProxy_ok SlurmV0041GetJobs_def Let_def
      split: if_splits option.splits prod.splits sum.splits)

lemma serves_index:
  "slurm_ok s \<Longrightarrow> slurm_serves H J reqs s w = Some (s', w') \<Longrightarrow> slurm_ok s' \<and> s_proxies s' = s_proxies s \<and>
    jobSubmissionIndex s' = (jobSubmissionIndex s + length (filter (\<lambda>q. fst q = ''SlurmV0041PostJobSubmit'') reqs)) mod length (s_proxies s)"
proof (induction reqs arbitrary: s w)
  case (Cons q reqs)
  obtain endpoint wr r where q: "q = (endpoint, wr, r)" by (cases q)
  from Cons.prems(2) obtain res s1 w1 where h: "slurm_handler H J endpoint s wr r w = Some (res, s1, w1)" and rest: "slurm_serves H J reqs s1 w1 = Some (s', w')"
    by (auto simp: q split: option.splits prod.splits)
  show ?case
    using Cons.IH [OF _ rest] handler_keeps_ok [OF Cons.prems(1) h] handler_index [OF Cons.prems(1) h] by (simp add: q mod_add_left_eq)
qed (simp add: slurm_ok_def)

section \<open>Listing jobs\<close>

text \<open>When every proxy answers with a list of jobs, the loop has the first answer with the jobs of all.\<close>

fun answers :: "'w http \<Rightarrow> job_info_json \<Rightarrow> Proxy list \<Rightarrow> http_request \<Rightarrow> 'w \<Rightarrow> (V0041OpenapiJobInfoResp list \<times> 'w) option" where
  "answers H J [] r w = Some ([], w)"
| "answers H J (p # ps) r w = (case forward H p r ''GET'' ''/slurm/v0.0.41/jobs/'' w of
       (Inr resp, r', w') \<Rightarrow> (case rs_Body resp of Inl _ \<Rightarrow> None | Inr body \<Rightarrow> if rs_StatusCode resp \<noteq> StatusOK then None
          else (case json_Unmarshal J body of Inl _ \<Rightarrow> None
            | Inr jr \<Rightarrow> (case answers H J ps r' w' of None \<Rightarrow> None | Some (jrs, w'') \<Rightarrow> Some (jr # jrs, w''))))
     | _ \<Rightarrow> None)"

lemma get_jobs_loop_answers:
  "answers H J ps r w = Some (jrs, w') \<Longrightarrow> get_jobs_loop H J ps agg wr r w =
    (Inr (case agg of None \<Rightarrow> (case jrs of [] \<Rightarrow> None | jr # _ \<Rightarrow> Some (jr\<lparr>ji_Jobs := concat (map ji_Jobs jrs)\<rparr>))
       | Some a \<Rightarrow> Some (a\<lparr>ji_Jobs := ji_Jobs a @ concat (map ji_Jobs jrs)\<rparr>)), w')"
proof (induction ps arbitrary: agg r w jrs)
  case (Cons p ps)
  then show ?case by (auto split: prod.splits sum.splits if_splits option.splits)
qed (auto split: option.split)

text \<open>Any other outcome is reported with a status other than 200, unless a proxy says so.\<close>

lemma http_Error_fresh: "wr_Status wr = None \<Longrightarrow> wr_Status (http_Error wr m c) = Some c"
  by (simp add: http_Error_def Write_def WriteHeader_def Let_def split: option.split)

lemma get_jobs_loop_error:
  "answers H J ps r w = None \<Longrightarrow> wr_Status wr = None \<Longrightarrow>
    \<exists>wr' w' code. get_jobs_loop H J ps agg wr r w = (Inl wr', w') \<and> wr_Status wr' = Some code \<and> code \<noteq> StatusOK"
proof (induction ps arbitrary: agg r w)
  case (Cons p ps)
  then show ?case
    by (auto simp: http_Error_fresh Write_def WriteHeader_def Let_def StatusOK_def StatusInternalServerError_def
        split: prod.splits sum.splits if_splits option.splits)
qed simp

end
