(* ===== verification/ServerBoot.thy ===== *)
theory ServerBoot
  imports System StatusSyncer
begin

text \<open>
  The start of the server: \<^verbatim>\<open>server/internal/config/config.go\<close>, the part of \<^verbatim>\<open>server/cmd/run.go\<close> that finds or creates the data key and hands the configuration to
  the server, and \<^verbatim>\<open>server/internal/k8s/client.go\<close>, the clients through which the server writes to worker clusters. The validation of the database and
  usage sender configurations is third-party and a parameter, as are KMS and the Kubernetes client library.
\<close>

section \<open>config.go\<close>

record server_AuthConfig =
  auth_Enable :: bool
  RBACInternalServerAddr :: string

record KMS_AssumeRoleConfig =
  kms_RoleARN :: string
  kms_ExternalID :: string

record KMSConfig =
  kms_Enable :: bool
  KeyAlias :: string
  kms_Region :: string
  kms_AssumeRole :: "KMS_AssumeRoleConfig option"

record ('d, 'u) server_Config =
  GRPCPort :: int
  WorkerServiceGRPCPort :: int
  SyncerServiceGRPCPort :: int
  HTTPPort :: int
  FileManagerServerAddr :: string
  ModelManagerServerAddr :: string
  SessionManagerServerEndpoint :: string
  sc_Database :: 'd
  UsageSender :: 'u
  sc_AuthConfig :: server_AuthConfig
  ImageTypes :: "(string \<times> string) list"     \<comment> \<open>\<^verbatim>\<open>NotebookConfig\<close>\<close>
  Images :: "(string \<times> string) list"         \<comment> \<open>\<^verbatim>\<open>BatchJobConfig\<close>\<close>
  sc_KMSConfig :: KMSConfig

definition NotebookConfig_Validate :: "(string \<times> string) list \<Rightarrow> go_error + unit" where
  "NotebookConfig_Validate imageTypes = guards [(length imageTypes = 0, Errorf ''imageTypes must be set'')]"

definition BatchJobConfig_Validate :: "(string \<times> string) list \<Rightarrow> go_error + unit" where
  "BatchJobConfig_Validate images = guards [(length images = 0, Errorf ''images must be set'')]"

definition AuthConfig_Validate :: "server_AuthConfig \<Rightarrow> go_error + unit" where
  "AuthConfig_Validate c = (if \<not> auth_Enable c then Inr () else guards [(RBACInternalServerAddr c = [], Errorf ''rbacInternalServerAddr must be set'')])"

definition KMS_AssumeRoleConfig_validate :: "KMS_AssumeRoleConfig \<Rightarrow> go_error + unit" where
  "KMS_AssumeRoleConfig_validate c = guards [(kms_RoleARN c = [], Errorf ''roleArn must be set'')]"

definition KMSConfig_validate :: "KMSConfig \<Rightarrow> go_error + unit" where
  "KMSConfig_validate c = (if \<not> kms_Enable c then Inr ()
     else guards ([(KeyAlias c = [], Errorf ''keyAlias must be set''), (kms_Region c = [], Errorf ''region must be set'')] @
       (case kms_AssumeRole c of None \<Rightarrow> [] | Some ar \<Rightarrow> [nested ''assumeRole: '' (KMS_AssumeRoleConfig_validate ar)])))"

text \<open>The error of the usage sender is returned as it is.\<close>

definition server_Validate :: "('d \<Rightarrow> go_error + unit) \<Rightarrow> ('u \<Rightarrow> go_error + unit) \<Rightarrow> ('d, 'u) server_Config \<Rightarrow> go_error + unit" where
  "server_Validate db_Validate sender_Validate c = guards
     [(GRPCPort c \<le> 0, Errorf ''grpcPort must be greater than 0''),
      (WorkerServiceGRPCPort c \<le> 0, Errorf ''workerServiceGRPCPort must be greater than 0''),
      (SyncerServiceGRPCPort c \<le> 0, Errorf ''syncerServiceGRPCPort must be greater than 0''),
      (HTTPPort c \<le> 0, Errorf ''httpPort must be greater than 0''),
      (FileManagerServerAddr c = [], Errorf ''file manager address must be set''),
      (ModelManagerServerAddr c = [], Errorf ''model manager server address must be set''),
      (SessionManagerServerEndpoint c = [], Errorf ''session manager server endpoint must be set''),
      nested ''database: '' (db_Validate (sc_Database c)),
      nested ''auth: '' (AuthConfig_Validate (sc_AuthConfig c)),
      nested ''notebook: '' (NotebookConfig_Validate (ImageTypes c)),
      nested ''batch job: '' (BatchJobConfig_Validate (Images c)),
      (case sender_Validate (UsageSender c) of Inl e \<Rightarrow> (True, e) | Inr _ \<Rightarrow> (False, Errorf [])),
      nested ''kms: '' (KMSConfig_validate (sc_KMSConfig c))]"

definition valid_server_config :: "('d \<Rightarrow> go_error + unit) \<Rightarrow> ('u \<Rightarrow> go_error + unit) \<Rightarrow> ('d, 'u) server_Config \<Rightarrow> bool" where
  "valid_server_config DV SV c \<longleftrightarrow> 0 < GRPCPort c \<and> 0 < WorkerServiceGRPCPort c \<and> 0 < SyncerServiceGRPCPort c \<and> 0 < HTTPPort c \<and>
     FileManagerServerAddr c \<noteq> [] \<and> ModelManagerServerAddr c \<noteq> [] \<and> SessionManagerServerEndpoint c \<noteq> [] \<and> DV (sc_Database c) = Inr () \<and>
     SV (UsageSender c) = Inr () \<and> (auth_Enable (sc_AuthConfig c) \<longrightarrow> RBACInternalServerAddr (sc_AuthConfig c) \<noteq> []) \<and> ImageTypes c \<noteq> [] \<and> Images c \<noteq> [] \<and>
     (kms_Enable (sc_KMSConfig c) \<longrightarrow> KeyAlias (sc_KMSConfig c) \<noteq> [] \<and> kms_Region (sc_KMSConfig c) \<noteq> [] \<and>
       (\<forall>ar. kms_AssumeRole (sc_KMSConfig c) = Some ar \<longrightarrow> kms_RoleARN ar \<noteq> []))"

lemma KMSConfig_validate_iff:
  "KMSConfig_validate k = Inr () \<longleftrightarrow> (kms_Enable k \<longrightarrow> KeyAlias k \<noteq> [] \<and> kms_Region k \<noteq> [] \<and> (\<forall>ar. kms_AssumeRole k = Some ar \<longrightarrow> kms_RoleARN ar \<noteq> []))"
  by (cases "kms_AssumeRole k") (auto simp: KMSConfig_validate_def KMS_AssumeRoleConfig_validate_def guards_ok_fst)

lemma server_validate_parts:
  "AuthConfig_Validate a = Inr () \<longleftrightarrow> (auth_Enable a \<longrightarrow> RBACInternalServerAddr a \<noteq> [])"
  "NotebookConfig_Validate m = Inr () \<longleftrightarrow> m \<noteq> []" "BatchJobConfig_Validate m = Inr () \<longleftrightarrow> m \<noteq> []"
  "fst (case r of Inl e \<Rightarrow> (True, e) | Inr u \<Rightarrow> (False, Errorf [])) \<longleftrightarrow> r \<noteq> Inr ()"
  by (auto simp: AuthConfig_Validate_def NotebookConfig_Validate_def BatchJobConfig_Validate_def split: sum.split)

lemma server_Validate_iff: "server_Validate DV SV c = Inr u \<longleftrightarrow> valid_server_config DV SV c"
  unfolding server_Validate_def guards_ok_fst valid_server_config_def by (auto simp: server_validate_parts KMSConfig_validate_iff)

lemma SyncerConfig_Validate_iff:
  "SyncerConfig_Validate c = Inr () \<longleftrightarrow> JobManagerServerSyncerServiceAddr c \<noteq> [] \<and> SessionManagerEndpoint c \<noteq> [] \<and>
     (sk_Jobs (SyncedKinds c) \<or> sk_JobSets (SyncedKinds c)) \<and>
     (skm_EnableLeaderElection (sy_KubernetesManager c) \<longrightarrow> skm_LeaderElectionID (sy_KubernetesManager c) \<noteq> [])"
  by (auto simp: SyncerConfig_Validate_def SyncedKindsConfig_validate_def SyncerKubernetesManagerConfig_validate_def)

section \<open>The data key\<close>

definition run_dataKey :: "DataKey gorm \<Rightarrow> time \<Rightarrow> KMSConfig \<Rightarrow> DataKeyManagementClient \<Rightarrow> DataKey list \<Rightarrow> (go_error + bytes) \<times> DataKey list" where
  "run_dataKey G now c kmsClient t =
     (if \<not> kms_Enable c then (Inr [], t)
      else (case GetDataKey G now kmsClient t of Inr dk \<Rightarrow> (Inr dk, t)
        | Inl e \<Rightarrow> if \<not> errors_Is e ErrRecordNotFound then (Inl e, t) else CreateDataKey G now kmsClient t))"

definition run_server_env :: "('d, 'u) server_Config \<Rightarrow> bytes \<Rightarrow> server_env \<Rightarrow> server_env" where
  "run_server_env c key env = env\<lparr>nbImageTypes := ImageTypes c, batchJobImages := Images c, dataKey := key, enableAuth := auth_Enable (sc_AuthConfig c)\<rparr>"

definition defaultMaxQueuedTime :: duration where
  "defaultMaxQueuedTime = 3 * 60 * 1000000000"

text \<open>The table of data keys: a row is appended with the time it is created at, and the first row in an order is a least one.\<close>

locale data_key_table =
  fixes G :: "DataKey gorm"
  assumes create_ok: "gCreate G now r t = (Inr r', t') \<Longrightarrow> t' = t @ [r'] \<and> (\<exists>i. r' = r\<lparr>dkID := i, dkCreatedAt := now\<rparr>)"
    and create_err: "gCreate G now r t = (Inl e, t') \<Longrightarrow> t' = t"
    and first_found: "gFirst G now q t = Inr r \<Longrightarrow> is_order (q_order q) \<Longrightarrow> r \<in> set t \<and> q_where q r \<and> (\<forall>x \<in> set t. q_where q x \<longrightarrow> q_order q r x)"
    and first_missing: "gFirst G now q t = Inl e \<Longrightarrow> errors_Is e ErrRecordNotFound \<Longrightarrow> \<forall>x \<in> set t. \<not> q_where q x"
begin

lemma GetDataKey_latest:
  assumes "GetDataKey G now kms t = Inr dk"
  shows "\<exists>k \<in> set t. kms_DecryptDataKey kms (dkEncryptedDataKey k) = Inr dk \<and> (\<forall>x \<in> set t. dkCreatedAt x \<le> dkCreatedAt k)"
  using assms first_found [of now _ t] is_order_key(2) [of dkCreatedAt] by (auto simp: GetDataKey_def split: sum.splits) fastforce

lemma CreateDataKey_ok:
  assumes "CreateDataKey G now kms t = (Inr dk, t')"
  shows "\<exists>enc i. kms_CreateDataKey kms = Inr (dk, enc) \<and> t' = t @ [\<lparr>dkID = i, dkCreatedAt = now, dkEncryptedDataKey = enc\<rparr>]"
  using assms create_ok by (fastforce simp: CreateDataKey_def split: sum.splits prod.splits)

lemma GetDataKey_missing:
  assumes "GetDataKey G now kms t = Inl e" "errors_Is e ErrRecordNotFound"
    and "\<And>b e. kms_DecryptDataKey kms b = Inl e \<Longrightarrow> \<not> errors_Is e ErrRecordNotFound"
  shows "t = []"
  using assms first_missing [of now _ t] by (cases t) (fastforce simp: GetDataKey_def split: sum.splits)+

text \<open>
  A key in use stays in use: a later start of the server that returns has the same key and leaves the table alone. KMS decrypts the keys it encrypted and
  its errors are not those of the database.
\<close>

lemma restart_same_key:
  assumes kms: "\<And>dk enc. kms_CreateDataKey kms = Inr (dk, enc) \<Longrightarrow> kms_DecryptDataKey kms enc = Inr dk"
    and other: "\<And>b e. kms_DecryptDataKey kms b = Inl e \<Longrightarrow> \<not> errors_Is e ErrRecordNotFound"
    and dist: "distinct (map dkCreatedAt t)"
    and run: "run_dataKey G now c kms t = (Inr dk, t')" and again: "run_dataKey G now' c kms t' = (Inr dk', t'')"
  shows "dk' = dk \<and> t'' = t'"
proof (cases "kms_Enable c")
  case False
  then show ?thesis using run again by (simp add: run_dataKey_def)
next
  case True
  have later: "GetDataKey G now' kms t' = Inr dk' \<and> t'' = t'" if "t' \<noteq> []"
    using again True GetDataKey_missing [OF _ _ other] that by (auto simp: run_dataKey_def split: sum.splits if_splits)
  show ?thesis
  proof (cases "GetDataKey G now kms t")
    case (Inr dk0)
    then have t': "t' = t" "dk = dk0" using run True by (auto simp: run_dataKey_def)
    obtain k where k: "k \<in> set t" "kms_DecryptDataKey kms (dkEncryptedDataKey k) = Inr dk" "\<forall>x \<in> set t. dkCreatedAt x \<le> dkCreatedAt k"
      using GetDataKey_latest [OF Inr] t' by blast
    have "t' \<noteq> []" using k t' by auto
    then have l: "GetDataKey G now' kms t = Inr dk' \<and> t'' = t'" using later unfolding t'(1) by blast
    obtain k' where k': "k' \<in> set t" "kms_DecryptDataKey kms (dkEncryptedDataKey k') = Inr dk'" "\<forall>x \<in> set t. dkCreatedAt x \<le> dkCreatedAt k'"
      using GetDataKey_latest l by blast
    have "k = k'" using k k' distinct_key_inj [OF dist(1)] by (meson order_antisym)
    then show ?thesis using k k' l by simp
  next
    case (Inl e)
    then have cr: "CreateDataKey G now kms t = (Inr dk, t')" and nil: "t = []"
      using run True GetDataKey_missing [OF Inl _ other] by (auto simp: run_dataKey_def split: if_splits)
    from CreateDataKey_ok [OF cr] nil obtain enc i where new: "kms_CreateDataKey kms = Inr (dk, enc)" "t' = [\<lparr>dkID = i, dkCreatedAt = now, dkEncryptedDataKey = enc\<rparr>]"
      by auto
    then have l: "GetDataKey G now' kms t' = Inr dk' \<and> t'' = t'" using later by auto
    then show ?thesis using GetDataKey_latest [of now' kms t' dk'] new kms by auto
  qed
qed

end

text \<open>A table with the SQL meaning of the calls; no column but the primary key is unique.\<close>

definition dataKey_stamp :: "nat \<Rightarrow> time \<Rightarrow> DataKey \<Rightarrow> DataKey" where
  "dataKey_stamp i now k = k\<lparr>dkID := i, dkCreatedAt := now\<rparr>"

abbreviation sql_dataKeys :: "DataKey gorm" where
  "sql_dataKeys \<equiv> sql_gorm dkID (\<lambda>k. replicate (dkID k) (CHR 0x30)) (\<lambda>now k. k) dataKey_stamp"

interpretation dk: data_key_table sql_dataKeys
proof unfold_locales
  fix now q and t :: "DataKey list" and r
  assume f: "gFirst sql_dataKeys now q t = Inr r" and o: "is_order (q_order q)"
  obtain rs where rs: "sort_by (q_order q) (filter (q_where q) t) = r # rs"
    using f by (auto simp: sql_gorm_def split: list.splits)
  have st: "set (r # rs) = set (filter (q_where q) t)" unfolding rs [symmetric] by simp
  have "sorted_wrt (q_order q) (r # rs)" using sorted_sort_by [OF o] rs by metis
  moreover have "q_order q r r" using o by (auto simp: is_order_def)
  ultimately have "\<forall>x \<in> set (r # rs). q_order q r x" by simp
  then show "r \<in> set t \<and> q_where q r \<and> (\<forall>x \<in> set t. q_where q x \<longrightarrow> q_order q r x)"
    using st by auto
next
  fix now q and t :: "DataKey list" and e
  assume "gFirst sql_dataKeys now q t = Inl e"
  then have "sort_by (q_order q) (filter (q_where q) t) = []" by (auto simp: sql_gorm_def split: list.splits)
  then have "filter (q_where q) t = []" using mset_sort_by [of "q_order q" "filter (q_where q) t"] by simp
  then show "\<forall>x \<in> set t. \<not> q_where q x" by (simp add: filter_empty_conv)
qed (auto simp: sql_gorm_def dataKey_stamp_def Let_def split: if_splits)

text \<open>
  Two servers that start at the same time on an empty table both read it before either writes: each creates a key of its own and the next start takes the later one.
\<close>

lemma first_start_race:
  assumes "run_dataKey G now1 c kms1 [] = (Inr dk1, t1)" "CreateDataKey G now2 kms2 t1 = (Inr dk2, t2)"
    and "data_key_table G" "kms_Enable c" "now1 < now2" "GetDataKey G now1 kms1 [] = Inl ErrRecordNotFound"
    and "\<And>enc. kms_CreateDataKey kms2 = Inr (dk2, enc) \<Longrightarrow> kms_DecryptDataKey kms enc = Inr dk2"
    and "GetDataKey G now3 kms t2 = Inr dk3"
  shows "dk3 = dk2"
proof -
  have "CreateDataKey G now1 kms1 [] = (Inr dk1, t1)" using assms(1,4,6) by (simp add: run_dataKey_def)
  from data_key_table.CreateDataKey_ok [OF assms(3) this] data_key_table.CreateDataKey_ok [OF assms(3) assms(2)]
  obtain enc1 enc2 i j where t2: "kms_CreateDataKey kms2 = Inr (dk2, enc2)"
      "t2 = [\<lparr>dkID = i, dkCreatedAt = now1, dkEncryptedDataKey = enc1\<rparr>, \<lparr>dkID = j, dkCreatedAt = now2, dkEncryptedDataKey = enc2\<rparr>]"
    by auto
  then show ?thesis using data_key_table.GetDataKey_latest [OF assms(3,8)] assms(5,7) by auto
qed

section \<open>The clients of worker clusters\<close>

text \<open>
  A call of the Kubernetes client library: the connection, the resource and its namespace (\<open>None\<close> for the interface without one), the name, and what is asked.
\<close>

datatype k8s_verb =
    ApplyData string bool string "(string \<times> bytes) list"     \<comment> \<open>field manager, force, the field of the configuration, data\<close>
  | ApplyPatch string bytes                                   \<comment> \<open>field manager, patch\<close>
  | DeleteInBackground

record k8s_call =
  kc_conn :: rest_Config
  kc_resource :: "string \<times> string \<times> string"
  kc_namespace :: "string option"
  kc_name :: string
  kc_verb :: k8s_verb

definition fieldManager :: string where
  "fieldManager = ''job-manager-server''"

definition getResourceInterface :: "string \<Rightarrow> string option" where
  "getResourceInterface namespace = (if namespace \<noteq> [] then Some namespace else None)"

fun k8s_call_of :: "string \<Rightarrow> string \<Rightarrow> k8s_write \<Rightarrow> k8s_call" where
  "k8s_call_of endpoint token (CreateSecret c name namespace data) = \<lparr>kc_conn = getRestConfig endpoint c token, kc_resource = ([], ''v1'', ''secrets''),
     kc_namespace = Some namespace, kc_name = name, kc_verb = ApplyData fieldManager True ''data'' data\<rparr>"
| "k8s_call_of endpoint token (CreateConfigMap c name namespace data) = \<lparr>kc_conn = getRestConfig endpoint c token, kc_resource = ([], ''v1'', ''configmaps''),
     kc_namespace = Some namespace, kc_name = name, kc_verb = ApplyData fieldManager True ''binaryData'' data\<rparr>"
| "k8s_call_of endpoint token (PatchResource c name namespace gvr data) = \<lparr>kc_conn = getRestConfig endpoint c token, kc_resource = gvr,
     kc_namespace = getResourceInterface namespace, kc_name = name, kc_verb = ApplyPatch fieldManager data\<rparr>"
| "k8s_call_of endpoint token (DeleteResource c name namespace gvr) = \<lparr>kc_conn = getRestConfig endpoint c token, kc_resource = gvr,
     kc_namespace = getResourceInterface namespace, kc_name = name, kc_verb = DeleteInBackground\<rparr>"

fun write_cluster :: "k8s_write \<Rightarrow> string" where
  "write_cluster (CreateSecret c name namespace data) = c"
| "write_cluster (CreateConfigMap c name namespace data) = c"
| "write_cluster (PatchResource c name namespace gvr data) = c"
| "write_cluster (DeleteResource c name namespace gvr) = c"

text \<open>The server's environment with the library's answers to these calls.\<close>

definition session_env :: "(rest_Config \<Rightarrow> go_error + unit) \<Rightarrow> (k8s_call \<Rightarrow> go_error + string) \<Rightarrow> string \<Rightarrow> string \<Rightarrow> server_env \<Rightarrow> server_env" where
  "session_env NewForConfig send endpoint token env = env\<lparr>NewClient := (\<lambda>c tok. NewForConfig (getRestConfig endpoint c tok)),
     k8sApply := (\<lambda>w. send (k8s_call_of endpoint token w))\<rparr>"

text \<open>A write goes to the session of its cluster and to no other, under the token of the caller.\<close>

lemma session_of_write: "kc_conn (k8s_call_of endpoint token w) = getRestConfig endpoint (write_cluster w) token"
  by (cases w) simp_all

lemma session_confined:
  "rest_Host (kc_conn (k8s_call_of endpoint token w)) = rest_Host (kc_conn (k8s_call_of endpoint token w')) \<longleftrightarrow> write_cluster w = write_cluster w'"
  unfolding session_of_write getRestConfig_def by simp

end
