(* ===== verification/S3Client.thy ===== *)
theory S3Client
  imports PreProcess DispatcherConfig
begin

text \<open>
  \<^verbatim>\<open>dispatcher/internal/s3/client.go\<close>: the S3 client of the pre-processor and of the batch job manager, over the AWS SDK. The SDK is third-party:
  \<open>s3_sdk\<close> is a record of the calls the source makes of it, and the locale \<open>s3_service\<close> is what the source relies on. A URL is the structure
  \<^verbatim>\<open>net/url\<close> parses it into; \<open>url_Parse\<close> covers the form \<open>scheme://host[/path][?query]\<close> the SDK returns, without user information, fragment or escapes.
\<close>

section \<open>URLs\<close>

record URL =
  Scheme :: string
  url_Host :: string
  url_Path :: string
  RawQuery :: string

text \<open>The part of a string before the first occurrence of a character, and the part after it when there is one.\<close>

fun cut_at :: "char \<Rightarrow> string \<Rightarrow> string \<times> string option" where
  "cut_at c [] = ([], None)"
| "cut_at c (x # s) = (if x = c then ([], Some s) else (let (a, b) = cut_at c s in (x # a, b)))"

definition url_Parse :: "string \<Rightarrow> go_error + URL" where
  "url_Parse s = (let (front, query) = cut_at (CHR ''?'') s; (scheme, rest) = cut_at (CHR '':'') front
     in (case rest of None \<Rightarrow> Inl (Errorf ''no scheme'')
       | Some r \<Rightarrow> if scheme = [] then Inl (Errorf ''missing protocol scheme'')
           else if \<not> HasPrefix r ''//'' then Inl (Errorf ''no authority'')
           else let (host, path) = cut_at (CHR ''/'') (drop 2 r)
             in Inr \<lparr>Scheme = scheme, url_Host = host, url_Path = (case path of None \<Rightarrow> [] | Some p \<Rightarrow> CHR ''/'' # p),
                  RawQuery = (case query of None \<Rightarrow> [] | Some q \<Rightarrow> q)\<rparr>))"

text \<open>\<^verbatim>\<open>String\<close> puts a slash between a host and a path that has none.\<close>

definition url_String :: "URL \<Rightarrow> string" where
  "url_String u = Scheme u @ ''://'' @ url_Host u @
     (if url_Path u \<noteq> [] \<and> \<not> HasPrefix (url_Path u) ''/'' \<and> url_Host u \<noteq> [] then ''/'' else []) @ url_Path u @
     (if RawQuery u \<noteq> [] then CHR ''?'' # RawQuery u else [])"

definition HasSuffix :: "string \<Rightarrow> string \<Rightarrow> bool" where
  "HasSuffix s p \<longleftrightarrow> HasPrefix (rev s) (rev p)"

section \<open>The SDK\<close>

datatype post_condition = starts_with string string      \<comment> \<open>the element of the form, what its value starts with\<close>

record PresignedPostRequest =
  post_URL :: string
  post_Values :: "(string \<times> string) list"

datatype RequestType = GetObject | PutObject | OtherRequest string

record s3_sdk =
  PresignGetObject :: "string \<Rightarrow> string \<Rightarrow> duration \<Rightarrow> go_error + string"
  PresignPutObject :: "string \<Rightarrow> string \<Rightarrow> duration \<Rightarrow> go_error + string"
  PresignPostObject :: "string \<Rightarrow> string \<Rightarrow> duration \<Rightarrow> post_condition list \<Rightarrow> go_error + PresignedPostRequest"
  ListObjectsV2 :: "nat \<Rightarrow> string \<Rightarrow> string \<Rightarrow> go_error + (string list \<times> bool)"
  HeadObject :: "string \<Rightarrow> string \<Rightarrow> go_error option"
  is_NotFound :: "go_error \<Rightarrow> bool"        \<comment> \<open>\<^verbatim>\<open>errors.As(err, &notFound)\<close>\<close>

section \<open>client.go\<close>

definition s3_GeneratePresignedURL :: "s3_sdk \<Rightarrow> string \<Rightarrow> string \<Rightarrow> duration \<Rightarrow> RequestType \<Rightarrow> go_error + string" where
  "s3_GeneratePresignedURL svc bucket key expire requestType = (case requestType of
       GetObject \<Rightarrow> PresignGetObject svc bucket key expire
     | PutObject \<Rightarrow> PresignPutObject svc bucket key expire
     | OtherRequest t \<Rightarrow> Inl (Errorf (''unknown request type: '' @ t)))"

definition reconstructPresignURL :: "string \<Rightarrow> string \<Rightarrow> go_error + string" where
  "reconstructPresignURL origURL bucket = (case url_Parse origURL of Inl e \<Rightarrow> Inl e
     | Inr u \<Rightarrow> if HasSuffix (url_Host u) ''amazonaws.com'' then Inr (url_String (u\<lparr>url_Host := bucket @ ''.'' @ url_Host u\<rparr>))
         else Inr (url_String (u\<lparr>url_Path := bucket\<rparr>)))"

definition post_conditions :: "string \<Rightarrow> post_condition list" where
  "post_conditions keyPrefix = [starts_with ''$key'' (keyPrefix @ ''/'')]"

definition s3_GeneratePresignedURLForPost :: "s3_sdk \<Rightarrow> string \<Rightarrow> string \<Rightarrow> duration \<Rightarrow> go_error + PresignedPostRequest" where
  "s3_GeneratePresignedURLForPost svc bucket keyPrefix expire =
     (case PresignPostObject svc bucket (keyPrefix @ ''/${filename}'') expire (post_conditions keyPrefix) of Inl e \<Rightarrow> Inl e
      | Inr req \<Rightarrow> (case reconstructPresignURL (post_URL req) bucket of Inl e \<Rightarrow> Inl e | Inr url \<Rightarrow> Inr (req\<lparr>post_URL := url\<rparr>)))"

definition s3_ListObjectsPages :: "s3_sdk \<Rightarrow> nat \<Rightarrow> string \<Rightarrow> string \<Rightarrow> go_error + (string list \<times> bool)" where
  "s3_ListObjectsPages svc n bucket path = ListObjectsV2 svc n bucket path"

definition s3_CheckObjectExists :: "s3_sdk \<Rightarrow> string \<Rightarrow> string \<Rightarrow> go_error + bool" where
  "s3_CheckObjectExists svc bucket key = (case HeadObject svc bucket key of
       Some e \<Rightarrow> if \<not> is_NotFound svc e then Inl e else Inr False
     | None \<Rightarrow> Inr True)"

text \<open>The options \<^verbatim>\<open>NewClient\<close> passes to the constructor of the SDK; reading and parsing the secret file are parameters.\<close>

record AWSSecretConfig =
  AccessKeyID :: string
  SecretAccessKey :: string

record NewS3ClientOptions =
  opt_EndpointURL :: string
  opt_Region :: string
  opt_InsecureSkipVerify :: bool
  opt_AssumeRole :: "AssumeRoleConfig option"
  opt_Secret :: "AWSSecretConfig option"

definition s3_NewClient :: "(string \<Rightarrow> go_error + bytes) \<Rightarrow> (bytes \<Rightarrow> go_error + AWSSecretConfig) \<Rightarrow> (NewS3ClientOptions \<Rightarrow> go_error + s3_sdk) \<Rightarrow>
    S3Config \<Rightarrow> go_error + s3_sdk" where
  "s3_NewClient ReadFile unmarshal NewS3Client c =
     (let opts = \<lparr>opt_EndpointURL = EndpointURL c, opt_Region = Region c, opt_InsecureSkipVerify = InsecureSkipVerify c,
        opt_AssumeRole = AssumeRole c, opt_Secret = None\<rparr>
      in if SecretFilePath c = [] then NewS3Client opts
         else (case ReadFile (SecretFilePath c) of Inl e \<Rightarrow> Inl (Wrapf ''read S3 secret file: '' e)
           | Inr sec \<Rightarrow> (case unmarshal sec of Inl e \<Rightarrow> Inl (Errorf (''unmarshal S3 secret file: '' @ Error e))
               | Inr secConfig \<Rightarrow> NewS3Client (opts\<lparr>opt_Secret := Some secConfig\<rparr>))))"

text \<open>The client as the pre-processor sees it through its interface.\<close>

definition s3_Client :: "s3_sdk \<Rightarrow> S3Client" where
  "s3_Client svc = \<lparr>GeneratePresignedURL = (\<lambda>b k d. s3_GeneratePresignedURL svc b k d GetObject),
     GeneratePresignedURLForPost = (\<lambda>b k d. case s3_GeneratePresignedURLForPost svc b k d of Inl e \<Rightarrow> Inl e | Inr req \<Rightarrow> Inr (post_URL req, post_Values req)),
     ListObjectsPages = s3_ListObjectsPages svc, CheckObjectExists = s3_CheckObjectExists svc\<rparr>"

section \<open>The clients of a dispatcher\<close>

text \<open>
  The part of \<^verbatim>\<open>run\<close> (\<^verbatim>\<open>dispatcher/cmd/run.go\<close>) that makes the clients of the object stores and the pre-processor; \<open>new\<close> is \<^verbatim>\<open>s3.NewClient\<close>.
  The map of the optional clients is keyed by bucket.
\<close>

fun run_optionalS3Clients :: "(S3Config \<Rightarrow> go_error + S3Client) \<Rightarrow> S3Config list \<Rightarrow> (string \<times> S3Client) list \<Rightarrow> go_error + (string \<times> S3Client) list" where
  "run_optionalS3Clients new [] clients = Inr clients"
| "run_optionalS3Clients new (optS3 # optS3s) clients = (case new optS3 of Inl e \<Rightarrow> Inl e
     | Inr s3Client \<Rightarrow> run_optionalS3Clients new optS3s (map_put (Bucket optS3) s3Client clients))"

definition run_PreProcessor ::
  "(S3Config \<Rightarrow> go_error + S3Client) \<Rightarrow> (string \<Rightarrow> go_error + string) \<Rightarrow> modelClient \<Rightarrow> ObjectStoreConfig \<Rightarrow> go_error + PreProcessor" where
  "run_PreProcessor new fclient mclient c = (case new (cfg_S3 c) of Inl e \<Rightarrow> Inl e
     | Inr s3Client \<Rightarrow> (case run_optionalS3Clients new (OptionalS3s c) [] of Inl e \<Rightarrow> Inl e
     | Inr clients \<Rightarrow> Inr \<lparr>pp_GetFilePath = fclient, pp_modelClient = mclient, defaultS3Client = s3Client, defaultS3Bucket = Bucket (cfg_S3 c),
         optionalS3Clients = clients\<rparr>))"

text \<open>The store that serves a bucket: of several with the same bucket the last one counts.\<close>

definition store_for :: "ObjectStoreConfig \<Rightarrow> string \<Rightarrow> S3Config" where
  "store_for c b = (let stores = filter (\<lambda>s. Bucket s = b) (OptionalS3s c) in if stores = [] then cfg_S3 c else last stores)"

lemma optional_clients:
  assumes "run_optionalS3Clients new cs m = Inr m'"
  shows "if filter (\<lambda>c. Bucket c = b) cs = [] then map_of m' b = map_of m b
    else \<exists>s. new (last (filter (\<lambda>c. Bucket c = b) cs)) = Inr s \<and> map_of m' b = Some s"
  using assms
proof (induction cs arbitrary: m)
  case (Cons c cs)
  then obtain s where s: "new c = Inr s" "run_optionalS3Clients new cs (map_put (Bucket c) s m) = Inr m'" by (auto split: sum.splits)
  from Cons.IH [OF s(2)] show ?case using s(1) by (auto split: if_splits)
qed simp

lemma run_PreProcessor_client:
  assumes "run_PreProcessor new fclient mclient c = Inr p"
  shows "new (store_for c b) = Inr (case map_of (optionalS3Clients p) b of Some s \<Rightarrow> s | None \<Rightarrow> defaultS3Client p)"
  using assms optional_clients [where b = b and m = "[]"]
  by (auto simp: run_PreProcessor_def store_for_def Let_def split: sum.splits if_splits option.splits) fastforce+

section \<open>Parsing what was printed\<close>

lemma cut_at_free: "c \<notin> set a \<Longrightarrow> cut_at c a = (a, None)"
  by (induction a) auto

lemma cut_at_append: "c \<notin> set a \<Longrightarrow> cut_at c (a @ c # b) = (a, Some b)"
  by (induction a) auto

lemma cut_at_None: "cut_at c s = (a, None) \<Longrightarrow> s = a \<and> c \<notin> set a"
  by (induction s arbitrary: a) (auto split: if_splits prod.splits)

lemma cut_at_Some: "cut_at c s = (a, Some b) \<Longrightarrow> s = a @ c # b \<and> c \<notin> set a"
  by (induction s arbitrary: a) (auto split: if_splits prod.splits)

definition wf_URL :: "URL \<Rightarrow> bool" where
  "wf_URL u \<longleftrightarrow> Scheme u \<noteq> [] \<and> CHR '':'' \<notin> set (Scheme u) \<and> CHR ''?'' \<notin> set (Scheme u) \<and> CHR ''/'' \<notin> set (url_Host u) \<and> CHR ''?'' \<notin> set (url_Host u) \<and>
     CHR ''?'' \<notin> set (url_Path u) \<and> (url_Path u = [] \<or> HasPrefix (url_Path u) ''/'')"

lemma HasPrefix_slash: "HasPrefix s ''/'' \<longleftrightarrow> (\<exists>t. s = CHR ''/'' # t)"
  by (cases s) (auto simp: HasPrefix_def)

lemma url_Parse_parts:
  assumes "CHR '':'' \<notin> set sch" "sch \<noteq> []" "CHR ''/'' \<notin> set h" "CHR ''?'' \<notin> set (sch @ h @ p)" "p = [] \<or> (\<exists>t. p = CHR ''/'' # t)"
  shows "url_Parse (sch @ ''://'' @ h @ p @ (if q \<noteq> [] then CHR ''?'' # q else [])) = Inr \<lparr>Scheme = sch, url_Host = h, url_Path = p, RawQuery = q\<rparr>"
proof -
  let ?f = "sch @ ''://'' @ h @ p"
  have free: "CHR ''?'' \<notin> set ?f" using assms(4) by auto
  have q: "cut_at (CHR ''?'') (?f @ (if q \<noteq> [] then CHR ''?'' # q else [])) = (?f, if q \<noteq> [] then Some q else None)"
    using cut_at_append [OF free, of q] cut_at_free [OF free] by simp
  have s: "cut_at (CHR '':'') ?f = (sch, Some (''//'' @ h @ p))"
    using cut_at_append [OF assms(1), of "''//'' @ h @ p"] by simp
  have h: "cut_at (CHR ''/'') (h @ p) = (h, if p = [] then None else Some (tl p))"
    using cut_at_free [OF assms(3)] cut_at_append [OF assms(3)] assms(5) by auto
  have "p \<noteq> [] \<Longrightarrow> CHR ''/'' # tl p = p" using assms(5) by auto
  then show ?thesis using q s h assms(2) unfolding url_Parse_def by (simp add: HasPrefix_def)
qed

lemma url_roundtrip: "wf_URL u \<Longrightarrow> url_Parse (url_String u) = Inr u"
  using url_Parse_parts [of "Scheme u" "url_Host u" "url_Path u" "RawQuery u"]
  by (cases u) (auto simp: url_String_def wf_URL_def HasPrefix_slash)

lemma HasPrefix_authority: "HasPrefix s ''//'' \<Longrightarrow> \<exists>t. s = CHR ''/'' # CHR ''/'' # t"
  by (cases s; cases "tl s") (auto simp: HasPrefix_def)

lemma url_Parse_wf: "url_Parse s = Inr u \<Longrightarrow> wf_URL u"
  by (auto simp: url_Parse_def wf_URL_def HasPrefix_slash Let_def split: prod.splits option.splits if_splits dest!: cut_at_None cut_at_Some HasPrefix_authority)

text \<open>
  The two styles of \<^verbatim>\<open>reconstructPresignURL\<close>: the bucket becomes a label of an Amazon host, and the path of any other host. The rest of the URL is unchanged.
\<close>

lemma reconstructPresignURL_ok:
  assumes u: "url_Parse origURL = Inr u" and b: "CHR ''/'' \<notin> set bucket" "CHR ''?'' \<notin> set bucket" "bucket \<noteq> []" and h: "url_Host u \<noteq> []"
  shows "\<exists>s. reconstructPresignURL origURL bucket = Inr s \<and> url_Parse s = Inr
    (if HasSuffix (url_Host u) ''amazonaws.com'' then u\<lparr>url_Host := bucket @ ''.'' @ url_Host u\<rparr> else u\<lparr>url_Path := CHR ''/'' # bucket\<rparr>)"
proof -
  have wf: "wf_URL u" by (rule url_Parse_wf [OF u])
  have "wf_URL (u\<lparr>url_Host := bucket @ ''.'' @ url_Host u\<rparr>)" "wf_URL (u\<lparr>url_Path := CHR ''/'' # bucket\<rparr>)"
    using wf b by (auto simp: wf_URL_def HasPrefix_slash)
  moreover have "url_String (u\<lparr>url_Path := bucket\<rparr>) = url_String (u\<lparr>url_Path := CHR ''/'' # bucket\<rparr>)"
    using b h by (cases bucket) (auto simp: url_String_def HasPrefix_slash)
  ultimately show ?thesis using u by (simp add: reconstructPresignURL_def url_roundtrip)
qed

section \<open>What a signed form allows\<close>

text \<open>The service checks the conditions the form was signed with: \<open>accepts values key\<close> says that it stores an upload with the form's values under \<open>key\<close>.\<close>

locale s3_service =
  fixes svc :: s3_sdk and accepts :: "(string \<times> string) list \<Rightarrow> string \<Rightarrow> bool"
  assumes policy: "PresignPostObject svc b k d cs = Inr req \<Longrightarrow> accepts (post_Values req) key \<Longrightarrow> starts_with ''$key'' p \<in> set cs \<Longrightarrow> HasPrefix key p"
begin

lemma upload_confined:
  assumes "s3_GeneratePresignedURLForPost svc b p d = Inr req" "accepts (post_Values req) key"
  shows "HasPrefix key (p @ ''/'')"
  using assms policy [of b "p @ ''/${filename}''" d "post_conditions p" _ key "p @ ''/''"]
  by (auto simp: s3_GeneratePresignedURLForPost_def post_conditions_def split: sum.splits)

lemma output_confined:
  assumes "sign_and_register pp job mpath paths = Inr r" "defaultS3Client pp = s3_Client svc"
  shows "\<exists>mid rpath values. RegisterModel (pp_modelClient pp) \<lparr>RM_BaseModel = Job_Model (IJ_Job job), RM_Suffix = IJ_Suffix job,
      RM_OrganizationId = Job_OrganizationId (IJ_Job job), RM_ProjectId = Job_ProjectId (IJ_Job job)\<rparr> = Inr (mid, rpath) \<and> OutputModelID r = mid \<and>
    OutputModelPresignFlags r = Join (map (\<lambda>(k, v). ''-F '' @ [CHR 0x27] @ k @ ''='' @ v @ [CHR 0x27]) values) '' '' \<and>
    (\<forall>key. accepts values key \<longrightarrow> HasPrefix key (rpath @ ''/''))"
  using assms upload_confined by (fastforce simp: sign_and_register_def s3_Client_def split: if_splits sum.splits prod.splits)

end

text \<open>A service that puts the prefixes of the policy into the form and checks them on an upload.\<close>

definition sim_sdk :: s3_sdk where
  "sim_sdk = \<lparr>PresignGetObject = (\<lambda>b k d. Inr (''https://s3.amazonaws.com/'' @ k)), PresignPutObject = (\<lambda>b k d. Inr (''https://s3.amazonaws.com/'' @ k)),
     PresignPostObject = (\<lambda>b k d cs. Inr \<lparr>post_URL = ''https://s3.amazonaws.com'', post_Values = map (\<lambda>c. case c of starts_with f p \<Rightarrow> (f, p)) cs\<rparr>),
     ListObjectsV2 = (\<lambda>n b p. Inr ([p @ ''model.bin''], False)), HeadObject = (\<lambda>b k. None), is_NotFound = (\<lambda>e. e = Status NotFound ''NotFound'')\<rparr>"

definition sim_accepts :: "(string \<times> string) list \<Rightarrow> string \<Rightarrow> bool" where
  "sim_accepts values key = list_all (\<lambda>(f, p). f = ''$key'' \<longrightarrow> HasPrefix key p) values"

interpretation sim_s3: s3_service sim_sdk sim_accepts
  by unfold_locales (force simp: sim_sdk_def sim_accepts_def list_all_iff split: post_condition.splits)

end
