(* ===== verification/Demo.thy ===== *)
theory Demo
  imports Rescheduling Rounds Federation Slurm ServerBoot S3Client
begin

text \<open>
  A small deployment on which the properties are evaluated: the executable database engines, codecs over given lists of messages, the
  tagging cipher, identifiers made from the time of the call, one tenant with two clusters. It satisfies the laws of \<open>deployment\<close> for every
  choice of the messages.
\<close>

definition demo_env :: "v1_job list \<Rightarrow> v1_notebook list \<Rightarrow> v1_batch_job list \<Rightarrow> rbac_Project list \<Rightarrow> ClusterStatus list \<Rightarrow> server_env" where
  "demo_env js ns bs ps ss = \<lparr>jobDB = sql_jobs, notebookDB = sql_notebooks, batchDB = sql_batch_jobs, clusterDB = sql_clusters,
     jobCodec = dict_codec empty_v1_job js, notebookCodec = dict_codec empty_v1_notebook ns,
     batchCodec = dict_codec empty_v1_batch_job bs,
     projectCodec = dict_codec \<lparr>Project_Id = [], Project_AssignedKubernetesEnvs = []\<rparr> ps,
     statusCodec = dict_codec empty_ClusterStatus ss, collation = (\<lambda>x y. True), clusterRange = id,
     GetFile = (\<lambda>f. if f = ''file'' then Inr () else Inl (Status NotFound ''no file'')),
     GetModel = (\<lambda>m. if m = ''base'' then Inr \<lparr>IsBaseModel = True, Formats = [1]\<rparr> else Inl (Status NotFound ''no model'')),
     MODEL_FORMAT_HUGGING_FACE = 1,
     GenerateIDForK8SResource = (\<lambda>now p. Inr (p @ replicate (nat (now mod 10)) CHR ''x'')),
     GenerateID = (\<lambda>now p n. Inr ''secret''), NewClient = (\<lambda>c t. Inr ()), k8sApply = (\<lambda>w. Inr ''uid''),
     encrypt = tag_enc, decrypt = tag_dec, nbImageTypes = [(''jupyter'', ''img'')], batchJobImages = [(''torch'', ''img'')],
     dataKey = ''key'', enableAuth = True\<rparr>"

interpretation demo: deployment "demo_env js ns bs ps ss" for js ns bs ps ss
  by (rule deployment.intro) (simp_all add: demo_env_def sql_job.gorm_axioms sql_notebook.gorm_axioms sql_batch.gorm_axioms sql_cluster.gorm_axioms
      dict.proto_codec_axioms go_range.map_range_axioms)

definition demo_user :: UserInfo where
  "demo_user = \<lparr>ui_OrganizationID = ''org'', ui_OrganizationTitle = [], ui_ProjectID = ''proj'', ui_ProjectTitle = [], ui_TenantID = ''ten'',
     ui_AssignedKubernetesEnvs = [\<lparr>ake_ClusterID = ''c1'', ake_ClusterName = [], ake_Namespace = ''ns1''\<rparr>,
        \<lparr>ake_ClusterID = ''c2'', ake_ClusterName = [], ake_Namespace = ''ns2''\<rparr>]\<rparr>"

definition demo_ctx :: context_info where
  "demo_ctx = \<lparr>ExtractUserInfo = Some demo_user, ExtractToken = Inr ''apikey'',
     ExtractClusterInfo = Some \<lparr>ci_ClusterID = ''c1'', ci_ClusterName = ''one'', ci_TenantID = ''ten''\<rparr>\<rparr>"

definition demo_status :: ClusterStatus where
  "demo_status = \<lparr>CS_GpuNodes = [\<lparr>GpuNode_ResourceName = ''gpu'', GpuNode_AllocatableCount = 4\<rparr>], CS_ProvisionableResources = [], CS_GpuPods = []\<rparr>"

definition demo_job_request :: CreateJobRequest where
  "demo_job_request = \<lparr>CJR_Model = ''base'', CJR_TrainingFile = ''file'', CJR_Hyperparameters = None, CJR_Method = None, CJR_Suffix = ''s'',
     CJR_ValidationFile = [], CJR_Integrations = [], CJR_Seed = 0, CJR_Resources = Some 2, CJR_Metadata = []\<rparr>"

definition demo_sched :: SchedulingResult where
  "demo_sched = \<lparr>sr_ClusterID = ''c1'', sr_ClusterName = ''one'', sr_Namespace = ''ns1''\<rparr>"

definition demo_job_proto :: v1_job where
  "demo_job_proto = new_job_proto 3 demo_user demo_job_request ''ftjob-xxx'' 2 demo_sched"

definition demo_notebook_request :: CreateNotebookRequest where
  "demo_notebook_request = \<lparr>CNR_Name = ''nb'', CNR_Image = Some (Image_Type ''jupyter''), CNR_Resources = None, CNR_Envs = [],
     CNR_AdditionalExposedPorts = [8080]\<rparr>"

definition demo_notebook_proto :: v1_notebook where
  "demo_notebook_proto = new_notebook_proto 4 demo_user demo_notebook_request ''nb-xxxx'' ''img'' ''secret'' demo_sched"

definition demo_project :: rbac_Project where
  "demo_project = \<lparr>Project_Id = ''proj'', Project_AssignedKubernetesEnvs =
     map (\<lambda>a. \<lparr>ake_ClusterID = ake_ClusterID a, ake_ClusterName = [], ake_Namespace = ake_Namespace a\<rparr>) (ui_AssignedKubernetesEnvs demo_user)\<rparr>"

definition demo :: server_env where
  "demo = demo_env [demo_job_proto, demo_job_proto\<lparr>Job_FinishedAt := 0, Job_Status := ''running'', Job_FineTunedModel := ''m''\<rparr>,
       demo_job_proto\<lparr>Job_FinishedAt := 0, Job_Status := ''running'',
         Job_Error_field := Some \<lparr>Job_Error_Code = [], Job_Error_Message = [], Job_Error_Param = []\<rparr>\<rparr>]
     [demo_notebook_proto] [] [demo_project] [demo_status]"

text \<open>One status report of cluster \<open>c1\<close>, then a fine-tuning job and a notebook.\<close>

definition demo_reported :: server_state where
  "demo_reported = serve demo 1 (Call_UpdateClusterStatus demo_ctx (Some demo_status)) initial_state"

definition demo_state :: server_state where
  "demo_state = serves demo [(3, Call_CreateJob demo_ctx demo_job_request), (4, Call_CreateNotebook demo_ctx demo_notebook_request)] demo_reported"

text \<open>Both states written out, so that what is evaluated on them does not repeat the calls.\<close>

definition demo_cached :: "(string \<times> AssumedGPUPod) list \<Rightarrow> cache" where
  "demo_cached assumed = [''ten'' \<mapsto> [(''c1'', \<lparr>cc_ClusterID = ''c1'', cc_ClusterName = ''one'', cc_UpdatedAt = 1,
     cc_GPUNodes = [\<lparr>GpuNode_ResourceName = ''gpu'', GpuNode_AllocatableCount = 4\<rparr>], cc_ProvisionableResources = [], cc_GPUPods = [],
     cc_AssumedGPUPodsByKey = assumed\<rparr>)]]"

definition demo_cluster_row :: store_Cluster where
  "demo_cluster_row = \<lparr>cID = 1, cCreatedAt = 1, cUpdatedAt = 1, cClusterID = ''c1'', cName = ''one'', cTenantID = ''ten'', cStatus = ''m''\<rparr>"

definition demo_job_row :: Job where
  "demo_job_row = \<lparr>jID = 1, jCreatedAt = 3, jUpdatedAt = 3, jCreated = 3, jJobID = ''ftjob-xxx'', jProjectID = ''proj'', jTenantID = ''ten'', jClusterID = ''c1'',
     jMessage = ''m'', jState = ''queued'', jQueuedAction = ''creating'', jSuffix = ''s'', jOutputModelID = [], jVersion = 0\<rparr>"

definition demo_notebook_row :: Notebook where
  "demo_notebook_row = \<lparr>nID = 1, nCreatedAt = 4, nUpdatedAt = 4, nCreated = 4, nNotebookID = ''nb-xxxx'', nName = ''nb'', nProjectID = ''proj'', nTenantID = ''ten'',
     nClusterID = ''c1'', nMessage = ''m'', nProjectMessage = ''m'', nAPIKey = [], nToken = [], nEncryptedAPIKey = ''#apikey'', nEncryptedToken = ''#secret'',
     nState = ''queued'', nQueuedAction = ''starting'', nReason = [], nVersion = 0\<rparr>"

lemma demo_caches: "st_cache demo_reported x = demo_cached [] x" "st_cache demo_state x = demo_cached [(''ns1/ftjob-xxx'', \<lparr>ap_AllocatedCount = 2, ap_AddedAt = 3\<rparr>)] x"
  by (code_simp, simp)+

lemma demo_tables:
  "(st_jobs demo_reported, st_notebooks demo_reported, st_batch_jobs demo_reported, st_clusters demo_reported, st_k8s demo_reported) = ([], [], [], [demo_cluster_row], [])"
  "(st_jobs demo_state, st_notebooks demo_state, st_batch_jobs demo_state, st_clusters demo_state, st_k8s demo_state) =
     ([demo_job_row], [demo_notebook_row], [], [demo_cluster_row], [CreateSecret ''c1'' ''nb-xxxx'' ''ns1''
        [(''OPENAI_API_KEY'', ''apikey''), (''NOTEBOOK_TOKEN'', ''secret''), (''LLMARINER_API_KEY'', ''apikey'')]])"
  by code_simp+

lemma demo_states [code]:
  "demo_reported = \<lparr>st_jobs = [], st_notebooks = [], st_batch_jobs = [], st_clusters = [demo_cluster_row], st_cache = demo_cached [], st_k8s = []\<rparr>"
  "demo_state = \<lparr>st_jobs = [demo_job_row], st_notebooks = [demo_notebook_row], st_batch_jobs = [], st_clusters = [demo_cluster_row],
     st_cache = demo_cached [(''ns1/ftjob-xxx'', \<lparr>ap_AllocatedCount = 2, ap_AddedAt = 3\<rparr>)],
     st_k8s = [CreateSecret ''c1'' ''nb-xxxx'' ''ns1'' [(''OPENAI_API_KEY'', ''apikey''), (''NOTEBOOK_TOKEN'', ''secret''), (''LLMARINER_API_KEY'', ''apikey'')]]\<rparr>"
  using demo_tables by (simp_all add: demo_caches fun_eq_iff server_state.equality)

lemma demo_deployment: "deployment demo"
  unfolding demo_def by (rule demo.deployment_axioms)

lemma demo_wf: "server_wf demo demo_reported" "server_wf demo demo_state"
proof -
  show one: "server_wf demo demo_reported"
    unfolding demo_reported_def by (rule deployment.serve_wf [OF demo_deployment initial_wf])
  show "server_wf demo demo_state"
    using deployment.serves_steps [OF demo_deployment one] by (simp add: demo_state_def)
qed

lemma demo_job_codec: "proto_codec (jobCodec demo) empty_v1_job"
  by (simp add: demo_def demo_env_def dict.proto_codec_axioms)

lemma demo_reliable:
  "reliable_job_db (jobDB demo)" "reliable_notebook_db (notebookDB demo)" "reliable_batch_db (batchDB demo)" "reliable_cluster_db (clusterDB demo)"
  by (simp_all add: demo_def demo_env_def sql_job_db sql_notebook_db sql_batch_db sql_cluster_db)

section \<open>A cluster\<close>

text \<open>The cluster \<open>c1\<close> with the executable Kubernetes of \<open>Kube\<close>, a network that delivers every call, and services that answer every request.\<close>

definition demo_job_config :: JobConfig where
  "demo_job_config = \<lparr>jobcfg_Image = ''img'', jobcfg_Version = ''v1'', jobcfg_ImagePullPolicy = ''Always'',
     WandbAPIKeySecret = \<lparr>wandb_Name = [], wandb_Key = []\<rparr>, UseBitsAndBytesQuantization = False, CurlFlags = []\<rparr>"

definition demo_workload :: WorkloadConfig where
  "demo_workload = \<lparr>PodAnnotations = [], wc_NodeSelector = [(''gpu'', ''yes'')],
     wc_Tolerations = [\<lparr>tc_Key = ''k'', tc_Operator = ''Exists'', tc_Value = [], tc_Effect = [], tc_TolerationSeconds = 0\<rparr>],
     wc_Affinity = Some \<lparr>af_NodeAffinity = None, af_PodAffinity = None, af_PodAntiAffinity = Some \<lparr>pa_Required = [], pa_Preferred =
       [(1, \<lparr>pat_LabelSelector = None, pat_Namespaces = [], pat_TopologyKey = ''zone'', pat_NamespaceSelector = None, pat_MatchLabelKeys = [],
         pat_MismatchLabelKeys = []\<rparr>)]\<rparr>\<rparr>\<rparr>"

definition demo_config :: "unit Config" where
  "demo_config = \<lparr>PollingInterval = 1, cfg_Job = demo_job_config,
     cfg_Notebook = \<lparr>LLMarinerBaseURL = ''url'', EnablePVC = True, StorageClassName = ''std'', StorageSize = ''1Gi'', MountPath = ''/work'', GrantSudo = False\<rparr>,
     cfg_Workload = demo_workload, JobManagerServerWorkerServiceAddr = ''j'', FileManagerServerWorkerServiceAddr = ''f'',
     ModelManagerServerWorkerServiceAddr = ''m'',
     ObjectStore = \<lparr>cfg_S3 = \<lparr>EndpointURL = [], Region = ''r'', InsecureSkipVerify = False, Bucket = ''b'', AssumeRole = None, SecretFilePath = []\<rparr>, OptionalS3s = []\<rparr>,
     cfg_Debug = \<lparr>KubeconfigPath = [], debug_Standalone = False\<rparr>, KubernetesManager = \<lparr>EnableLeaderElection = False, LeaderElectionID = [],
       MetricsBindAddress = [], HealthBindAddress = [], PprofBindAddress = []\<rparr>,
     KueueIntegration = \<lparr>kueue_Enable = False, DefaultQueueName = []\<rparr>, worker_TLS_Enable = False, ComponentStatusSender = (), ClusterStatusUpdateInterval = 1\<rparr>"

definition demo_s3 :: S3Client where
  "demo_s3 = \<lparr>GeneratePresignedURL = (\<lambda>b k d. Inr (b @ ''/'' @ k)), GeneratePresignedURLForPost = (\<lambda>b k d. Inr (b @ ''/'' @ k, [(''key'', k)])),
     ListObjectsPages = (\<lambda>n b k. if n = 0 then Inr ([k @ ''a''], True) else Inr ([k @ ''b''], False)), CheckObjectExists = (\<lambda>b k. Inr True)\<rparr>"

definition demo_preprocessor :: PreProcessor where
  "demo_preprocessor = \<lparr>pp_GetFilePath = (\<lambda>f. Inr (''s3://data/'' @ f)),
     pp_modelClient = \<lparr>GetBaseModelPath = (\<lambda>m. Inr (''models/'' @ m)), RegisterModel = (\<lambda>r. Inr (''m'', ''models/m''))\<rparr>,
     defaultS3Client = demo_s3, defaultS3Bucket = ''b'', optionalS3Clients = []\<rparr>"

definition demo_services :: services where
  "demo_services = \<lparr>svc_pre = (\<lambda>job. case PreProcessor_Process demo_preprocessor job of None \<Rightarrow> Inl (Errorf []) | Some r \<Rightarrow> r),
     svc_presign = (\<lambda>b k d. Inr k), svc_filePath = (\<lambda>f. Inr (f, f)), svc_publish = (\<lambda>m. Inr ())\<rparr>"

definition demo_net :: network where
  "demo_net = \<lparr>net_clock = (\<lambda>n. 5), net_delivery = (\<lambda>n. Delivered), net_others = (\<lambda>n. [])\<rparr>"

definition demo_fleet :: "kube_write list fleet" where
  "demo_fleet = \<lparr>fl_server = demo_state, fl_rpcs = 0, fl_kube = [], fl_published = []\<rparr>"

lemma demo_created: "CreateJob demo 3 demo_ctx demo_job_request demo_reported = (Inr demo_job_proto, snd (CreateJob demo 3 demo_ctx demo_job_request demo_reported))"
  by (rule prod_eqI) (code_simp, simp)

text \<open>What is read off the rows without running the server.\<close>

lemmas demo_eval = demo_states demo_job_row_def demo_notebook_row_def demo_user_def demo_sched_def demo_ctx_def row_of_def

text \<open>The same with the fine-tuning job running.\<close>

definition demo_running_row :: Job where
  "demo_running_row = demo_job_row\<lparr>jState := JobStateRunning, jQueuedAction := [], jOutputModelID := ''m'', jVersion := 2\<rparr>"

definition demo_running :: "kube_write list fleet" where
  "demo_running = demo_fleet\<lparr>fl_server := demo_state\<lparr>st_jobs := [demo_running_row]\<rparr>\<rparr>"

definition demo_node :: k8s_Node where
  "demo_node = \<lparr>node_Unschedulable = False, node_Allocatable = [(nvidiaGPU, NewQuantity 4)]\<rparr>"

definition demo_pod :: k8s_Pod where
  "demo_pod = \<lparr>pod_Namespace = ''ns1'', pod_Name = ''ftjob-xxx-abc'', pod_Phase = ''Running'', pod_Limits = [Some [(nvidiaGPU, NewQuantity 2)], None],
     pod_ContainerStatuses = []\<rparr>"

lemma demo_quiet: "quiet demo_net"
  by (simp add: quiet_def demo_net_def)

lemma demo_ci: "extractClusterInfoFromContext (enableAuth demo) demo_ctx = Inr \<lparr>ci_ClusterID = ''c1'', ci_ClusterName = ''one'', ci_TenantID = ''ten''\<rparr>"
  by code_simp

section \<open>A tenant's cluster\<close>

text \<open>
  A cluster with one job for the syncer, in the executable store of \<open>SyncObjects\<close>. In \<open>late_objects\<close> an object is deleted right after it has been read.
\<close>

type_synonym job_world = "(batch_JobSpec, batch_JobStatus) sim_world"

abbreviation job_objects :: "(job_world, batch_JobSpec, batch_JobStatus) objects" where "job_objects \<equiv> sim_objects"

definition late_objects :: "(job_world, batch_JobSpec, batch_JobStatus) objects" where
  "late_objects = job_objects\<lparr>oc_Get := (\<lambda>nn w. (fst (oc_Get job_objects nn w), fst w, (snd w)(nn := None)))\<rparr>"

definition demo_sync_job :: sync_Job where
  "demo_sync_job = \<lparr>so_Meta = \<lparr>sm_Namespace = ''ns1'', sm_Name = ''sj'', sm_ResourceVersion = 1, sm_Labels = Some [(''app'', ''x''), (''controller-uid'', ''u'')],
       sm_Annotations = [], sm_Finalizers = [], sm_DeletionTimestamp = None\<rparr>,
     so_Spec = \<lparr>sj_ManagedBy = Some fullJobControllerName, sj_Selector = None, sj_Parallelism = Some 1, sj_Completions = None, sj_TemplateLabels = [],
       sj_Limits = [Some [(nvidiaGPU, NewQuantity 1)], None], sj_Other = []\<rparr>,
     so_Status = \<lparr>sjs_Conditions = [], sjs_Other = []\<rparr>\<rparr>"

definition demo_deleted_job :: sync_Job where
  "demo_deleted_job = set_annotations [(annoKeyClusterID, ''c1''), (annoKeyDeployedAt, ''t'')]
     (demo_sync_job\<lparr>so_Meta := (so_Meta demo_sync_job)\<lparr>sm_Finalizers := [fullJobControllerName], sm_DeletionTimestamp := Some 3\<rparr>\<rparr>)"

definition demo_converter :: "sync_Job converter" where
  "demo_converter = \<lparr>cv_ToUnstructured = (\<lambda>obj. Inr [(''metadata'', JString (sm_Name (so_Meta obj)))]), cv_MarshalJSON = (\<lambda>u. Inr ''{}'')\<rparr>"

definition demo_tenant :: "sync_Job \<Rightarrow> job_world fleet" where
  "demo_tenant job = \<lparr>fl_server = demo_state, fl_rpcs = 0, fl_kube = (2, [(''ns1'', ''sj'') \<mapsto> job]), fl_published = []\<rparr>"

abbreviation demo_syncer :: "(job_world, batch_JobSpec, batch_JobStatus) objects \<Rightarrow> (job_world fleet, batch_JobSpec, batch_JobStatus) Controller" where
  "demo_syncer K \<equiv> run_JobController demo_net demo demo_ctx K (\<lambda>nn r m k. k)"

fun demo_Value :: "Quantity \<Rightarrow> int" where
  "demo_Value (NewQuantity n) = n"
| "demo_Value _ = 0"

definition demo_patch :: PatchKubernetesObjectRequest where
  "demo_patch = \<lparr>PKO_Namespace = ''ns1'', PKO_Name = ''sj'', PKO_Group = ''batch'', PKO_Version = ''v1'', PKO_Resource = ''jobs'', PKO_Resources = Some 1,
     PKO_Data = ''{}''\<rparr>"

definition demo_patched :: server_state where
  "demo_patched = snd (PatchKubernetesObject demo 5 demo_ctx demo_patch demo_state)"

lemma demo_prepare:
  "prepareSyncPatchRequest demo_converter (job_deployObj demo_sync_job) (job_totalGPUs demo_Value (so_Spec demo_sync_job)) jobGVR [] = Inr demo_patch"
  by code_simp

lemma demo_patch_ok: "PatchKubernetesObject demo 5 demo_ctx demo_patch demo_state = (Inr \<lparr>PKR_ClusterId = ''c1'', PKR_Uid = ''uid''\<rparr>, demo_patched)"
  unfolding demo_patched_def by (simp add: prod_eq_iff) code_simp

lemma demo_sync_job_predicates:
  "sj_ManagedBy (so_Spec demo_sync_job) = Some fullJobControllerName" "\<not> isDeleted demo_sync_job" "\<not> isDeployed demo_sync_job"
  "\<not> ContainsFinalizer demo_sync_job fullJobControllerName"
  "sj_ManagedBy (so_Spec demo_deleted_job) = Some fullJobControllerName" "isDeleted demo_deleted_job" "ContainsFinalizer demo_deleted_job fullJobControllerName"
  "annotation annoKeyClusterID demo_deleted_job = ''c1''" "sm_Finalizers (so_Meta demo_deleted_job) = [fullJobControllerName]"
  by (code_simp, simp?)+

lemma demo_tenant_sel:
  "sim_lookup (fl_kube (demo_tenant demo_sync_job)) (''ns1'', ''sj'') = Some demo_sync_job"
  "sim_lookup (fl_kube (demo_tenant demo_deleted_job)) (''ns1'', ''sj'') = Some demo_deleted_job"
  "fl_server (demo_tenant job) = demo_state" "fl_rpcs (demo_tenant job) = 0" "net_clock demo_net n = 5"
  by (simp_all add: demo_tenant_def sim_lookup_def so_key_def demo_sync_job_def demo_deleted_job_def set_annotations_def demo_net_def)

section \<open>Keys, uploads, proxies\<close>

definition demo_kms_config :: KMSConfig where
  "demo_kms_config = \<lparr>kms_Enable = True, KeyAlias = ''alias'', kms_Region = ''r'', kms_AssumeRole = None\<rparr>"

definition demo_kms :: DataKeyManagementClient where
  "demo_kms = \<lparr>kms_CreateDataKey = Inr (''k'', ''e''), kms_DecryptDataKey = (\<lambda>b. Inr ''k'')\<rparr>"

definition demo_notebook :: Notebook where
  "demo_notebook = new_notebook demo_user demo_notebook_request ''nb-xxxx'' []"

definition demo_uploader :: PreProcessor where
  "demo_uploader = demo_preprocessor\<lparr>defaultS3Client := s3_Client sim_sdk, optionalS3Clients := [(''data'', s3_Client sim_sdk)]\<rparr>"

definition demo_internal_job :: InternalJob where
  "demo_internal_job = \<lparr>IJ_Job = demo_job_proto, IJ_OutputModelId = [], IJ_Suffix = ''s'', IJ_State = 0, IJ_QueuedAction = 0\<rparr>"

definition demo_slurm :: slurm_Config where
  "demo_slurm = \<lparr>slurm_HTTPPort = 8080, slurm_Proxies = [\<lparr>pc_Name = ''one'', pc_BaseURL = ''a'', pc_AuthToken = ''t''\<rparr>,
     \<lparr>pc_Name = ''two'', pc_BaseURL = ''b'', pc_AuthToken = ''u''\<rparr>]\<rparr>"

text \<open>Servers that answer every request and record its URL.\<close>

definition demo_http :: "string list http" where
  "demo_http = \<lparr>http_URLCheck = (\<lambda>u. Inr ()), http_Do = (\<lambda>q w. (Inr \<lparr>rs_StatusCode = 200, rs_Body = Inr ''ok''\<rparr>, w @ [rq_URL q]))\<rparr>"

definition demo_job_info :: job_info_json where
  "demo_job_info = \<lparr>json_Marshal = (\<lambda>r. Inr []), json_Unmarshal = (\<lambda>b. Inr zero_JobInfoResp)\<rparr>"

definition demo_submission :: http_request where
  "demo_submission = \<lparr>rq_Method = ''POST'', rq_URL = ''/slurm/v0.0.41/job/submit'', rq_Header = [(''X'', [''y''])], rq_Body = Inr ''job''\<rparr>"

end
