(* ===== verification/Services.thy ===== *)
theory Services
  imports Federation ServerBoot
begin

text \<open>
  The gRPC services (\<^verbatim>\<open>api/v1/*_grpc.pb.go\<close>) and the three servers that offer them (\<^verbatim>\<open>Run\<close> of \<^verbatim>\<open>server.go\<close>, \<^verbatim>\<open>ws_server.go\<close> and \<^verbatim>\<open>syncer_server.go\<close> under
  \<^verbatim>\<open>server/internal/server\<close>): the handler and the client of every method, the service descriptors, the interceptors, and which services each port has.

  gRPC itself is third-party. A message on the wire is a value of \<open>message\<close> or \<open>reply\<close>, one constructor per message type; what the library answers to a message
  that does not have the expected type and to an unknown method are fields of \<open>grpc_lib\<close>. The interceptors of \<^verbatim>\<open>rbac-manager\<close> are the parameter \<open>rbac\<close>: an
  interceptor refuses a call, or gives the context the handler runs in.
\<close>

section \<open>Messages\<close>

datatype message =
    M_CreateJobRequest (un_CreateJob: CreateJobRequest)
  | M_ListJobsRequest (un_ListJobs: ListRequest)
  | M_GetJobRequest (un_GetJob: string)
  | M_CancelJobRequest (un_CancelJob: string)
  | M_ListQueuedInternalJobsRequest
  | M_GetInternalJobRequest (un_GetInternalJob: string)
  | M_UpdateJobPhaseRequest (un_UpdateJobPhase: UpdateJobPhaseRequest)
  | M_CreateNotebookRequest (un_CreateNotebook: CreateNotebookRequest)
  | M_ListNotebooksRequest (un_ListNotebooks: ListRequest)
  | M_GetNotebookRequest (un_GetNotebook: string)
  | M_DeleteNotebookRequest (un_DeleteNotebook: string)
  | M_StopNotebookRequest (un_StopNotebook: string)
  | M_StartNotebookRequest (un_StartNotebook: string)
  | M_ListQueuedInternalNotebooksRequest
  | M_UpdateNotebookStateRequest (un_UpdateNotebookState: UpdateNotebookStateRequest)
  | M_CreateBatchJobRequest (un_CreateBatchJob: CreateBatchJobRequest)
  | M_ListBatchJobsRequest (un_ListBatchJobs: ListRequest)
  | M_GetBatchJobRequest (un_GetBatchJob: string)
  | M_CancelBatchJobRequest (un_CancelBatchJob: string)
  | M_DeleteBatchJobRequest (un_DeleteBatchJob: string)
  | M_ListQueuedInternalBatchJobsRequest
  | M_GetInternalBatchJobRequest (un_GetInternalBatchJob: string)
  | M_UpdateBatchJobStateRequest (un_UpdateBatchJobState: UpdateBatchJobStateRequest)
  | M_ListClustersRequest
  | M_ListJobSummariesRequest (un_ListJobSummaries: "RequestFilter option")
  | M_UpdateClusterStatusRequest (un_UpdateClusterStatus: "ClusterStatus option")
  | M_PatchKubernetesObjectRequest (un_PatchKubernetesObject: PatchKubernetesObjectRequest)
  | M_DeleteKubernetesObjectRequest (un_DeleteKubernetesObject: DeleteKubernetesObjectRequest)
  | M_ListClusterIDsRequest

datatype reply =
    R_Job (un_Job: v1_job)
  | R_ListJobsResponse (un_ListJobsResponse: ListJobsResponse)
  | R_ListQueuedInternalJobsResponse (un_ListQueuedInternalJobsResponse: "InternalJob list")
  | R_InternalJob (un_InternalJob: InternalJob)
  | R_UpdateJobPhaseResponse
  | R_Notebook (un_Notebook: v1_notebook)
  | R_ListNotebooksResponse (un_ListNotebooksResponse: ListNotebooksResponse)
  | R_DeleteNotebookResponse
  | R_ListQueuedInternalNotebooksResponse (un_ListQueuedInternalNotebooksResponse: "InternalNotebook list")
  | R_UpdateNotebookStateResponse
  | R_BatchJob (un_BatchJob: v1_batch_job)
  | R_ListBatchJobsResponse (un_ListBatchJobsResponse: ListBatchJobsResponse)
  | R_ListQueuedInternalBatchJobsResponse (un_ListQueuedInternalBatchJobsResponse: "InternalBatchJob list")
  | R_InternalBatchJob (un_InternalBatchJob: InternalBatchJob)
  | R_UpdateBatchJobStateResponse
  | R_ListClustersResponse (un_ListClustersResponse: "v1_cluster list")
  | R_ListJobSummariesResponse (un_ListJobSummariesResponse: "JobSummaryDatapoint list")
  | R_UpdateClusterStatusResponse
  | R_PatchKubernetesObjectResponse (un_PatchKubernetesObjectResponse: PatchKubernetesObjectResponse)
  | R_DeleteKubernetesObjectResponse
  | R_ListClusterIDsResponse (un_ListClusterIDsResponse: "string list")

section \<open>Handlers\<close>

type_synonym metadata = "(string \<times> string) list"
type_synonym interceptor = "metadata \<Rightarrow> string \<Rightarrow> go_error + context_info"
type_synonym method_handler = "interceptor option \<Rightarrow> metadata \<Rightarrow> message \<Rightarrow> server_state \<Rightarrow> (go_error + reply) \<times> server_state"
type_synonym service_desc = "string \<times> (string \<times> method_handler) list"

text \<open>\<open>lib_IncomingContext\<close> is the context of a call that no interceptor has seen; \<open>lib_range\<close> the order in which Go ranges over a map of counts.\<close>

record grpc_lib =
  lib_IncomingContext :: "metadata \<Rightarrow> context_info"
  lib_wrong_message :: go_error
  lib_unknown_method :: "string \<Rightarrow> go_error"
  lib_range :: "(string \<times> state_counts) list \<Rightarrow> (string \<times> state_counts) list"

definition replies :: "('a \<Rightarrow> reply) \<Rightarrow> (server_state \<Rightarrow> (go_error + 'a) \<times> server_state) \<Rightarrow> server_state \<Rightarrow> (go_error + reply) \<times> server_state" where
  "replies R h st = (case h st of (Inl e, st') \<Rightarrow> (Inl e, st') | (Inr x, st') \<Rightarrow> (Inr (R x), st'))"

definition reads :: "('a \<Rightarrow> reply) \<Rightarrow> (server_state \<Rightarrow> go_error + 'a) \<Rightarrow> server_state \<Rightarrow> (go_error + reply) \<times> server_state" where
  "reads R h = replies R (\<lambda>st. (h st, st))"

text \<open>The body that all generated handlers share: decode, then call the method directly or through the interceptor, which is told the name of the method.\<close>

definition unary_Handler ::
  "grpc_lib \<Rightarrow> (message \<Rightarrow> 'q option) \<Rightarrow> string \<Rightarrow> (context_info \<Rightarrow> 'q \<Rightarrow> server_state \<Rightarrow> (go_error + reply) \<times> server_state) \<Rightarrow> method_handler" where
  "unary_Handler lib dec fullMethod srv interceptor md m st = (case dec m of None \<Rightarrow> (Inl (lib_wrong_message lib), st)
     | Some q \<Rightarrow> (case interceptor of None \<Rightarrow> srv (lib_IncomingContext lib md) q st
     | Some i \<Rightarrow> (case i md fullMethod of Inl e \<Rightarrow> (Inl e, st) | Inr ctx \<Rightarrow> srv ctx q st)))"

subsection \<open>FineTuningService\<close>

definition FineTuningService_CreateJob_Handler :: "grpc_lib \<Rightarrow> server_env \<Rightarrow> time \<Rightarrow> method_handler" where
  "FineTuningService_CreateJob_Handler lib env now = unary_Handler lib (\<lambda>m. if is_M_CreateJobRequest m then Some (un_CreateJob m) else None)
     ''/llmariner.fine_tuning.server.v1.FineTuningService/CreateJob'' (\<lambda>ctx q. replies R_Job (CreateJob env now ctx q))"

definition FineTuningService_ListJobs_Handler :: "grpc_lib \<Rightarrow> server_env \<Rightarrow> time \<Rightarrow> method_handler" where
  "FineTuningService_ListJobs_Handler lib env now = unary_Handler lib (\<lambda>m. if is_M_ListJobsRequest m then Some (un_ListJobs m) else None)
     ''/llmariner.fine_tuning.server.v1.FineTuningService/ListJobs'' (\<lambda>ctx q. reads R_ListJobsResponse (ListJobs env now ctx q))"

definition FineTuningService_GetJob_Handler :: "grpc_lib \<Rightarrow> server_env \<Rightarrow> time \<Rightarrow> method_handler" where
  "FineTuningService_GetJob_Handler lib env now = unary_Handler lib (\<lambda>m. if is_M_GetJobRequest m then Some (un_GetJob m) else None)
     ''/llmariner.fine_tuning.server.v1.FineTuningService/GetJob'' (\<lambda>ctx q. reads R_Job (GetJob env now ctx q))"

definition FineTuningService_CancelJob_Handler :: "grpc_lib \<Rightarrow> server_env \<Rightarrow> time \<Rightarrow> method_handler" where
  "FineTuningService_CancelJob_Handler lib env now = unary_Handler lib (\<lambda>m. if is_M_CancelJobRequest m then Some (un_CancelJob m) else None)
     ''/llmariner.fine_tuning.server.v1.FineTuningService/CancelJob'' (\<lambda>ctx q. replies R_Job (CancelJob env now ctx q))"

definition FineTuningService_ServiceDesc :: "grpc_lib \<Rightarrow> server_env \<Rightarrow> time \<Rightarrow> service_desc" where
  "FineTuningService_ServiceDesc lib env now = (''llmariner.fine_tuning.server.v1.FineTuningService'',
     [(''CreateJob'', FineTuningService_CreateJob_Handler lib env now),
      (''ListJobs'', FineTuningService_ListJobs_Handler lib env now),
      (''GetJob'', FineTuningService_GetJob_Handler lib env now),
      (''CancelJob'', FineTuningService_CancelJob_Handler lib env now)])"

subsection \<open>FineTuningWorkerService\<close>

definition FineTuningWorkerService_ListQueuedInternalJobs_Handler :: "grpc_lib \<Rightarrow> server_env \<Rightarrow> time \<Rightarrow> method_handler" where
  "FineTuningWorkerService_ListQueuedInternalJobs_Handler lib env now = unary_Handler lib (\<lambda>m. if m = M_ListQueuedInternalJobsRequest then Some () else None)
     ''/llmariner.fine_tuning.server.v1.FineTuningWorkerService/ListQueuedInternalJobs'' (\<lambda>ctx _. reads R_ListQueuedInternalJobsResponse (ListQueuedInternalJobs env now ctx))"

definition FineTuningWorkerService_GetInternalJob_Handler :: "grpc_lib \<Rightarrow> server_env \<Rightarrow> time \<Rightarrow> method_handler" where
  "FineTuningWorkerService_GetInternalJob_Handler lib env now = unary_Handler lib (\<lambda>m. if is_M_GetInternalJobRequest m then Some (un_GetInternalJob m) else None)
     ''/llmariner.fine_tuning.server.v1.FineTuningWorkerService/GetInternalJob'' (\<lambda>ctx q. reads R_InternalJob (GetInternalJob env now ctx q))"

definition FineTuningWorkerService_UpdateJobPhase_Handler :: "grpc_lib \<Rightarrow> server_env \<Rightarrow> time \<Rightarrow> method_handler" where
  "FineTuningWorkerService_UpdateJobPhase_Handler lib env now = unary_Handler lib (\<lambda>m. if is_M_UpdateJobPhaseRequest m then Some (un_UpdateJobPhase m) else None)
     ''/llmariner.fine_tuning.server.v1.FineTuningWorkerService/UpdateJobPhase'' (\<lambda>ctx q. replies (\<lambda>_. R_UpdateJobPhaseResponse) (UpdateJobPhase env now ctx q))"

definition FineTuningWorkerService_ServiceDesc :: "grpc_lib \<Rightarrow> server_env \<Rightarrow> time \<Rightarrow> service_desc" where
  "FineTuningWorkerService_ServiceDesc lib env now = (''llmariner.fine_tuning.server.v1.FineTuningWorkerService'',
     [(''ListQueuedInternalJobs'', FineTuningWorkerService_ListQueuedInternalJobs_Handler lib env now),
      (''GetInternalJob'', FineTuningWorkerService_GetInternalJob_Handler lib env now),
      (''UpdateJobPhase'', FineTuningWorkerService_UpdateJobPhase_Handler lib env now)])"

subsection \<open>WorkspaceService\<close>

definition WorkspaceService_CreateNotebook_Handler :: "grpc_lib \<Rightarrow> server_env \<Rightarrow> time \<Rightarrow> method_handler" where
  "WorkspaceService_CreateNotebook_Handler lib env now = unary_Handler lib (\<lambda>m. if is_M_CreateNotebookRequest m then Some (un_CreateNotebook m) else None)
     ''/llmariner.workspace.server.v1.WorkspaceService/CreateNotebook'' (\<lambda>ctx q. replies R_Notebook (CreateNotebook env now ctx q))"

definition WorkspaceService_ListNotebooks_Handler :: "grpc_lib \<Rightarrow> server_env \<Rightarrow> time \<Rightarrow> method_handler" where
  "WorkspaceService_ListNotebooks_Handler lib env now = unary_Handler lib (\<lambda>m. if is_M_ListNotebooksRequest m then Some (un_ListNotebooks m) else None)
     ''/llmariner.workspace.server.v1.WorkspaceService/ListNotebooks'' (\<lambda>ctx q. reads R_ListNotebooksResponse (ListNotebooks env now ctx q))"

definition WorkspaceService_GetNotebook_Handler :: "grpc_lib \<Rightarrow> server_env \<Rightarrow> time \<Rightarrow> method_handler" where
  "WorkspaceService_GetNotebook_Handler lib env now = unary_Handler lib (\<lambda>m. if is_M_GetNotebookRequest m then Some (un_GetNotebook m) else None)
     ''/llmariner.workspace.server.v1.WorkspaceService/GetNotebook'' (\<lambda>ctx q. reads R_Notebook (GetNotebook env now ctx q))"

definition WorkspaceService_DeleteNotebook_Handler :: "grpc_lib \<Rightarrow> server_env \<Rightarrow> time \<Rightarrow> method_handler" where
  "WorkspaceService_DeleteNotebook_Handler lib env now = unary_Handler lib (\<lambda>m. if is_M_DeleteNotebookRequest m then Some (un_DeleteNotebook m) else None)
     ''/llmariner.workspace.server.v1.WorkspaceService/DeleteNotebook'' (\<lambda>ctx q. replies (\<lambda>_. R_DeleteNotebookResponse) (DeleteNotebook env now ctx q))"

definition WorkspaceService_StopNotebook_Handler :: "grpc_lib \<Rightarrow> server_env \<Rightarrow> time \<Rightarrow> method_handler" where
  "WorkspaceService_StopNotebook_Handler lib env now = unary_Handler lib (\<lambda>m. if is_M_StopNotebookRequest m then Some (un_StopNotebook m) else None)
     ''/llmariner.workspace.server.v1.WorkspaceService/StopNotebook'' (\<lambda>ctx q. replies R_Notebook (StopNotebook env now ctx q))"

definition WorkspaceService_StartNotebook_Handler :: "grpc_lib \<Rightarrow> server_env \<Rightarrow> time \<Rightarrow> method_handler" where
  "WorkspaceService_StartNotebook_Handler lib env now = unary_Handler lib (\<lambda>m. if is_M_StartNotebookRequest m then Some (un_StartNotebook m) else None)
     ''/llmariner.workspace.server.v1.WorkspaceService/StartNotebook'' (\<lambda>ctx q. replies R_Notebook (StartNotebook env now ctx q))"

definition WorkspaceService_ServiceDesc :: "grpc_lib \<Rightarrow> server_env \<Rightarrow> time \<Rightarrow> service_desc" where
  "WorkspaceService_ServiceDesc lib env now = (''llmariner.workspace.server.v1.WorkspaceService'',
     [(''CreateNotebook'', WorkspaceService_CreateNotebook_Handler lib env now),
      (''ListNotebooks'', WorkspaceService_ListNotebooks_Handler lib env now),
      (''GetNotebook'', WorkspaceService_GetNotebook_Handler lib env now),
      (''DeleteNotebook'', WorkspaceService_DeleteNotebook_Handler lib env now),
      (''StopNotebook'', WorkspaceService_StopNotebook_Handler lib env now),
      (''StartNotebook'', WorkspaceService_StartNotebook_Handler lib env now)])"

subsection \<open>WorkspaceWorkerService\<close>

definition WorkspaceWorkerService_ListQueuedInternalNotebooks_Handler :: "grpc_lib \<Rightarrow> server_env \<Rightarrow> time \<Rightarrow> method_handler" where
  "WorkspaceWorkerService_ListQueuedInternalNotebooks_Handler lib env now = unary_Handler lib (\<lambda>m. if m = M_ListQueuedInternalNotebooksRequest then Some () else None)
     ''/llmariner.workspace.server.v1.WorkspaceWorkerService/ListQueuedInternalNotebooks'' (\<lambda>ctx _. reads R_ListQueuedInternalNotebooksResponse (ListQueuedInternalNotebooks env now ctx))"

definition WorkspaceWorkerService_UpdateNotebookState_Handler :: "grpc_lib \<Rightarrow> server_env \<Rightarrow> time \<Rightarrow> method_handler" where
  "WorkspaceWorkerService_UpdateNotebookState_Handler lib env now = unary_Handler lib (\<lambda>m. if is_M_UpdateNotebookStateRequest m then Some (un_UpdateNotebookState m) else None)
     ''/llmariner.workspace.server.v1.WorkspaceWorkerService/UpdateNotebookState'' (\<lambda>ctx q. replies (\<lambda>_. R_UpdateNotebookStateResponse) (UpdateNotebookState env now ctx q))"

definition WorkspaceWorkerService_ServiceDesc :: "grpc_lib \<Rightarrow> server_env \<Rightarrow> time \<Rightarrow> service_desc" where
  "WorkspaceWorkerService_ServiceDesc lib env now = (''llmariner.workspace.server.v1.WorkspaceWorkerService'',
     [(''ListQueuedInternalNotebooks'', WorkspaceWorkerService_ListQueuedInternalNotebooks_Handler lib env now),
      (''UpdateNotebookState'', WorkspaceWorkerService_UpdateNotebookState_Handler lib env now)])"

subsection \<open>BatchService\<close>

definition BatchService_CreateBatchJob_Handler :: "grpc_lib \<Rightarrow> server_env \<Rightarrow> time \<Rightarrow> method_handler" where
  "BatchService_CreateBatchJob_Handler lib env now = unary_Handler lib (\<lambda>m. if is_M_CreateBatchJobRequest m then Some (un_CreateBatchJob m) else None)
     ''/llmariner.batch.server.v1.BatchService/CreateBatchJob'' (\<lambda>ctx q. replies R_BatchJob (CreateBatchJob env now ctx q))"

definition BatchService_ListBatchJobs_Handler :: "grpc_lib \<Rightarrow> server_env \<Rightarrow> time \<Rightarrow> method_handler" where
  "BatchService_ListBatchJobs_Handler lib env now = unary_Handler lib (\<lambda>m. if is_M_ListBatchJobsRequest m then Some (un_ListBatchJobs m) else None)
     ''/llmariner.batch.server.v1.BatchService/ListBatchJobs'' (\<lambda>ctx q. reads R_ListBatchJobsResponse (ListBatchJobs env now ctx q))"

definition BatchService_GetBatchJob_Handler :: "grpc_lib \<Rightarrow> server_env \<Rightarrow> time \<Rightarrow> method_handler" where
  "BatchService_GetBatchJob_Handler lib env now = unary_Handler lib (\<lambda>m. if is_M_GetBatchJobRequest m then Some (un_GetBatchJob m) else None)
     ''/llmariner.batch.server.v1.BatchService/GetBatchJob'' (\<lambda>ctx q. reads R_BatchJob (GetBatchJob env now ctx q))"

definition BatchService_CancelBatchJob_Handler :: "grpc_lib \<Rightarrow> server_env \<Rightarrow> time \<Rightarrow> method_handler" where
  "BatchService_CancelBatchJob_Handler lib env now = unary_Handler lib (\<lambda>m. if is_M_CancelBatchJobRequest m then Some (un_CancelBatchJob m) else None)
     ''/llmariner.batch.server.v1.BatchService/CancelBatchJob'' (\<lambda>ctx q. replies R_BatchJob (CancelBatchJob env now ctx q))"

definition BatchService_DeleteBatchJob_Handler :: "grpc_lib \<Rightarrow> server_env \<Rightarrow> time \<Rightarrow> method_handler" where
  "BatchService_DeleteBatchJob_Handler lib env now = unary_Handler lib (\<lambda>m. if is_M_DeleteBatchJobRequest m then Some (un_DeleteBatchJob m) else None)
     ''/llmariner.batch.server.v1.BatchService/DeleteBatchJob'' (\<lambda>ctx q. replies R_BatchJob (DeleteBatchJob env now ctx q))"

definition BatchService_ServiceDesc :: "grpc_lib \<Rightarrow> server_env \<Rightarrow> time \<Rightarrow> service_desc" where
  "BatchService_ServiceDesc lib env now = (''llmariner.batch.server.v1.BatchService'',
     [(''CreateBatchJob'', BatchService_CreateBatchJob_Handler lib env now),
      (''ListBatchJobs'', BatchService_ListBatchJobs_Handler lib env now),
      (''GetBatchJob'', BatchService_GetBatchJob_Handler lib env now),
      (''CancelBatchJob'', BatchService_CancelBatchJob_Handler lib env now),
      (''DeleteBatchJob'', BatchService_DeleteBatchJob_Handler lib env now)])"

subsection \<open>BatchWorkerService\<close>

definition BatchWorkerService_ListQueuedInternalBatchJobs_Handler :: "grpc_lib \<Rightarrow> server_env \<Rightarrow> time \<Rightarrow> method_handler" where
  "BatchWorkerService_ListQueuedInternalBatchJobs_Handler lib env now = unary_Handler lib (\<lambda>m. if m = M_ListQueuedInternalBatchJobsRequest then Some () else None)
     ''/llmariner.batch.server.v1.BatchWorkerService/ListQueuedInternalBatchJobs'' (\<lambda>ctx _. reads R_ListQueuedInternalBatchJobsResponse (ListQueuedInternalBatchJobs env now ctx))"

definition BatchWorkerService_GetInternalBatchJob_Handler :: "grpc_lib \<Rightarrow> server_env \<Rightarrow> time \<Rightarrow> method_handler" where
  "BatchWorkerService_GetInternalBatchJob_Handler lib env now = unary_Handler lib (\<lambda>m. if is_M_GetInternalBatchJobRequest m then Some (un_GetInternalBatchJob m) else None)
     ''/llmariner.batch.server.v1.BatchWorkerService/GetInternalBatchJob'' (\<lambda>ctx q. reads R_InternalBatchJob (GetInternalBatchJob env now ctx q))"

definition BatchWorkerService_UpdateBatchJobState_Handler :: "grpc_lib \<Rightarrow> server_env \<Rightarrow> time \<Rightarrow> method_handler" where
  "BatchWorkerService_UpdateBatchJobState_Handler lib env now = unary_Handler lib (\<lambda>m. if is_M_UpdateBatchJobStateRequest m then Some (un_UpdateBatchJobState m) else None)
     ''/llmariner.batch.server.v1.BatchWorkerService/UpdateBatchJobState'' (\<lambda>ctx q. replies (\<lambda>_. R_UpdateBatchJobStateResponse) (UpdateBatchJobState env now ctx q))"

definition BatchWorkerService_ServiceDesc :: "grpc_lib \<Rightarrow> server_env \<Rightarrow> time \<Rightarrow> service_desc" where
  "BatchWorkerService_ServiceDesc lib env now = (''llmariner.batch.server.v1.BatchWorkerService'',
     [(''ListQueuedInternalBatchJobs'', BatchWorkerService_ListQueuedInternalBatchJobs_Handler lib env now),
      (''GetInternalBatchJob'', BatchWorkerService_GetInternalBatchJob_Handler lib env now),
      (''UpdateBatchJobState'', BatchWorkerService_UpdateBatchJobState_Handler lib env now)])"

subsection \<open>JobService\<close>

definition JobService_ListClusters_Handler :: "grpc_lib \<Rightarrow> server_env \<Rightarrow> time \<Rightarrow> method_handler" where
  "JobService_ListClusters_Handler lib env now = unary_Handler lib (\<lambda>m. if m = M_ListClustersRequest then Some () else None)
     ''/llmariner.jobs.server.v1.JobService/ListClusters'' (\<lambda>ctx _. reads R_ListClustersResponse (ListClusters env now ctx))"

definition JobService_ListJobSummaries_Handler :: "grpc_lib \<Rightarrow> server_env \<Rightarrow> time \<Rightarrow> method_handler" where
  "JobService_ListJobSummaries_Handler lib env now = unary_Handler lib (\<lambda>m. if is_M_ListJobSummariesRequest m then Some (un_ListJobSummaries m) else None)
     ''/llmariner.jobs.server.v1.JobService/ListJobSummaries'' (\<lambda>ctx q. reads R_ListJobSummariesResponse (ListJobSummaries env (lib_range lib) now ctx q))"

definition JobService_ServiceDesc :: "grpc_lib \<Rightarrow> server_env \<Rightarrow> time \<Rightarrow> service_desc" where
  "JobService_ServiceDesc lib env now = (''llmariner.jobs.server.v1.JobService'',
     [(''ListClusters'', JobService_ListClusters_Handler lib env now),
      (''ListJobSummaries'', JobService_ListJobSummaries_Handler lib env now)])"

subsection \<open>JobWorkerService\<close>

definition JobWorkerService_UpdateClusterStatus_Handler :: "grpc_lib \<Rightarrow> server_env \<Rightarrow> time \<Rightarrow> method_handler" where
  "JobWorkerService_UpdateClusterStatus_Handler lib env now = unary_Handler lib (\<lambda>m. if is_M_UpdateClusterStatusRequest m then Some (un_UpdateClusterStatus m) else None)
     ''/llmariner.jobs.server.v1.JobWorkerService/UpdateClusterStatus'' (\<lambda>ctx q. replies (\<lambda>_. R_UpdateClusterStatusResponse) (UpdateClusterStatus env now ctx q))"

definition JobWorkerService_ServiceDesc :: "grpc_lib \<Rightarrow> server_env \<Rightarrow> time \<Rightarrow> service_desc" where
  "JobWorkerService_ServiceDesc lib env now = (''llmariner.jobs.server.v1.JobWorkerService'',
     [(''UpdateClusterStatus'', JobWorkerService_UpdateClusterStatus_Handler lib env now)])"

subsection \<open>SyncerService\<close>

definition SyncerService_PatchKubernetesObject_Handler :: "grpc_lib \<Rightarrow> server_env \<Rightarrow> time \<Rightarrow> method_handler" where
  "SyncerService_PatchKubernetesObject_Handler lib env now = unary_Handler lib (\<lambda>m. if is_M_PatchKubernetesObjectRequest m then Some (un_PatchKubernetesObject m) else None)
     ''/llmariner.syncer.server.v1.SyncerService/PatchKubernetesObject'' (\<lambda>ctx q. replies R_PatchKubernetesObjectResponse (PatchKubernetesObject env now ctx q))"

definition SyncerService_DeleteKubernetesObject_Handler :: "grpc_lib \<Rightarrow> server_env \<Rightarrow> time \<Rightarrow> method_handler" where
  "SyncerService_DeleteKubernetesObject_Handler lib env now = unary_Handler lib (\<lambda>m. if is_M_DeleteKubernetesObjectRequest m then Some (un_DeleteKubernetesObject m) else None)
     ''/llmariner.syncer.server.v1.SyncerService/DeleteKubernetesObject'' (\<lambda>ctx q. replies (\<lambda>_. R_DeleteKubernetesObjectResponse) (DeleteKubernetesObject env ctx q))"

definition SyncerService_ListClusterIDs_Handler :: "grpc_lib \<Rightarrow> server_env \<Rightarrow> time \<Rightarrow> method_handler" where
  "SyncerService_ListClusterIDs_Handler lib env now = unary_Handler lib (\<lambda>m. if m = M_ListClusterIDsRequest then Some () else None)
     ''/llmariner.syncer.server.v1.SyncerService/ListClusterIDs'' (\<lambda>ctx _. reads R_ListClusterIDsResponse ((\<lambda>_. ListClusterIDs ctx)))"

definition SyncerService_ServiceDesc :: "grpc_lib \<Rightarrow> server_env \<Rightarrow> time \<Rightarrow> service_desc" where
  "SyncerService_ServiceDesc lib env now = (''llmariner.syncer.server.v1.SyncerService'',
     [(''PatchKubernetesObject'', SyncerService_PatchKubernetesObject_Handler lib env now),
      (''DeleteKubernetesObject'', SyncerService_DeleteKubernetesObject_Handler lib env now),
      (''ListClusterIDs'', SyncerService_ListClusterIDs_Handler lib env now)])"

section \<open>Servers\<close>

text \<open>\<^verbatim>\<open>RegisterService\<close>: a method is called by the name of its service and its own.\<close>

definition method_table :: "service_desc list \<Rightarrow> (string \<times> method_handler) list" where
  "method_table services = concat (map (\<lambda>(s, methods). map (\<lambda>(m, h). (''/'' @ s @ ''/'' @ m, h)) methods) services)"

definition find_method :: "service_desc list \<Rightarrow> string \<Rightarrow> method_handler option" where
  "find_method services fullMethod = map_of (method_table services) fullMethod"

definition grpc_Serve ::
  "grpc_lib \<Rightarrow> service_desc list \<Rightarrow> interceptor option \<Rightarrow> metadata \<Rightarrow> string \<Rightarrow> message \<Rightarrow> server_state \<Rightarrow> (go_error + reply) \<times> server_state" where
  "grpc_Serve lib services interceptor md fullMethod m st = (case find_method services fullMethod of
       None \<Rightarrow> (Inl (lib_unknown_method lib fullMethod), st) | Some h \<Rightarrow> h interceptor md m st)"

definition S_services :: "grpc_lib \<Rightarrow> server_env \<Rightarrow> time \<Rightarrow> service_desc list" where
  "S_services lib env now = [FineTuningService_ServiceDesc lib env now, WorkspaceService_ServiceDesc lib env now,
     BatchService_ServiceDesc lib env now, JobService_ServiceDesc lib env now]"

definition WS_services :: "grpc_lib \<Rightarrow> server_env \<Rightarrow> time \<Rightarrow> service_desc list" where
  "WS_services lib env now = [FineTuningWorkerService_ServiceDesc lib env now, WorkspaceWorkerService_ServiceDesc lib env now,
     BatchWorkerService_ServiceDesc lib env now, JobWorkerService_ServiceDesc lib env now]"

definition SS_services :: "grpc_lib \<Rightarrow> server_env \<Rightarrow> time \<Rightarrow> service_desc list" where
  "SS_services lib env now = [SyncerService_ServiceDesc lib env now]"

subsection \<open>Interceptors\<close>

text \<open>
  \<open>NewInterceptor\<close> takes the address of the RBAC server and the resource of a method; what it returns takes the methods that are not checked.
  The interceptor of the usage sender, which runs after it, only counts the calls.
\<close>

record rbac =
  NewInterceptor :: "string \<Rightarrow> (string \<Rightarrow> string) \<Rightarrow> go_error + (string list \<Rightarrow> interceptor)"
  NewWorkerInterceptor :: "string \<Rightarrow> go_error + interceptor"

definition S_GetAccessResource :: "string \<Rightarrow> string" where
  "S_GetAccessResource fullMethod = (if HasPrefix fullMethod ''/llmariner.workspace.'' then ''api.workspaces.notebooks'' else ''api.fine_tuning.jobs'')"

definition fakeAuth :: "grpc_lib \<Rightarrow> interceptor" where
  "fakeAuth lib md fullMethod = (if fullMethod = ''/grpc.health.v1.Health/Check'' then Inr (lib_IncomingContext lib md)
     else Inr (fakeAuthInto (lib_IncomingContext lib md)))"

definition S_Run :: "grpc_lib \<Rightarrow> rbac \<Rightarrow> server_AuthConfig \<Rightarrow> go_error + interceptor option" where
  "S_Run lib rb authConfig = (if auth_Enable authConfig
     then (case NewInterceptor rb (RBACInternalServerAddr authConfig) S_GetAccessResource of Inl e \<Rightarrow> Inl e
        | Inr ai \<Rightarrow> Inr (Some (ai [''/grpc.health.v1.Health/Check''])))
     else Inr (Some (fakeAuth lib)))"

text \<open>Without authentication the worker server has no interceptor; the flag is the \<open>enableAuth\<close> of its environment.\<close>

definition WS_Run :: "rbac \<Rightarrow> server_AuthConfig \<Rightarrow> go_error + interceptor option \<times> bool" where
  "WS_Run rb authConfig = (if auth_Enable authConfig
     then (case NewWorkerInterceptor rb (RBACInternalServerAddr authConfig) of Inl e \<Rightarrow> Inl e | Inr ai \<Rightarrow> Inr (Some ai, True))
     else Inr (None, False))"

definition SS_GetAccessResource :: "string \<Rightarrow> string" where
  "SS_GetAccessResource fullMethod =
     (if fullMethod = ''/llmariner.syncer.server.v1.SyncerService/ListClusterIDs'' then ''api.clusters'' else ''api.k8s.namespaced'')"

definition SS_Run :: "grpc_lib \<Rightarrow> rbac \<Rightarrow> server_AuthConfig \<Rightarrow> go_error + interceptor option" where
  "SS_Run lib rb authConfig = (if auth_Enable authConfig
     then (case NewInterceptor rb (RBACInternalServerAddr authConfig) SS_GetAccessResource of Inl e \<Rightarrow> Inl e | Inr ai \<Rightarrow> Inr (Some (ai [])))
     else Inr (Some (\<lambda>md fullMethod. Inr (fakeAuthInto (lib_IncomingContext lib md)))))"

subsection \<open>Ports\<close>

text \<open>A client's end of a connection; \<open>port\<close> is the one that the network of \<open>Fleet\<close> makes to a server.\<close>

record 'w conn =
  cc_Invoke :: "metadata \<Rightarrow> string \<Rightarrow> message \<Rightarrow> ('w, reply) io"
  cc_wrong_reply :: go_error

definition port :: "grpc_lib \<Rightarrow> network \<Rightarrow> server_env \<Rightarrow> (time \<Rightarrow> service_desc list) \<Rightarrow> interceptor option \<Rightarrow> 'k fleet conn" where
  "port lib net env services interceptor = \<lparr>
     cc_Invoke = (\<lambda>md fullMethod m. rpc net env (\<lambda>now. grpc_Serve lib (services now) interceptor md fullMethod m)),
     cc_wrong_reply = lib_wrong_message lib\<rparr>"

section \<open>Clients\<close>

text \<open>The body that all generated client methods share. The worker and syncer clients put their credentials \<open>md\<close> into every call.\<close>

definition Invoke :: "'w conn \<Rightarrow> (reply \<Rightarrow> 'a option) \<Rightarrow> metadata \<Rightarrow> string \<Rightarrow> message \<Rightarrow> ('w, 'a) io" where
  "Invoke cc dec md fullMethod m = bindE (cc_Invoke cc md fullMethod m) (\<lambda>r. case dec r of None \<Rightarrow> throw (cc_wrong_reply cc) | Some x \<Rightarrow> ret x)"

record 'w FineTuningServiceClient =
  ftc_CreateJob :: "metadata \<Rightarrow> CreateJobRequest \<Rightarrow> ('w, v1_job) io"
  ftc_ListJobs :: "metadata \<Rightarrow> ListRequest \<Rightarrow> ('w, ListJobsResponse) io"
  ftc_GetJob :: "metadata \<Rightarrow> string \<Rightarrow> ('w, v1_job) io"
  ftc_CancelJob :: "metadata \<Rightarrow> string \<Rightarrow> ('w, v1_job) io"

definition NewFineTuningServiceClient :: "'w conn \<Rightarrow> 'w FineTuningServiceClient" where
  "NewFineTuningServiceClient cc = \<lparr>
     ftc_CreateJob = (\<lambda>md q. Invoke cc (\<lambda>r. if is_R_Job r then Some (un_Job r) else None) md
        ''/llmariner.fine_tuning.server.v1.FineTuningService/CreateJob'' (M_CreateJobRequest q)),
     ftc_ListJobs = (\<lambda>md q. Invoke cc (\<lambda>r. if is_R_ListJobsResponse r then Some (un_ListJobsResponse r) else None) md
        ''/llmariner.fine_tuning.server.v1.FineTuningService/ListJobs'' (M_ListJobsRequest q)),
     ftc_GetJob = (\<lambda>md q. Invoke cc (\<lambda>r. if is_R_Job r then Some (un_Job r) else None) md
        ''/llmariner.fine_tuning.server.v1.FineTuningService/GetJob'' (M_GetJobRequest q)),
     ftc_CancelJob = (\<lambda>md q. Invoke cc (\<lambda>r. if is_R_Job r then Some (un_Job r) else None) md
        ''/llmariner.fine_tuning.server.v1.FineTuningService/CancelJob'' (M_CancelJobRequest q))\<rparr>"

definition NewFineTuningWorkerServiceClient :: "'w conn \<Rightarrow> metadata \<Rightarrow> 'w ftClient" where
  "NewFineTuningWorkerServiceClient cc md = \<lparr>
     ft_ListQueuedInternalJobs = (Invoke cc (\<lambda>r. if is_R_ListQueuedInternalJobsResponse r then Some (un_ListQueuedInternalJobsResponse r) else None) md
        ''/llmariner.fine_tuning.server.v1.FineTuningWorkerService/ListQueuedInternalJobs'' M_ListQueuedInternalJobsRequest),
     ft_GetInternalJob = (\<lambda>q. Invoke cc (\<lambda>r. if is_R_InternalJob r then Some (un_InternalJob r) else None) md
        ''/llmariner.fine_tuning.server.v1.FineTuningWorkerService/GetInternalJob'' (M_GetInternalJobRequest q)),
     ft_UpdateJobPhase = (\<lambda>q. Invoke cc (\<lambda>r. if r = R_UpdateJobPhaseResponse then Some () else None) md
        ''/llmariner.fine_tuning.server.v1.FineTuningWorkerService/UpdateJobPhase'' (M_UpdateJobPhaseRequest q))\<rparr>"

record 'w WorkspaceServiceClient =
  wsc_CreateNotebook :: "metadata \<Rightarrow> CreateNotebookRequest \<Rightarrow> ('w, v1_notebook) io"
  wsc_ListNotebooks :: "metadata \<Rightarrow> ListRequest \<Rightarrow> ('w, ListNotebooksResponse) io"
  wsc_GetNotebook :: "metadata \<Rightarrow> string \<Rightarrow> ('w, v1_notebook) io"
  wsc_DeleteNotebook :: "metadata \<Rightarrow> string \<Rightarrow> ('w, unit) io"
  wsc_StopNotebook :: "metadata \<Rightarrow> string \<Rightarrow> ('w, v1_notebook) io"
  wsc_StartNotebook :: "metadata \<Rightarrow> string \<Rightarrow> ('w, v1_notebook) io"

definition NewWorkspaceServiceClient :: "'w conn \<Rightarrow> 'w WorkspaceServiceClient" where
  "NewWorkspaceServiceClient cc = \<lparr>
     wsc_CreateNotebook = (\<lambda>md q. Invoke cc (\<lambda>r. if is_R_Notebook r then Some (un_Notebook r) else None) md
        ''/llmariner.workspace.server.v1.WorkspaceService/CreateNotebook'' (M_CreateNotebookRequest q)),
     wsc_ListNotebooks = (\<lambda>md q. Invoke cc (\<lambda>r. if is_R_ListNotebooksResponse r then Some (un_ListNotebooksResponse r) else None) md
        ''/llmariner.workspace.server.v1.WorkspaceService/ListNotebooks'' (M_ListNotebooksRequest q)),
     wsc_GetNotebook = (\<lambda>md q. Invoke cc (\<lambda>r. if is_R_Notebook r then Some (un_Notebook r) else None) md
        ''/llmariner.workspace.server.v1.WorkspaceService/GetNotebook'' (M_GetNotebookRequest q)),
     wsc_DeleteNotebook = (\<lambda>md q. Invoke cc (\<lambda>r. if r = R_DeleteNotebookResponse then Some () else None) md
        ''/llmariner.workspace.server.v1.WorkspaceService/DeleteNotebook'' (M_DeleteNotebookRequest q)),
     wsc_StopNotebook = (\<lambda>md q. Invoke cc (\<lambda>r. if is_R_Notebook r then Some (un_Notebook r) else None) md
        ''/llmariner.workspace.server.v1.WorkspaceService/StopNotebook'' (M_StopNotebookRequest q)),
     wsc_StartNotebook = (\<lambda>md q. Invoke cc (\<lambda>r. if is_R_Notebook r then Some (un_Notebook r) else None) md
        ''/llmariner.workspace.server.v1.WorkspaceService/StartNotebook'' (M_StartNotebookRequest q))\<rparr>"

definition NewWorkspaceWorkerServiceClient :: "'w conn \<Rightarrow> metadata \<Rightarrow> 'w wsClient" where
  "NewWorkspaceWorkerServiceClient cc md = \<lparr>
     ws_ListQueuedInternalNotebooks = (Invoke cc (\<lambda>r. if is_R_ListQueuedInternalNotebooksResponse r then Some (un_ListQueuedInternalNotebooksResponse r) else None) md
        ''/llmariner.workspace.server.v1.WorkspaceWorkerService/ListQueuedInternalNotebooks'' M_ListQueuedInternalNotebooksRequest),
     ws_UpdateNotebookState = (\<lambda>q. Invoke cc (\<lambda>r. if r = R_UpdateNotebookStateResponse then Some () else None) md
        ''/llmariner.workspace.server.v1.WorkspaceWorkerService/UpdateNotebookState'' (M_UpdateNotebookStateRequest q))\<rparr>"

record 'w BatchServiceClient =
  bsc_CreateBatchJob :: "metadata \<Rightarrow> CreateBatchJobRequest \<Rightarrow> ('w, v1_batch_job) io"
  bsc_ListBatchJobs :: "metadata \<Rightarrow> ListRequest \<Rightarrow> ('w, ListBatchJobsResponse) io"
  bsc_GetBatchJob :: "metadata \<Rightarrow> string \<Rightarrow> ('w, v1_batch_job) io"
  bsc_CancelBatchJob :: "metadata \<Rightarrow> string \<Rightarrow> ('w, v1_batch_job) io"
  bsc_DeleteBatchJob :: "metadata \<Rightarrow> string \<Rightarrow> ('w, v1_batch_job) io"

definition NewBatchServiceClient :: "'w conn \<Rightarrow> 'w BatchServiceClient" where
  "NewBatchServiceClient cc = \<lparr>
     bsc_CreateBatchJob = (\<lambda>md q. Invoke cc (\<lambda>r. if is_R_BatchJob r then Some (un_BatchJob r) else None) md
        ''/llmariner.batch.server.v1.BatchService/CreateBatchJob'' (M_CreateBatchJobRequest q)),
     bsc_ListBatchJobs = (\<lambda>md q. Invoke cc (\<lambda>r. if is_R_ListBatchJobsResponse r then Some (un_ListBatchJobsResponse r) else None) md
        ''/llmariner.batch.server.v1.BatchService/ListBatchJobs'' (M_ListBatchJobsRequest q)),
     bsc_GetBatchJob = (\<lambda>md q. Invoke cc (\<lambda>r. if is_R_BatchJob r then Some (un_BatchJob r) else None) md
        ''/llmariner.batch.server.v1.BatchService/GetBatchJob'' (M_GetBatchJobRequest q)),
     bsc_CancelBatchJob = (\<lambda>md q. Invoke cc (\<lambda>r. if is_R_BatchJob r then Some (un_BatchJob r) else None) md
        ''/llmariner.batch.server.v1.BatchService/CancelBatchJob'' (M_CancelBatchJobRequest q)),
     bsc_DeleteBatchJob = (\<lambda>md q. Invoke cc (\<lambda>r. if is_R_BatchJob r then Some (un_BatchJob r) else None) md
        ''/llmariner.batch.server.v1.BatchService/DeleteBatchJob'' (M_DeleteBatchJobRequest q))\<rparr>"

definition NewBatchWorkerServiceClient :: "'w conn \<Rightarrow> metadata \<Rightarrow> 'w bwClient" where
  "NewBatchWorkerServiceClient cc md = \<lparr>
     bw_ListQueuedInternalBatchJobs = (Invoke cc (\<lambda>r. if is_R_ListQueuedInternalBatchJobsResponse r then Some (un_ListQueuedInternalBatchJobsResponse r) else None) md
        ''/llmariner.batch.server.v1.BatchWorkerService/ListQueuedInternalBatchJobs'' M_ListQueuedInternalBatchJobsRequest),
     bw_GetInternalBatchJob = (\<lambda>q. Invoke cc (\<lambda>r. if is_R_InternalBatchJob r then Some (un_InternalBatchJob r) else None) md
        ''/llmariner.batch.server.v1.BatchWorkerService/GetInternalBatchJob'' (M_GetInternalBatchJobRequest q)),
     bw_UpdateBatchJobState = (\<lambda>q. Invoke cc (\<lambda>r. if r = R_UpdateBatchJobStateResponse then Some () else None) md
        ''/llmariner.batch.server.v1.BatchWorkerService/UpdateBatchJobState'' (M_UpdateBatchJobStateRequest q))\<rparr>"

record 'w JobServiceClient =
  jsc_ListClusters :: "metadata \<Rightarrow> ('w, v1_cluster list) io"
  jsc_ListJobSummaries :: "metadata \<Rightarrow> RequestFilter option \<Rightarrow> ('w, JobSummaryDatapoint list) io"

definition NewJobServiceClient :: "'w conn \<Rightarrow> 'w JobServiceClient" where
  "NewJobServiceClient cc = \<lparr>
     jsc_ListClusters = (\<lambda>md. Invoke cc (\<lambda>r. if is_R_ListClustersResponse r then Some (un_ListClustersResponse r) else None) md
        ''/llmariner.jobs.server.v1.JobService/ListClusters'' M_ListClustersRequest),
     jsc_ListJobSummaries = (\<lambda>md q. Invoke cc (\<lambda>r. if is_R_ListJobSummariesResponse r then Some (un_ListJobSummariesResponse r) else None) md
        ''/llmariner.jobs.server.v1.JobService/ListJobSummaries'' (M_ListJobSummariesRequest q))\<rparr>"

definition NewJobWorkerServiceClient :: "'w conn \<Rightarrow> metadata \<Rightarrow> ClusterStatus \<Rightarrow> ('w, unit) io" where
  "NewJobWorkerServiceClient cc md status = Invoke cc (\<lambda>r. if r = R_UpdateClusterStatusResponse then Some () else None) md
     ''/llmariner.jobs.server.v1.JobWorkerService/UpdateClusterStatus'' (M_UpdateClusterStatusRequest (Some status))"

definition NewSyncerServiceClient :: "'w conn \<Rightarrow> metadata \<Rightarrow> 'w ssClient" where
  "NewSyncerServiceClient cc md = \<lparr>
     ss_PatchKubernetesObject = (\<lambda>q. Invoke cc (\<lambda>r. if is_R_PatchKubernetesObjectResponse r then Some (un_PatchKubernetesObjectResponse r) else None) md
        ''/llmariner.syncer.server.v1.SyncerService/PatchKubernetesObject'' (M_PatchKubernetesObjectRequest q)),
     ss_DeleteKubernetesObject = (\<lambda>q. Invoke cc (\<lambda>r. if r = R_DeleteKubernetesObjectResponse then Some () else None) md
        ''/llmariner.syncer.server.v1.SyncerService/DeleteKubernetesObject'' (M_DeleteKubernetesObjectRequest q)),
     ss_ListClusterIDs = (Invoke cc (\<lambda>r. if is_R_ListClusterIDsResponse r then Some (un_ListClusterIDsResponse r) else None) md
        ''/llmariner.syncer.server.v1.SyncerService/ListClusterIDs'' M_ListClusterIDsRequest)\<rparr>"

section \<open>What the calls to a port do\<close>

fun user_call_of :: "context_info \<Rightarrow> server_call \<Rightarrow> bool" where
  "user_call_of ctx (Call_CreateJob c req) = (c = ctx)"
| "user_call_of ctx (Call_CancelJob c k) = (c = ctx)"
| "user_call_of ctx (Call_CreateNotebook c nreq) = (c = ctx)"
| "user_call_of ctx (Call_StopNotebook c k) = (c = ctx)"
| "user_call_of ctx (Call_StartNotebook c k) = (c = ctx)"
| "user_call_of ctx (Call_DeleteNotebook c k) = (c = ctx)"
| "user_call_of ctx (Call_CreateBatchJob c breq) = (c = ctx)"
| "user_call_of ctx (Call_CancelBatchJob c k) = (c = ctx)"
| "user_call_of ctx (Call_DeleteBatchJob c k) = (c = ctx)"
| "user_call_of ctx _ = False"

text \<open>The context a call gets, and: a handler changes nothing or makes one call of the server, in the context the interceptor has given for this very method.\<close>

definition call_context :: "grpc_lib \<Rightarrow> interceptor option \<Rightarrow> metadata \<Rightarrow> string \<Rightarrow> go_error + context_info" where
  "call_context lib interceptor md fullMethod = (case interceptor of None \<Rightarrow> Inr (lib_IncomingContext lib md) | Some i \<Rightarrow> i md fullMethod)"

definition admits :: "grpc_lib \<Rightarrow> interceptor option \<Rightarrow> metadata \<Rightarrow> string \<Rightarrow> context_info \<Rightarrow> bool" where
  "admits lib interceptor md fullMethod ctx \<longleftrightarrow> call_context lib interceptor md fullMethod = Inr ctx"

definition makes_calls :: "grpc_lib \<Rightarrow> server_env \<Rightarrow> time \<Rightarrow> (context_info \<Rightarrow> server_call \<Rightarrow> bool) \<Rightarrow> string \<times> method_handler \<Rightarrow> bool" where
  "makes_calls lib env now P x \<longleftrightarrow> (\<forall>i md m st. snd (snd x i md m st) = st \<or>
     (\<exists>ctx call. admits lib i md (fst x) ctx \<and> P ctx call \<and> snd (snd x i md m st) = serve env now call st))"

lemma unary_makes_calls:
  assumes "\<And>ctx q st. snd (srv ctx q st) = st \<or> (\<exists>call. P ctx call \<and> snd (srv ctx q st) = serve env now call st)"
  shows "makes_calls lib env now P (fullMethod, unary_Handler lib dec fullMethod srv)"
  using assms unfolding makes_calls_def admits_def call_context_def unary_Handler_def by (fastforce split: option.split sum.split)

lemma snd_replies [simp]: "snd (replies R h st) = snd (h st)"
  by (simp add: replies_def split: prod.split sum.split)

lemma snd_reads [simp]: "snd (reads R h st) = st"
  by (simp add: reads_def)

text \<open>\<open>one_call\<close>: a remote call, during which others may have called; the server has served at most one call, of the given kind.\<close>

definition one_call :: "network \<Rightarrow> server_env \<Rightarrow> (server_call \<Rightarrow> bool) \<Rightarrow> 'k fleet \<Rightarrow> 'k fleet \<Rightarrow> bool" where
  "one_call net env P w w' \<longleftrightarrow> (\<exists>calls. length calls \<le> 1 \<and> list_all (\<lambda>(t, call). t = net_clock net (fl_rpcs w) \<and> P call) calls \<and>
     w' = w\<lparr>fl_rpcs := Suc (fl_rpcs w), fl_server := serves env (net_others net (fl_rpcs w) @ calls) (fl_server w)\<rparr>)"

lemma rpc_one_call:
  assumes "\<And>now st. snd (h now st) = st \<or> (\<exists>call. P call \<and> snd (h now st) = serve env now call st)"
  shows "one_call net env P w (snd (rpc net env h w))"
proof -
  let ?n = "fl_rpcs w"
  let ?st = "serves env (net_others net ?n) (fl_server w)"
  obtain calls where calls: "length calls \<le> 1" "list_all (\<lambda>(t, call). t = net_clock net ?n \<and> P call) calls"
      "snd (h (net_clock net ?n) ?st) = serves env calls ?st"
  proof (cases "snd (h (net_clock net ?n) ?st) = ?st")
    case True
    show ?thesis by (rule that [of "[]"]) (simp_all add: True)
  next
    case False
    then obtain call where "P call" "snd (h (net_clock net ?n) ?st) = serve env (net_clock net ?n) call ?st" using assms by blast
    then show ?thesis by (intro that [of "[(net_clock net ?n, call)]"]) (simp_all add: serves_def)
  qed
  have "snd (rpc net env h w) = w\<lparr>fl_rpcs := Suc ?n, fl_server := serves env (net_others net ?n @ []) (fl_server w)\<rparr> \<or>
      snd (rpc net env h w) = w\<lparr>fl_rpcs := Suc ?n, fl_server := serves env (net_others net ?n @ calls) (fl_server w)\<rparr>"
    using calls(3) by (auto simp: rpc_def Let_def serves_append split: delivery.split prod.split sum.split)
  then show ?thesis
  proof
    assume "snd (rpc net env h w) = w\<lparr>fl_rpcs := Suc ?n, fl_server := serves env (net_others net ?n @ []) (fl_server w)\<rparr>"
    then show ?thesis unfolding one_call_def by (intro exI [of _ "[]"]) simp
  next
    assume "snd (rpc net env h w) = w\<lparr>fl_rpcs := Suc ?n, fl_server := serves env (net_others net ?n @ calls) (fl_server w)\<rparr>"
    then show ?thesis unfolding one_call_def using calls by blast
  qed
qed

lemma one_call_mono: "one_call net env P w w' \<Longrightarrow> (\<And>call. P call \<Longrightarrow> Q call) \<Longrightarrow> one_call net env Q w w'"
  unfolding one_call_def by (fastforce simp: list_all_iff)

text \<open>A server whose methods make only calls of one kind, and what a client can therefore do through its port, whatever it sends.\<close>

locale call_server =
  fixes lib :: grpc_lib and env :: server_env and services :: "time \<Rightarrow> service_desc list" and P :: "context_info \<Rightarrow> server_call \<Rightarrow> bool"
  assumes methods: "list_all (makes_calls lib env now P) (method_table (services now))"
begin

lemma served:
  "snd (grpc_Serve lib (services now) i md fm m st) = st \<or>
   (\<exists>ctx call. admits lib i md fm ctx \<and> P ctx call \<and> snd (grpc_Serve lib (services now) i md fm m st) = serve env now call st)"
proof (cases "find_method (services now) fm")
  case (Some h)
  then have "(fm, h) \<in> set (method_table (services now))" unfolding find_method_def by (rule map_of_SomeD)
  then have "makes_calls lib env now P (fm, h)" using methods by (auto simp: list_all_iff)
  then show ?thesis by (simp add: makes_calls_def grpc_Serve_def Some)
qed (simp add: grpc_Serve_def)

lemma port_one_call:
  "one_call net env (\<lambda>call. \<exists>ctx. admits lib i md fm ctx \<and> P ctx call) w (snd (cc_Invoke (port lib net env services i) md fm m w))"
  unfolding port_def conn.simps by (rule rpc_one_call) (use served in blast)

end

lemmas user_handlers = FineTuningService_CreateJob_Handler_def FineTuningService_ListJobs_Handler_def FineTuningService_GetJob_Handler_def
  FineTuningService_CancelJob_Handler_def WorkspaceService_CreateNotebook_Handler_def WorkspaceService_ListNotebooks_Handler_def
  WorkspaceService_GetNotebook_Handler_def WorkspaceService_DeleteNotebook_Handler_def WorkspaceService_StopNotebook_Handler_def
  WorkspaceService_StartNotebook_Handler_def BatchService_CreateBatchJob_Handler_def BatchService_ListBatchJobs_Handler_def
  BatchService_GetBatchJob_Handler_def BatchService_CancelBatchJob_Handler_def BatchService_DeleteBatchJob_Handler_def
  JobService_ListClusters_Handler_def JobService_ListJobSummaries_Handler_def

lemmas user_services = S_services_def FineTuningService_ServiceDesc_def WorkspaceService_ServiceDesc_def BatchService_ServiceDesc_def JobService_ServiceDesc_def

lemmas worker_handlers = FineTuningWorkerService_ListQueuedInternalJobs_Handler_def FineTuningWorkerService_GetInternalJob_Handler_def
  FineTuningWorkerService_UpdateJobPhase_Handler_def WorkspaceWorkerService_ListQueuedInternalNotebooks_Handler_def
  WorkspaceWorkerService_UpdateNotebookState_Handler_def BatchWorkerService_ListQueuedInternalBatchJobs_Handler_def
  BatchWorkerService_GetInternalBatchJob_Handler_def BatchWorkerService_UpdateBatchJobState_Handler_def JobWorkerService_UpdateClusterStatus_Handler_def

lemmas worker_services = WS_services_def FineTuningWorkerService_ServiceDesc_def WorkspaceWorkerService_ServiceDesc_def
  BatchWorkerService_ServiceDesc_def JobWorkerService_ServiceDesc_def

lemmas syncer_handlers = SyncerService_PatchKubernetesObject_Handler_def SyncerService_DeleteKubernetesObject_Handler_def SyncerService_ListClusterIDs_Handler_def

lemmas syncer_services = SS_services_def SyncerService_ServiceDesc_def

lemma call_kinds:
  "\<exists>call. user_call_of ctx call \<and> snd (CreateJob env now ctx q1 st) = serve env now call st"
  "\<exists>call. user_call_of ctx call \<and> snd (CancelJob env now ctx k st) = serve env now call st"
  "\<exists>call. user_call_of ctx call \<and> snd (CreateNotebook env now ctx q2 st) = serve env now call st"
  "\<exists>call. user_call_of ctx call \<and> snd (DeleteNotebook env now ctx k st) = serve env now call st"
  "\<exists>call. user_call_of ctx call \<and> snd (StopNotebook env now ctx k st) = serve env now call st"
  "\<exists>call. user_call_of ctx call \<and> snd (StartNotebook env now ctx k st) = serve env now call st"
  "\<exists>call. user_call_of ctx call \<and> snd (CreateBatchJob env now ctx q3 st) = serve env now call st"
  "\<exists>call. user_call_of ctx call \<and> snd (CancelBatchJob env now ctx k st) = serve env now call st"
  "\<exists>call. user_call_of ctx call \<and> snd (DeleteBatchJob env now ctx k st) = serve env now call st"
  "\<exists>call. report_of ctx call \<and> snd (UpdateJobPhase env now ctx q4 st) = serve env now call st"
  "\<exists>call. report_of ctx call \<and> snd (UpdateNotebookState env now ctx q5 st) = serve env now call st"
  "\<exists>call. report_of ctx call \<and> snd (UpdateBatchJobState env now ctx q6 st) = serve env now call st"
  "\<exists>call. report_of ctx call \<and> snd (UpdateClusterStatus env now ctx q7 st) = serve env now call st"
  "\<exists>call. sync_call_of ctx call \<and> snd (PatchKubernetesObject env now ctx q8 st) = serve env now call st"
  "\<exists>call. sync_call_of ctx call \<and> snd (DeleteKubernetesObject env ctx q9 st) = serve env now call st"
  by (metis serve.simps user_call_of.simps report_of.simps sync_call_of.simps)+

interpretation user_server: call_server lib env "S_services lib env" user_call_of for lib env
  by unfold_locales (simp add: method_table_def user_services user_handlers, intro conjI unary_makes_calls, simp_all add: call_kinds)

interpretation worker_server: call_server lib env "WS_services lib env" report_of for lib env
  by unfold_locales (simp add: method_table_def worker_services worker_handlers, intro conjI unary_makes_calls, simp_all add: call_kinds)

interpretation syncer_server: call_server lib env "SS_services lib env" sync_call_of for lib env
  by unfold_locales (simp add: method_table_def syncer_services syncer_handlers, intro conjI unary_makes_calls, simp_all add: call_kinds)

text \<open>The resources the user port is authorized for: only the methods of the workspace service have one of their own.\<close>

lemma access_resources:
  "list_all (\<lambda>(fm, h). S_GetAccessResource fm =
     (if HasPrefix fm ''/llmariner.workspace.server.v1.WorkspaceService/'' then ''api.workspaces.notebooks'' else ''api.fine_tuning.jobs'')) (method_table (S_services lib env now))"
  by (simp add: method_table_def user_services S_GetAccessResource_def HasPrefix_def)

section \<open>Calls that reach their handler\<close>

lemma user_methods:
  "find_method (S_services lib env now) ''/llmariner.fine_tuning.server.v1.FineTuningService/CreateJob'' = Some (FineTuningService_CreateJob_Handler lib env now)"
  "find_method (S_services lib env now) ''/llmariner.fine_tuning.server.v1.FineTuningService/ListJobs'' = Some (FineTuningService_ListJobs_Handler lib env now)"
  "find_method (S_services lib env now) ''/llmariner.fine_tuning.server.v1.FineTuningService/GetJob'' = Some (FineTuningService_GetJob_Handler lib env now)"
  "find_method (S_services lib env now) ''/llmariner.fine_tuning.server.v1.FineTuningService/CancelJob'' = Some (FineTuningService_CancelJob_Handler lib env now)"
  "find_method (S_services lib env now) ''/llmariner.workspace.server.v1.WorkspaceService/CreateNotebook'' = Some (WorkspaceService_CreateNotebook_Handler lib env now)"
  "find_method (S_services lib env now) ''/llmariner.workspace.server.v1.WorkspaceService/ListNotebooks'' = Some (WorkspaceService_ListNotebooks_Handler lib env now)"
  "find_method (S_services lib env now) ''/llmariner.workspace.server.v1.WorkspaceService/GetNotebook'' = Some (WorkspaceService_GetNotebook_Handler lib env now)"
  "find_method (S_services lib env now) ''/llmariner.workspace.server.v1.WorkspaceService/DeleteNotebook'' = Some (WorkspaceService_DeleteNotebook_Handler lib env now)"
  "find_method (S_services lib env now) ''/llmariner.workspace.server.v1.WorkspaceService/StopNotebook'' = Some (WorkspaceService_StopNotebook_Handler lib env now)"
  "find_method (S_services lib env now) ''/llmariner.workspace.server.v1.WorkspaceService/StartNotebook'' = Some (WorkspaceService_StartNotebook_Handler lib env now)"
  "find_method (S_services lib env now) ''/llmariner.batch.server.v1.BatchService/CreateBatchJob'' = Some (BatchService_CreateBatchJob_Handler lib env now)"
  "find_method (S_services lib env now) ''/llmariner.batch.server.v1.BatchService/ListBatchJobs'' = Some (BatchService_ListBatchJobs_Handler lib env now)"
  "find_method (S_services lib env now) ''/llmariner.batch.server.v1.BatchService/GetBatchJob'' = Some (BatchService_GetBatchJob_Handler lib env now)"
  "find_method (S_services lib env now) ''/llmariner.batch.server.v1.BatchService/CancelBatchJob'' = Some (BatchService_CancelBatchJob_Handler lib env now)"
  "find_method (S_services lib env now) ''/llmariner.batch.server.v1.BatchService/DeleteBatchJob'' = Some (BatchService_DeleteBatchJob_Handler lib env now)"
  "find_method (S_services lib env now) ''/llmariner.jobs.server.v1.JobService/ListClusters'' = Some (JobService_ListClusters_Handler lib env now)"
  "find_method (S_services lib env now) ''/llmariner.jobs.server.v1.JobService/ListJobSummaries'' = Some (JobService_ListJobSummaries_Handler lib env now)"
  by (simp_all add: find_method_def method_table_def user_services)

lemma worker_methods:
  "find_method (WS_services lib env now) ''/llmariner.fine_tuning.server.v1.FineTuningWorkerService/ListQueuedInternalJobs'' = Some (FineTuningWorkerService_ListQueuedInternalJobs_Handler lib env now)"
  "find_method (WS_services lib env now) ''/llmariner.fine_tuning.server.v1.FineTuningWorkerService/GetInternalJob'' = Some (FineTuningWorkerService_GetInternalJob_Handler lib env now)"
  "find_method (WS_services lib env now) ''/llmariner.fine_tuning.server.v1.FineTuningWorkerService/UpdateJobPhase'' = Some (FineTuningWorkerService_UpdateJobPhase_Handler lib env now)"
  "find_method (WS_services lib env now) ''/llmariner.workspace.server.v1.WorkspaceWorkerService/ListQueuedInternalNotebooks'' = Some (WorkspaceWorkerService_ListQueuedInternalNotebooks_Handler lib env now)"
  "find_method (WS_services lib env now) ''/llmariner.workspace.server.v1.WorkspaceWorkerService/UpdateNotebookState'' = Some (WorkspaceWorkerService_UpdateNotebookState_Handler lib env now)"
  "find_method (WS_services lib env now) ''/llmariner.batch.server.v1.BatchWorkerService/ListQueuedInternalBatchJobs'' = Some (BatchWorkerService_ListQueuedInternalBatchJobs_Handler lib env now)"
  "find_method (WS_services lib env now) ''/llmariner.batch.server.v1.BatchWorkerService/GetInternalBatchJob'' = Some (BatchWorkerService_GetInternalBatchJob_Handler lib env now)"
  "find_method (WS_services lib env now) ''/llmariner.batch.server.v1.BatchWorkerService/UpdateBatchJobState'' = Some (BatchWorkerService_UpdateBatchJobState_Handler lib env now)"
  "find_method (WS_services lib env now) ''/llmariner.jobs.server.v1.JobWorkerService/UpdateClusterStatus'' = Some (JobWorkerService_UpdateClusterStatus_Handler lib env now)"
  by (simp_all add: find_method_def method_table_def worker_services)

lemma syncer_methods:
  "find_method (SS_services lib env now) ''/llmariner.syncer.server.v1.SyncerService/PatchKubernetesObject'' = Some (SyncerService_PatchKubernetesObject_Handler lib env now)"
  "find_method (SS_services lib env now) ''/llmariner.syncer.server.v1.SyncerService/DeleteKubernetesObject'' = Some (SyncerService_DeleteKubernetesObject_Handler lib env now)"
  "find_method (SS_services lib env now) ''/llmariner.syncer.server.v1.SyncerService/ListClusterIDs'' = Some (SyncerService_ListClusterIDs_Handler lib env now)"
  by (simp_all add: find_method_def method_table_def syncer_services)

text \<open>The server's end of a call, and the client's: the result is that of the method itself, or the refusal of the interceptor.\<close>

lemma unary_served:
  "find_method services fm = Some (unary_Handler lib dec fm srv) \<Longrightarrow> dec m = Some q \<Longrightarrow>
    grpc_Serve lib services i md fm m st = (case call_context lib i md fm of Inl e \<Rightarrow> (Inl e, st) | Inr ctx \<Rightarrow> srv ctx q st)"
  by (simp add: grpc_Serve_def unary_Handler_def call_context_def split: option.split)

lemma Invoke_served:
  assumes "\<And>now st. grpc_Serve lib (services now) i md fm m st = replies R (h now) st" and "\<And>x. dec (R x) = Some x"
  shows "Invoke (port lib net env services i) dec md fm m = rpc net env h"
  by (rule ext) (simp add: Invoke_def port_def rpc_def Let_def bindE_def assms replies_def ret_def split: delivery.split prod.split sum.split)

lemma Invoke_unary:
  assumes "\<And>now. find_method (services now) fm = Some (unary_Handler lib dec fm (\<lambda>ctx q. replies R (h now ctx q)))"
    and "dec m \<noteq> None" and "\<And>x. out (R x) = Some x"
  shows "Invoke (port lib net env services i) out md fm m =
    rpc net env (\<lambda>now st. case call_context lib i md fm of Inl e \<Rightarrow> (Inl e, st) | Inr ctx \<Rightarrow> h now ctx (the (dec m)) st)"
proof -
  obtain q where q: "dec m = Some q" using assms(2) by blast
  show ?thesis
    by (rule Invoke_served [of _ _ _ _ _ _ R, OF _ assms(3)]) (simp add: unary_served [OF assms(1) q] q replies_def split: sum.split)
qed

lemmas user_Invoke = user_methods [unfolded user_handlers reads_def, THEN Invoke_unary]

lemmas worker_Invoke = worker_methods [unfolded worker_handlers reads_def, THEN Invoke_unary]

lemmas syncer_Invoke = syncer_methods [unfolded syncer_handlers reads_def, THEN Invoke_unary]

text \<open>So the clients of a cluster and of a syncer that are admitted are those of \<open>Fleet\<close> and \<open>Federation\<close>.\<close>

lemma worker_clients:
  assumes "\<And>fm. admits lib i md fm ctx"
  shows "NewFineTuningWorkerServiceClient (port lib net env (WS_services lib env) i) md = fleet_ftClient net env ctx"
    and "NewWorkspaceWorkerServiceClient (port lib net env (WS_services lib env) i) md = fleet_wsClient net env ctx"
    and "NewBatchWorkerServiceClient (port lib net env (WS_services lib env) i) md = fleet_bwClient net env ctx"
    and "NewJobWorkerServiceClient (port lib net env (WS_services lib env) i) md = fleet_UpdateClusterStatus net env ctx"
  using assms
  by (simp_all add: fun_eq_iff NewFineTuningWorkerServiceClient_def NewWorkspaceWorkerServiceClient_def NewBatchWorkerServiceClient_def NewJobWorkerServiceClient_def
      fleet_ftClient_def fleet_wsClient_def fleet_bwClient_def fleet_UpdateClusterStatus_def rpc_read_def worker_Invoke admits_def)

lemma syncer_client:
  assumes "\<And>fm. admits lib i md fm ctx"
  shows "NewSyncerServiceClient (port lib net env (SS_services lib env) i) md = fleet_ssClient net env ctx"
  using assms by (simp add: NewSyncerServiceClient_def fleet_ssClient_def rpc_read_def syncer_Invoke admits_def)

end
