(* ===== verification/Routing.thy ===== *)
theory Routing
  imports Prelude
begin

text \<open>
  Path patterns of the HTTP gateway (\<^verbatim>\<open>api/v1/*.pb.gw.go\<close>). A pattern is a program for a small stack machine, a pool of strings and a verb, as the generated code
  passes them to \<^verbatim>\<open>runtime.NewPattern\<close>. The machine is third-party (\<^verbatim>\<open>grpc-gateway\<close>): what the code relies on is that a pattern matches the paths of the
  template it was compiled from. \<open>template\<close> reads the template back from the program; the locale \<open>path_matcher\<close> states the meaning of a template of
  literals and single-segment variables; \<open>pattern_Match\<close> is an executable machine that interprets the locale, by the correctness of \<open>exec_ops\<close>.

  \<open>mux\<close> adds what the code relies on of \<^verbatim>\<open>runtime.ServeMux\<close>.

  A path is the list of its components, with escapes removed.
\<close>

section \<open>Patterns and templates\<close>

record pattern =
  pt_Ops :: "nat list"
  pt_Pool :: "string list"
  pt_Verb :: string

datatype segment = Literal string | Variable string

type_synonym bindings = "(string \<times> string) list"

text \<open>\<open>2 i\<close> expects the literal \<open>i\<close> of the pool; \<open>1 0 4 1 5 i\<close> takes one component and binds it to the variable \<open>i\<close>.\<close>

fun segments :: "string list \<Rightarrow> nat list \<Rightarrow> segment list option" where
  "segments pool [] = Some []"
| "segments pool (op # i # ops) =
     (if op = 2 \<and> i < length pool then map_option (Cons (Literal (pool ! i))) (segments pool ops)
      else (case ops of op2 # n # op3 # v # rest \<Rightarrow>
          if op = 1 \<and> op2 = 4 \<and> n = 1 \<and> op3 = 5 \<and> v < length pool then map_option (Cons (Variable (pool ! v))) (segments pool rest) else None
        | _ \<Rightarrow> None))"
| "segments pool [op] = None"

definition template :: "pattern \<Rightarrow> segment list option" where
  "template p = segments (pt_Pool p) (pt_Ops p)"

fun bind :: "segment list \<Rightarrow> string list \<Rightarrow> bindings option" where
  "bind [] [] = Some []"
| "bind (Literal l # segs) (c # cs) = (if c = l then bind segs cs else None)"
| "bind (Variable v # segs) (c # cs) = map_option (Cons (v, c)) (bind segs cs)"
| "bind _ _ = None"

text \<open>A pattern with a verb matches a path whose last component ends in a colon and the verb.\<close>

definition strip_verb :: "string \<Rightarrow> string \<Rightarrow> string option" where
  "strip_verb verb c = (let n = length c - length verb - 1 in if 0 < n \<and> drop n c = '':'' @ verb then Some (take n c) else None)"

definition bind_verb :: "segment list \<Rightarrow> string \<Rightarrow> string list \<Rightarrow> bindings option" where
  "bind_verb segs verb comps = (if verb = [] then bind segs comps else if comps = [] then None
     else (case strip_verb verb (last comps) of None \<Rightarrow> None | Some c \<Rightarrow> bind segs (butlast comps @ [c])))"

text \<open>A matcher is sound for every path; it need not accept paths with empty components.\<close>

locale path_matcher =
  fixes Match :: "pattern \<Rightarrow> string list \<Rightarrow> bindings option"
  assumes match_sound: "template p = Some segs \<Longrightarrow> Match p comps = Some b \<Longrightarrow> bind_verb segs (pt_Verb p) comps = Some b"
    and match_complete: "template p = Some segs \<Longrightarrow> [] \<notin> set comps \<Longrightarrow> bind_verb segs (pt_Verb p) comps = Some b \<Longrightarrow> Match p comps = Some b"

section \<open>The multiplexer\<close>

text \<open>
  \<^verbatim>\<open>ServeMux\<close> selects one of the registered handlers. What the code relies on: it selects one whose pattern matches, and if a handler of the request's HTTP verb
  matches, one for that verb. In which order it tries them, and whether it falls back to another verb, is left open.
\<close>

locale mux = path_matcher Match for Match +
  fixes Select :: "(string \<times> pattern) list \<Rightarrow> string \<Rightarrow> string list \<Rightarrow> (nat \<times> bindings) option"
  assumes select_sound: "Select routes meth comps = Some (i, b) \<Longrightarrow> i < length routes \<and> Match (snd (routes ! i)) comps = Some b"
    and select_method: "Select routes meth comps = Some (i, b) \<Longrightarrow> j < length routes \<Longrightarrow> fst (routes ! j) = meth \<Longrightarrow>
      Match (snd (routes ! j)) comps \<noteq> None \<Longrightarrow> fst (routes ! i) = meth"
    and select_complete: "j < length routes \<Longrightarrow> fst (routes ! j) = meth \<Longrightarrow> Match (snd (routes ! j)) comps \<noteq> None \<Longrightarrow>
      Select routes meth comps \<noteq> None"

text \<open>The routes for an HTTP verb that match, with their positions, and those that match by their templates.\<close>

fun matches :: "(pattern \<Rightarrow> bindings option) \<Rightarrow> nat \<Rightarrow> (string \<times> pattern) list \<Rightarrow> string \<Rightarrow> (nat \<times> bindings) list" where
  "matches M n [] meth = []"
| "matches M n ((m, p) # routes) meth = (case (if m = meth then M p else None) of
     None \<Rightarrow> matches M (Suc n) routes meth | Some b \<Rightarrow> (n, b) # matches M (Suc n) routes meth)"

definition candidates :: "(string \<times> pattern) list \<Rightarrow> string \<Rightarrow> string list \<Rightarrow> (nat \<times> bindings) list" where
  "candidates routes meth comps = matches (\<lambda>p. Option.bind (template p) (\<lambda>segs. bind_verb segs (pt_Verb p) comps)) 0 routes meth"

lemma matches_iff:
  "(j, b) \<in> set (matches M n routes meth) \<longleftrightarrow> (\<exists>i<length routes. j = n + i \<and> fst (routes ! i) = meth \<and> M (snd (routes ! i)) = Some b)"
proof (induction M n routes meth rule: matches.induct)
  case (2 M n m p routes meth)
  have "(\<exists>i<length ((m, p) # routes). P i) \<longleftrightarrow> P 0 \<or> (\<exists>i<length routes. P (Suc i))" for P
    by (auto simp: less_Suc_eq_0_disj)
  then show ?case using 2 by (auto split: option.split)
qed simp

context mux
begin

lemma select_unique:
  assumes templates: "list_all (\<lambda>(m, p). template p \<noteq> None) routes" and unique: "candidates routes meth comps = [(k, b)]" and comps: "[] \<notin> set comps"
  shows "Select routes meth comps = Some (k, b)"
proof -
  have "(k, b) \<in> set (candidates routes meth comps)" by (simp add: unique)
  then obtain segs where k: "k < length routes" "fst (routes ! k) = meth" and segs: "template (snd (routes ! k)) = Some segs"
      "bind_verb segs (pt_Verb (snd (routes ! k))) comps = Some b"
    by (auto simp: candidates_def matches_iff bind_eq_Some_conv)
  have match: "Match (snd (routes ! k)) comps \<noteq> None" using match_complete [OF segs(1) comps segs(2)] by simp
  with k obtain i b' where sel: "Select routes meth comps = Some (i, b')" using select_complete by fastforce
  have i: "i < length routes" "Match (snd (routes ! i)) comps = Some b'" using select_sound [OF sel] by simp_all
  obtain segs' where segs': "template (snd (routes ! i)) = Some segs'" using templates i(1) by (auto simp: list_all_length split_beta)
  have "(i, b') \<in> set (candidates routes meth comps)"
    unfolding candidates_def matches_iff using i(1) segs' match_sound [OF segs' i(2)] select_method [OF sel k match] by (intro exI [of _ i]) simp
  then show ?thesis using sel by (simp add: unique)
qed

end

section \<open>The machine\<close>

text \<open>
  Opcodes come in pairs with an operand: \<open>0\<close> does nothing, \<open>1\<close> pushes a component, \<open>2\<close> pushes it if it is the literal, \<open>4\<close> joins the topmost \<open>n\<close>
  entries, \<open>5\<close> binds a variable to the topmost one and removes it. Opcode \<open>3\<close> (push the rest) does not occur in the patterns of this program.
\<close>

fun exec_ops :: "string list \<Rightarrow> nat list \<Rightarrow> string list \<Rightarrow> string list \<Rightarrow> bindings \<Rightarrow> bindings option" where
  "exec_ops pool [] comps stack caps = (if comps = [] then Some caps else None)"
| "exec_ops pool (op # i # ops) comps stack caps =
     (if op = 0 then exec_ops pool ops comps stack caps
      else if op = 1 then (case comps of [] \<Rightarrow> None | c # cs \<Rightarrow> exec_ops pool ops cs (c # stack) caps)
      else if op = 2 then (case comps of [] \<Rightarrow> None
        | c # cs \<Rightarrow> if i < length pool \<and> c = pool ! i then exec_ops pool ops cs (c # stack) caps else None)
      else if op = 4 then (if i \<le> length stack then exec_ops pool ops comps (Join (rev (take i stack)) ''/'' # drop i stack) caps else None)
      else if op = 5 then (case stack of [] \<Rightarrow> None | s # stack' \<Rightarrow> if i < length pool then exec_ops pool ops comps stack' (caps @ [(pool ! i, s)]) else None)
      else None)"
| "exec_ops pool [op] comps stack caps = None"

definition pattern_Match :: "pattern \<Rightarrow> string list \<Rightarrow> bindings option" where
  "pattern_Match p comps = (if pt_Verb p = [] then exec_ops (pt_Pool p) (pt_Ops p) comps [] [] else if comps = [] then None
     else (case strip_verb (pt_Verb p) (last comps) of None \<Rightarrow> None | Some c \<Rightarrow> exec_ops (pt_Pool p) (pt_Ops p) (butlast comps @ [c]) [] []))"

text \<open>The handler registered last comes first.\<close>

definition newest_first :: "(string \<times> pattern) list \<Rightarrow> string \<Rightarrow> string list \<Rightarrow> (nat \<times> bindings) option" where
  "newest_first routes meth comps = (let ms = matches (\<lambda>p. pattern_Match p comps) 0 routes meth in if ms = [] then None else Some (last ms))"

lemma exec_segments:
  "segments pool ops = Some segs \<Longrightarrow> exec_ops pool ops comps stack caps = map_option (\<lambda>b. caps @ b) (bind segs comps)"
proof (induction pool ops arbitrary: segs comps stack caps rule: segments.induct)
  case (1 pool)
  then show ?case by (cases comps) auto
next
  case (2 pool op i ops)
  show ?case
  proof (cases "op = 2 \<and> i < length pool")
    case True
    then obtain rest where "segments pool ops = Some rest" "segs = Literal (pool ! i) # rest" using "2.prems" by auto
    then show ?thesis using "2.IH"(1) True by (cases comps) auto
  next
    case False
    with "2.prems" obtain op2 n op3 v ops' rest where ops: "ops = op2 # n # op3 # v # ops'" and op: "op = 1" "op2 = 4" "n = 1" "op3 = 5" "v < length pool"
      and rest: "segments pool ops' = Some rest" "segs = Variable (pool ! v) # rest"
      by (auto split: list.splits if_splits)
    have "exec_ops pool ops' cs stack (caps @ [(pool ! v, c)]) = map_option (\<lambda>b. (caps @ [(pool ! v, c)]) @ b) (bind rest cs)" for c cs
      by (rule "2.IH"(2) [OF False ops refl refl refl]) (use op rest in simp_all)
    then show ?thesis using op rest by (cases comps) (auto simp: ops option.map_comp comp_def)
  qed
qed simp

lemma pattern_Match_template:
  "template p = Some segs \<Longrightarrow> pattern_Match p comps = bind_verb segs (pt_Verb p) comps"
  by (simp add: pattern_Match_def bind_verb_def template_def exec_segments option.map_ident split: option.split)

interpretation machine: path_matcher pattern_Match
  by unfold_locales (simp_all add: pattern_Match_template)

lemma newest_first_Some:
  assumes "newest_first routes meth comps = Some (i, b)"
  shows "i < length routes \<and> fst (routes ! i) = meth \<and> pattern_Match (snd (routes ! i)) comps = Some b"
proof -
  have "(i, b) \<in> set (matches (\<lambda>p. pattern_Match p comps) 0 routes meth)"
    using assms last_in_set by (fastforce simp: newest_first_def Let_def split: if_splits)
  then show ?thesis by (auto simp: matches_iff)
qed

lemma newest_first_None:
  assumes "j < length routes" and "fst (routes ! j) = meth" and "pattern_Match (snd (routes ! j)) comps \<noteq> None"
  shows "newest_first routes meth comps \<noteq> None"
proof -
  obtain b where "pattern_Match (snd (routes ! j)) comps = Some b" using assms(3) by blast
  then have "(j, b) \<in> set (matches (\<lambda>p. pattern_Match p comps) 0 routes meth)" using assms(1,2) by (auto simp: matches_iff)
  then show ?thesis by (auto simp: newest_first_def Let_def)
qed

interpretation machine_mux: mux pattern_Match newest_first
proof unfold_locales
  fix routes meth comps i b j
  assume sel: "newest_first routes meth comps = Some (i, b)"
  show "i < length routes \<and> pattern_Match (snd (routes ! i)) comps = Some b" and "fst (routes ! i) = meth"
    using newest_first_Some [OF sel] by simp_all
qed (rule newest_first_None)

end
