(* ===== verification/Gateway.thy ===== *)
theory Gateway
  imports Services Routing
begin

text \<open>
  The HTTP gateway (\<^verbatim>\<open>api/v1/*.pb.gw.go\<close>, mounted in \<^verbatim>\<open>server/cmd/run.go\<close>): a handler per method that decodes the HTTP request, calls the gRPC server through a client,
  and forwards the reply or the error; the patterns of their paths; and their registration. \<^verbatim>\<open>local_request_...\<close> and \<^verbatim>\<open>Register...HandlerServer\<close> are not used by the program.

  The library \<^verbatim>\<open>grpc-gateway\<close> is the parameter \<open>runtime\<close>: the multiplexer, the decoding of bodies, queries and strings, and the metadata made of the headers. A decoder returns
  the message as far as it got and an error, like the code's.

  \<open>api_rule\<close> is the REST interface that the \<^verbatim>\<open>.proto\<close> files promise, and \<open>api_request_served\<close> that the gateway implements it.
\<close>

section \<open>The library\<close>

record gw_request =
  gq_Method :: string
  gq_Path :: "string list"
  gq_Header :: metadata
  gq_Body :: bytes
  gq_RawQuery :: string

record runtime =
  rt_Select :: "(string \<times> pattern) list \<Rightarrow> string \<Rightarrow> string list \<Rightarrow> (nat \<times> bindings) option"
  rt_AnnotateContext :: "gw_request \<Rightarrow> string \<Rightarrow> string \<Rightarrow> go_error + metadata"
  rt_IOReaderFactory :: "bytes \<Rightarrow> go_error + bytes"
  rt_EOF :: go_error
  rt_DecodeCreateJob :: "bytes \<Rightarrow> CreateJobRequest \<times> go_error option"
  rt_DecodeCreateNotebook :: "bytes \<Rightarrow> CreateNotebookRequest \<times> go_error option"
  rt_DecodeCreateBatchJob :: "bytes \<Rightarrow> CreateBatchJobRequest \<times> go_error option"
  rt_ParseForm :: "gw_request \<Rightarrow> go_error option"
  rt_PopulateList :: "gw_request \<Rightarrow> ListRequest \<times> go_error option"
  rt_PopulateSummaries :: "gw_request \<Rightarrow> RequestFilter option \<times> go_error option"
  rt_String :: "string \<Rightarrow> go_error + string"

type_synonym 'w request = "metadata \<Rightarrow> gw_request \<Rightarrow> bindings \<Rightarrow> ('w, reply) io"
type_synonym 'w route = "string \<times> pattern \<times> (gw_request \<Rightarrow> bindings \<Rightarrow> ('w, reply) io)"

section \<open>Requests\<close>

text \<open>The three bodies of the generated \<^verbatim>\<open>request_...\<close> functions: a message in the body, in the query, and in the path.\<close>

definition reply_as :: "('a \<Rightarrow> reply) \<Rightarrow> ('w, 'a) io \<Rightarrow> ('w, reply) io" where
  "reply_as R m = bindE m (\<lambda>x. ret (R x))"

definition body_request :: "runtime \<Rightarrow> (bytes \<Rightarrow> 'q \<times> go_error option) \<Rightarrow> ('a \<Rightarrow> reply) \<Rightarrow> ('q \<Rightarrow> ('w, 'a) io) \<Rightarrow> gw_request \<Rightarrow> ('w, reply) io" where
  "body_request rt dec R call req = (case rt_IOReaderFactory rt (gq_Body req) of Inl berr \<Rightarrow> throw (Status InvalidArgument (Error berr))
     | Inr reader \<Rightarrow> (case dec reader of (protoReq, err) \<Rightarrow>
         if err \<noteq> None \<and> err \<noteq> Some (rt_EOF rt) then throw (Status InvalidArgument (Error (the err))) else reply_as R (call protoReq)))"

definition query_request :: "runtime \<Rightarrow> (gw_request \<Rightarrow> 'q \<times> go_error option) \<Rightarrow> ('a \<Rightarrow> reply) \<Rightarrow> ('q \<Rightarrow> ('w, 'a) io) \<Rightarrow> gw_request \<Rightarrow> ('w, reply) io" where
  "query_request rt populate R call req = (case rt_ParseForm rt req of Some e \<Rightarrow> throw (Status InvalidArgument (Error e))
     | None \<Rightarrow> (case populate req of (protoReq, Some e) \<Rightarrow> throw (Status InvalidArgument (Error e)) | (protoReq, None) \<Rightarrow> reply_as R (call protoReq)))"

definition id_request :: "runtime \<Rightarrow> ('a \<Rightarrow> reply) \<Rightarrow> (string \<Rightarrow> ('w, 'a) io) \<Rightarrow> bindings \<Rightarrow> ('w, reply) io" where
  "id_request rt R call params = (case map_of params ''id'' of None \<Rightarrow> throw (Status InvalidArgument ''missing parameter id'')
     | Some val \<Rightarrow> (case rt_String rt val of Inl e \<Rightarrow> throw (Status InvalidArgument (''type mismatch, parameter: id, error: '' @ Error e))
     | Inr k \<Rightarrow> reply_as R (call k)))"

text \<open>The handler that \<^verbatim>\<open>Register...HandlerClient\<close> makes of a request: an error, of the annotation or the request, goes to \<^verbatim>\<open>runtime.HTTPError\<close>, a reply is forwarded.\<close>

definition annotated :: "runtime \<Rightarrow> string \<Rightarrow> string \<Rightarrow> 'w request \<Rightarrow> gw_request \<Rightarrow> bindings \<Rightarrow> ('w, reply) io" where
  "annotated rt fullMethod path request req params =
     (case rt_AnnotateContext rt req fullMethod path of Inl e \<Rightarrow> throw e | Inr md \<Rightarrow> request md req params)"

subsection \<open>FineTuningService\<close>

definition request_FineTuningService_CreateJob_0 :: "runtime \<Rightarrow> 'w FineTuningServiceClient \<Rightarrow> 'w request" where
  "request_FineTuningService_CreateJob_0 rt client md req params = body_request rt (rt_DecodeCreateJob rt) R_Job (ftc_CreateJob client md) req"

definition request_FineTuningService_ListJobs_0 :: "runtime \<Rightarrow> 'w FineTuningServiceClient \<Rightarrow> 'w request" where
  "request_FineTuningService_ListJobs_0 rt client md req params = query_request rt (rt_PopulateList rt) R_ListJobsResponse (ftc_ListJobs client md) req"

definition request_FineTuningService_GetJob_0 :: "runtime \<Rightarrow> 'w FineTuningServiceClient \<Rightarrow> 'w request" where
  "request_FineTuningService_GetJob_0 rt client md req params = id_request rt R_Job (ftc_GetJob client md) params"

definition request_FineTuningService_CancelJob_0 :: "runtime \<Rightarrow> 'w FineTuningServiceClient \<Rightarrow> 'w request" where
  "request_FineTuningService_CancelJob_0 rt client md req params = id_request rt R_Job (ftc_CancelJob client md) params"

definition pattern_FineTuningService_CreateJob_0 :: pattern where
  "pattern_FineTuningService_CreateJob_0 = \<lparr>pt_Ops = [2, 0, 2, 1, 2, 2], pt_Pool = [''v1'', ''fine_tuning'', ''jobs''], pt_Verb = []\<rparr>"

definition pattern_FineTuningService_ListJobs_0 :: pattern where
  "pattern_FineTuningService_ListJobs_0 = \<lparr>pt_Ops = [2, 0, 2, 1, 2, 2], pt_Pool = [''v1'', ''fine_tuning'', ''jobs''], pt_Verb = []\<rparr>"

definition pattern_FineTuningService_GetJob_0 :: pattern where
  "pattern_FineTuningService_GetJob_0 = \<lparr>pt_Ops = [2, 0, 2, 1, 2, 2, 1, 0, 4, 1, 5, 3], pt_Pool = [''v1'', ''fine_tuning'', ''jobs'', ''id''], pt_Verb = []\<rparr>"

definition pattern_FineTuningService_CancelJob_0 :: pattern where
  "pattern_FineTuningService_CancelJob_0 = \<lparr>pt_Ops = [2, 0, 2, 1, 2, 2, 1, 0, 4, 1, 5, 3, 2, 4], pt_Pool = [''v1'', ''fine_tuning'', ''jobs'', ''id'', ''cancel''], pt_Verb = []\<rparr>"

definition RegisterFineTuningServiceHandlerClient :: "runtime \<Rightarrow> 'w FineTuningServiceClient \<Rightarrow> 'w route list" where
  "RegisterFineTuningServiceHandlerClient rt client = [
     (''POST'', pattern_FineTuningService_CreateJob_0, annotated rt ''/llmariner.fine_tuning.server.v1.FineTuningService/CreateJob'' ''/v1/fine_tuning/jobs'' (request_FineTuningService_CreateJob_0 rt client)),
     (''GET'', pattern_FineTuningService_ListJobs_0, annotated rt ''/llmariner.fine_tuning.server.v1.FineTuningService/ListJobs'' ''/v1/fine_tuning/jobs'' (request_FineTuningService_ListJobs_0 rt client)),
     (''GET'', pattern_FineTuningService_GetJob_0, annotated rt ''/llmariner.fine_tuning.server.v1.FineTuningService/GetJob'' ''/v1/fine_tuning/jobs/{id}'' (request_FineTuningService_GetJob_0 rt client)),
     (''POST'', pattern_FineTuningService_CancelJob_0, annotated rt ''/llmariner.fine_tuning.server.v1.FineTuningService/CancelJob'' ''/v1/fine_tuning/jobs/{id}/cancel'' (request_FineTuningService_CancelJob_0 rt client))]"

subsection \<open>WorkspaceService\<close>

definition request_WorkspaceService_CreateNotebook_0 :: "runtime \<Rightarrow> 'w WorkspaceServiceClient \<Rightarrow> 'w request" where
  "request_WorkspaceService_CreateNotebook_0 rt client md req params = body_request rt (rt_DecodeCreateNotebook rt) R_Notebook (wsc_CreateNotebook client md) req"

definition request_WorkspaceService_ListNotebooks_0 :: "runtime \<Rightarrow> 'w WorkspaceServiceClient \<Rightarrow> 'w request" where
  "request_WorkspaceService_ListNotebooks_0 rt client md req params = query_request rt (rt_PopulateList rt) R_ListNotebooksResponse (wsc_ListNotebooks client md) req"

definition request_WorkspaceService_GetNotebook_0 :: "runtime \<Rightarrow> 'w WorkspaceServiceClient \<Rightarrow> 'w request" where
  "request_WorkspaceService_GetNotebook_0 rt client md req params = id_request rt R_Notebook (wsc_GetNotebook client md) params"

definition request_WorkspaceService_DeleteNotebook_0 :: "runtime \<Rightarrow> 'w WorkspaceServiceClient \<Rightarrow> 'w request" where
  "request_WorkspaceService_DeleteNotebook_0 rt client md req params = id_request rt (\<lambda>_. R_DeleteNotebookResponse) (wsc_DeleteNotebook client md) params"

definition request_WorkspaceService_StopNotebook_0 :: "runtime \<Rightarrow> 'w WorkspaceServiceClient \<Rightarrow> 'w request" where
  "request_WorkspaceService_StopNotebook_0 rt client md req params = id_request rt R_Notebook (wsc_StopNotebook client md) params"

definition request_WorkspaceService_StartNotebook_0 :: "runtime \<Rightarrow> 'w WorkspaceServiceClient \<Rightarrow> 'w request" where
  "request_WorkspaceService_StartNotebook_0 rt client md req params = id_request rt R_Notebook (wsc_StartNotebook client md) params"

definition pattern_WorkspaceService_CreateNotebook_0 :: pattern where
  "pattern_WorkspaceService_CreateNotebook_0 = \<lparr>pt_Ops = [2, 0, 2, 1, 2, 2], pt_Pool = [''v1'', ''workspaces'', ''notebooks''], pt_Verb = []\<rparr>"

definition pattern_WorkspaceService_ListNotebooks_0 :: pattern where
  "pattern_WorkspaceService_ListNotebooks_0 = \<lparr>pt_Ops = [2, 0, 2, 1, 2, 2], pt_Pool = [''v1'', ''workspaces'', ''notebooks''], pt_Verb = []\<rparr>"

definition pattern_WorkspaceService_GetNotebook_0 :: pattern where
  "pattern_WorkspaceService_GetNotebook_0 = \<lparr>pt_Ops = [2, 0, 2, 1, 2, 2, 1, 0, 4, 1, 5, 3], pt_Pool = [''v1'', ''workspaces'', ''notebooks'', ''id''], pt_Verb = []\<rparr>"

definition pattern_WorkspaceService_DeleteNotebook_0 :: pattern where
  "pattern_WorkspaceService_DeleteNotebook_0 = \<lparr>pt_Ops = [2, 0, 2, 1, 2, 2, 1, 0, 4, 1, 5, 3], pt_Pool = [''v1'', ''workspaces'', ''notebooks'', ''id''], pt_Verb = []\<rparr>"

definition pattern_WorkspaceService_StopNotebook_0 :: pattern where
  "pattern_WorkspaceService_StopNotebook_0 = \<lparr>pt_Ops = [2, 0, 2, 1, 2, 2, 1, 0, 4, 1, 5, 3, 2, 4], pt_Pool = [''v1'', ''workspaces'', ''notebooks'', ''id'', ''actions''], pt_Verb = ''stop''\<rparr>"

definition pattern_WorkspaceService_StartNotebook_0 :: pattern where
  "pattern_WorkspaceService_StartNotebook_0 = \<lparr>pt_Ops = [2, 0, 2, 1, 2, 2, 1, 0, 4, 1, 5, 3, 2, 4], pt_Pool = [''v1'', ''workspaces'', ''notebooks'', ''id'', ''actions''], pt_Verb = ''start''\<rparr>"

definition RegisterWorkspaceServiceHandlerClient :: "runtime \<Rightarrow> 'w WorkspaceServiceClient \<Rightarrow> 'w route list" where
  "RegisterWorkspaceServiceHandlerClient rt client = [
     (''POST'', pattern_WorkspaceService_CreateNotebook_0, annotated rt ''/llmariner.workspace.server.v1.WorkspaceService/CreateNotebook'' ''/v1/workspaces/notebooks'' (request_WorkspaceService_CreateNotebook_0 rt client)),
     (''GET'', pattern_WorkspaceService_ListNotebooks_0, annotated rt ''/llmariner.workspace.server.v1.WorkspaceService/ListNotebooks'' ''/v1/workspaces/notebooks'' (request_WorkspaceService_ListNotebooks_0 rt client)),
     (''GET'', pattern_WorkspaceService_GetNotebook_0, annotated rt ''/llmariner.workspace.server.v1.WorkspaceService/GetNotebook'' ''/v1/workspaces/notebooks/{id}'' (request_WorkspaceService_GetNotebook_0 rt client)),
     (''DELETE'', pattern_WorkspaceService_DeleteNotebook_0, annotated rt ''/llmariner.workspace.server.v1.WorkspaceService/DeleteNotebook'' ''/v1/workspaces/notebooks/{id}'' (request_WorkspaceService_DeleteNotebook_0 rt client)),
     (''POST'', pattern_WorkspaceService_StopNotebook_0, annotated rt ''/llmariner.workspace.server.v1.WorkspaceService/StopNotebook'' ''/v1/workspaces/notebooks/{id}/actions:stop'' (request_WorkspaceService_StopNotebook_0 rt client)),
     (''POST'', pattern_WorkspaceService_StartNotebook_0, annotated rt ''/llmariner.workspace.server.v1.WorkspaceService/StartNotebook'' ''/v1/workspaces/notebooks/{id}/actions:start'' (request_WorkspaceService_StartNotebook_0 rt client))]"

subsection \<open>BatchService\<close>

definition request_BatchService_CreateBatchJob_0 :: "runtime \<Rightarrow> 'w BatchServiceClient \<Rightarrow> 'w request" where
  "request_BatchService_CreateBatchJob_0 rt client md req params = body_request rt (rt_DecodeCreateBatchJob rt) R_BatchJob (bsc_CreateBatchJob client md) req"

definition request_BatchService_ListBatchJobs_0 :: "runtime \<Rightarrow> 'w BatchServiceClient \<Rightarrow> 'w request" where
  "request_BatchService_ListBatchJobs_0 rt client md req params = query_request rt (rt_PopulateList rt) R_ListBatchJobsResponse (bsc_ListBatchJobs client md) req"

definition request_BatchService_GetBatchJob_0 :: "runtime \<Rightarrow> 'w BatchServiceClient \<Rightarrow> 'w request" where
  "request_BatchService_GetBatchJob_0 rt client md req params = id_request rt R_BatchJob (bsc_GetBatchJob client md) params"

definition request_BatchService_CancelBatchJob_0 :: "runtime \<Rightarrow> 'w BatchServiceClient \<Rightarrow> 'w request" where
  "request_BatchService_CancelBatchJob_0 rt client md req params = id_request rt R_BatchJob (bsc_CancelBatchJob client md) params"

definition request_BatchService_DeleteBatchJob_0 :: "runtime \<Rightarrow> 'w BatchServiceClient \<Rightarrow> 'w request" where
  "request_BatchService_DeleteBatchJob_0 rt client md req params = id_request rt R_BatchJob (bsc_DeleteBatchJob client md) params"

definition pattern_BatchService_CreateBatchJob_0 :: pattern where
  "pattern_BatchService_CreateBatchJob_0 = \<lparr>pt_Ops = [2, 0, 2, 1, 2, 2], pt_Pool = [''v1'', ''batch'', ''jobs''], pt_Verb = []\<rparr>"

definition pattern_BatchService_ListBatchJobs_0 :: pattern where
  "pattern_BatchService_ListBatchJobs_0 = \<lparr>pt_Ops = [2, 0, 2, 1, 2, 2], pt_Pool = [''v1'', ''batch'', ''jobs''], pt_Verb = []\<rparr>"

definition pattern_BatchService_GetBatchJob_0 :: pattern where
  "pattern_BatchService_GetBatchJob_0 = \<lparr>pt_Ops = [2, 0, 2, 1, 2, 2, 1, 0, 4, 1, 5, 3], pt_Pool = [''v1'', ''batch'', ''jobs'', ''id''], pt_Verb = []\<rparr>"

definition pattern_BatchService_CancelBatchJob_0 :: pattern where
  "pattern_BatchService_CancelBatchJob_0 = \<lparr>pt_Ops = [2, 0, 2, 1, 2, 2, 1, 0, 4, 1, 5, 3, 2, 4], pt_Pool = [''v1'', ''batch'', ''jobs'', ''id'', ''cancel''], pt_Verb = []\<rparr>"

definition pattern_BatchService_DeleteBatchJob_0 :: pattern where
  "pattern_BatchService_DeleteBatchJob_0 = \<lparr>pt_Ops = [2, 0, 2, 1, 2, 2, 1, 0, 4, 1, 5, 3], pt_Pool = [''v1'', ''batch'', ''jobs'', ''id''], pt_Verb = []\<rparr>"

definition RegisterBatchServiceHandlerClient :: "runtime \<Rightarrow> 'w BatchServiceClient \<Rightarrow> 'w route list" where
  "RegisterBatchServiceHandlerClient rt client = [
     (''POST'', pattern_BatchService_CreateBatchJob_0, annotated rt ''/llmariner.batch.server.v1.BatchService/CreateBatchJob'' ''/v1/batch/jobs'' (request_BatchService_CreateBatchJob_0 rt client)),
     (''GET'', pattern_BatchService_ListBatchJobs_0, annotated rt ''/llmariner.batch.server.v1.BatchService/ListBatchJobs'' ''/v1/batch/jobs'' (request_BatchService_ListBatchJobs_0 rt client)),
     (''GET'', pattern_BatchService_GetBatchJob_0, annotated rt ''/llmariner.batch.server.v1.BatchService/GetBatchJob'' ''/v1/batch/jobs/{id}'' (request_BatchService_GetBatchJob_0 rt client)),
     (''POST'', pattern_BatchService_CancelBatchJob_0, annotated rt ''/llmariner.batch.server.v1.BatchService/CancelBatchJob'' ''/v1/batch/jobs/{id}/cancel'' (request_BatchService_CancelBatchJob_0 rt client)),
     (''DELETE'', pattern_BatchService_DeleteBatchJob_0, annotated rt ''/llmariner.batch.server.v1.BatchService/DeleteBatchJob'' ''/v1/batch/jobs/{id}'' (request_BatchService_DeleteBatchJob_0 rt client))]"

subsection \<open>JobService\<close>

definition request_JobService_ListClusters_0 :: "runtime \<Rightarrow> 'w JobServiceClient \<Rightarrow> 'w request" where
  "request_JobService_ListClusters_0 rt client md req params = reply_as R_ListClustersResponse (jsc_ListClusters client md)"

definition request_JobService_ListJobSummaries_0 :: "runtime \<Rightarrow> 'w JobServiceClient \<Rightarrow> 'w request" where
  "request_JobService_ListJobSummaries_0 rt client md req params = query_request rt (rt_PopulateSummaries rt) R_ListJobSummariesResponse (jsc_ListJobSummaries client md) req"

definition pattern_JobService_ListClusters_0 :: pattern where
  "pattern_JobService_ListClusters_0 = \<lparr>pt_Ops = [2, 0, 2, 1, 2, 2], pt_Pool = [''v1'', ''jobs'', ''clusters''], pt_Verb = []\<rparr>"

definition pattern_JobService_ListJobSummaries_0 :: pattern where
  "pattern_JobService_ListJobSummaries_0 = \<lparr>pt_Ops = [2, 0, 2, 1, 2, 2], pt_Pool = [''v1'', ''jobs'', ''summaries''], pt_Verb = []\<rparr>"

definition RegisterJobServiceHandlerClient :: "runtime \<Rightarrow> 'w JobServiceClient \<Rightarrow> 'w route list" where
  "RegisterJobServiceHandlerClient rt client = [
     (''GET'', pattern_JobService_ListClusters_0, annotated rt ''/llmariner.jobs.server.v1.JobService/ListClusters'' ''/v1/jobs/clusters'' (request_JobService_ListClusters_0 rt client)),
     (''GET'', pattern_JobService_ListJobSummaries_0, annotated rt ''/llmariner.jobs.server.v1.JobService/ListJobSummaries'' ''/v1/jobs/summaries'' (request_JobService_ListJobSummaries_0 rt client))]"

section \<open>The gateway of the server\<close>

definition run_mux :: "runtime \<Rightarrow> 'w conn \<Rightarrow> 'w route list" where
  "run_mux rt cc = RegisterFineTuningServiceHandlerClient rt (NewFineTuningServiceClient cc) @ RegisterWorkspaceServiceHandlerClient rt (NewWorkspaceServiceClient cc) @
     RegisterBatchServiceHandlerClient rt (NewBatchServiceClient cc) @ RegisterJobServiceHandlerClient rt (NewJobServiceClient cc)"

text \<open>The multiplexer answers by itself when it finds no handler.\<close>

datatype http_outcome = NoHandler | HTTPError go_error | ForwardResponse reply

definition outcome :: "(go_error + reply) \<times> 'w \<Rightarrow> http_outcome \<times> 'w" where
  "outcome x = (case x of (Inl e, w) \<Rightarrow> (HTTPError e, w) | (Inr r, w) \<Rightarrow> (ForwardResponse r, w))"

definition ServeHTTP :: "runtime \<Rightarrow> 'w route list \<Rightarrow> gw_request \<Rightarrow> 'w \<Rightarrow> http_outcome \<times> 'w" where
  "ServeHTTP rt routes req w = (case rt_Select rt (map (\<lambda>(m, p, h). (m, p)) routes) (gq_Method req) (gq_Path req) of None \<Rightarrow> (NoHandler, w)
     | Some (i, params) \<Rightarrow> outcome (snd (snd (routes ! i)) req params w))"

section \<open>The REST interface\<close>

text \<open>The \<^verbatim>\<open>google.api.http\<close> options of the \<^verbatim>\<open>.proto\<close> files.\<close>

record http_rule =
  hr_rpc :: string
  hr_method :: string
  hr_template :: string
  hr_params :: bindings

fun FineTuningService_http :: "message \<Rightarrow> http_rule option" where
  "FineTuningService_http (M_CreateJobRequest k) = Some \<lparr>hr_rpc = ''/llmariner.fine_tuning.server.v1.FineTuningService/CreateJob'', hr_method = ''POST'', hr_template = ''/v1/fine_tuning/jobs'', hr_params = []\<rparr>"
| "FineTuningService_http (M_ListJobsRequest k) = Some \<lparr>hr_rpc = ''/llmariner.fine_tuning.server.v1.FineTuningService/ListJobs'', hr_method = ''GET'', hr_template = ''/v1/fine_tuning/jobs'', hr_params = []\<rparr>"
| "FineTuningService_http (M_GetJobRequest k) = Some \<lparr>hr_rpc = ''/llmariner.fine_tuning.server.v1.FineTuningService/GetJob'', hr_method = ''GET'', hr_template = ''/v1/fine_tuning/jobs/{id}'', hr_params = [(''id'', k)]\<rparr>"
| "FineTuningService_http (M_CancelJobRequest k) = Some \<lparr>hr_rpc = ''/llmariner.fine_tuning.server.v1.FineTuningService/CancelJob'', hr_method = ''POST'', hr_template = ''/v1/fine_tuning/jobs/{id}/cancel'', hr_params = [(''id'', k)]\<rparr>"
| "FineTuningService_http _ = None"

fun WorkspaceService_http :: "message \<Rightarrow> http_rule option" where
  "WorkspaceService_http (M_CreateNotebookRequest k) = Some \<lparr>hr_rpc = ''/llmariner.workspace.server.v1.WorkspaceService/CreateNotebook'', hr_method = ''POST'', hr_template = ''/v1/workspaces/notebooks'', hr_params = []\<rparr>"
| "WorkspaceService_http (M_ListNotebooksRequest k) = Some \<lparr>hr_rpc = ''/llmariner.workspace.server.v1.WorkspaceService/ListNotebooks'', hr_method = ''GET'', hr_template = ''/v1/workspaces/notebooks'', hr_params = []\<rparr>"
| "WorkspaceService_http (M_GetNotebookRequest k) = Some \<lparr>hr_rpc = ''/llmariner.workspace.server.v1.WorkspaceService/GetNotebook'', hr_method = ''GET'', hr_template = ''/v1/workspaces/notebooks/{id}'', hr_params = [(''id'', k)]\<rparr>"
| "WorkspaceService_http (M_DeleteNotebookRequest k) = Some \<lparr>hr_rpc = ''/llmariner.workspace.server.v1.WorkspaceService/DeleteNotebook'', hr_method = ''DELETE'', hr_template = ''/v1/workspaces/notebooks/{id}'', hr_params = [(''id'', k)]\<rparr>"
| "WorkspaceService_http (M_StopNotebookRequest k) = Some \<lparr>hr_rpc = ''/llmariner.workspace.server.v1.WorkspaceService/StopNotebook'', hr_method = ''POST'', hr_template = ''/v1/workspaces/notebooks/{id}/actions:stop'', hr_params = [(''id'', k)]\<rparr>"
| "WorkspaceService_http (M_StartNotebookRequest k) = Some \<lparr>hr_rpc = ''/llmariner.workspace.server.v1.WorkspaceService/StartNotebook'', hr_method = ''POST'', hr_template = ''/v1/workspaces/notebooks/{id}/actions:start'', hr_params = [(''id'', k)]\<rparr>"
| "WorkspaceService_http _ = None"

fun BatchService_http :: "message \<Rightarrow> http_rule option" where
  "BatchService_http (M_CreateBatchJobRequest k) = Some \<lparr>hr_rpc = ''/llmariner.batch.server.v1.BatchService/CreateBatchJob'', hr_method = ''POST'', hr_template = ''/v1/batch/jobs'', hr_params = []\<rparr>"
| "BatchService_http (M_ListBatchJobsRequest k) = Some \<lparr>hr_rpc = ''/llmariner.batch.server.v1.BatchService/ListBatchJobs'', hr_method = ''GET'', hr_template = ''/v1/batch/jobs'', hr_params = []\<rparr>"
| "BatchService_http (M_GetBatchJobRequest k) = Some \<lparr>hr_rpc = ''/llmariner.batch.server.v1.BatchService/GetBatchJob'', hr_method = ''GET'', hr_template = ''/v1/batch/jobs/{id}'', hr_params = [(''id'', k)]\<rparr>"
| "BatchService_http (M_CancelBatchJobRequest k) = Some \<lparr>hr_rpc = ''/llmariner.batch.server.v1.BatchService/CancelBatchJob'', hr_method = ''POST'', hr_template = ''/v1/batch/jobs/{id}/cancel'', hr_params = [(''id'', k)]\<rparr>"
| "BatchService_http (M_DeleteBatchJobRequest k) = Some \<lparr>hr_rpc = ''/llmariner.batch.server.v1.BatchService/DeleteBatchJob'', hr_method = ''DELETE'', hr_template = ''/v1/batch/jobs/{id}'', hr_params = [(''id'', k)]\<rparr>"
| "BatchService_http _ = None"

fun JobService_http :: "message \<Rightarrow> http_rule option" where
  "JobService_http M_ListClustersRequest = Some \<lparr>hr_rpc = ''/llmariner.jobs.server.v1.JobService/ListClusters'', hr_method = ''GET'', hr_template = ''/v1/jobs/clusters'', hr_params = []\<rparr>"
| "JobService_http (M_ListJobSummariesRequest k) = Some \<lparr>hr_rpc = ''/llmariner.jobs.server.v1.JobService/ListJobSummaries'', hr_method = ''GET'', hr_template = ''/v1/jobs/summaries'', hr_params = []\<rparr>"
| "JobService_http _ = None"

definition api_rule :: "message \<Rightarrow> http_rule option" where
  "api_rule m = (case FineTuningService_http m of Some r \<Rightarrow> Some r | None \<Rightarrow> (case WorkspaceService_http m of Some r \<Rightarrow> Some r
     | None \<Rightarrow> (case BatchService_http m of Some r \<Rightarrow> Some r | None \<Rightarrow> JobService_http m)))"

text \<open>The components of the path of a template.\<close>

definition expand :: "bindings \<Rightarrow> string \<Rightarrow> string list" where
  "expand params t = map (\<lambda>c. case map_of (map (\<lambda>(v, x). (''{'' @ v @ ''}'', x)) params) c of Some x \<Rightarrow> x | None \<Rightarrow> c) (tl (Split t CHR ''/''))"

definition routed :: "message \<Rightarrow> gw_request \<Rightarrow> bool" where
  "routed m req \<longleftrightarrow> (case api_rule m of None \<Rightarrow> False
     | Some r \<Rightarrow> gq_Method req = hr_method r \<and> gq_Path req = expand (hr_params r) (hr_template r) \<and> [] \<notin> set (gq_Path req))"

text \<open>The library decodes the message from the request. An identifier is in the path.\<close>

fun carries :: "runtime \<Rightarrow> gw_request \<Rightarrow> message \<Rightarrow> bool" where
  "carries rt req (M_CreateJobRequest q) = (\<exists>b. rt_IOReaderFactory rt (gq_Body req) = Inr b \<and> rt_DecodeCreateJob rt b \<in> {(q, None), (q, Some (rt_EOF rt))})"
| "carries rt req (M_CreateNotebookRequest q) = (\<exists>b. rt_IOReaderFactory rt (gq_Body req) = Inr b \<and> rt_DecodeCreateNotebook rt b \<in> {(q, None), (q, Some (rt_EOF rt))})"
| "carries rt req (M_CreateBatchJobRequest q) = (\<exists>b. rt_IOReaderFactory rt (gq_Body req) = Inr b \<and> rt_DecodeCreateBatchJob rt b \<in> {(q, None), (q, Some (rt_EOF rt))})"
| "carries rt req (M_ListJobsRequest q) = (rt_ParseForm rt req = None \<and> rt_PopulateList rt req = (q, None))"
| "carries rt req (M_ListNotebooksRequest q) = (rt_ParseForm rt req = None \<and> rt_PopulateList rt req = (q, None))"
| "carries rt req (M_ListBatchJobsRequest q) = (rt_ParseForm rt req = None \<and> rt_PopulateList rt req = (q, None))"
| "carries rt req (M_ListJobSummariesRequest q) = (rt_ParseForm rt req = None \<and> rt_PopulateSummaries rt req = (q, None))"
| "carries rt req M_ListClustersRequest = True"
| "carries rt req _ = (rt_String rt = Inr)"

text \<open>The method of the server that a message is for.\<close>

fun S_method :: "grpc_lib \<Rightarrow> server_env \<Rightarrow> time \<Rightarrow> context_info \<Rightarrow> message \<Rightarrow> server_state \<Rightarrow> (go_error + reply) \<times> server_state" where
  "S_method lib env now ctx (M_CreateJobRequest q) = replies R_Job (CreateJob env now ctx q)"
| "S_method lib env now ctx (M_ListJobsRequest q) = reads R_ListJobsResponse (ListJobs env now ctx q)"
| "S_method lib env now ctx (M_GetJobRequest q) = reads R_Job (GetJob env now ctx q)"
| "S_method lib env now ctx (M_CancelJobRequest q) = replies R_Job (CancelJob env now ctx q)"
| "S_method lib env now ctx (M_CreateNotebookRequest q) = replies R_Notebook (CreateNotebook env now ctx q)"
| "S_method lib env now ctx (M_ListNotebooksRequest q) = reads R_ListNotebooksResponse (ListNotebooks env now ctx q)"
| "S_method lib env now ctx (M_GetNotebookRequest q) = reads R_Notebook (GetNotebook env now ctx q)"
| "S_method lib env now ctx (M_DeleteNotebookRequest q) = replies (\<lambda>_. R_DeleteNotebookResponse) (DeleteNotebook env now ctx q)"
| "S_method lib env now ctx (M_StopNotebookRequest q) = replies R_Notebook (StopNotebook env now ctx q)"
| "S_method lib env now ctx (M_StartNotebookRequest q) = replies R_Notebook (StartNotebook env now ctx q)"
| "S_method lib env now ctx (M_CreateBatchJobRequest q) = replies R_BatchJob (CreateBatchJob env now ctx q)"
| "S_method lib env now ctx (M_ListBatchJobsRequest q) = reads R_ListBatchJobsResponse (ListBatchJobs env now ctx q)"
| "S_method lib env now ctx (M_GetBatchJobRequest q) = reads R_BatchJob (GetBatchJob env now ctx q)"
| "S_method lib env now ctx (M_CancelBatchJobRequest q) = replies R_BatchJob (CancelBatchJob env now ctx q)"
| "S_method lib env now ctx (M_DeleteBatchJobRequest q) = replies R_BatchJob (DeleteBatchJob env now ctx q)"
| "S_method lib env now ctx M_ListClustersRequest = reads R_ListClustersResponse (ListClusters env now ctx)"
| "S_method lib env now ctx (M_ListJobSummariesRequest q) = reads R_ListJobSummariesResponse (ListJobSummaries env (lib_range lib) now ctx q)"
| "S_method lib env now ctx _ = (\<lambda>st. (Inl (lib_wrong_message lib), st))"


section \<open>Routing\<close>

lemmas pattern_defs = pattern_FineTuningService_CreateJob_0_def pattern_FineTuningService_ListJobs_0_def pattern_FineTuningService_GetJob_0_def pattern_FineTuningService_CancelJob_0_def pattern_WorkspaceService_CreateNotebook_0_def pattern_WorkspaceService_ListNotebooks_0_def pattern_WorkspaceService_GetNotebook_0_def pattern_WorkspaceService_DeleteNotebook_0_def pattern_WorkspaceService_StopNotebook_0_def pattern_WorkspaceService_StartNotebook_0_def pattern_BatchService_CreateBatchJob_0_def pattern_BatchService_ListBatchJobs_0_def pattern_BatchService_GetBatchJob_0_def pattern_BatchService_CancelBatchJob_0_def pattern_BatchService_DeleteBatchJob_0_def pattern_JobService_ListClusters_0_def pattern_JobService_ListJobSummaries_0_def

lemmas request_defs = request_FineTuningService_CreateJob_0_def request_FineTuningService_ListJobs_0_def request_FineTuningService_GetJob_0_def request_FineTuningService_CancelJob_0_def request_WorkspaceService_CreateNotebook_0_def request_WorkspaceService_ListNotebooks_0_def request_WorkspaceService_GetNotebook_0_def request_WorkspaceService_DeleteNotebook_0_def request_WorkspaceService_StopNotebook_0_def request_WorkspaceService_StartNotebook_0_def request_BatchService_CreateBatchJob_0_def request_BatchService_ListBatchJobs_0_def request_BatchService_GetBatchJob_0_def request_BatchService_CancelBatchJob_0_def request_BatchService_DeleteBatchJob_0_def request_JobService_ListClusters_0_def request_JobService_ListJobSummaries_0_def

lemmas register_defs = run_mux_def RegisterFineTuningServiceHandlerClient_def RegisterWorkspaceServiceHandlerClient_def
  RegisterBatchServiceHandlerClient_def RegisterJobServiceHandlerClient_def

lemma pattern_templates:
  "template pattern_FineTuningService_CreateJob_0 = Some [Literal ''v1'', Literal ''fine_tuning'', Literal ''jobs'']"
  "template pattern_FineTuningService_ListJobs_0 = Some [Literal ''v1'', Literal ''fine_tuning'', Literal ''jobs'']"
  "template pattern_FineTuningService_GetJob_0 = Some [Literal ''v1'', Literal ''fine_tuning'', Literal ''jobs'', Variable ''id'']"
  "template pattern_FineTuningService_CancelJob_0 = Some [Literal ''v1'', Literal ''fine_tuning'', Literal ''jobs'', Variable ''id'', Literal ''cancel'']"
  "template pattern_WorkspaceService_CreateNotebook_0 = Some [Literal ''v1'', Literal ''workspaces'', Literal ''notebooks'']"
  "template pattern_WorkspaceService_ListNotebooks_0 = Some [Literal ''v1'', Literal ''workspaces'', Literal ''notebooks'']"
  "template pattern_WorkspaceService_GetNotebook_0 = Some [Literal ''v1'', Literal ''workspaces'', Literal ''notebooks'', Variable ''id'']"
  "template pattern_WorkspaceService_DeleteNotebook_0 = Some [Literal ''v1'', Literal ''workspaces'', Literal ''notebooks'', Variable ''id'']"
  "template pattern_WorkspaceService_StopNotebook_0 = Some [Literal ''v1'', Literal ''workspaces'', Literal ''notebooks'', Variable ''id'', Literal ''actions'']"
  "template pattern_WorkspaceService_StartNotebook_0 = Some [Literal ''v1'', Literal ''workspaces'', Literal ''notebooks'', Variable ''id'', Literal ''actions'']"
  "template pattern_BatchService_CreateBatchJob_0 = Some [Literal ''v1'', Literal ''batch'', Literal ''jobs'']"
  "template pattern_BatchService_ListBatchJobs_0 = Some [Literal ''v1'', Literal ''batch'', Literal ''jobs'']"
  "template pattern_BatchService_GetBatchJob_0 = Some [Literal ''v1'', Literal ''batch'', Literal ''jobs'', Variable ''id'']"
  "template pattern_BatchService_CancelBatchJob_0 = Some [Literal ''v1'', Literal ''batch'', Literal ''jobs'', Variable ''id'', Literal ''cancel'']"
  "template pattern_BatchService_DeleteBatchJob_0 = Some [Literal ''v1'', Literal ''batch'', Literal ''jobs'', Variable ''id'']"
  "template pattern_JobService_ListClusters_0 = Some [Literal ''v1'', Literal ''jobs'', Literal ''clusters'']"
  "template pattern_JobService_ListJobSummaries_0 = Some [Literal ''v1'', Literal ''jobs'', Literal ''summaries'']"
  by (simp_all add: template_def pattern_defs)

lemma pattern_verbs:
  "pt_Verb pattern_FineTuningService_CreateJob_0 = []"
  "pt_Verb pattern_FineTuningService_ListJobs_0 = []"
  "pt_Verb pattern_FineTuningService_GetJob_0 = []"
  "pt_Verb pattern_FineTuningService_CancelJob_0 = []"
  "pt_Verb pattern_WorkspaceService_CreateNotebook_0 = []"
  "pt_Verb pattern_WorkspaceService_ListNotebooks_0 = []"
  "pt_Verb pattern_WorkspaceService_GetNotebook_0 = []"
  "pt_Verb pattern_WorkspaceService_DeleteNotebook_0 = []"
  "pt_Verb pattern_WorkspaceService_StopNotebook_0 = ''stop''"
  "pt_Verb pattern_WorkspaceService_StartNotebook_0 = ''start''"
  "pt_Verb pattern_BatchService_CreateBatchJob_0 = []"
  "pt_Verb pattern_BatchService_ListBatchJobs_0 = []"
  "pt_Verb pattern_BatchService_GetBatchJob_0 = []"
  "pt_Verb pattern_BatchService_CancelBatchJob_0 = []"
  "pt_Verb pattern_BatchService_DeleteBatchJob_0 = []"
  "pt_Verb pattern_JobService_ListClusters_0 = []"
  "pt_Verb pattern_JobService_ListJobSummaries_0 = []"
  by (simp_all add: pattern_defs)

lemma run_patterns: "map (\<lambda>(m, p, h). (m, p)) (run_mux rt cc) = [(''POST'', pattern_FineTuningService_CreateJob_0)
    , (''GET'', pattern_FineTuningService_ListJobs_0)
    , (''GET'', pattern_FineTuningService_GetJob_0)
    , (''POST'', pattern_FineTuningService_CancelJob_0)
    , (''POST'', pattern_WorkspaceService_CreateNotebook_0)
    , (''GET'', pattern_WorkspaceService_ListNotebooks_0)
    , (''GET'', pattern_WorkspaceService_GetNotebook_0)
    , (''DELETE'', pattern_WorkspaceService_DeleteNotebook_0)
    , (''POST'', pattern_WorkspaceService_StopNotebook_0)
    , (''POST'', pattern_WorkspaceService_StartNotebook_0)
    , (''POST'', pattern_BatchService_CreateBatchJob_0)
    , (''GET'', pattern_BatchService_ListBatchJobs_0)
    , (''GET'', pattern_BatchService_GetBatchJob_0)
    , (''POST'', pattern_BatchService_CancelBatchJob_0)
    , (''DELETE'', pattern_BatchService_DeleteBatchJob_0)
    , (''GET'', pattern_JobService_ListClusters_0)
    , (''GET'', pattern_JobService_ListJobSummaries_0)]"
  by (simp add: register_defs)

lemma run_templates: "list_all (\<lambda>(m, p). template p \<noteq> None) (map (\<lambda>(m, p, h). (m, p)) (run_mux rt cc))"
  by (simp add: run_patterns pattern_templates)

text \<open>The position of the handler of a message.\<close>

fun api_index :: "message \<Rightarrow> nat" where
  "api_index (M_CreateJobRequest k) = 0"
| "api_index (M_ListJobsRequest k) = 1"
| "api_index (M_GetJobRequest k) = 2"
| "api_index (M_CancelJobRequest k) = 3"
| "api_index (M_CreateNotebookRequest k) = 4"
| "api_index (M_ListNotebooksRequest k) = 5"
| "api_index (M_GetNotebookRequest k) = 6"
| "api_index (M_DeleteNotebookRequest k) = 7"
| "api_index (M_StopNotebookRequest k) = 8"
| "api_index (M_StartNotebookRequest k) = 9"
| "api_index (M_CreateBatchJobRequest k) = 10"
| "api_index (M_ListBatchJobsRequest k) = 11"
| "api_index (M_GetBatchJobRequest k) = 12"
| "api_index (M_CancelBatchJobRequest k) = 13"
| "api_index (M_DeleteBatchJobRequest k) = 14"
| "api_index M_ListClustersRequest = 15"
| "api_index (M_ListJobSummariesRequest k) = 16"
| "api_index _ = 0"

lemma rule_paths:
  "expand [] ''/v1/fine_tuning/jobs'' = [''v1'', ''fine_tuning'', ''jobs'']"
  "expand [(''id'', k)] ''/v1/fine_tuning/jobs/{id}'' = [''v1'', ''fine_tuning'', ''jobs'', k]"
  "expand [(''id'', k)] ''/v1/fine_tuning/jobs/{id}/cancel'' = [''v1'', ''fine_tuning'', ''jobs'', k, ''cancel'']"
  "expand [] ''/v1/workspaces/notebooks'' = [''v1'', ''workspaces'', ''notebooks'']"
  "expand [(''id'', k)] ''/v1/workspaces/notebooks/{id}'' = [''v1'', ''workspaces'', ''notebooks'', k]"
  "expand [(''id'', k)] ''/v1/workspaces/notebooks/{id}/actions:stop'' = [''v1'', ''workspaces'', ''notebooks'', k, ''actions:stop'']"
  "expand [(''id'', k)] ''/v1/workspaces/notebooks/{id}/actions:start'' = [''v1'', ''workspaces'', ''notebooks'', k, ''actions:start'']"
  "expand [] ''/v1/batch/jobs'' = [''v1'', ''batch'', ''jobs'']"
  "expand [(''id'', k)] ''/v1/batch/jobs/{id}'' = [''v1'', ''batch'', ''jobs'', k]"
  "expand [(''id'', k)] ''/v1/batch/jobs/{id}/cancel'' = [''v1'', ''batch'', ''jobs'', k, ''cancel'']"
  "expand [] ''/v1/jobs/clusters'' = [''v1'', ''jobs'', ''clusters'']"
  "expand [] ''/v1/jobs/summaries'' = [''v1'', ''jobs'', ''summaries'']"
  by (simp_all add: expand_def)

lemma path_verbs:
  "strip_verb ''stop'' ''jobs'' = None" "strip_verb ''start'' ''jobs'' = None"
  "strip_verb ''stop'' ''notebooks'' = None" "strip_verb ''start'' ''notebooks'' = None"
  "strip_verb ''stop'' ''cancel'' = None" "strip_verb ''start'' ''cancel'' = None"
  "strip_verb ''stop'' ''actions:stop'' = Some ''actions''" "strip_verb ''start'' ''actions:stop'' = None"
  "strip_verb ''stop'' ''actions:start'' = None" "strip_verb ''start'' ''actions:start'' = Some ''actions''"
  by (simp_all add: strip_verb_def)

lemma api_candidates:
  assumes "api_rule m \<noteq> None"
  shows "candidates (map (\<lambda>(m, p, h). (m, p)) (run_mux rt cc)) (hr_method (the (api_rule m))) (expand (hr_params (the (api_rule m))) (hr_template (the (api_rule m)))) =
    [(api_index m, hr_params (the (api_rule m)))]"
  using assms unfolding run_patterns candidates_def api_rule_def
  by (cases m) (simp_all add: rule_paths pattern_templates pattern_verbs bind_verb_def path_verbs)

section \<open>Requests reach the server\<close>

lemma reply_as_rpc:
  "reply_as R (rpc net env (\<lambda>now st. case c of Inl e \<Rightarrow> (Inl e, st) | Inr ctx \<Rightarrow> h now ctx st)) =
   rpc net env (\<lambda>now st. case c of Inl e \<Rightarrow> (Inl e, st) | Inr ctx \<Rightarrow> replies R (h now ctx) st)"
  by (rule ext) (simp add: reply_as_def rpc_def Let_def bindE_def ret_def replies_def split: delivery.split prod.split sum.split)

lemmas client_defs = NewFineTuningServiceClient_def NewWorkspaceServiceClient_def NewBatchServiceClient_def NewJobServiceClient_def

lemma decoded:
  "carries rt req (M_CreateJobRequest q1) \<Longrightarrow> body_request rt (rt_DecodeCreateJob rt) R call1 req = reply_as R (call1 q1)"
  "carries rt req (M_CreateNotebookRequest q2) \<Longrightarrow> body_request rt (rt_DecodeCreateNotebook rt) R call2 req = reply_as R (call2 q2)"
  "carries rt req (M_CreateBatchJobRequest q3) \<Longrightarrow> body_request rt (rt_DecodeCreateBatchJob rt) R call3 req = reply_as R (call3 q3)"
  "rt_ParseForm rt req = None \<Longrightarrow> rt_PopulateList rt req = (q4, None) \<Longrightarrow> query_request rt (rt_PopulateList rt) R call4 req = reply_as R (call4 q4)"
  "rt_ParseForm rt req = None \<Longrightarrow> rt_PopulateSummaries rt req = (q5, None) \<Longrightarrow> query_request rt (rt_PopulateSummaries rt) R call5 req = reply_as R (call5 q5)"
  "rt_String rt = Inr \<Longrightarrow> id_request rt R call6 [(''id'', k)] = reply_as R (call6 k)"
  by (auto simp: body_request_def query_request_def id_request_def)

lemma api_handler:
  fixes net :: network and env :: server_env
  assumes "api_rule m \<noteq> None" and "carries rt req m"
    and "rt_AnnotateContext rt req (hr_rpc (the (api_rule m))) (hr_template (the (api_rule m))) = Inr md"
  shows "snd (snd (run_mux rt (port lib net env (S_services lib env) i :: 'k fleet conn) ! api_index m)) req (hr_params (the (api_rule m))) =
    rpc net env (\<lambda>now st. case call_context lib i md (hr_rpc (the (api_rule m))) of Inl e \<Rightarrow> (Inl e, st) | Inr ctx \<Rightarrow> S_method lib env now ctx m st)"
  using assms unfolding api_rule_def
  by (cases m) (simp_all add: register_defs annotated_def request_defs client_defs decoded user_Invoke reply_as_rpc reads_def del: carries.simps(1-3) cong: sum.case_cong)

lemma api_request_served:
  fixes net :: network and env :: server_env
  assumes "mux Match (rt_Select rt)" and "routed m req" and "carries rt req m"
    and "rt_AnnotateContext rt req (hr_rpc (the (api_rule m))) (hr_template (the (api_rule m))) = Inr md"
  shows "ServeHTTP rt (run_mux rt (port lib net env (S_services lib env) i :: 'k fleet conn)) req w =
    outcome (rpc net env (\<lambda>now st. case call_context lib i md (hr_rpc (the (api_rule m))) of Inl e \<Rightarrow> (Inl e, st) | Inr ctx \<Rightarrow> S_method lib env now ctx m st) w)"
proof -
  let ?r = "the (api_rule m)"
  have rule: "api_rule m \<noteq> None" and req: "gq_Method req = hr_method ?r" "gq_Path req = expand (hr_params ?r) (hr_template ?r)" "[] \<notin> set (gq_Path req)"
    using assms(2) by (auto simp: routed_def split: option.splits)
  have "rt_Select rt (map (\<lambda>(m, p, h). (m, p)) (run_mux rt (port lib net env (S_services lib env) i :: 'k fleet conn))) (gq_Method req) (gq_Path req) =
      Some (api_index m, hr_params ?r)"
    by (rule mux.select_unique [OF assms(1) run_templates _ req(3)]) (simp add: req(1,2) api_candidates [OF rule])
  then show ?thesis by (simp add: ServeHTTP_def api_handler [OF rule assms(3,4)])
qed

section \<open>What a request can do\<close>

text \<open>A request leaves the world alone, or makes one call of the method under whose name its context was made.\<close>

definition invokes :: "'w conn \<Rightarrow> metadata \<Rightarrow> string \<Rightarrow> ('w, 'a) io \<Rightarrow> bool" where
  "invokes cc md fullMethod x \<longleftrightarrow> (\<forall>w. snd (x w) = w \<or> (\<exists>m. snd (x w) = snd (cc_Invoke cc md fullMethod m w)))"

lemma Invoke_invokes: "invokes cc md fm (Invoke cc dec md fm m)"
proof -
  have "snd (Invoke cc dec md fm m w) = snd (cc_Invoke cc md fm m w)" for w
    by (simp add: Invoke_def bindE_def throw_def ret_def split: prod.split sum.split option.split)
  then show ?thesis unfolding invokes_def by blast
qed

lemma snd_reply_as [simp]: "snd (reply_as R x w) = snd (x w)"
  by (simp add: reply_as_def bindE_def ret_def split: prod.split sum.split)

lemma request_invokes:
  "invokes cc md fm x \<Longrightarrow> invokes cc md fm (reply_as R x)"
  "(\<And>q. invokes cc md fm (call1 q)) \<Longrightarrow> invokes cc md fm (body_request rt dec R call1 req)"
  "(\<And>q. invokes cc md fm (call2 q)) \<Longrightarrow> invokes cc md fm (query_request rt populate R call2 req)"
  "(\<And>k. invokes cc md fm (call3 k)) \<Longrightarrow> invokes cc md fm (id_request rt R call3 params)"
  by (simp_all add: invokes_def body_request_def query_request_def id_request_def throw_def split: sum.split prod.split option.split)

definition route_invokes :: "runtime \<Rightarrow> 'w conn \<Rightarrow> (gw_request \<Rightarrow> bindings \<Rightarrow> ('w, reply) io) \<Rightarrow> bool" where
  "route_invokes rt cc h \<longleftrightarrow> (\<forall>req params w. snd (h req params w) = w \<or>
     (\<exists>fm t md m. rt_AnnotateContext rt req fm t = Inr md \<and> snd (h req params w) = snd (cc_Invoke cc md fm m w)))"

lemma annotated_invokes: "(\<And>md req params. invokes cc md fm (request md req params)) \<Longrightarrow> route_invokes rt cc (annotated rt fm t request)"
  unfolding route_invokes_def invokes_def annotated_def throw_def by (fastforce split: sum.split)

lemma run_mux_invokes: "list_all (route_invokes rt cc) (map (snd \<circ> snd) (run_mux rt cc))"
  by (simp add: register_defs, intro conjI annotated_invokes, simp_all add: request_defs client_defs request_invokes Invoke_invokes)

lemma gateway_one_call:
  fixes net :: network
  assumes "mux Match (rt_Select rt)" and "ServeHTTP rt (run_mux rt (port lib net env (S_services lib env) i :: 'k fleet conn)) req w = (res, w')"
  shows "w' = w \<or> one_call net env (\<lambda>call. \<exists>fm t md ctx. rt_AnnotateContext rt req fm t = Inr md \<and> admits lib i md fm ctx \<and> user_call_of ctx call) w w'"
proof (cases "rt_Select rt (map (\<lambda>(m, p, h). (m, p)) (run_mux rt (port lib net env (S_services lib env) i :: 'k fleet conn))) (gq_Method req) (gq_Path req)")
  case None
  then show ?thesis using assms(2) by (simp add: ServeHTTP_def)
next
  case (Some x)
  obtain k params where x: "x = (k, params)" by fastforce
  let ?cc = "port lib net env (S_services lib env) i :: 'k fleet conn"
  let ?h = "snd (snd (run_mux rt ?cc ! k))"
  have "k < length (run_mux rt ?cc)" using mux.select_sound [OF assms(1)] Some x by fastforce
  then have "route_invokes rt ?cc ?h" using run_mux_invokes [of rt ?cc] by (simp add: list_all_length)
  moreover have w': "w' = snd (?h req params w)"
    using assms(2) Some x by (simp add: ServeHTTP_def outcome_def split: prod.splits sum.splits)
  ultimately consider "w' = w" | fm t md m where "rt_AnnotateContext rt req fm t = Inr md" "w' = snd (cc_Invoke ?cc md fm m w)"
    unfolding route_invokes_def by metis
  then show ?thesis
  proof cases
    case 2
    have "one_call net env (\<lambda>call. \<exists>ctx. admits lib i md fm ctx \<and> user_call_of ctx call) w w'"
      unfolding 2(2) by (rule user_server.port_one_call)
    then have "one_call net env (\<lambda>call. \<exists>fm t md ctx. rt_AnnotateContext rt req fm t = Inr md \<and> admits lib i md fm ctx \<and> user_call_of ctx call) w w'"
      by (rule one_call_mono) (use 2(1) in blast)
    then show ?thesis by blast
  qed blast
qed

end
