(* ===== verification/Isolation.thy ===== *)
theory Isolation
  imports Gateway
begin

text \<open>
  Projects are separated: a user's call changes only rows of the user's own project. \<open>view key proj q t\<close> is the part of a table that belongs to the project \<open>q\<close>;
  creating a row and updating a row that was read under another project leave it alone, so every call of \<open>user_call_of\<close> does, and with the gateway every HTTP request.
\<close>

section \<open>The part of a table that belongs to a project\<close>

definition view :: "('r \<Rightarrow> string) \<Rightarrow> ('r \<Rightarrow> string) \<Rightarrow> string \<Rightarrow> 'r list \<Rightarrow> string \<Rightarrow> 'r option" where
  "view key proj q t k = (case row_of key t k of None \<Rightarrow> None | Some r \<Rightarrow> if proj r = q then Some r else None)"

abbreviation job_view :: "string \<Rightarrow> server_state \<Rightarrow> string \<Rightarrow> Job option" where
  "job_view q st \<equiv> view jJobID jProjectID q (st_jobs st)"

abbreviation notebook_view :: "string \<Rightarrow> server_state \<Rightarrow> string \<Rightarrow> Notebook option" where
  "notebook_view q st \<equiv> view nNotebookID nProjectID q (st_notebooks st)"

abbreviation batch_view :: "string \<Rightarrow> server_state \<Rightarrow> string \<Rightarrow> BatchJob option" where
  "batch_view q st \<equiv> view bJobID bProjectID q (st_batch_jobs st)"

definition of_project :: "string \<Rightarrow> context_info \<Rightarrow> bool" where
  "of_project p ctx \<longleftrightarrow> (case ExtractUserInfo ctx of None \<Rightarrow> True | Some u \<Rightarrow> ui_ProjectID u = p)"

context gorm
begin

lemma create_view:
  assumes "gCreate G now r t = (res, t')" and "\<And>i. proj (stamp i now r) \<noteq> q"
  shows "view key proj q t' = view key proj q t"
proof (cases res)
  case (Inl e)
  then show ?thesis using create_err assms(1) by blast
next
  case (Inr r')
  then obtain i where r': "t' = t @ [r']" "key r \<notin> key ` set t" "r' = stamp i now r" using create_ok assms(1) by blast
  then have "row_of key t' = (row_of key t)(key r \<mapsto> r')" by (simp add: row_of_append)
  moreover have "row_of key t (key r) = None" using r'(2) by (auto simp: row_of_None)
  ultimately show ?thesis using assms(2) r'(3) by (auto simp: view_def fun_eq_iff)
qed

lemma updates_view:
  assumes "updates_versioned G key ver what now z k v f t = (res, t')" and "distinct (map key t)" and "row_of key t k = Some r" and "proj r \<noteq> q"
    and "\<And>x. key (f x) = key x" and "\<And>x. proj (touch now (f x)) = proj x"
  shows "view key proj q t' = view key proj q t"
proof (cases res)
  case (Inl e)
  then show ?thesis using updates_versioned_err assms(1) by metis
next
  case (Inr m)
  have "t' = set_rows (\<lambda>x. key x = k) (touch now \<circ> f) t"
    using updates_versioned_ok [OF assms(1) [unfolded Inr] assms(2,5)] by auto
  then have "row_of key t' = (row_of key t)(k \<mapsto> touch now (f r))" using assms(3,5) by (simp add: row_of_set_rows)
  then show ?thesis using assms(3,4,6) by (auto simp: view_def fun_eq_iff)
qed

end

section \<open>Calls of users\<close>

lemma CreateJob_view:
  assumes "job_db (jobDB env)" and "CreateJob env now ctx req st = (res, st')" and "of_project p ctx" and "p \<noteq> q"
  shows "job_view q st' = job_view q st"
proof (cases res)
  case (Inr x)
  then obtain u jobID s msg r n st1 st2 where u: "ExtractUserInfo ctx = Some u"
      and sched: "env_Schedule env now u [] n st = (Inr s, st1)"
        "env_AddAssumedPod env now (ui_TenantID u) (sr_ClusterID s) (sr_Namespace s @ ''/'' @ jobID) n st1 = (Inr (), st2)"
      and cr: "store_CreateJob (jobDB env) now (new_job u req jobID s msg) (st_jobs st2) = (Inr r, st_jobs st')"
    using assms(2) by (auto elim!: CreateJob_cases)
  have "st_jobs st2 = st_jobs st" using env_tables(1) [OF sched(1)] env_tables(2) [OF sched(2)] by simp
  then show ?thesis
    using gorm.create_view [OF assms(1) cr [unfolded store_CreateJob_def], where proj = jProjectID and q = q] assms(3,4) u
    by (simp add: new_job_def of_project_def)
qed (use CreateJob_error [OF assms(1)] assms(2) in simp)

lemma CreateNotebook_view:
  assumes "notebook_db (notebookDB env)" and "CreateNotebook env now ctx req st = (res, st')" and "of_project p ctx" and "p \<noteq> q"
  shows "notebook_view q st' = notebook_view q st"
proof (cases res)
  case (Inr x)
  then obtain u nbID proj apikey token nb1 nb2 s st1 msg r n where u: "ExtractUserInfo ctx = Some u"
      and nb: "SetAPIKey (encrypt env) apikey (dataKey env) (new_notebook u req nbID proj) = Inr nb1" "SetToken (encrypt env) token (dataKey env) nb1 = Inr nb2"
      and sched: "scheduleNotebook env now nb2 n st = (Inr s, st1)"
      and cr: "store_CreateNotebook (notebookDB env) now (nb2\<lparr>nClusterID := sr_ClusterID s, nMessage := msg\<rparr>) (st_notebooks st1) = (Inr r, st_notebooks st')"
    using assms(2) by (auto elim!: CreateNotebook_cases)
  have "nProjectID nb2 = ui_ProjectID u"
    by (subst SetToken_sel [OF nb(2)], subst SetAPIKey_sel [OF nb(1)]) (simp add: new_notebook_def)
  then show ?thesis
    using gorm.create_view [OF assms(1) cr [unfolded store_CreateNotebook_def], where proj = nProjectID and q = q] scheduleNotebook_tables [OF sched] assms(3,4) u
    by (simp add: of_project_def)
qed (use CreateNotebook_error [OF assms(1)] assms(2) in simp)

lemma CreateBatchJob_view:
  assumes "batch_db (batchDB env)" and "CreateBatchJob env now ctx req st = (res, st')" and "of_project p ctx" and "p \<noteq> q"
  shows "batch_view q st' = batch_view q st"
proof (cases res)
  case (Inr x)
  then obtain u jobID s msg r n st1 st2 where u: "ExtractUserInfo ctx = Some u"
      and sched: "env_Schedule env now u [] n st = (Inr s, st1)"
        "env_AddAssumedPod env now (ui_TenantID u) (sr_ClusterID s) (sr_Namespace s @ ''/'' @ jobID) n st1 = (Inr (), st2)"
      and cr: "store_CreateBatchJob (batchDB env) now (new_batch_job u jobID s msg) (st_batch_jobs st2) = (Inr r, st_batch_jobs st')"
    using assms(2) by (auto elim!: CreateBatchJob_cases)
  have "st_batch_jobs st2 = st_batch_jobs st" using env_tables(1) [OF sched(1)] env_tables(2) [OF sched(2)] by simp
  then show ?thesis
    using gorm.create_view [OF assms(1) cr [unfolded store_CreateBatchJob_def], where proj = bProjectID and q = q] assms(3,4) u
    by (simp add: new_batch_job_def of_project_def)
qed (use CreateBatchJob_error [OF assms(1)] assms(2) in simp)

lemma CancelJob_view:
  assumes "job_db (jobDB env)" and "distinct (map jJobID (st_jobs st))" and "CancelJob env now ctx k st = (res, st')" and "of_project p ctx" and "p \<noteq> q"
  shows "job_view q st' = job_view q st"
proof -
  have "view jJobID jProjectID q t' = job_view q st"
    if "GetJobByJobIDAndProjectID (jobDB env) now k p (st_jobs st) = Inr j" "UpdateJobState (jobDB env) now k v s a (st_jobs st) = (r, t')" for j v s a r t'
    by (rule gorm.updates_view [OF assms(1) that(2) [unfolded UpdateJobState_def] assms(2), where r = j])
      (use job_read(2) [OF assms(1,2) that(1)] assms(5) in simp_all)
  then show ?thesis
    using assms(3,4) by (auto simp: CancelJob_def of_project_def split: option.splits sum.splits prod.splits if_splits)
qed

lemma SetNotebookQueuedAction_view:
  assumes "notebook_db G" and "distinct (map nNotebookID t)" and "GetNotebookByIDAndProjectID G now k p t = Inr nb" and "p \<noteq> q"
    and "SetNotebookQueuedAction G now (nNotebookID nb) v a t = (r, t')"
  shows "view nNotebookID nProjectID q t' = view nNotebookID nProjectID q t"
  by (rule gorm.updates_view [OF assms(1) assms(5) [unfolded SetNotebookQueuedAction_def] assms(2), where r = nb])
    (use notebook_read(2) [OF assms(1-3)] assms(4) in \<open>auto dest: row_of_Some\<close>)

lemma notebook_call_views:
  assumes "notebook_db (notebookDB env)" and "distinct (map nNotebookID (st_notebooks st))" and "of_project p ctx" and "p \<noteq> q"
  shows "StopNotebook env now ctx k st = (r1, st') \<Longrightarrow> notebook_view q st' = notebook_view q st"
    and "StartNotebook env now ctx k st = (r1, st') \<Longrightarrow> notebook_view q st' = notebook_view q st"
    and "DeleteNotebook env now ctx k st = (r2, st') \<Longrightarrow> notebook_view q st' = notebook_view q st"
proof -
  have set: "view nNotebookID nProjectID q t' = notebook_view q st"
    if "SetNotebookQueuedAction (notebookDB env) now (nNotebookID nb) v a (st_notebooks st) = (r, t')"
      "GetNotebookByIDAndProjectID (notebookDB env) now k (ui_ProjectID u) (st_notebooks st) = Inr nb" "ExtractUserInfo ctx = Some u" for nb v a r t' u
    by (rule SetNotebookQueuedAction_view [OF assms(1,2) that(2) _ that(1)]) (use that(3) assms(3,4) in \<open>simp add: of_project_def\<close>)
  note split = option.splits sum.splits prod.splits if_splits
  show "StopNotebook env now ctx k st = (r1, st') \<Longrightarrow> notebook_view q st' = notebook_view q st"
    by (auto simp: StopNotebook_def queue_notebook_def split: split dest: set)
  show "StartNotebook env now ctx k st = (r1, st') \<Longrightarrow> notebook_view q st' = notebook_view q st"
    by (auto simp: StartNotebook_def queue_notebook_def split: split dest: set)
  show "DeleteNotebook env now ctx k st = (r2, st') \<Longrightarrow> notebook_view q st' = notebook_view q st"
    by (auto simp: DeleteNotebook_def split: split dest: set)
qed

lemma SetBatchJobQueuedAction_view:
  assumes "batch_db G" and "distinct (map bJobID t)" and "GetActiveBatchJobByIDAndProjectID G now k p t = Inr j" and "p \<noteq> q"
    and "SetBatchJobQueuedAction G now (bJobID j) v a t = (r, t')"
  shows "view bJobID bProjectID q t' = view bJobID bProjectID q t"
  by (rule gorm.updates_view [OF assms(1) assms(5) [unfolded SetBatchJobQueuedAction_def] assms(2), where r = j])
    (use batch_read(2) [OF assms(1-3)] assms(4) in auto)

lemma batch_call_views:
  assumes "batch_db (batchDB env)" and "distinct (map bJobID (st_batch_jobs st))" and "of_project p ctx" and "p \<noteq> q"
  shows "CancelBatchJob env now ctx k st = (r1, st') \<Longrightarrow> batch_view q st' = batch_view q st"
    and "DeleteBatchJob env now ctx k st = (r1, st') \<Longrightarrow> batch_view q st' = batch_view q st"
proof -
  have set: "view bJobID bProjectID q t' = batch_view q st"
    if "SetBatchJobQueuedAction (batchDB env) now (bJobID j) v a (st_batch_jobs st) = (r, t')"
      "GetActiveBatchJobByIDAndProjectID (batchDB env) now k (ui_ProjectID u) (st_batch_jobs st) = Inr j" "ExtractUserInfo ctx = Some u" for j v a r t' u
    by (rule SetBatchJobQueuedAction_view [OF assms(1,2) that(2) _ that(1)]) (use that(3) assms(3,4) in \<open>simp add: of_project_def\<close>)
  note split = option.splits sum.splits prod.splits if_splits
  show "CancelBatchJob env now ctx k st = (r1, st') \<Longrightarrow> batch_view q st' = batch_view q st"
    by (auto simp: CancelBatchJob_def queue_batch_job_def split: split dest: set)
  show "DeleteBatchJob env now ctx k st = (r1, st') \<Longrightarrow> batch_view q st' = batch_view q st"
    by (auto simp: DeleteBatchJob_def queue_batch_job_def split: split dest: set)
qed

context deployment
begin

lemma user_call_views:
  assumes "server_wf env st" and "user_call_of ctx call" and "of_project p ctx" and "p \<noteq> q"
  shows "job_view q (serve env now call st) = job_view q st"
    and "notebook_view q (serve env now call st) = notebook_view q st"
    and "batch_view q (serve env now call st) = batch_view q st"
proof -
  have wf: "distinct (map jJobID (st_jobs st))" "distinct (map nNotebookID (st_notebooks st))" "distinct (map bJobID (st_batch_jobs st))"
    using assms(1) by (simp_all add: server_wf_def table_wf_def)
  note jobs = CreateJob_view [OF job_laws surjective_pairing assms(3,4)] CancelJob_view [OF job_laws wf(1) surjective_pairing assms(3,4)]
  note notebooks = CreateNotebook_view [OF notebook_laws surjective_pairing assms(3,4)] notebook_call_views [OF notebook_laws wf(2) assms(3,4) surjective_pairing]
  note batch = CreateBatchJob_view [OF batch_laws surjective_pairing assms(3,4)] batch_call_views [OF batch_laws wf(3) assms(3,4) surjective_pairing]
  show "job_view q (serve env now call st) = job_view q st" using assms(2) by (cases call) (simp_all add: jobs call_frames)
  show "notebook_view q (serve env now call st) = notebook_view q st" using assms(2) by (cases call) (simp_all add: notebooks call_frames)
  show "batch_view q (serve env now call st) = batch_view q st" using assms(2) by (cases call) (simp_all add: batch call_frames)
qed

lemma one_call_views:
  assumes "server_wf env (fl_server w)" and "one_call net env (\<lambda>call. \<exists>ctx. of_project p ctx \<and> user_call_of ctx call) w w'" and "p \<noteq> q"
  shows "job_view q (fl_server w') = job_view q (serves env (net_others net (fl_rpcs w)) (fl_server w))"
    and "notebook_view q (fl_server w') = notebook_view q (serves env (net_others net (fl_rpcs w)) (fl_server w))"
    and "batch_view q (fl_server w') = batch_view q (serves env (net_others net (fl_rpcs w)) (fl_server w))"
proof -
  let ?st = "serves env (net_others net (fl_rpcs w)) (fl_server w)"
  obtain calls where calls: "length calls \<le> 1" "list_all (\<lambda>(t, call). t = net_clock net (fl_rpcs w) \<and> (\<exists>ctx. of_project p ctx \<and> user_call_of ctx call)) calls"
      "fl_server w' = serves env calls ?st"
    using assms(2) by (auto simp: one_call_def serves_append)
  have wf: "server_wf env ?st" using serves_steps [OF assms(1)] by simp
  consider "fl_server w' = ?st" | call ctx where "fl_server w' = serve env (net_clock net (fl_rpcs w)) call ?st" "of_project p ctx" "user_call_of ctx call"
    using calls by (cases calls) (auto simp: serves_def)
  then have "job_view q (fl_server w') = job_view q ?st \<and> notebook_view q (fl_server w') = notebook_view q ?st \<and> batch_view q (fl_server w') = batch_view q ?st"
    by cases (simp_all add: user_call_views [OF wf _ _ assms(3)])
  then show "job_view q (fl_server w') = job_view q ?st" "notebook_view q (fl_server w') = notebook_view q ?st" "batch_view q (fl_server w') = batch_view q ?st"
    by simp_all
qed

end

end
