(* ===== verification/DemoPorts.thy ===== *)
theory DemoPorts
  imports Demo Isolation
begin

text \<open>
  The deployment of \<open>Demo\<close> behind its ports: an RBAC server that knows one key, of \<open>demo_ctx\<close>; a gateway on the executable multiplexer of \<open>Routing\<close>; a user of another project.
\<close>

definition demo_lib :: grpc_lib where
  "demo_lib = \<lparr>lib_IncomingContext = (\<lambda>md. \<lparr>ExtractUserInfo = None, ExtractToken = Inl (Errorf ''no token''), ExtractClusterInfo = None\<rparr>),
     lib_wrong_message = Status Internal ''wrong message'', lib_unknown_method = (\<lambda>m. Status Unknown m), lib_range = id\<rparr>"

definition demo_interceptor :: "context_info \<Rightarrow> interceptor" where
  "demo_interceptor ctx md fullMethod =
     (if map_of md ''authorization'' = Some ''Bearer apikey'' then Inr ctx else Inl (Status Unauthenticated ''unauthenticated''))"

definition demo_rbac :: rbac where
  "demo_rbac = \<lparr>NewInterceptor = (\<lambda>addr resource. Inr (\<lambda>excluded. demo_interceptor demo_ctx)), NewWorkerInterceptor = (\<lambda>addr. Inr (demo_interceptor demo_ctx))\<rparr>"

definition demo_auth :: server_AuthConfig where
  "demo_auth = \<lparr>auth_Enable = True, RBACInternalServerAddr = ''rbac:8082''\<rparr>"

definition demo_stranger :: context_info where
  "demo_stranger = demo_ctx\<lparr>ExtractUserInfo := Some (demo_user\<lparr>ui_ProjectID := ''other''\<rparr>)\<rparr>"

definition demo_runtime :: runtime where
  "demo_runtime = \<lparr>rt_Select = newest_first, rt_AnnotateContext = (\<lambda>req m t. Inr (gq_Header req)), rt_IOReaderFactory = Inr, rt_EOF = Errorf ''EOF'',
     rt_DecodeCreateJob = (\<lambda>b. (demo_job_request, None)), rt_DecodeCreateNotebook = (\<lambda>b. (demo_notebook_request, None)),
     rt_DecodeCreateBatchJob = (\<lambda>b. (\<lparr>CBR_Image = ''torch'', CBR_Command = ''python'', CBR_Scripts = [], CBR_Resources = None, CBR_Envs = [], CBR_DataFiles = [], CBR_Kind = None\<rparr>, None)),
     rt_ParseForm = (\<lambda>req. None), rt_PopulateList = (\<lambda>req. (\<lparr>LR_After = [], LR_Limit = 0\<rparr>, None)), rt_PopulateSummaries = (\<lambda>req. (None, None)), rt_String = Inr\<rparr>"

definition demo_cancel :: gw_request where
  "demo_cancel = \<lparr>gq_Method = ''POST'', gq_Path = [''v1'', ''fine_tuning'', ''jobs'', ''ftjob-xxx'', ''cancel''],
     gq_Header = [(''authorization'', ''Bearer apikey'')], gq_Body = [], gq_RawQuery = []\<rparr>"

abbreviation demo_gateway :: "context_info \<Rightarrow> gw_request \<Rightarrow> kube_write list fleet \<Rightarrow> http_outcome \<times> kube_write list fleet" where
  "demo_gateway ctx \<equiv> ServeHTTP demo_runtime (run_mux demo_runtime (port demo_lib demo_net demo (S_services demo_lib demo) (Some (demo_interceptor ctx))))"

lemma demo_mux: "mux pattern_Match (rt_Select demo_runtime)"
  by (simp add: demo_runtime_def machine_mux.mux_axioms)

lemma demo_canceled: "fst (CancelJob demo 5 demo_ctx ''ftjob-xxx'' demo_state) = Inr (empty_v1_job\<lparr>Job_Status := JobQueuedActionCancel\<rparr>)"
  by code_simp

end
