(* ===== verification/Spec2Isabelle.thy ===== *)
theory Spec2Isabelle
  imports DemoPorts
begin

text \<open>
  A verification development of the job-manager of LLMariner (\<^verbatim>\<open>src/\<close>): the control plane that accepts fine-tuning jobs, notebooks and batch
  jobs, schedules them onto Kubernetes clusters, hands them to the dispatchers of the clusters and follows their progress.

  \<^bold>\<open>Parts of the program and their theories.\<close>

  \<^item> \<open>Prelude\<close>: the fragment of Go that the sources use (errors and gRPC status codes, \<^verbatim>\<open>errors.Is\<close>, 32-bit conversion, \<^verbatim>\<open>strings\<close>,
    \<^verbatim>\<open>strconv.ParseInt\<close>, maps that are ranged over) with its lemmas.
  \<^item> \<open>Gorm\<close>: the database library the store calls, a parameter of the model. A record of operations over the rows of a table; the locale
    \<open>gorm\<close> states what the code relies on, \<open>reliable_gorm\<close> that in addition no call fails without a reason; an executable engine
    interprets both. \<open>updates_versioned\<close> is the \<^verbatim>\<open>Where("version = ?").Updates(...)\<close> pattern of the store.
  \<^item> \<open>Lifecycle\<close>: tables whose rows move along a transition relation and carry a version; the locales \<open>lifecycle\<close> and \<open>versioned_lifecycle\<close>
    prove once that tables stay well-formed, rows are never lost and a version identifies a row.
  \<^item> \<open>Pagination\<close>: the listing queries with a cursor; the locale \<open>pager\<close> proves that following the cursor visits every row once.
  \<^item> \<open>Api\<close>: the messages of \<^verbatim>\<open>api/v1/*.proto\<close> as records, the enums, and \<^verbatim>\<open>proto.Marshal\<close>/\<^verbatim>\<open>Unmarshal\<close> as a parameter with the locale
    \<open>proto_codec\<close>. \<open>Auth\<close>: the user and cluster information the RBAC interceptors put into the context.
  \<^item> \<open>StoreJob\<close>, \<open>StoreNotebook\<close>, \<open>StoreBatch\<close>, \<open>StoreCluster\<close>: \<^verbatim>\<open>server/internal/store/*.go\<close>, one definition per function, on lists of rows.
  \<^item> \<open>Cache\<close>: \<^verbatim>\<open>server/internal/cache/cluster.go\<close>, the in-memory clusters with the pods assumed on them, and its coherence with the store.
  \<^item> \<open>Scheduler\<close>: \<^verbatim>\<open>server/internal/scheduler/scheduler.go\<close>; the order in which Go ranges over a map is a parameter (locale \<open>map_range\<close>).
  \<^item> \<open>Server\<close>, \<open>FineTuning\<close>, \<open>Notebooks\<close>, \<open>Batch\<close>, \<open>Clusters\<close>, \<open>Summaries\<close>: the gRPC handlers of \<^verbatim>\<open>server/internal/server/*.go\<close>, the
    rescheduler, and the lifecycle each group of handlers implements.
  \<^item> \<open>System\<close>: all state-changing calls of the server as one datatype, what they do to the state, the locale \<open>deployment\<close> with the assumptions
    on the environment, and the invariant of the whole server. \<open>Rescheduling\<close>: what a round of the rescheduler does to each notebook.
  \<^item> \<open>Effects\<close>: code that talks to remote services, as functions of a world that return an error or a value and the new world; \<^verbatim>\<open>if err != nil\<close>,
    ignored errors and loops that stop at the first error; \<open>tracks\<close> (a call moves the world only along a relation) and \<open>achieves\<close>.
  \<^item> \<open>Kube\<close>: the Kubernetes objects and the client of the cluster, a parameter with the locale \<open>kube_api\<close> and an executable interpretation.
  \<^item> \<open>DispatcherConfig\<close>, \<open>Workload\<close>, \<open>PreProcess\<close>: \<^verbatim>\<open>dispatcher/internal/config/config.go\<close>, \<^verbatim>\<open>workload_config.go\<close>, \<^verbatim>\<open>pre_processor.go\<close> and \<^verbatim>\<open>post_processor.go\<close>
    of \<^verbatim>\<open>dispatcher/internal/dispatcher\<close>. \<open>Clients\<close>: the worker services of the server as the dispatcher sees them.
  \<^item> \<open>JobClient\<close>, \<open>JobReconciler\<close>, \<open>NotebookManager\<close>, \<open>BatchJobManager\<close>, \<open>Dispatcher\<close>: \<^verbatim>\<open>job_client.go\<close> with \<^verbatim>\<open>cmd.tpl\<close>, \<^verbatim>\<open>lifecycle_manager.go\<close>,
    \<^verbatim>\<open>notebook.go\<close>, \<^verbatim>\<open>batchjob.go\<close> and \<^verbatim>\<open>dispatcher.go\<close> of the same directory: what a cluster applies for each piece of work, the reconcilers that
    report the progress of the Kubernetes objects, and the polling loop. \<open>ClusterReporter\<close>: \<^verbatim>\<open>dispatcher/internal/clusterstatus/manager.go\<close>.
  \<^item> \<open>Fleet\<close>: a cluster and the server together, wired as in \<^verbatim>\<open>dispatcher/cmd/run.go\<close>. The clients of the cluster are the handlers of the server
    behind a network that may lose requests and responses and let other callers go first; every run of a cluster leaves a trace of calls of the server.
    \<open>Rounds\<close>: a round of the dispatcher over the fine-tuning jobs when nothing goes wrong.
  \<^item> \<open>SyncObjects\<close>, \<open>Unstructured\<close>: the Kubernetes jobs and job sets the syncer copies between clusters, the client through which it does so (locales \<open>object_store\<close>
    and \<open>reliable_store\<close>) and the functions on unstructured JSON (locale \<open>unstructured_api\<close>), each with an executable interpretation.
    \<open>SyncController\<close>: \<^verbatim>\<open>common.go\<close>, \<^verbatim>\<open>job.go\<close> and \<^verbatim>\<open>jobset.go\<close> of \<^verbatim>\<open>syncer/internal/controller\<close>, the controllers that deploy the objects of a tenant's cluster to a
    worker cluster through the server and delete them there. \<open>StatusSyncer\<close>: \<^verbatim>\<open>syncer.go\<close>, which copies the status back, and \<^verbatim>\<open>syncer/internal/config/config.go\<close>.
    \<open>Federation\<close>: syncer and server together behind the network of \<open>Fleet\<close>.
  \<^item> \<open>ServerBoot\<close>: \<^verbatim>\<open>server/internal/config/config.go\<close>, the data key at the start of \<^verbatim>\<open>server/cmd/run.go\<close> (locale \<open>data_key_table\<close>), and \<^verbatim>\<open>server/internal/k8s/client.go\<close>.
    \<open>S3Client\<close>: \<^verbatim>\<open>dispatcher/internal/s3/client.go\<close> over the AWS SDK (locale \<open>s3_service\<close>). \<open>Slurm\<close>: the prototype under \<^verbatim>\<open>experimental/slurm/server\<close>.
  \<^item> \<open>Services\<close>: the gRPC services of \<^verbatim>\<open>api/v1/*_grpc.pb.go\<close> (handler and client of every method, descriptors), and the interceptors and services of the three ports that
    \<^verbatim>\<open>Run\<close> of \<^verbatim>\<open>server.go\<close>, \<^verbatim>\<open>ws_server.go\<close> and \<^verbatim>\<open>syncer_server.go\<close> open. The locale \<open>call_server\<close> says that the methods of a server make only calls of one kind; each port interprets it.
    \<open>Routing\<close>: the patterns of paths and the multiplexer of \<^verbatim>\<open>grpc-gateway\<close>, parameters with the locales \<open>path_matcher\<close> and \<open>mux\<close> and an executable interpretation.
    \<open>Gateway\<close>: the HTTP gateway of \<^verbatim>\<open>api/v1/*.pb.gw.go\<close>, and the REST interface of the \<^verbatim>\<open>.proto\<close> files as its specification. \<open>Isolation\<close>: what the calls of a user do to other projects.
  \<^item> \<open>Demo\<close>, \<open>DemoPorts\<close>: a concrete deployment, cluster and network on which the theorems are evaluated.

  \<^bold>\<open>How code corresponds to definitions.\<close> A handler is a function of the environment (\<open>server_env\<close>: databases, codecs, clients, configuration),
  the time, the context, the request and the state (\<open>server_state\<close>: the tables, the cache and the objects written to Kubernetes), and returns
  an error or a response together with the new state. Every early return of the source is a branch; \<open>Inl\<close> is an error. One reading of the
  clock per call is modelled. Database time stamps and durations are integers in nanoseconds. An operation of the dispatcher is a function of its
  configuration, the clients it holds and the world; the world of \<open>Fleet\<close> contains the state of the server, the cluster and the trace of calls.

  \<^bold>\<open>What the theorems show.\<close> The first group (\<open>server_invariant\<close>, \<open>job_history\<close>, \<open>job_update_not_lost\<close>) is about any interleaving of calls, failing
  ones included. The second is about the ports: the gateway serves the REST interface (\<open>rest_api_served\<close>) and nothing else (\<open>gateway_confined\<close>), users cannot touch other projects
  (\<open>project_isolation\<close>), each port has the calls of its own clients only (\<open>ports_separated\<close>), and the clients of clusters and syncers reach the handlers they mean (\<open>clients_reach_handlers\<close>).
  Then come the behaviour of the single handlers, paging, scheduling and the cache. The next group is about the dispatcher: whatever a cluster does
  is a run of the server (\<open>cluster_refines_server\<close>), a quiet round settles the queued jobs (\<open>dispatch_round_settles\<close>), a finished Kubernetes job is
  reported and marked (\<open>finished_job_reconciled\<close>), and what is put into pods and reports is what the request or the configuration says. The last group is about the syncer, alone and with the server: a job is deployed
  once and then left alone (\<open>job_deployed\<close>), its deletion reaches the worker cluster first (\<open>deletion_propagates\<close>), its status comes back (\<open>status_synced\<close>), the
  GPUs asked for are those of its containers (\<open>sync_gpu_requests\<close>), and whatever the syncer does is a run of the server (\<open>syncer_refines_server\<close>); about secrets across restarts
  (\<open>secrets_survive_restart\<close>), uploads (\<open>uploads_confined\<close>) and the Slurm prototype (\<open>slurm_round_robin\<close>). Theorems whose text says that something is lost
  or comes back state behaviour of the code that its comments or its purpose do not suggest; the manifest lists them as findings.

  \<^bold>\<open>Bounds and fuel.\<close> The only fuel is the number of pages in \<open>walk\<close>; one more than the number of rows is enough (\<open>jobs_page_walk\<close>). The listing of
  a model in object storage, \<open>list_pages\<close>, loops for as long as the storage says that there is more: it is a partial function, and \<open>model_listing_ends\<close>
  says exactly when it returns and what. The retries of the dispatcher are bounded by its own constant. All other
  functions are total. Counts of GPUs are 32-bit where the messages have them so; those of the syncer, \<^verbatim>\<open>uint32\<close> in the source, are of type \<open>32 word\<close>.

  \<^bold>\<open>Not modelled.\<close> The encoding of messages, gRPC and \<^verbatim>\<open>grpc-gateway\<close> themselves, the RBAC and usage services behind the interceptors, listening, and the parts of the generated code
  that the program does not use (\<^verbatim>\<open>local_request_...\<close>, \<^verbatim>\<open>Register...HandlerServer\<close>, the \<^verbatim>\<open>Unimplemented\<close> servers, reflection, the types and routes of the Slurm API); reading YAML files; opening and migrating the database; the AWS SDK; registration of the
  controllers, controller managers, timers, Prometheus and logging; response headers of the Slurm prototype. Of the
  Kubernetes client, watching and caching: a read sees the current objects. Within a call that reads and writes the same row, other calls
  interleave only as far as the version check is concerned (\<open>job_update_not_lost\<close>) and in the cache (\<open>concurrent_assume_loses_pod\<close>).
\<close>

section \<open>The server as a whole\<close>



text \<open>C2. No call loses a job: after any sequence of calls its row is still there, owned by the same tenant and project on the same
  cluster, its version has not decreased, its history is a path of the lifecycle, and a finished job is still finished.\<close>

theorem job_history:
  assumes "deployment env" and "server_wf env st" and "row_of jJobID (st_jobs st) k = Some r"
  shows "\<exists>r'. row_of jJobID (st_jobs (serves env calls st)) k = Some r' \<and> job_moves\<^sup>*\<^sup>* r r' \<and>
    jVersion r \<le> jVersion r' \<and> jTenantID r' = jTenantID r \<and> jProjectID r' = jProjectID r \<and> jClusterID r' = jClusterID r \<and>
    (job_finished r \<longrightarrow> job_finished r')"
  using job_life.steps_row [OF _ assms(3)] deployment.serves_steps [OF assms(1,2), of calls] job_moves_rows job_finished_moves by blast

theorem job_history_witness:
  "\<exists>r'. row_of jJobID (st_jobs (serves demo [(5, Call_CancelJob demo_ctx ''ftjob-xxx'')] demo_state)) ''ftjob-xxx'' = Some r' \<and>
     job_moves\<^sup>*\<^sup>* (hd (st_jobs demo_state)) r'"
proof -
  have "row_of jJobID (st_jobs demo_state) ''ftjob-xxx'' = Some (hd (st_jobs demo_state))" by (simp add: demo_eval)
  from job_history [OF demo_deployment demo_wf(2) this] show ?thesis by blast
qed

text \<open>C3. Optimistic locking. A handler reads a job, other calls run, then the handler updates the row with the version it has read.
  The update succeeds only if the row is still exactly the row that was read, and then only that row changes; otherwise
  nothing is written, and the error is \<^verbatim>\<open>ErrConcurrentUpdate\<close> only if the row has changed.\<close>

theorem job_update_not_lost:
  assumes "deployment env" and "server_wf env st" and "row_of jJobID (st_jobs st) k = Some r"
    and "UpdateJobState (jobDB env) now k (jVersion r) s a (st_jobs (serves env calls st)) = (res, t')"
  shows "case res of
      Inr m \<Rightarrow> row_of jJobID (st_jobs (serves env calls st)) k = Some r \<and>
        row_of jJobID t' = (row_of jJobID (st_jobs (serves env calls st)))
          (k \<mapsto> job_touch now (r\<lparr>jState := s, jQueuedAction := a, jVersion := jVersion r + 1\<rparr>))
    | Inl e \<Rightarrow> t' = st_jobs (serves env calls st) \<and> (errors_Is e ErrConcurrentUpdate \<longrightarrow>
        row_of jJobID (st_jobs (serves env calls st)) k \<noteq> Some r)"
proof -
  let ?t = "st_jobs (serves env calls st)"
  have steps: "table_steps jJobID jID job_init job_moves (st_jobs st) ?t" and wf: "jobs_wf ?t"
    using deployment.serves_steps [OF assms(1,2), of calls] by (auto simp: server_wf_def)
  note db = deployment.job_laws [OF assms(1)] and upd = assms(4) [unfolded UpdateJobState_def]
  show ?thesis
  proof (cases res)
    case (Inl e)
    then show ?thesis
      using gorm.updates_versioned_err [OF db upd [unfolded Inl]] by (auto dest: row_of_Some)
  next
    case (Inr m)
    let ?f = "\<lambda>j. j\<lparr>jState := s, jQueuedAction := a, jVersion := jVersion r + 1\<rparr>"
    obtain r' where r': "row_of jJobID ?t k = Some r'" "jVersion r' = jVersion r" "t' = set_rows (\<lambda>x. jJobID x = k) (job_touch now \<circ> ?f) ?t"
      using gorm.updates_versioned_ok [OF db upd [unfolded Inr] jobs_wf_distinct [OF wf]] by auto
    have "r' = r" by (rule job_life.same_version_same_row [OF steps assms(3) r'(1,2)])
    then show ?thesis
      using r' Inr by (simp add: row_of_set_rows)
  qed
qed

theorem job_update_not_lost_witness:
  "let st = serves demo [(5, Call_CancelJob demo_ctx ''ftjob-xxx'')] demo_state;
       (res, t') = UpdateJobState (jobDB demo) 6 ''ftjob-xxx'' (jVersion (hd (st_jobs demo_state))) ''running'' [] (st_jobs st)
   in res = Inl (Wrapf ''update job: '' ErrConcurrentUpdate) \<and> t' = st_jobs st"
proof -
  let ?st = "serves demo [(5, Call_CancelJob demo_ctx ''ftjob-xxx'')] demo_state"
  let ?up = "UpdateJobState (jobDB demo) 6 ''ftjob-xxx'' (jVersion (hd (st_jobs demo_state))) ''running'' [] (st_jobs ?st)"
  have row: "row_of jJobID (st_jobs demo_state) ''ftjob-xxx'' = Some (hd (st_jobs demo_state))" by (simp add: demo_eval)
  have err: "fst ?up = Inl (Wrapf ''update job: '' ErrConcurrentUpdate)" by code_simp
  have "snd ?up = st_jobs ?st"
    using job_update_not_lost [where calls = "[(5, Call_CancelJob demo_ctx ''ftjob-xxx'')]" and now = 6 and s = "''running''" and a = "[]",
        OF demo_deployment demo_wf(2) row surjective_pairing] err by simp
  with err show ?thesis by (simp add: case_prod_unfold)
qed

section \<open>Fine-tuning jobs\<close>



text \<open>C5. A cancel request. For a job of the user's project that is finished or already being canceled, \<^verbatim>\<open>CancelJob\<close> returns it and changes
  nothing; for any other job it queues the cancel action and increments the version of exactly that row. In that case the returned
  job carries nothing but the status: the row gorm fills in from the update has no message and no identifier.\<close>

theorem cancel_job_correct:
  assumes db: "reliable_job_db (jobDB env)" and codec: "proto_codec (jobCodec env) empty_v1_job" and wf: "jobs_wf (st_jobs st)"
    and u: "ExtractUserInfo ctx = Some u" and k: "k \<noteq> []" and r: "row_of jJobID (st_jobs st) k = Some r" "jProjectID r = ui_ProjectID u"
    and m: "Unmarshal (jobCodec env) (jMessage r) = Inr m"
  shows "if job_finished r \<or> jQueuedAction r = JobQueuedActionCancel
    then CancelJob env now ctx k st = (Inr (m\<lparr>Job_Status := (if job_finished r then jState r else JobQueuedActionCancel)\<rparr>), st)
    else CancelJob env now ctx k st = (Inr (empty_v1_job\<lparr>Job_Status := JobQueuedActionCancel\<rparr>),
      st\<lparr>st_jobs := set_rows (\<lambda>j. jJobID j = k) (\<lambda>j. job_touch now (j\<lparr>jState := JobStateQueued,
        jQueuedAction := JobQueuedActionCancel, jVersion := jVersion r + 1\<rparr>)) (st_jobs st)\<rparr>)"
proof -
  note dist = jobs_wf_distinct [OF wf]
  have rinv: "job_inv r" using wf row_of_Some [OF r(1)] by (auto simp: table_wf_def list_all_iff)
  have get: "GetJobByJobIDAndProjectID (jobDB env) now k (ui_ProjectID u) (st_jobs st) = Inr r"
    unfolding GetJobByJobIDAndProjectID_def
    by (rule reliable_gorm.take_key [OF db dist r(1)]) (use r(2) row_of_Some [OF r(1)] in auto)
  have upd: "UpdateJobState (jobDB env) now k (jVersion r) JobStateQueued JobQueuedActionCancel (st_jobs st) =
    (Inr (job_touch now (zero_job\<lparr>jState := JobStateQueued, jQueuedAction := JobQueuedActionCancel, jVersion := jVersion r + 1\<rparr>)),
     set_rows (\<lambda>j. jJobID j = k) (job_touch now \<circ> (\<lambda>j. j\<lparr>jState := JobStateQueued, jQueuedAction := JobQueuedActionCancel, jVersion := jVersion r + 1\<rparr>)) (st_jobs st))"
    unfolding UpdateJobState_def by (rule reliable_gorm.updates_versioned_current_rows [OF db dist r(1)]) simp_all
  have conv: "V1Job (jobCodec env) (job_touch now (zero_job\<lparr>jState := JobStateQueued, jQueuedAction := JobQueuedActionCancel, jVersion := v\<rparr>)) =
      Inr (empty_v1_job\<lparr>Job_Status := JobQueuedActionCancel\<rparr>)" for v
    using proto_codec.unmarshal_nil [OF codec] by (simp add: V1Job_def zero_job_def)
  show ?thesis
    using rinv by (auto simp: CancelJob_def u k get V1Job_def [of _ r] m upd conv job_finished_def job_inv_def comp_def)
qed

theorem cancel_job_correct_witness:
  "fst (CancelJob demo 5 demo_ctx ''ftjob-xxx'' demo_state) = Inr (empty_v1_job\<lparr>Job_Status := JobQueuedActionCancel\<rparr>)"
proof -
  let ?r = "hd (st_jobs demo_state)"
  have r: "row_of jJobID (st_jobs demo_state) ''ftjob-xxx'' = Some ?r" "jProjectID ?r = ui_ProjectID demo_user" "\<not> (job_finished ?r \<or> jQueuedAction ?r = JobQueuedActionCancel)"
    by (simp_all add: demo_eval job_finished_def)
  have dec: "Unmarshal (jobCodec demo) (jMessage ?r) = Inr demo_job_proto" by code_simp
  have wf: "jobs_wf (st_jobs demo_state)" using demo_wf(2) by (simp add: server_wf_def)
  have u: "ExtractUserInfo demo_ctx = Some demo_user" by (simp add: demo_ctx_def)
  show ?thesis
    using cancel_job_correct [OF demo_reliable(1) demo_job_codec wf u _ r(1,2) dec] r(3) by simp
qed

section \<open>The ports and the HTTP gateway\<close>

text \<open>C6. The REST interface of the \<^verbatim>\<open>.proto\<close> files is served: an HTTP request with the method and the path of the rule of a message, from which the library decodes that message,
  is answered with what the server's method of that message returns at the user port, in the context that the interceptor gives for this method, or with the refusal of the
  interceptor. No other handler of the gateway can take the request, whatever the order in which the multiplexer tries them.\<close>

theorem rest_api_served:
  fixes net :: network and env :: server_env and w :: "'k fleet"
  assumes "mux Match (rt_Select rt)" and rule: "api_rule m = Some r"
    and "gq_Method req = hr_method r" and "gq_Path req = expand (hr_params r) (hr_template r)" and "[] \<notin> set (gq_Path req)"
    and "carries rt req m" and "rt_AnnotateContext rt req (hr_rpc r) (hr_template r) = Inr md"
  shows "ServeHTTP rt (run_mux rt (port lib net env (S_services lib env) i)) req w =
    outcome (rpc net env (\<lambda>now st. case call_context lib i md (hr_rpc r) of Inl e \<Rightarrow> (Inl e, st) | Inr ctx \<Rightarrow> S_method lib env now ctx m st) w)"
proof -
  have routed: "routed m req" using assms(3-5) by (simp add: routed_def rule)
  show ?thesis by (rule api_request_served [OF assms(1) routed assms(6), unfolded rule option.sel]) (rule assms(7))
qed

theorem rest_api_served_witness:
  "fst (demo_gateway demo_ctx demo_cancel demo_fleet) = ForwardResponse (R_Job (empty_v1_job\<lparr>Job_Status := JobQueuedActionCancel\<rparr>))"
proof -
  let ?rpc = "''/llmariner.fine_tuning.server.v1.FineTuningService/CancelJob''" and ?k = "''ftjob-xxx''" and ?i = "Some (demo_interceptor demo_ctx)"
  have rule: "api_rule (M_CancelJobRequest ?k) =
      Some \<lparr>hr_rpc = ?rpc, hr_method = ''POST'', hr_template = ''/v1/fine_tuning/jobs/{id}/cancel'', hr_params = [(''id'', ?k)]\<rparr>"
    by (simp add: api_rule_def)
  have "demo_gateway demo_ctx demo_cancel demo_fleet = outcome (rpc demo_net demo (\<lambda>now st. case call_context demo_lib ?i (gq_Header demo_cancel) ?rpc of
      Inl e \<Rightarrow> (Inl e, st) | Inr ctx \<Rightarrow> S_method demo_lib demo now ctx (M_CancelJobRequest ?k) st) demo_fleet)"
    by (rule rest_api_served [OF demo_mux rule, unfolded http_rule.simps]) (simp_all add: demo_cancel_def demo_runtime_def rule_paths)
  moreover obtain st where "CancelJob demo 5 demo_ctx ?k demo_state = (Inr (empty_v1_job\<lparr>Job_Status := JobQueuedActionCancel\<rparr>), st)"
    using demo_canceled by (cases "CancelJob demo 5 demo_ctx ?k demo_state") auto
  ultimately show ?thesis
    by (simp add: call_context_def demo_interceptor_def rpc_def demo_net_def demo_fleet_def Let_def replies_def outcome_def demo_cancel_def)
qed



text \<open>C8. Projects are separated: an HTTP request whose contexts all belong to the project \<open>p\<close> leaves every fine-tuning job, notebook and batch job of another project as it was when
  the call arrived, and makes no new one there.\<close>

theorem project_isolation:
  fixes net :: network and w :: "'k fleet"
  assumes "deployment env" and "server_wf env (fl_server w)" and "mux Match (rt_Select rt)"
    and "ServeHTTP rt (run_mux rt (port lib net env (S_services lib env) i)) req w = (res, w')"
    and "\<And>fm t md ctx. rt_AnnotateContext rt req fm t = Inr md \<Longrightarrow> admits lib i md fm ctx \<Longrightarrow> of_project p ctx" and "p \<noteq> q"
  shows "w' = w \<or> (let st = serves env (net_others net (fl_rpcs w)) (fl_server w)
    in job_view q (fl_server w') = job_view q st \<and> notebook_view q (fl_server w') = notebook_view q st \<and> batch_view q (fl_server w') = batch_view q st)"
proof -
  have "w' = w \<or> one_call net env (\<lambda>call. \<exists>ctx. of_project p ctx \<and> user_call_of ctx call) w w'"
    using gateway_one_call [OF assms(3,4)] assms(5) by (blast intro: one_call_mono)
  then show ?thesis using deployment.one_call_views [OF assms(1,2) _ assms(6)] by (auto simp: Let_def)
qed

theorem project_isolation_witness:
  "job_view ''proj'' (fl_server (snd (demo_gateway demo_stranger demo_cancel demo_fleet))) ''ftjob-xxx'' = Some demo_job_row"
proof -
  have ctx: "of_project ''other'' ctx" if "admits demo_lib (Some (demo_interceptor demo_stranger)) md fm ctx" for md fm ctx
    using that by (auto simp: admits_def call_context_def demo_interceptor_def demo_stranger_def of_project_def split: if_splits)
  have wf: "server_wf demo (fl_server demo_fleet)" by (simp add: demo_fleet_def demo_wf)
  have row: "job_view ''proj'' demo_state ''ftjob-xxx'' = Some demo_job_row" by (simp add: demo_states view_def row_of_def demo_job_row_def)
  let ?w = "snd (demo_gateway demo_stranger demo_cancel demo_fleet)" and ?st = "serves demo (net_others demo_net (fl_rpcs demo_fleet)) (fl_server demo_fleet)"
  have "?w = demo_fleet \<or> (let st = ?st in job_view ''proj'' (fl_server ?w) = job_view ''proj'' st \<and>
      notebook_view ''proj'' (fl_server ?w) = notebook_view ''proj'' st \<and> batch_view ''proj'' (fl_server ?w) = batch_view ''proj'' st)"
    by (rule project_isolation [OF demo_deployment wf demo_mux surjective_pairing, where p = "''other''"]) (rule ctx, assumption, simp)
  moreover have "?st = demo_state" "fl_server demo_fleet = demo_state" by (simp_all add: demo_net_def demo_fleet_def)
  ultimately show ?thesis using row by (auto simp: Let_def)
qed



text \<open>C10. The clients of the dispatcher and of the syncer, connected to the ports of the server and admitted under \<open>ctx\<close>, are the direct calls of the server's handlers that the models
  of a cluster and of a syncer are built on: every generated client method and handler agree on the name, the messages and the method of the server.\<close>

theorem clients_reach_handlers:
  fixes net :: network and env :: server_env
  assumes "\<And>fm. admits lib iw md fm ctx" and "\<And>fm. admits lib iy md' fm ctx'"
  shows "NewFineTuningWorkerServiceClient (port lib net env (WS_services lib env) iw) md = (fleet_ftClient net env ctx :: 'k fleet ftClient) \<and>
    NewWorkspaceWorkerServiceClient (port lib net env (WS_services lib env) iw) md = (fleet_wsClient net env ctx :: 'k fleet wsClient) \<and>
    NewBatchWorkerServiceClient (port lib net env (WS_services lib env) iw) md = (fleet_bwClient net env ctx :: 'k fleet bwClient) \<and>
    NewJobWorkerServiceClient (port lib net env (WS_services lib env) iw) md = (fleet_UpdateClusterStatus net env ctx :: ClusterStatus \<Rightarrow> ('k fleet, unit) io) \<and>
    NewSyncerServiceClient (port lib net env (SS_services lib env) iy) md' = (fleet_ssClient net env ctx' :: 'k fleet ssClient)"
  using worker_clients [OF assms(1), where net = net and env = env] syncer_client [OF assms(2), where net = net and env = env] by blast

theorem clients_reach_handlers_witness:
  "ft_ListQueuedInternalJobs (NewFineTuningWorkerServiceClient (port demo_lib demo_net demo (WS_services demo_lib demo) (Some (demo_interceptor demo_ctx)))
     [(''authorization'', ''Bearer apikey'')]) demo_fleet = ft_ListQueuedInternalJobs (fleet_ftClient demo_net demo demo_ctx) demo_fleet"
proof -
  have adm: "admits demo_lib (Some (demo_interceptor demo_ctx)) [(''authorization'', ''Bearer apikey'')] fm demo_ctx" for fm
    by (simp add: admits_def call_context_def demo_interceptor_def)
  from clients_reach_handlers [OF adm adm, where net = demo_net and env = demo and 'k = "kube_write list"] show ?thesis by simp
qed

text \<open>C11. Workers are confined to their tenant: whatever a worker of a cluster sends, the jobs, notebooks and batch jobs of every other
  tenant keep their rows.\<close>

theorem worker_tenant_isolation:
  assumes "deployment env" and "server_wf env st" and "extractClusterInfoFromContext (enableAuth env) ctx = Inr ci"
  shows "(row_of jJobID (st_jobs st) k = Some j \<and> jTenantID j \<noteq> ci_TenantID ci \<longrightarrow>
      row_of jJobID (st_jobs (snd (UpdateJobPhase env now ctx preq st))) k = Some j) \<and>
    (row_of nNotebookID (st_notebooks st) k = Some n \<and> nTenantID n \<noteq> ci_TenantID ci \<longrightarrow>
      row_of nNotebookID (st_notebooks (snd (UpdateNotebookState env now ctx nreq st))) k = Some n) \<and>
    (row_of bJobID (st_batch_jobs st) k = Some b \<and> bTenantID b \<noteq> ci_TenantID ci \<longrightarrow>
      row_of bJobID (st_batch_jobs (snd (UpdateBatchJobState env now ctx breq st))) k = Some b)"
proof -
  have d: "distinct (map jJobID (st_jobs st))" "distinct (map nNotebookID (st_notebooks st))" "distinct (map bJobID (st_batch_jobs st))"
    using assms(2) by (simp_all add: server_wf_def table_wf_def)
  show ?thesis
    using UpdateJobPhase_tenant [OF deployment.job_laws [OF assms(1)] d(1) assms(3) _ _ surjective_pairing]
      UpdateNotebookState_tenant [OF deployment.notebook_laws [OF assms(1)] d(2) assms(3) _ _ surjective_pairing]
      UpdateBatchJobState_tenant [OF deployment.batch_laws [OF assms(1)] d(3) assms(3) _ _ surjective_pairing] by blast
qed

theorem worker_tenant_isolation_witness:
  "row_of jJobID (st_jobs (snd (UpdateJobPhase demo 6
      (demo_ctx\<lparr>ExtractClusterInfo := Some \<lparr>ci_ClusterID = ''c1'', ci_ClusterName = [], ci_TenantID = ''evil''\<rparr>\<rparr>)
      \<lparr>UJP_Id = ''ftjob-xxx'', UJP_Phase = PHASE_FAILED, UJP_Message = [], UJP_ModelId = []\<rparr> demo_state))) ''ftjob-xxx'' =
    Some (hd (st_jobs demo_state))"
proof -
  let ?ci = "\<lparr>ci_ClusterID = ''c1'', ci_ClusterName = [], ci_TenantID = ''evil''\<rparr>"
  let ?ctx = "demo_ctx\<lparr>ExtractClusterInfo := Some ?ci\<rparr>"
  have "extractClusterInfoFromContext (enableAuth demo) ?ctx = Inr ?ci"
    by (simp add: extractClusterInfoFromContext_def demo_def demo_env_def)
  moreover have "row_of jJobID (st_jobs demo_state) ''ftjob-xxx'' = Some (hd (st_jobs demo_state))" by (simp add: demo_eval)
  moreover have "jTenantID (hd (st_jobs demo_state)) \<noteq> ci_TenantID ?ci" by (simp add: demo_eval)
  ultimately show ?thesis using worker_tenant_isolation [OF demo_deployment demo_wf(2)] by blast
qed

text \<open>C12. The work list of a cluster: on a well-formed table whose messages decode, \<^verbatim>\<open>ListQueuedInternalJobs\<close> never fails and returns each
  queued job of the tenant placed on the cluster once, and no other, with the queued state and a proper action.\<close>

theorem list_queued_jobs_correct:
  assumes db: "reliable_job_db (jobDB env)" and order: "is_order (\<lambda>x y :: Job. collation env (jJobID x) (jJobID y))"
    and wf: "jobs_wf (st_jobs st)" and ci: "extractClusterInfoFromContext (enableAuth env) ctx = Inr ci"
    and dec: "\<forall>j \<in> set (st_jobs st). \<exists>p. Unmarshal (jobCodec env) (jMessage j) = Inr p"
  shows "\<exists>rows ijobs. ListQueuedInternalJobs env now ctx st = Inr ijobs \<and>
    mset rows = mset (filter (\<lambda>j. jTenantID j = ci_TenantID ci \<and> jClusterID j = ci_ClusterID ci \<and> jState j = JobStateQueued) (st_jobs st)) \<and>
    list_all2 (\<lambda>j ij. V1InternalJob (jobCodec env) j = Inr ij \<and> IJ_State ij = InternalJob_QUEUED \<and>
      IJ_QueuedAction ij \<in> {InternalJob_CREATING, InternalJob_CANCELING}) rows ijobs"
proof -
  let ?sel = "\<lambda>j. jTenantID j = ci_TenantID ci \<and> jClusterID j = ci_ClusterID ci \<and> jState j = JobStateQueued"
  let ?q = "\<lparr>q_where = ?sel, q_order = (\<lambda>x y. collation env (jJobID x) (jJobID y)), q_limit = None\<rparr>"
  obtain rows where find: "gFind (jobDB env) now ?q (st_jobs st) = Inr rows" using reliable_gorm.find_reliable [OF db] by blast
  have "find_result ?q (st_jobs st) rows"
    using gorm.find_found [OF reliable_gorm.axioms(1) [OF db] find] order by simp
  from find_result_mset [OF this] have rows: "mset rows = mset (filter ?sel (st_jobs st))" by simp
  have conv: "\<exists>ij. V1InternalJob (jobCodec env) j = Inr ij \<and> IJ_State ij = InternalJob_QUEUED \<and>
      IJ_QueuedAction ij \<in> {InternalJob_CREATING, InternalJob_CANCELING}" if "j \<in> set rows" for j
  proof -
    have j: "j \<in> set (st_jobs st)" "jState j = JobStateQueued" using that mset_eq_setD [OF rows] by auto
    then have "job_inv j" using wf by (auto simp: table_wf_def list_all_iff)
    then show ?thesis using j dec by (auto simp: job_inv_def V1InternalJob_def V1Job_def)
  qed
  then obtain ijobs where col: "collect (V1InternalJob (jobCodec env)) rows = Inr ijobs"
    using collect_total [of rows "V1InternalJob (jobCodec env)"] by blast
  have "list_all2 (\<lambda>j ij. V1InternalJob (jobCodec env) j = Inr ij \<and> IJ_State ij = InternalJob_QUEUED \<and>
      IJ_QueuedAction ij \<in> {InternalJob_CREATING, InternalJob_CANCELING}) rows ijobs"
    using collect_ok [OF col] by (rule list.rel_mono_strong) (use conv in fastforce)
  moreover have "ListQueuedInternalJobs env now ctx st = Inr ijobs"
    by (simp add: ListQueuedInternalJobs_def ci ListQueuedJobsByTenantIDAndClusterID_def find col)
  ultimately show ?thesis using rows by blast
qed

theorem list_queued_jobs_correct_witness:
  "\<exists>ijobs. ListQueuedInternalJobs demo 6 demo_ctx demo_state = Inr ijobs \<and> length ijobs = 1"
proof -
  have order: "is_order (\<lambda>x y :: Job. collation demo (jJobID x) (jJobID y))" by (simp add: demo_def demo_env_def is_order_def)
  have wf: "jobs_wf (st_jobs demo_state)" using demo_wf(2) by (simp add: server_wf_def)
  have ci: "extractClusterInfoFromContext (enableAuth demo) demo_ctx = Inr \<lparr>ci_ClusterID = ''c1'', ci_ClusterName = ''one'', ci_TenantID = ''ten''\<rparr>"
    by (rule demo_ci)
  have "list_all (\<lambda>j. Unmarshal (jobCodec demo) (jMessage j) = Inr demo_job_proto) (st_jobs demo_state)" by code_simp
  then have dec: "\<forall>j \<in> set (st_jobs demo_state). \<exists>p. Unmarshal (jobCodec demo) (jMessage j) = Inr p" by (auto simp: list_all_iff)
  have len: "length (filter (\<lambda>j. jTenantID j = ''ten'' \<and> jClusterID j = ''c1'' \<and> jState j = JobStateQueued) (st_jobs demo_state)) = 1" by (simp add: demo_eval)
  from list_queued_jobs_correct [where now = 6, OF demo_reliable(1) order wf ci dec] obtain rows ijobs where
    run: "ListQueuedInternalJobs demo 6 demo_ctx demo_state = Inr ijobs"
    and rows: "mset rows = mset (filter (\<lambda>j. jTenantID j = ''ten'' \<and> jClusterID j = ''c1'' \<and> jState j = JobStateQueued) (st_jobs demo_state))"
    and "length rows = length ijobs" by (auto dest: list_all2_lengthD)
  then show ?thesis using len mset_eq_length [OF rows] by auto
qed

text \<open>C13. Paging through the jobs of a project. A client that starts at the newest job and follows the cursor while there is more gets, after
  finitely many pages of any positive size, every job of the project exactly once, newest first.\<close>

theorem jobs_page_walk:
  assumes "reliable_job_db G" and "ids_ok jID t" and "0 < limit" and "length (filter (\<lambda>j. jProjectID j = p) t) < fuel"
  shows "walk (\<lambda>a. ListJobsByProjectIDWithPagination G now p a (int limit) t) jID fuel 0 = Some (descending jID (\<lambda>j. jProjectID j = p) t)"
  by (rule pager.walk_all [OF jobs_pager [OF assms(1,3)] assms(2,4)])

theorem jobs_page_walk_witness:
  "map_option (map jID) (walk (\<lambda>a. ListJobsByProjectIDWithPagination sql_jobs 0 ''p'' a 2
     (map (\<lambda>i. zero_job\<lparr>jID := i, jProjectID := (if i = 4 then ''q'' else ''p'')\<rparr>) [2, 5, 1, 4, 3, 6])) jID 6 0) = Some [6, 5, 3, 2, 1]"
proof -
  let ?t = "map (\<lambda>i. zero_job\<lparr>jID := i, jProjectID := (if i = 4 then ''q'' else ''p'')\<rparr>) [2, 5, 1, 4, 3, 6]"
  have "ids_ok jID ?t" by (simp add: ids_ok_def zero_job_def)
  moreover have "length (filter (\<lambda>j. jProjectID j = ''p'') ?t) < 6" by (simp add: zero_job_def)
  ultimately have "walk (\<lambda>a. ListJobsByProjectIDWithPagination sql_jobs 0 ''p'' a (int 2) ?t) jID 6 0 = Some (descending jID (\<lambda>j. jProjectID j = ''p'') ?t)"
    by (intro jobs_page_walk [OF sql_job_db]) simp_all
  moreover have "map jID (descending jID (\<lambda>j. jProjectID j = ''p'') ?t) = [6, 5, 3, 2, 1]" by code_simp
  ultimately show ?thesis by simp
qed

text \<open>Paging through the active notebooks of a project returns each notebook that is not deleted exactly once, newest first.\<close>

theorem notebooks_page_walk:
  assumes "reliable_notebook_db G" and "ids_ok nID t" and "0 < limit"
    and "length (filter (\<lambda>n. nProjectID n = p \<and> nState n \<noteq> NotebookStateDeleted) t) < fuel"
  shows "walk (\<lambda>a. ListActiveNotebooksByProjectIDWithPagination G now p a (int limit) t) nID fuel 0 =
    Some (descending nID (\<lambda>n. nProjectID n = p \<and> nState n \<noteq> NotebookStateDeleted) t)"
  by (rule pager.walk_all [OF notebooks_pager [OF assms(1,3)] assms(2,4)])

theorem notebooks_page_walk_witness:
  "map_option (map nID) (walk (\<lambda>a. ListActiveNotebooksByProjectIDWithPagination sql_notebooks 0 ''p'' a 1
     (map (\<lambda>i. zero_notebook\<lparr>nID := i, nProjectID := ''p'', nState := (if i = 2 then ''deleted'' else ''running'')\<rparr>) [2, 1, 3])) nID 4 0) = Some [3, 1]"
proof -
  let ?t = "map (\<lambda>i. zero_notebook\<lparr>nID := i, nProjectID := ''p'', nState := (if i = 2 then ''deleted'' else ''running'')\<rparr>) [2, 1, 3]"
  let ?sel = "\<lambda>n. nProjectID n = ''p'' \<and> nState n \<noteq> NotebookStateDeleted"
  have "ids_ok nID ?t" by (simp add: ids_ok_def zero_notebook_def)
  moreover have "length (filter ?sel ?t) < 4" by (simp add: zero_notebook_def)
  ultimately have "walk (\<lambda>a. ListActiveNotebooksByProjectIDWithPagination sql_notebooks 0 ''p'' a (int 1) ?t) nID 4 0 = Some (descending nID ?sel ?t)"
    by (intro notebooks_page_walk [OF sql_notebook_db]) simp_all
  moreover have "map nID (descending nID ?sel ?t) = [3, 1]" by code_simp
  ultimately show ?thesis by simp
qed

section \<open>Scheduling and the cluster cache\<close>

text \<open>C14. A scheduled workload goes to a cluster of the user's tenant that reported within the last half hour, is not the excluded previous
  cluster, is assigned to the user, has the GPUs or can provision them, and has the most available GPUs of all such clusters; the namespace
  is the one assigned to the user there. This holds for every order in which Go ranges over the clusters.\<close>

theorem schedule_sound:
  assumes "map_range rng" and "cluster_db G" and "clusters_table_ok db" and "coherent C db cs"
    and "Schedule G C rng now u prev n db cs = (Inr r, cs')"
  shows "\<exists>cls c. cs' (ui_TenantID u) = Some cls \<and> map_of cls (sr_ClusterID r) = Some c \<and>
    stored_cluster C db (ui_TenantID u) (sr_ClusterID r) = Some (unassumed c) \<and>
    now - cc_UpdatedAt c \<le> staleThreshold \<and> sr_ClusterID r \<noteq> prev \<and> assigned u (sr_ClusterID r) = Some (sr_Namespace r) \<and>
    (n = 0 \<or> (if cc_GPUNodes c \<noteq> [] then n \<le> availableGPUs c else cc_ProvisionableResources c \<noteq> [])) \<and>
    (\<forall>c' \<in> snd ` set cls. eligible now u prev n c' \<longrightarrow> n = 0 \<or> availableGPUs c' \<le> availableGPUs c)"
proof -
  obtain cls c where c: "cs' (ui_TenantID u) = Some cls" "map_of cls (sr_ClusterID r) = Some c" "r = result_of u c" "eligible now u prev n c"
    and best: "\<forall>c' \<in> snd ` set cls. eligible now u prev n c' \<longrightarrow> rank n c' \<le> rank n c"
    using schedule_ok [OF assms] by blast
  have "coherent_at C db (ui_TenantID u) cls"
    using schedule_cache [OF assms(2-5)] c(1) by (simp add: coherent_def)
  then have "stored_cluster C db (ui_TenantID u) (sr_ClusterID r) = Some (unassumed c)"
    using c(2) by (metis coherent_at_def option.simps(9))
  then show ?thesis
    using c best by (intro exI [of _ cls] exI [of _ c]) (auto simp: eligible_def can_host_def result_of_def rank_def split: if_splits)
qed

theorem schedule_sound_witness:
  "let (res, cs') = Schedule sql_clusters (statusCodec demo) id 3 demo_user [] 2 (st_clusters demo_reported) (st_cache demo_reported)
   in res = Inr demo_sched \<and> assigned demo_user ''c1'' = Some ''ns1'' \<and> (\<exists>cls c. cs' ''ten'' = Some cls \<and> map_of cls ''c1'' = Some c)"
proof -
  let ?run = "Schedule sql_clusters (statusCodec demo) id 3 demo_user [] 2 (st_clusters demo_reported) (st_cache demo_reported)"
  have res: "fst ?run = Inr demo_sched" by code_simp
  then have run: "?run = (Inr demo_sched, snd ?run)" by (metis prod.collapse)
  have wf: "clusters_table_ok (st_clusters demo_reported)" "coherent (statusCodec demo) (st_clusters demo_reported) (st_cache demo_reported)"
    using demo_wf(1) by (simp_all add: server_wf_def)
  have "ui_TenantID demo_user = ''ten''" "sr_ClusterID demo_sched = ''c1''" "sr_Namespace demo_sched = ''ns1''" by (simp_all add: demo_eval)
  then show ?thesis
    using schedule_sound [OF go_range.map_range_axioms sql_cluster.gorm_axioms wf run] res by (auto simp: case_prod_unfold)
qed

text \<open>C15. Scheduling is complete: if the clusters of the tenant can be read and one of them is eligible, a workload is scheduled.\<close>

theorem schedule_finds:
  assumes "map_range rng" and "ListClustersByTenantID G C now (ui_TenantID u) db cs = (Inr cls, cs1)"
    and "c \<in> snd ` set cls" and "eligible now u prev n c"
  shows "\<exists>r. Schedule G C rng now u prev n db cs = (Inr r, cs1)"
  by (rule schedule_complete [OF assms])

theorem schedule_finds_witness:
  "\<exists>r. Schedule sql_clusters (statusCodec demo) rev 3 demo_user [] 4 (st_clusters demo_reported) (st_cache demo_reported) = (Inr r, st_cache demo_reported)"
proof -
  let ?cls = "the (st_cache demo_reported ''ten'')"
  have rng: "map_range rev" by unfold_locales simp
  have res: "fst (ListClustersByTenantID sql_clusters (statusCodec demo) 3 (ui_TenantID demo_user) (st_clusters demo_reported) (st_cache demo_reported)) = Inr ?cls"
    by code_simp
  have cached: "st_cache demo_reported (ui_TenantID demo_user) = Some ?cls" by (simp add: demo_eval demo_cached_def)
  have list: "ListClustersByTenantID sql_clusters (statusCodec demo) 3 (ui_TenantID demo_user) (st_clusters demo_reported) (st_cache demo_reported) =
      (Inr ?cls, st_cache demo_reported)"
    using res cached by (simp add: ListClustersByTenantID_def)
  have "?cls \<noteq> []" "eligible 3 demo_user [] 4 (snd (hd ?cls))" by code_simp+
  then show ?thesis using schedule_finds [OF rng list] by force
qed

text \<open>C16. No over-commitment by a sequence of placements: placing a workload (scheduling it and then assuming its pod under a fresh key) lowers
  the available GPUs of the chosen cluster by exactly the requested number, and a cluster with GPU nodes never goes below zero. The next
  scheduling call sees the lowered number.\<close>

theorem placement_reserves_gpus:
  assumes "map_range rng" and "cluster_db G" and "clusters_table_ok db" and "coherent C db cs"
    and "Schedule G C rng now u prev n db cs = (Inr r, cs1)"
    and "AddAssumedPod G C now (ui_TenantID u) (sr_ClusterID r) key n db cs1 = (Inr (), cs2)" and "n \<noteq> 0" and "is_int32 n"
  shows "\<exists>cls c c'. cs1 (ui_TenantID u) = Some cls \<and> map_of cls (sr_ClusterID r) = Some c \<and>
    cs2 (ui_TenantID u) = Some (map_put (sr_ClusterID r) c' cls) \<and> unassumed c' = unassumed c \<and>
    (key \<notin> set (keys (cc_AssumedGPUPodsByKey c)) \<longrightarrow> availableGPUs c' = availableGPUs c - n \<and> (cc_GPUNodes c \<noteq> [] \<longrightarrow> 0 \<le> availableGPUs c'))"
proof -
  obtain cls c where c: "cs1 (ui_TenantID u) = Some cls" "map_of cls (sr_ClusterID r) = Some c" "eligible now u prev n c"
    using schedule_ok [OF assms(1-5)] by blast
  have coh: "coherent C db cs1" by (rule schedule_cache [OF assms(2-5)])
  then have ok: "clusters_ok cls" using c(1) by (simp add: coherent_def coherent_at_def)
  note dist = clusters_okD(2) [OF ok c(2)]
  obtain cs1' cls' c1 where get: "getCluster G C now (ui_TenantID u) (sr_ClusterID r) db cs1 = (Inr (Some c1), cs1')"
    and "cs1' (ui_TenantID u) = Some cls'" "map_of cls' (sr_ClusterID r) = Some c1"
    and cs2: "cs2 = put_cluster (ui_TenantID u) (sr_ClusterID r) (assume_pod now key n c1) cs1'"
    by (rule AddAssumedPod_cases [OF assms(2,3) coh assms(7,6)])
  then have "c1 = c" "cs1' = cs1"
    using c getCluster_frame(3) [OF assms(2,3) coh get] by auto
  then have new: "cs2 (ui_TenantID u) = Some (map_put (sr_ClusterID r) (assume_pod now key n c) cls)"
    using cs2 c(1) by (simp add: put_cluster_def)
  have "availableGPUs (assume_pod now key n c) = availableGPUs c - n" if "key \<notin> set (keys (cc_AssumedGPUPodsByKey c))"
    using availableGPUs_assume [OF dist assms(8), of now key] that by (simp add: map_of_eq_None_iff [THEN iffD2])
  moreover have "cc_GPUNodes c \<noteq> [] \<Longrightarrow> n \<le> availableGPUs c" using c(3) assms(7) by (auto simp: eligible_def can_host_def)
  ultimately show ?thesis using c new by (intro exI [of _ cls] exI [of _ c] exI [of _ "assume_pod now key n c"]) auto
qed

theorem placement_reserves_gpus_witness:
  "let cs1 = snd (Schedule sql_clusters (statusCodec demo) id 3 demo_user [] 3 (st_clusters demo_reported) (st_cache demo_reported));
       cs2 = snd (AddAssumedPod sql_clusters (statusCodec demo) 3 ''ten'' ''c1'' ''ns1/job'' 3 (st_clusters demo_reported) cs1)
   in \<exists>cls c c'. cs1 ''ten'' = Some cls \<and> map_of cls ''c1'' = Some c \<and> cs2 ''ten'' = Some (map_put ''c1'' c' cls) \<and> unassumed c' = unassumed c"
proof -
  let ?db = "st_clusters demo_reported"
  let ?run = "Schedule sql_clusters (statusCodec demo) id 3 demo_user [] 3 ?db (st_cache demo_reported)"
  let ?add = "AddAssumedPod sql_clusters (statusCodec demo) 3 (ui_TenantID demo_user) (sr_ClusterID demo_sched) ''ns1/job'' 3 ?db (snd ?run)"
  have run: "?run = (Inr demo_sched, snd ?run)" by (rule prod_eqI) (code_simp, simp)
  have add: "?add = (Inr (), snd ?add)" by (rule prod_eqI) (code_simp, simp)
  have wf: "clusters_table_ok ?db" "coherent (statusCodec demo) ?db (st_cache demo_reported)"
    using demo_wf(1) by (simp_all add: server_wf_def)
  have sel: "ui_TenantID demo_user = ''ten''" "sr_ClusterID demo_sched = ''c1''" by (simp_all add: demo_eval)
  have "is_int32 3" by (simp add: is_int32_def)
  from placement_reserves_gpus [OF go_range.map_range_axioms sql_cluster.gorm_axioms wf run add _ this]
  show ?thesis unfolding Let_def sel by fastforce
qed

text \<open>C17. A status report replaces what is known of the cluster, and of its assumed pods keeps exactly those that were added less than a minute
  ago and whose key is not a prefix of a reported pod.\<close>

theorem report_keeps_recent_assumed_pods:
  assumes "cs (cTenantID r) = Some cls" and "clusters_ok cls" and "map_of cls (cClusterID r) = Some old"
    and "convertToCacheCluster C r = Inr cl" and "AddOrUpdateCluster G C now r db cs = (res, cs')"
  shows "res = Inr () \<and> cs' = cs(cTenantID r \<mapsto> map_put (cClusterID r) (cl\<lparr>cc_AssumedGPUPodsByKey :=
    filter (\<lambda>(key, pod). now - ap_AddedAt pod < 60 * 1000000000 \<and> \<not> (\<exists>p \<in> set (cc_GPUPods cl). prefix key (GpuPod_NamespacedName p)))
      (cc_AssumedGPUPodsByKey old)\<rparr>) cls)"
proof -
  note sel = convertToCacheCluster_sel [OF assms(4)] and dist = clusters_okD(2) [OF assms(2,3)]
  have "keep_assumed now (cc_AssumedGPUPodsByKey old) cl = cl\<lparr>cc_AssumedGPUPodsByKey :=
      filter (\<lambda>(key, pod). now - ap_AddedAt pod < 60 * 1000000000 \<and> \<not> (\<exists>p \<in> set (cc_GPUPods cl). prefix key (GpuPod_NamespacedName p)))
      (cc_AssumedGPUPodsByKey old)\<rparr>"
    using keep_assumed_result [of cl "cc_AssumedGPUPodsByKey old" now] sel dist
    by (simp add: nnHasPrefix_iff HasPrefix_iff_prefix assumedPodExpiration_def)
  then show ?thesis
    using assms(5) sel by (auto simp: AddOrUpdateCluster_def assms(1,3,4) getCluster_def Cluster_Clone_id [OF dist] put_cluster_def)
qed

theorem report_keeps_recent_assumed_pods_witness:
  "let pod = \<lambda>t. \<lparr>ap_AllocatedCount = 1, ap_AddedAt = t\<rparr>; m = 60 * 1000000000;
       cl = \<lparr>cc_ClusterID = ''c'', cc_ClusterName = [], cc_UpdatedAt = 0, cc_GPUNodes = [], cc_ProvisionableResources = [],
         cc_GPUPods = [\<lparr>GpuPod_ResourceName = [], GpuPod_AllocatedCount = 1, GpuPod_NamespacedName = ''ns/a-0''\<rparr>], cc_AssumedGPUPodsByKey = []\<rparr>;
       C = dict_codec empty_ClusterStatus [\<lparr>CS_GpuNodes = [], CS_ProvisionableResources = [], CS_GpuPods = cc_GPUPods cl\<rparr>];
       row = \<lparr>cID = 1, cCreatedAt = 0, cUpdatedAt = 0, cClusterID = ''c'', cName = [], cTenantID = ''t'', cStatus = ''m''\<rparr>;
       old = cl\<lparr>cc_GPUPods := [], cc_AssumedGPUPodsByKey := [(''ns/a'', pod (2 * m)), (''ns/b'', pod (2 * m)), (''ns/c'', pod m)]\<rparr>
   in snd (AddOrUpdateCluster sql_clusters C (2 * m) row [] [''t'' \<mapsto> [(''c'', old)]]) ''t'' =
      Some [(''c'', cl\<lparr>cc_AssumedGPUPodsByKey := [(''ns/b'', pod (2 * m))]\<rparr>)]"
proof -
  define m :: int where "m = 60 * 1000000000"
  define pod where "pod = (\<lambda>t. \<lparr>ap_AllocatedCount = 1, ap_AddedAt = t\<rparr>)"
  define cl where "cl = \<lparr>cc_ClusterID = ''c'', cc_ClusterName = [], cc_UpdatedAt = 0, cc_GPUNodes = [], cc_ProvisionableResources = [],
    cc_GPUPods = [\<lparr>GpuPod_ResourceName = [], GpuPod_AllocatedCount = 1, GpuPod_NamespacedName = ''ns/a-0''\<rparr>], cc_AssumedGPUPodsByKey = []\<rparr>"
  define C where "C = dict_codec empty_ClusterStatus [\<lparr>CS_GpuNodes = [], CS_ProvisionableResources = [], CS_GpuPods = cc_GPUPods cl\<rparr>]"
  define row where "row = \<lparr>cID = 1, cCreatedAt = 0, cUpdatedAt = 0, cClusterID = ''c'', cName = [], cTenantID = ''t'', cStatus = ''m''\<rparr>"
  define old where "old = cl\<lparr>cc_GPUPods := [], cc_AssumedGPUPodsByKey := [(''ns/a'', pod (2 * m)), (''ns/b'', pod (2 * m)), (''ns/c'', pod m)]\<rparr>"
  have ok: "clusters_ok [(''c'', old)]" by (simp add: clusters_ok_def old_def cl_def)
  have conv: "convertToCacheCluster C row = Inr cl" by (simp add: convertToCacheCluster_def C_def row_def dict_codec_def cl_def)
  have t: "[''t'' \<mapsto> [(''c'', old)]] (cTenantID row) = Some [(''c'', old)]" "map_of [(''c'', old)] (cClusterID row) = Some old" by (simp_all add: row_def)
  have "snd (AddOrUpdateCluster sql_clusters C (2 * m) row [] [''t'' \<mapsto> [(''c'', old)]]) ''t'' =
      Some [(''c'', cl\<lparr>cc_AssumedGPUPodsByKey := [(''ns/b'', pod (2 * m))]\<rparr>)]"
    using report_keeps_recent_assumed_pods [where cs = "[''t'' \<mapsto> [(''c'', old)]]" and r = row and G = sql_clusters and C = C and now = "2 * m" and db = "[]", OF t(1) ok t(2) conv surjective_pairing]
    by (simp add: row_def old_def cl_def pod_def m_def)
  then show ?thesis by (simp add: Let_def m_def pod_def cl_def C_def row_def old_def)
qed



text \<open>C19. Read your write: the job \<^verbatim>\<open>CreateJob\<close> returned is the one a later \<^verbatim>\<open>GetJob\<close> of the same user reads, with the status \<^verbatim>\<open>creating\<close>, and
  a user of another project is told that it does not exist.\<close>

theorem created_job_readable:
  assumes db: "reliable_job_db (jobDB env)" and codec: "proto_codec (jobCodec env) empty_v1_job" and wf: "jobs_wf (st_jobs st)"
    and run: "CreateJob env now ctx req st = (Inr p, st')" and id: "Job_Id p \<noteq> []"
    and u: "ExtractUserInfo ctx = Some u" and u': "ExtractUserInfo ctx' = Some u'"
  shows "if ui_ProjectID u' = ui_ProjectID u then GetJob env now' ctx' (Job_Id p) st' = Inr (p\<lparr>Job_Status := JobQueuedActionCreate\<rparr>)
    else \<exists>msg. GetJob env now' ctx' (Job_Id p) st' = Inl (Status NotFound msg)"
proof -
  note laws = reliable_gorm.axioms(1) [OF db]
  obtain u2 jobID res n s st1 st2 msg r where "ExtractUserInfo ctx = Some u2" and "validate_CreateJob env req = Inr ()"
    and "GenerateIDForK8SResource env now ''ftjob-'' = Inr jobID" "request_resources req = Inr res" and "job_gpu_count res = Inr n"
    and sched: "env_Schedule env now u2 [] n st = (Inr s, st1)"
      "env_AddAssumedPod env now (ui_TenantID u2) (sr_ClusterID s) (sr_Namespace s @ ''/'' @ jobID) n st1 = (Inr (), st2)"
    and p: "p = new_job_proto now u2 req jobID n s" and msg: "Marshal (jobCodec env) p = Inr msg"
    and cr: "store_CreateJob (jobDB env) now (new_job u2 req jobID s msg) (st_jobs st2) = (Inr r, st_jobs st')"
    and "st' = st2\<lparr>st_jobs := st_jobs st'\<rparr>"
    by (rule CreateJob_cases [OF run])
  then have u2: "u2 = u" using u by simp
  have st2: "st_jobs st2 = st_jobs st" using env_tables(1) [OF sched(1)] env_tables(2) [OF sched(2)] by simp
  obtain i where t: "st_jobs st' = st_jobs st @ [r]" "r = job_stamp i now (new_job u req jobID s msg)" "jobID \<notin> jJobID ` set (st_jobs st)"
    using gorm.create_ok [OF laws cr [unfolded store_CreateJob_def]] st2 u2 by (auto simp: new_job_def)
  have r: "jJobID r = jobID" "jProjectID r = ui_ProjectID u" "jMessage r = msg" "jState r = JobStateQueued" "jQueuedAction r = JobQueuedActionCreate"
    by (simp_all add: t(2) new_job_def)
  have pid: "Job_Id p = jobID" by (simp add: p new_job_proto_def)
  have dist: "distinct (map jJobID (st_jobs st'))" using jobs_wf_distinct [OF wf] t(1,3) r(1) by simp
  have row: "row_of jJobID (st_jobs st') jobID = Some r" using t(1,3) r(1) by (simp add: row_of_append)
  have conv: "V1Job (jobCodec env) r = Inr (p\<lparr>Job_Status := JobQueuedActionCreate\<rparr>)"
    using proto_codec.unmarshal_marshal [OF codec msg] by (simp add: V1Job_def r)
  show ?thesis
  proof (cases "ui_ProjectID u' = ui_ProjectID u")
    case True
    have "GetJobByJobIDAndProjectID (jobDB env) now' jobID (ui_ProjectID u') (st_jobs st') = Inr r"
      unfolding GetJobByJobIDAndProjectID_def by (rule reliable_gorm.take_key [OF db dist row]) (use r True in simp_all)
    then show ?thesis using True u' id pid conv by (simp add: GetJob_def)
  next
    case False
    have "x = r" if "x \<in> set (st_jobs st')" "jJobID x = jobID" for x using row_of_distinct [OF dist that(1)] that(2) row by simp
    then have "\<forall>x \<in> set (st_jobs st'). \<not> (jJobID x = jobID \<and> jProjectID x = ui_ProjectID u')" using r(2) False by metis
    from reliable_gorm.take_missing [OF db this]
    obtain e where "GetJobByJobIDAndProjectID (jobDB env) now' jobID (ui_ProjectID u') (st_jobs st') = Inl e" "errors_Is e ErrRecordNotFound"
      unfolding GetJobByJobIDAndProjectID_def by blast
    then show ?thesis using False u' id pid by (simp add: GetJob_def get_error_def)
  qed
qed

theorem created_job_readable_witness:
  "GetJob demo 9 demo_ctx ''ftjob-xxx'' (snd (CreateJob demo 3 demo_ctx demo_job_request demo_reported)) =
   Inr (demo_job_proto\<lparr>Job_Status := JobQueuedActionCreate\<rparr>)"
proof -
  have run: "CreateJob demo 3 demo_ctx demo_job_request demo_reported = (Inr demo_job_proto, snd (CreateJob demo 3 demo_ctx demo_job_request demo_reported))"
    by (rule demo_created)
  have wf: "jobs_wf (st_jobs demo_reported)" using demo_wf(1) by (simp add: server_wf_def)
  have u: "ExtractUserInfo demo_ctx = Some demo_user" by (simp add: demo_ctx_def)
  have id: "Job_Id demo_job_proto = ''ftjob-xxx''" by code_simp
  show ?thesis
    using created_job_readable [where now' = 9, OF demo_reliable(1) demo_job_codec wf run _ u u] unfolding id by simp
qed

text \<open>C20. A failed creation leaves no row behind, whatever step of it failed.\<close>

theorem failed_creation_adds_nothing:
  assumes "deployment env"
  shows "(CreateJob env now ctx jreq st = (Inl e, st') \<longrightarrow> st_jobs st' = st_jobs st) \<and>
    (CreateNotebook env now ctx nreq st = (Inl e, st') \<longrightarrow> st_notebooks st' = st_notebooks st) \<and>
    (CreateBatchJob env now ctx breq st = (Inl e, st') \<longrightarrow> st_batch_jobs st' = st_batch_jobs st)"
  using CreateJob_error [OF deployment.job_laws [OF assms]] CreateNotebook_error [OF deployment.notebook_laws [OF assms]]
    CreateBatchJob_error [OF deployment.batch_laws [OF assms]] by blast

theorem failed_creation_adds_nothing_witness:
  "st_jobs (snd (CreateJob demo 3 demo_ctx (demo_job_request\<lparr>CJR_Resources := Some 9\<rparr>) demo_state)) = st_jobs demo_state"
proof -
  let ?run = "CreateJob demo 3 demo_ctx (demo_job_request\<lparr>CJR_Resources := Some 9\<rparr>) demo_state"
  have "isl (fst ?run)" by code_simp
  then obtain e where "?run = (Inl e, snd ?run)" by (metis isl_def prod.collapse)
  then show ?thesis using failed_creation_adds_nothing [OF demo_deployment] by blast
qed

text \<open>A finished job: when the worker of its tenant reports a running job as fine-tuned, the row becomes \<^verbatim>\<open>succeeded\<close> with no action, and
  the job a user then reads has that status, the reported model and the time of the report, and is otherwise the job that was stored.\<close>

theorem finetuned_job_readable:
  assumes db: "reliable_job_db (jobDB env)" and codec: "proto_codec (jobCodec env) empty_v1_job" and wf: "jobs_wf (st_jobs st)"
    and ci: "extractClusterInfoFromContext (enableAuth env) ctx = Inr ci" and r: "row_of jJobID (st_jobs st) k = Some r" "jTenantID r = ci_TenantID ci"
    and running: "jState r = JobStateRunning" and k: "k \<noteq> []" "m \<noteq> []" and old: "Unmarshal (jobCodec env) (jMessage r) = Inr p"
    and new: "Marshal (jobCodec env) (p\<lparr>Job_Status := JobStateRunning, Job_FinishedAt := Unix now, Job_FineTunedModel := m\<rparr>) = Inr msg"
    and u: "ExtractUserInfo ctx' = Some u" "ui_ProjectID u = jProjectID r"
  shows "\<exists>st'. UpdateJobPhase env now ctx \<lparr>UJP_Id = k, UJP_Phase = PHASE_FINETUNED, UJP_Message = x, UJP_ModelId = m\<rparr> st = (Inr (), st') \<and>
    row_of jJobID (st_jobs st') = (row_of jJobID (st_jobs st))
      (k \<mapsto> job_touch now (r\<lparr>jState := JobStateSucceeded, jQueuedAction := [], jMessage := msg, jVersion := jVersion r + 1\<rparr>)) \<and>
    GetJob env now' ctx' k st' = Inr (p\<lparr>Job_Status := JobStateSucceeded, Job_FinishedAt := Unix now, Job_FineTunedModel := m\<rparr>)"
proof -
  note dist = jobs_wf_distinct [OF wf]
  let ?f = "\<lambda>j. j\<lparr>jState := JobStateSucceeded, jQueuedAction := [], jMessage := msg, jVersion := jVersion r + 1\<rparr>"
  let ?t = "set_rows (\<lambda>j. jJobID j = k) (job_touch now \<circ> ?f) (st_jobs st)"
  let ?r = "job_touch now (?f r)"
  have get: "GetJobByJobID (jobDB env) now k (st_jobs st) = Inr r"
    unfolding GetJobByJobID_def by (rule reliable_gorm.take_key [OF db dist r(1)]) (use row_of_Some [OF r(1)] in auto)
  have mut: "Job_MutateMessage (jobCodec env) (\<lambda>j. j\<lparr>Job_FinishedAt := Unix now, Job_FineTunedModel := m\<rparr>) r = Inr (r\<lparr>jMessage := msg\<rparr>)"
    using new by (simp add: Job_MutateMessage_def V1Job_def old running)
  have upd: "UpdateJobStateAndMessage (jobDB env) now k (jVersion r) JobStateSucceeded msg (st_jobs st) = (Inr (job_touch now (?f zero_job)), ?t)"
    unfolding UpdateJobStateAndMessage_def by (rule reliable_gorm.updates_versioned_current_rows [OF db dist r(1)]) simp_all
  have run: "UpdateJobPhase env now ctx \<lparr>UJP_Id = k, UJP_Phase = PHASE_FINETUNED, UJP_Message = x, UJP_ModelId = m\<rparr> st = (Inr (), st\<lparr>st_jobs := ?t\<rparr>)"
    by (simp add: UpdateJobPhase_def ci k get r(2) apply_phase_def running finish_job_def mut upd)
  have rows: "row_of jJobID ?t = (row_of jJobID (st_jobs st))(k \<mapsto> ?r)" using r(1) by (simp add: row_of_set_rows)
  have dist': "distinct (map jJobID ?t)" using dist by (simp add: map_set_rows)
  have get': "GetJobByJobIDAndProjectID (jobDB env) now' k (ui_ProjectID u) ?t = Inr ?r"
    unfolding GetJobByJobIDAndProjectID_def
    by (rule reliable_gorm.take_key [OF db dist', of k]) (use rows u(2) row_of_Some [OF r(1)] in auto)
  have "V1Job (jobCodec env) ?r = Inr (p\<lparr>Job_Status := JobStateSucceeded, Job_FinishedAt := Unix now, Job_FineTunedModel := m\<rparr>)"
    using proto_codec.unmarshal_marshal [OF codec new] by (simp add: V1Job_def)
  then show ?thesis using run rows get' u k(1) by (auto simp: GetJob_def)
qed

theorem finetuned_job_readable_witness:
  "let st = snd (UpdateJobPhase demo 5 demo_ctx \<lparr>UJP_Id = ''ftjob-xxx'', UJP_Phase = PHASE_JOB_CREATED, UJP_Message = [], UJP_ModelId = []\<rparr> demo_state);
       st' = snd (UpdateJobPhase demo 6 demo_ctx \<lparr>UJP_Id = ''ftjob-xxx'', UJP_Phase = PHASE_FINETUNED, UJP_Message = [], UJP_ModelId = ''m''\<rparr> st)
   in GetJob demo 7 demo_ctx ''ftjob-xxx'' st' = Inr (demo_job_proto\<lparr>Job_Status := JobStateSucceeded, Job_FinishedAt := 0, Job_FineTunedModel := ''m''\<rparr>)"
proof -
  let ?st = "serve demo 5 (Call_UpdateJobPhase demo_ctx \<lparr>UJP_Id = ''ftjob-xxx'', UJP_Phase = PHASE_JOB_CREATED, UJP_Message = [], UJP_ModelId = []\<rparr>) demo_state"
  let ?r = "hd (st_jobs ?st)"
  have wf: "jobs_wf (st_jobs ?st)" using deployment.serve_wf [OF demo_deployment demo_wf(2)] unfolding server_wf_def by blast
  have ci: "extractClusterInfoFromContext (enableAuth demo) demo_ctx = Inr \<lparr>ci_ClusterID = ''c1'', ci_ClusterName = ''one'', ci_TenantID = ''ten''\<rparr>" by (rule demo_ci)
  have eval: "row_of jJobID (st_jobs ?st) ''ftjob-xxx'' = Some ?r \<and> jTenantID ?r = ci_TenantID \<lparr>ci_ClusterID = ''c1'', ci_ClusterName = ''one'', ci_TenantID = ''ten''\<rparr> \<and>
    jState ?r = JobStateRunning \<and> Unmarshal (jobCodec demo) (jMessage ?r) = Inr demo_job_proto \<and> ui_ProjectID demo_user = jProjectID ?r"
    by code_simp
  note r = eval [THEN conjunct1] eval [THEN conjunct2, THEN conjunct1] eval [THEN conjunct2, THEN conjunct2, THEN conjunct1]
    eval [THEN conjunct2, THEN conjunct2, THEN conjunct2, THEN conjunct1] eval [THEN conjunct2, THEN conjunct2, THEN conjunct2, THEN conjunct2]
  have "\<exists>msg. Marshal (jobCodec demo) (demo_job_proto\<lparr>Job_Status := JobStateRunning, Job_FinishedAt := Unix 6, Job_FineTunedModel := ''m''\<rparr>) = Inr msg"
    by (rule exI) code_simp
  then obtain msg where msg: "Marshal (jobCodec demo) (demo_job_proto\<lparr>Job_Status := JobStateRunning, Job_FinishedAt := Unix 6, Job_FineTunedModel := ''m''\<rparr>) = Inr msg" ..
  have u: "ExtractUserInfo demo_ctx = Some demo_user" by (simp add: demo_ctx_def)
  have "Unix 6 = 0" by (simp add: Unix_def)
  with finetuned_job_readable [where now' = 7 and x = "[]", OF demo_reliable(1) demo_job_codec wf ci r(1,2,3) _ _ r(4) msg u r(5)]
  show ?thesis by auto
qed

text \<open>The guards of the phases: a phase that needs a queued job (preprocessed, created) or a running job (fine-tuned, recreate) is
  refused for a job in any other state, an unspecified phase and an unknown one are refused for every job, and then nothing is written.\<close>

theorem phase_guards:
  assumes db: "reliable_job_db (jobDB env)" and wf: "jobs_wf (st_jobs st)"
    and ci: "extractClusterInfoFromContext (enableAuth env) ctx = Inr ci" and k: "UJP_Id req \<noteq> []"
    and r: "row_of jJobID (st_jobs st) (UJP_Id req) = Some r" "jTenantID r = ci_TenantID ci"
    and bad: "UJP_Phase req \<in> {PHASE_PREPROCESSED, PHASE_JOB_CREATED} \<and> jState r \<noteq> JobStateQueued \<or>
      UJP_Phase req \<in> {PHASE_FINETUNED, PHASE_RECREATE} \<and> jState r \<noteq> JobStateRunning \<or>
      UJP_Phase req \<notin> {PHASE_PREPROCESSED, PHASE_JOB_CREATED, PHASE_FINETUNED, PHASE_FAILED, PHASE_RECREATE, PHASE_CANCELED}"
  shows "\<exists>c msg. UpdateJobPhase env now ctx req st = (Inl (Status c msg), st) \<and>
    c = (if UJP_Phase req = PHASE_UNSPECIFIED then InvalidArgument
         else if UJP_Phase req \<in> {PHASE_PREPROCESSED, PHASE_JOB_CREATED, PHASE_FINETUNED, PHASE_RECREATE} then FailedPrecondition else Internal)"
proof -
  have "GetJobByJobID (jobDB env) now (UJP_Id req) (st_jobs st) = Inr r"
    unfolding GetJobByJobID_def by (rule reliable_gorm.take_key [OF db jobs_wf_distinct [OF wf] r(1)]) (use row_of_Some [OF r(1)] in auto)
  then show ?thesis using bad by (auto simp: UpdateJobPhase_def ci k r(2) apply_phase_def)
qed

theorem phase_guards_witness:
  "\<exists>msg. UpdateJobPhase demo 6 demo_ctx \<lparr>UJP_Id = ''ftjob-xxx'', UJP_Phase = PHASE_FINETUNED, UJP_Message = [], UJP_ModelId = ''m''\<rparr> demo_state =
    (Inl (Status FailedPrecondition msg), demo_state)"
proof -
  have wf: "jobs_wf (st_jobs demo_state)" using demo_wf(2) by (simp add: server_wf_def)
  have ci: "extractClusterInfoFromContext (enableAuth demo) demo_ctx = Inr \<lparr>ci_ClusterID = ''c1'', ci_ClusterName = ''one'', ci_TenantID = ''ten''\<rparr>" by (rule demo_ci)
  have r: "row_of jJobID (st_jobs demo_state) ''ftjob-xxx'' = Some (hd (st_jobs demo_state))" "jTenantID (hd (st_jobs demo_state)) = ''ten''"
    "jState (hd (st_jobs demo_state)) \<noteq> JobStateRunning" by (simp_all add: demo_eval)
  show ?thesis
    using phase_guards [where req = "\<lparr>UJP_Id = ''ftjob-xxx'', UJP_Phase = PHASE_FINETUNED, UJP_Message = [], UJP_ModelId = ''m''\<rparr>" and now = 6,
        OF demo_reliable(1) wf ci _ _ _] r by simp
qed

text \<open>C21. A cancel request can be lost: \<^verbatim>\<open>JOB_CREATED\<close> checks that the job is queued but not for which action, so a report that arrives
  after \<^verbatim>\<open>CancelJob\<close> turns the job that is to be canceled into a running job with no action left.\<close>

theorem job_created_drops_cancel:
  assumes db: "reliable_job_db (jobDB env)" and wf: "jobs_wf (st_jobs st)"
    and ci: "extractClusterInfoFromContext (enableAuth env) ctx = Inr ci" and k: "k \<noteq> []"
    and r: "row_of jJobID (st_jobs st) k = Some r" "jTenantID r = ci_TenantID ci" "jState r = JobStateQueued" "jQueuedAction r = JobQueuedActionCancel"
  shows "\<exists>st'. UpdateJobPhase env now ctx \<lparr>UJP_Id = k, UJP_Phase = PHASE_JOB_CREATED, UJP_Message = x, UJP_ModelId = m\<rparr> st = (Inr (), st') \<and>
    row_of jJobID (st_jobs st') = (row_of jJobID (st_jobs st))
      (k \<mapsto> job_touch now (r\<lparr>jState := JobStateRunning, jQueuedAction := [], jVersion := jVersion r + 1\<rparr>))"
proof -
  note dist = jobs_wf_distinct [OF wf]
  let ?f = "\<lambda>j. j\<lparr>jState := JobStateRunning, jQueuedAction := [], jVersion := jVersion r + 1\<rparr>"
  have get: "GetJobByJobID (jobDB env) now k (st_jobs st) = Inr r"
    unfolding GetJobByJobID_def by (rule reliable_gorm.take_key [OF db dist r(1)]) (use row_of_Some [OF r(1)] in auto)
  have "UpdateJobState (jobDB env) now k (jVersion r) JobStateRunning [] (st_jobs st) =
      (Inr (job_touch now (?f zero_job)), set_rows (\<lambda>j. jJobID j = k) (job_touch now \<circ> ?f) (st_jobs st))"
    unfolding UpdateJobState_def by (rule reliable_gorm.updates_versioned_current_rows [OF db dist r(1)]) simp_all
  then show ?thesis using r(1) by (simp add: UpdateJobPhase_def ci k get r(2-3) apply_phase_def row_of_set_rows)
qed

theorem job_created_drops_cancel_witness:
  "let st = snd (CancelJob demo 5 demo_ctx ''ftjob-xxx'' demo_state);
       st' = snd (UpdateJobPhase demo 6 demo_ctx \<lparr>UJP_Id = ''ftjob-xxx'', UJP_Phase = PHASE_JOB_CREATED, UJP_Message = [], UJP_ModelId = []\<rparr> st)
   in map_option jState (row_of jJobID (st_jobs st') ''ftjob-xxx'') = Some JobStateRunning"
proof -
  let ?st = "serve demo 5 (Call_CancelJob demo_ctx ''ftjob-xxx'') demo_state"
  let ?r = "hd (st_jobs ?st)"
  have wf: "jobs_wf (st_jobs ?st)" using deployment.serve_wf [OF demo_deployment demo_wf(2)] unfolding server_wf_def by blast
  have ci: "extractClusterInfoFromContext (enableAuth demo) demo_ctx = Inr \<lparr>ci_ClusterID = ''c1'', ci_ClusterName = ''one'', ci_TenantID = ''ten''\<rparr>" by (rule demo_ci)
  have eval: "row_of jJobID (st_jobs ?st) ''ftjob-xxx'' = Some ?r \<and> jTenantID ?r = ci_TenantID \<lparr>ci_ClusterID = ''c1'', ci_ClusterName = ''one'', ci_TenantID = ''ten''\<rparr> \<and>
    jState ?r = JobStateQueued \<and> jQueuedAction ?r = JobQueuedActionCancel" by code_simp
  note r = eval [THEN conjunct1] eval [THEN conjunct2, THEN conjunct1] eval [THEN conjunct2, THEN conjunct2, THEN conjunct1]
    eval [THEN conjunct2, THEN conjunct2, THEN conjunct2]
  from job_created_drops_cancel [where now = 6 and x = "[]" and m = "[]", OF demo_reliable(1) wf ci _ r]
  show ?thesis by auto
qed

section \<open>Notebooks\<close>



text \<open>Names of active notebooks: a request whose name an active notebook of the project has is refused with \<^verbatim>\<open>AlreadyExists\<close>, and nothing
  is scheduled or written.\<close>

theorem duplicate_notebook_refused:
  assumes db: "reliable_notebook_db (notebookDB env)" and u: "ExtractUserInfo ctx = Some u"
    and ok: "CNR_Name req \<noteq> []" "\<forall>p \<in> set (CNR_AdditionalExposedPorts req). 1 \<le> p \<and> p \<le> 65535" "notebook_image env (CNR_Image req) = Inr img"
    and n: "n \<in> set (st_notebooks st)" "nName n = CNR_Name req" "nProjectID n = ui_ProjectID u" "nState n \<noteq> NotebookStateDeleted"
  shows "CreateNotebook env now ctx req st = (Inl (Status AlreadyExists (''notebook '' @ Quote (CNR_Name req) @ '' already exists'')), st)"
proof -
  have ports: "check_ports 0 (CNR_AdditionalExposedPorts req) = Inr ()" using ok(2) by (simp add: check_ports_ok)
  have "\<exists>x \<in> set (st_notebooks st). nName x = CNR_Name req \<and> nProjectID x = ui_ProjectID u \<and> nState x \<noteq> NotebookStateDeleted" using n by blast
  from reliable_gorm.take_present [OF db this]
  obtain x where "GetActiveNotebookByNameAndProjectID (notebookDB env) now (CNR_Name req) (ui_ProjectID u) (st_notebooks st) = Inr x"
    unfolding GetActiveNotebookByNameAndProjectID_def by blast
  then show ?thesis by (simp add: CreateNotebook_def u validate_CreateNotebook_def ok(1,3) ports)
qed

theorem duplicate_notebook_refused_witness:
  "\<exists>msg. CreateNotebook demo 7 demo_ctx demo_notebook_request demo_state = (Inl (Status AlreadyExists msg), demo_state)"
proof -
  let ?n = "hd (st_notebooks demo_state)"
  have "st_notebooks demo_state \<noteq> []" by (simp add: demo_eval)
  then have mem: "?n \<in> set (st_notebooks demo_state)" by simp
  have n: "nName ?n = CNR_Name demo_notebook_request" "nProjectID ?n = ui_ProjectID demo_user" "nState ?n \<noteq> NotebookStateDeleted" by (simp_all add: demo_eval demo_notebook_request_def)
  have ok: "CNR_Name demo_notebook_request \<noteq> []" "\<forall>p \<in> set (CNR_AdditionalExposedPorts demo_notebook_request). 1 \<le> p \<and> p \<le> 65535"
    "notebook_image demo (CNR_Image demo_notebook_request) = Inr ''img''" by code_simp+
  have u: "ExtractUserInfo demo_ctx = Some demo_user" by (simp add: demo_ctx_def)
  show ?thesis using duplicate_notebook_refused [OF demo_reliable(2) u ok mem n] by blast
qed

text \<open>A deleted notebook comes back: \<^verbatim>\<open>DeleteNotebook\<close> looks at the action of the row but not at its state, so deleting a deleted notebook again
  puts it into the queue, where it counts as active, even when another active notebook of the project has taken its name.\<close>

theorem delete_revives_deleted_notebook:
  assumes db: "reliable_notebook_db (notebookDB env)" and wf: "notebooks_wf (st_notebooks st)" and u: "ExtractUserInfo ctx = Some u" and k: "k \<noteq> []"
    and r: "row_of nNotebookID (st_notebooks st) k = Some r" "nProjectID r = ui_ProjectID u" "nState r = NotebookStateDeleted"
  shows "\<exists>st' r'. DeleteNotebook env now ctx k st = (Inr (), st') \<and>
    row_of nNotebookID (st_notebooks st') = (row_of nNotebookID (st_notebooks st))(k \<mapsto> r') \<and>
    nState r' = NotebookStateQueued \<and> nQueuedAction r' = NotebookQueuedActionDelete \<and> nName r' = nName r"
proof -
  have dist: "distinct (map nNotebookID (st_notebooks st))" using wf by (simp add: table_wf_def)
  have inv: "notebook_inv r" using wf row_of_Some [OF r(1)] by (auto simp: table_wf_def list_all_iff)
  let ?f = "\<lambda>n. n\<lparr>nState := NotebookStateQueued, nQueuedAction := NotebookQueuedActionDelete, nReason := [], nVersion := nVersion r + 1\<rparr>"
  have id: "nNotebookID r = k" using row_of_Some [OF r(1)] by simp
  have get: "GetNotebookByIDAndProjectID (notebookDB env) now k (ui_ProjectID u) (st_notebooks st) = Inr r"
    unfolding GetNotebookByIDAndProjectID_def by (rule reliable_gorm.take_key [OF db dist r(1)]) (use id r(2) in auto)
  have upd: "SetNotebookQueuedAction (notebookDB env) now k (nVersion r) NotebookQueuedActionDelete (st_notebooks st) =
      (Inr (notebook_touch now (?f zero_notebook)), set_rows (\<lambda>n. nNotebookID n = k) (notebook_touch now \<circ> ?f) (st_notebooks st))"
    unfolding SetNotebookQueuedAction_def by (rule reliable_gorm.updates_versioned_current_rows [OF db dist r(1)]) simp_all
  have "nQueuedAction r \<noteq> NotebookQueuedActionDelete" using inv r(3) by (auto simp: notebook_inv_def)
  then show ?thesis using r(1) by (auto simp: DeleteNotebook_def u k get id upd row_of_set_rows)
qed

theorem delete_revives_deleted_notebook_witness:
  "let n = \<lambda>i k s. zero_notebook\<lparr>nID := i, nNotebookID := k, nName := ''same'', nProjectID := ''proj'', nState := s\<rparr>;
       st = initial_state\<lparr>st_notebooks := [n 1 ''old'' NotebookStateDeleted, n 2 ''new'' NotebookStateRunning]\<rparr>;
       st' = snd (DeleteNotebook demo 7 demo_ctx ''old'' st)
   in map_option nState (row_of nNotebookID (st_notebooks st') ''old'') = Some NotebookStateQueued \<and>
      map_option nState (row_of nNotebookID (st_notebooks st') ''new'') = Some NotebookStateRunning"
proof -
  let ?n = "\<lambda>i k s. zero_notebook\<lparr>nID := i, nNotebookID := k, nName := ''same'', nProjectID := ''proj'', nState := s\<rparr>"
  let ?st = "initial_state\<lparr>st_notebooks := [?n 1 ''old'' NotebookStateDeleted, ?n 2 ''new'' NotebookStateRunning]\<rparr>"
  have wf: "notebooks_wf (st_notebooks ?st)" by (simp add: table_wf_def notebook_inv_def zero_notebook_def)
  have u: "ExtractUserInfo demo_ctx = Some demo_user" by (simp add: demo_ctx_def)
  have r: "row_of nNotebookID (st_notebooks ?st) ''old'' = Some (?n 1 ''old'' NotebookStateDeleted)"
    "nProjectID (?n 1 ''old'' NotebookStateDeleted) = ui_ProjectID demo_user" "nState (?n 1 ''old'' NotebookStateDeleted) = NotebookStateDeleted"
    by (simp_all add: row_of_def demo_user_def)
  have new: "row_of nNotebookID (st_notebooks ?st) ''new'' = Some (?n 2 ''new'' NotebookStateRunning)" by (simp add: row_of_def)
  from delete_revives_deleted_notebook [where now = 7, OF demo_reliable(2) wf u _ r] new
  show ?thesis unfolding Let_def by (auto simp del: server_state.simps(2))
qed

text \<open>C23. A round of the rescheduler changes a notebook in one of two ways or not at all: an initializing notebook that is not pulling its image and
  has waited too long is put back into the queue to be requeued, and a requeued notebook is queued for its start on another cluster than
  before. Whichever of the two loops fails in between, no other notebook changes.\<close>

theorem reschedule_round:
  assumes "deployment env" and "server_wf env st" and "row_of nNotebookID (st_notebooks st) k = Some r"
  shows "\<exists>r'. row_of nNotebookID (st_notebooks (snd (rescheduleNotebooks env now d st))) k = Some r' \<and>
    (r' = r \<or>
     nState r = NotebookStateInitializing \<and> \<not> Contains (nReason r) pullingImageReason \<and> nUpdatedAt r + d < now \<and>
       r' = notebook_touch now (r\<lparr>nState := NotebookStateQueued, nQueuedAction := NotebookQueuedActionRequeue, nVersion := nVersion r + 1\<rparr>) \<or>
     nState r = NotebookStateRequeued \<and> nState r' = NotebookStateQueued \<and> nQueuedAction r' = NotebookQueuedActionStart \<and>
       nClusterID r' \<noteq> nClusterID r \<and> nVersion r' = nVersion r + 1 \<and> nTenantID r' = nTenantID r \<and> nProjectID r' = nProjectID r)"
  using reschedule_round_row [OF assms(1,2) surjective_pairing assms(3), of now d]
  by (auto simp: round_row_def moved_def due_def requeued_def)

theorem reschedule_round_witness:
  "let nb = zero_notebook\<lparr>nID := 1, nNotebookID := ''nb'', nState := NotebookStateInitializing\<rparr>;
       st = initial_state\<lparr>st_notebooks := [nb]\<rparr>
   in \<exists>r'. row_of nNotebookID (st_notebooks (snd (rescheduleNotebooks demo 9 5 st))) ''nb'' = Some r' \<and> nVersion r' \<le> nVersion nb + 1"
proof -
  let ?nb = "zero_notebook\<lparr>nID := 1, nNotebookID := ''nb'', nState := NotebookStateInitializing\<rparr>"
  let ?st = "initial_state\<lparr>st_notebooks := [?nb]\<rparr>"
  have wf: "server_wf demo ?st"
    by (simp add: server_wf_def initial_state_def table_wf_def notebook_inv_def zero_notebook_def clusters_table_ok_def coherent_def NewStore_def)
  have row: "row_of nNotebookID (st_notebooks ?st) ''nb'' = Some ?nb" by (simp add: row_of_def)
  from reschedule_round [OF demo_deployment wf row, of 9 5] show ?thesis unfolding Let_def by auto
qed

text \<open>The first loop of a round misses nothing: when the database does not fail, it requeues exactly the initializing notebooks that are due.\<close>

theorem requeue_exact:
  assumes "reliable_notebook_db (notebookDB env)" and "notebooks_wf (st_notebooks st)"
    and "ListNotebooksByState (notebookDB env) now NotebookStateInitializing (st_notebooks st) = Inr nbs"
  shows "\<exists>t. requeue_loop env now d nbs st = (Inr (), st\<lparr>st_notebooks := t\<rparr>) \<and> (\<forall>k. row_of nNotebookID t k = map_option
    (\<lambda>nb. if nState nb = NotebookStateInitializing \<and> \<not> Contains (nReason nb) pullingImageReason \<and> nUpdatedAt nb + d < now
      then notebook_touch now (nb\<lparr>nState := NotebookStateQueued, nQueuedAction := NotebookQueuedActionRequeue, nVersion := nVersion nb + 1\<rparr>) else nb)
    (row_of nNotebookID (st_notebooks st) k))"
  using requeue_loop_exact [OF assms, of d] unfolding due_def requeued_def .

theorem requeue_exact_witness:
  "let nb = \<lambda>i k t reason. zero_notebook\<lparr>nID := i, nNotebookID := k, nState := NotebookStateInitializing, nUpdatedAt := t, nReason := reason\<rparr>;
       nbs = [nb 1 ''a'' 0 [], nb 2 ''b'' 8 [], nb 3 ''c'' 0 ''Pulling image'']; st = initial_state\<lparr>st_notebooks := nbs\<rparr>;
       t = st_notebooks (snd (requeue_loop demo 9 5 nbs st))
   in map (\<lambda>k. map_option nState (row_of nNotebookID t k)) [''a'', ''b'', ''c''] =
      [Some NotebookStateQueued, Some NotebookStateInitializing, Some NotebookStateInitializing]"
proof -
  let ?nb = "\<lambda>i k t reason. zero_notebook\<lparr>nID := i, nNotebookID := k, nState := NotebookStateInitializing, nUpdatedAt := t, nReason := reason\<rparr>"
  let ?nbs = "[?nb 1 ''a'' 0 [], ?nb 2 ''b'' 8 [], ?nb 3 ''c'' 0 ''Pulling image'']"
  let ?st = "initial_state\<lparr>st_notebooks := ?nbs\<rparr>"
  have wf: "notebooks_wf (st_notebooks ?st)" by (simp add: table_wf_def notebook_inv_def zero_notebook_def)
  have list: "ListNotebooksByState (notebookDB demo) 9 NotebookStateInitializing (st_notebooks ?st) = Inr ?nbs"
    by code_simp
  obtain t where t: "requeue_loop demo 9 5 ?nbs ?st = (Inr (), ?st\<lparr>st_notebooks := t\<rparr>)"
    "\<forall>k. row_of nNotebookID t k = map_option
      (\<lambda>nb. if nState nb = NotebookStateInitializing \<and> \<not> Contains (nReason nb) pullingImageReason \<and> nUpdatedAt nb + 5 < 9
        then notebook_touch 9 (nb\<lparr>nState := NotebookStateQueued, nQueuedAction := NotebookQueuedActionRequeue, nVersion := nVersion nb + 1\<rparr>) else nb)
      (row_of nNotebookID ?nbs k)"
    using requeue_exact [OF demo_reliable(2) wf list, of 5] by auto
  have "st_notebooks (snd (requeue_loop demo 9 5 ?nbs ?st)) = t" unfolding t(1) by simp
  moreover have "Contains ''Pulling image'' pullingImageReason" by code_simp
  moreover have "\<not> Contains [] pullingImageReason" by code_simp
  ultimately show ?thesis using t(2) unfolding Let_def by (simp add: row_of_def)
qed

text \<open>C24. No call loses a notebook or a batch job: after any sequence of calls the row is still there, with the same owner, its version has not
  decreased and its history is a path of the lifecycle; a batch job stays on its cluster, and a notebook changes its cluster only by being
  rescheduled.\<close>

theorem workload_history:
  assumes "deployment env" and "server_wf env st"
  shows "(row_of nNotebookID (st_notebooks st) k = Some n \<longrightarrow> (\<exists>n'. row_of nNotebookID (st_notebooks (serves env calls st)) k = Some n' \<and>
      notebook_moves\<^sup>*\<^sup>* n n' \<and> nVersion n \<le> nVersion n' \<and> nTenantID n' = nTenantID n \<and> nProjectID n' = nProjectID n \<and> nName n' = nName n)) \<and>
    (row_of bJobID (st_batch_jobs st) k = Some b \<longrightarrow> (\<exists>b'. row_of bJobID (st_batch_jobs (serves env calls st)) k = Some b' \<and>
      batch_moves\<^sup>*\<^sup>* b b' \<and> bVersion b \<le> bVersion b' \<and> bTenantID b' = bTenantID b \<and> bProjectID b' = bProjectID b \<and> bClusterID b' = bClusterID b))"
proof -
  note steps = deployment.serves_steps [OF assms, of calls]
  have nsame: "nVersion x \<le> nVersion y \<and> nTenantID y = nTenantID x \<and> nProjectID y = nProjectID x \<and> nName y = nName x" if "notebook_moves\<^sup>*\<^sup>* x y" for x y
    using that by (induction rule: rtranclp_induct) (auto simp: notebook_moves_def)
  have bsame: "bVersion x \<le> bVersion y \<and> bTenantID y = bTenantID x \<and> bProjectID y = bProjectID x \<and> bClusterID y = bClusterID x" if "batch_moves\<^sup>*\<^sup>* x y" for x y
    using that by (induction rule: rtranclp_induct) (auto simp: batch_moves_def)
  show ?thesis
    using steps notebook_life.steps_row [of "st_notebooks st"] batch_life.steps_row [of "st_batch_jobs st"] nsame bsame by meson
qed

theorem workload_history_witness:
  "\<exists>n'. row_of nNotebookID (st_notebooks (serves demo [(5, Call_StopNotebook demo_ctx ''nb-xxxx'')] demo_state)) ''nb-xxxx'' = Some n' \<and>
     nName n' = nName (hd (st_notebooks demo_state))"
proof -
  have "row_of nNotebookID (st_notebooks demo_state) ''nb-xxxx'' = Some (hd (st_notebooks demo_state))" by (simp add: demo_eval)
  with workload_history [OF demo_deployment demo_wf(2)] show ?thesis by blast
qed

text \<open>A queued batch job can be started although it is to be canceled or deleted: the guard of \<^verbatim>\<open>RUNNING\<close> joins its conditions by a conjunction, so it
  only refuses jobs that are neither queued nor to be created, and the report of a worker wipes out the request.\<close>

theorem running_drops_cancel:
  assumes db: "reliable_batch_db (batchDB env)" and wf: "batch_jobs_wf (st_batch_jobs st)"
    and ci: "extractClusterInfoFromContext (enableAuth env) ctx = Inr ci" and k: "k \<noteq> []"
    and r: "row_of bJobID (st_batch_jobs st) k = Some r" "bTenantID r = ci_TenantID ci" "bState r = BatchJobStateQueued"
  shows "\<exists>st'. UpdateBatchJobState env now ctx \<lparr>UBS_Id = k, UBS_State = InternalBatchJob_RUNNING, UBS_Reason = x, UBS_Message = m\<rparr> st = (Inr (), st') \<and>
    row_of bJobID (st_batch_jobs st') = (row_of bJobID (st_batch_jobs st))
      (k \<mapsto> batch_touch now (r\<lparr>bState := BatchJobStateRunning, bQueuedAction := [], bVersion := bVersion r + 1\<rparr>))"
proof -
  have dist: "distinct (map bJobID (st_batch_jobs st))" using wf by (simp add: table_wf_def)
  have id: "bJobID r = k" using row_of_Some [OF r(1)] by simp
  let ?f = "\<lambda>j. j\<lparr>bState := BatchJobStateRunning, bQueuedAction := [], bVersion := bVersion r + 1\<rparr>"
  have get: "GetBatchJobByID (batchDB env) now k (st_batch_jobs st) = Inr r"
    unfolding GetBatchJobByID_def by (rule reliable_gorm.take_key [OF db dist r(1)]) (use id in auto)
  have "SetBatchJobState (batchDB env) now k (bVersion r) BatchJobStateRunning (st_batch_jobs st) =
      (Inr (batch_touch now (?f zero_batch_job)), set_rows (\<lambda>j. bJobID j = k) (batch_touch now \<circ> ?f) (st_batch_jobs st))"
    unfolding SetBatchJobState_def by (rule reliable_gorm.updates_versioned_current_rows [OF db dist r(1)]) simp_all
  then show ?thesis using r(1) by (simp add: UpdateBatchJobState_def ci k get r(2,3) apply_batch_state_def id row_of_set_rows)
qed

theorem running_drops_cancel_witness:
  "let r = zero_batch_job\<lparr>bID := 1, bJobID := ''bj'', bTenantID := ''ten'', bState := BatchJobStateQueued, bQueuedAction := BatchJobQueuedActionCancel\<rparr>;
       st = initial_state\<lparr>st_batch_jobs := [r]\<rparr>;
       st' = snd (UpdateBatchJobState demo 6 demo_ctx \<lparr>UBS_Id = ''bj'', UBS_State = InternalBatchJob_RUNNING, UBS_Reason = [], UBS_Message = []\<rparr> st)
   in map_option bState (row_of bJobID (st_batch_jobs st') ''bj'') = Some BatchJobStateRunning"
proof -
  let ?r = "zero_batch_job\<lparr>bID := 1, bJobID := ''bj'', bTenantID := ''ten'', bState := BatchJobStateQueued, bQueuedAction := BatchJobQueuedActionCancel\<rparr>"
  let ?st = "initial_state\<lparr>st_batch_jobs := [?r]\<rparr>"
  let ?ci = "\<lparr>ci_ClusterID = ''c1'', ci_ClusterName = ''one'', ci_TenantID = ''ten''\<rparr>"
  have wf: "batch_jobs_wf (st_batch_jobs ?st)" by (simp add: table_wf_def batch_inv_def zero_batch_job_def)
  have ci: "extractClusterInfoFromContext (enableAuth demo) demo_ctx = Inr ?ci" by (rule demo_ci)
  have r: "row_of bJobID (st_batch_jobs ?st) ''bj'' = Some ?r" "bTenantID ?r = ci_TenantID ?ci" "bState ?r = BatchJobStateQueued" by (simp_all add: row_of_def)
  from running_drops_cancel [where now = 6 and x = "[]" and m = "[]", OF demo_reliable(3) wf ci _ r] show ?thesis unfolding Let_def by auto
qed

section \<open>Clusters, the syncer service and the summaries\<close>

text \<open>A status report is visible at once: after a successful \<^verbatim>\<open>UpdateClusterStatus\<close> the cache and the store have the cluster with the reported nodes, pods and
  provisionable resources and the time of the report, so that the scheduler sees it as alive.\<close>

theorem report_visible:
  assumes dep: "deployment env" and wf: "server_wf env st" and ci: "extractClusterInfoFromContext (enableAuth env) ctx = Inr ci"
    and own: "\<forall>old. row_of cClusterID (st_clusters st) (ci_ClusterID ci) = Some old \<longrightarrow> cTenantID old = ci_TenantID ci"
    and run: "UpdateClusterStatus env now ctx (Some s) st = (Inr (), st')"
  shows "\<exists>cls c. st_cache st' (ci_TenantID ci) = Some cls \<and> map_of cls (ci_ClusterID ci) = Some c \<and>
    cc_GPUNodes c = CS_GpuNodes s \<and> cc_GPUPods c = CS_GpuPods s \<and> cc_ProvisionableResources c = CS_ProvisionableResources s \<and> cc_UpdatedAt c = now \<and>
    stored_cluster (statusCodec env) (st_clusters st') (ci_TenantID ci) (ci_ClusterID ci) = Some (unassumed c)"
proof -
  note db = deployment.cluster_laws [OF dep] and codec = deployment.status_laws [OF dep]
  obtain b c db' cs where b: "Marshal (statusCodec env) s = Inr b"
    and cr: "CreateOrUpdateCluster (clusterDB env) now (reported_cluster ci b) (st_clusters st) = (Inr c, db')"
    and add: "AddOrUpdateCluster (clusterDB env) (statusCodec env) now c db' (st_cache st) = (Inr (), cs)"
    and st': "st' = st\<lparr>st_clusters := db', st_cache := cs\<rparr>"
    using run by (auto simp: UpdateClusterStatus_def ci split: sum.splits prod.splits)
  have d: "distinct (map cClusterID (st_clusters st))" "distinct (map cID (st_clusters st))"
    using wf by (simp_all add: server_wf_def clusters_table_ok_def)
  note cou = create_or_update_cluster [OF db d cr]
  have row: "row_of cClusterID db' (ci_ClusterID ci) = Some c" and stat: "cStatus c = b" "cUpdatedAt c = now" and ten: "cTenantID c = ci_TenantID ci"
    using cou own by (auto simp: reported_cluster_def split: option.splits)
  have key: "cClusterID c = ci_ClusterID ci" using row_of_Some [OF row] by simp
  have un: "Unmarshal (statusCodec env) b = Inr s" by (rule proto_codec.unmarshal_marshal [OF codec b])
  obtain cl where cl: "convertToCacheCluster (statusCodec env) c = Inr cl" "cc_GPUNodes cl = CS_GpuNodes s" "cc_GPUPods cl = CS_GpuPods s"
    "cc_ProvisionableResources cl = CS_ProvisionableResources s" "cc_UpdatedAt cl = now"
    using un stat by (simp add: convertToCacheCluster_def)
  have stored: "stored_cluster (statusCodec env) db' (ci_TenantID ci) (ci_ClusterID ci) = Some cl" by (simp add: stored_cluster_def row ten cl(1))
  have "server_wf env st'" using deployment.serve_wf [OF dep wf, of now "Call_UpdateClusterStatus ctx (Some s)"] run by simp
  then have coh: "coherent (statusCodec env) db' cs" by (simp add: server_wf_def st')
  obtain cls where cls: "cs (ci_TenantID ci) = Some cls" using AddOrUpdateCluster_caches [OF add] ten by auto
  then have "map_option unassumed (map_of cls (ci_ClusterID ci)) = Some cl" using coh stored by (simp add: coherent_def coherent_at_def)
  then obtain c' where c': "map_of cls (ci_ClusterID ci) = Some c'" "unassumed c' = cl" by (cases "map_of cls (ci_ClusterID ci)") auto
  then show ?thesis using cls cl stored by (intro exI [of _ cls] exI [of _ c']) (auto simp: st')
qed

theorem report_visible_witness:
  "\<exists>cls c. st_cache demo_reported ''ten'' = Some cls \<and> map_of cls ''c1'' = Some c \<and> cc_GPUNodes c = CS_GpuNodes demo_status \<and> cc_UpdatedAt c = 1"
proof -
  let ?ci = "\<lparr>ci_ClusterID = ''c1'', ci_ClusterName = ''one'', ci_TenantID = ''ten''\<rparr>"
  let ?run = "UpdateClusterStatus demo 1 demo_ctx (Some demo_status) initial_state"
  have ci: "extractClusterInfoFromContext (enableAuth demo) demo_ctx = Inr ?ci" by (rule demo_ci)
  have run: "?run = (Inr (), snd ?run)" by (rule prod_eqI) (code_simp, simp)
  have none: "row_of cClusterID (st_clusters initial_state) (ci_ClusterID ?ci) = None" by (simp add: initial_state_def row_of_def)
  from report_visible [OF demo_deployment initial_wf ci _ run] none show ?thesis by (auto simp: demo_reported_def)
qed

text \<open>The listings of clusters: \<^verbatim>\<open>ListClusters\<close> returns the stored clusters of the tenant that are assigned to the user, each once and sorted by identifier,
  and \<^verbatim>\<open>ListClusterIDs\<close> the sorted identifiers of all assigned clusters without repetition.\<close>

theorem cluster_listings:
  assumes "cluster_db (clusterDB env)" and "clusters_table_ok (st_clusters st)" and u: "ExtractUserInfo ctx = Some u"
  shows "(ListClusters env now ctx st = Inr cs \<longrightarrow> sorted (map Cluster_Id cs) \<and> distinct (map Cluster_Id cs) \<and>
      set (map Cluster_Id cs) = {cClusterID r | r. r \<in> set (st_clusters st) \<and> cTenantID r = ui_TenantID u \<and> assigned u (cClusterID r) \<noteq> None}) \<and>
    (\<exists>ids. ListClusterIDs ctx = Inr ids \<and> sorted ids \<and> distinct ids \<and> set ids = {k. assigned u k \<noteq> None})"
proof -
  have acc: "assigned u k \<noteq> None \<longleftrightarrow> k \<in> ake_ClusterID ` set (ui_AssignedKubernetesEnvs u)" for k
    by (auto simp: assigned_def map_of_eq_None_iff image_iff)
  have "sorted (map Cluster_Id cs) \<and> distinct (map Cluster_Id cs) \<and>
      set (map Cluster_Id cs) = {cClusterID r | r. r \<in> set (st_clusters st) \<and> cTenantID r = ui_TenantID u \<and> assigned u (cClusterID r) \<noteq> None}"
    if run: "ListClusters env now ctx st = Inr cs"
  proof -
    obtain rows cs0 where rows: "store_ListClustersByTenantID (clusterDB env) now (ui_TenantID u) (st_clusters st) = Inr rows"
      and col: "collect_clusters (statusCodec env) (accessibleClusters u) rows = Inr cs0" and cs: "cs = sort_key Cluster_Id cs0"
      using run by (auto simp: ListClusters_def u split: sum.splits)
    have "find_result \<lparr>q_where = (\<lambda>c. cTenantID c = ui_TenantID u), q_order = unordered, q_limit = None\<rparr> (st_clusters st) rows"
      using gorm.find_found [OF assms(1)] rows unfolding store_ListClustersByTenantID_def by fastforce
    then have ms: "mset rows = mset (filter (\<lambda>c. cTenantID c = ui_TenantID u) (st_clusters st))" by (auto dest: find_result_mset)
    have "distinct (map cClusterID rows)"
      using assms(2) by (intro distinct_map_mset [OF ms]) (simp add: clusters_table_ok_def distinct_map_filter)
    then have dist: "distinct (map Cluster_Id cs0)" using collect_clusters_ids [OF col] by (simp add: distinct_map_filter)
    have "set (map Cluster_Id cs) = set (map Cluster_Id cs0)" "distinct (map Cluster_Id cs)"
      using dist by (simp_all add: cs distinct_map)
    moreover have "set (map Cluster_Id cs0) = {cClusterID r | r. r \<in> set rows \<and> assigned u (cClusterID r) \<noteq> None}"
      unfolding collect_clusters_ids [OF col] acc accessible_iff by auto
    ultimately show ?thesis using mset_eq_setD [OF ms] by (auto simp: cs)
  qed
  moreover have "\<exists>ids. ListClusterIDs ctx = Inr ids \<and> sorted ids \<and> distinct ids \<and> set ids = {k. assigned u k \<noteq> None}"
    unfolding ListClusterIDs_def u using accessible_keys [of u] acc by auto
  ultimately show ?thesis by blast
qed

theorem cluster_listings_witness:
  "ListClusterIDs demo_ctx = Inr [''c1'', ''c2''] \<and> (\<exists>cs. ListClusters demo 3 demo_ctx demo_reported = Inr cs \<and> sorted (map Cluster_Id cs) \<and> set (map Cluster_Id cs) = {''c1''})"
proof -
  have "case ListClusters demo 3 demo_ctx demo_reported of Inl _ \<Rightarrow> False | Inr cs \<Rightarrow> map Cluster_Id cs = [''c1'']" by code_simp
  then obtain cs where cs: "ListClusters demo 3 demo_ctx demo_reported = Inr cs" "map Cluster_Id cs = [''c1'']" by (auto split: sum.splits)
  have wf: "clusters_table_ok (st_clusters demo_reported)" using demo_wf(1) by (simp add: server_wf_def)
  have u: "ExtractUserInfo demo_ctx = Some demo_user" by (simp add: demo_ctx_def)
  have "ListClusterIDs demo_ctx = Inr [''c1'', ''c2'']" by code_simp
  moreover have "sorted (map Cluster_Id cs)"
    using cluster_listings [OF reliable_gorm.axioms(1) [OF demo_reliable(4)] wf u] cs(1) by blast
  ultimately show ?thesis using cs by auto
qed

text \<open>The time range of a summary request: an accepted range starts and ends on the hour, is not empty, and covers at least an hour; a missing end is the
  hour nearest to now, and a missing start is one week before the end.\<close>

theorem summary_range:
  assumes "getStartEndTime flt now defaultDuration = Inr (s, e)"
  shows "s mod defaultInterval = 0 \<and> e mod defaultInterval = 0 \<and> s + defaultInterval \<le> e \<and>
    (case flt of None \<Rightarrow> e - s = defaultDuration \<and> 2 * \<bar>e - now\<bar> \<le> defaultInterval
     | Some f \<Rightarrow> (0 < RF_EndTimestamp f \<longrightarrow> e \<le> RF_EndTimestamp f * 1000000000 \<and> RF_EndTimestamp f * 1000000000 < e + defaultInterval) \<and>
        (0 < RF_StartTimestamp f \<longrightarrow> s \<le> RF_StartTimestamp f * 1000000000 \<and> RF_StartTimestamp f * 1000000000 < s + defaultInterval))"
proof -
  define H where "H = defaultInterval"
  have H: "0 < H" "2 * (H div 2) = H" "defaultDuration = 168 * H" by (simp_all add: H_def defaultInterval_def defaultDuration_def)
  have tr: "Truncate t H mod H = 0" "Truncate t H \<le> t" "t < Truncate t H + H" for t using H(1) by (auto simp: Truncate_def mod_diff_left_eq)
  have al: "Truncate t H = t" if "t mod H = 0" for t using that by (simp add: Truncate_def)
  have gap: "a + H \<le> b" if "a mod H = 0" "b mod H = 0" "a < b" for a b
  proof -
    have "H dvd b - a" using that(1,2) by (simp add: mod_eq_0_iff_dvd)
    then show ?thesis using that(3) H(1) zdvd_imp_le [of H "b - a"] by simp
  qed
  let ?f = "case flt of None \<Rightarrow> \<lparr>RF_StartTimestamp = 0, RF_EndTimestamp = 0, RF_Duration = None\<rparr> | Some f \<Rightarrow> f"
  let ?e = "if 0 < RF_EndTimestamp ?f then RF_EndTimestamp ?f * 1000000000 else now + H div 2"
  let ?s = "if 0 < RF_StartTimestamp ?f then RF_StartTimestamp ?f * 1000000000 else e - defaultDuration"
  have e: "e = Truncate ?e H" and s: "s = Truncate ?s H" and lt: "s < e"
    using assms by (auto simp: getStartEndTime_def Let_def H_def [symmetric] split: if_splits)
  have es: "e mod H = 0" "s mod H = 0" using tr(1) e s by simp_all
  have none: "e - s = defaultDuration \<and> 2 * \<bar>e - now\<bar> \<le> H" if "flt = None"
  proof -
    have "(e - defaultDuration) mod H = 0" using mod_mult_self2 [of e H "-168"] es(1) H(3) by (simp add: algebra_simps)
    then have "s = e - defaultDuration" using s al that by simp
    moreover have "e \<le> now + H div 2" "now + H div 2 < e + H" using tr(2,3) [of "now + H div 2"] e that by simp_all
    ultimately show ?thesis using H(2) by (auto simp: abs_if)
  qed
  show ?thesis
    using es gap [OF es(2,1) lt] none tr(2,3) e s unfolding H_def [symmetric] by (cases flt) auto
qed

theorem summary_range_witness:
  "let h = defaultInterval in \<exists>s e. getStartEndTime None (1000 * h + 5) defaultDuration = Inr (s, e) \<and> e - s = defaultDuration \<and> 2 * \<bar>e - (1000 * h + 5)\<bar> \<le> h"
proof -
  let ?h = defaultInterval
  have "getStartEndTime None (1000 * ?h + 5) defaultDuration = Inr (832 * ?h, 1000 * ?h)" by code_simp
  from summary_range [OF this] this show ?thesis by (simp add: Let_def)
qed



text \<open>A refused object still takes GPUs: \<^verbatim>\<open>PatchKubernetesObject\<close> assumes the pod before it compares the requested namespace with the one the scheduler
  chose. When they differ the caller gets \<^verbatim>\<open>NotFound\<close> and nothing is written to the cluster, but its cached record now has the pod.\<close>

theorem refused_patch_keeps_assumed_pod:
  assumes dep: "deployment env" and wf: "server_wf env st" and n: "n \<noteq> 0" and req: "PKO_Resources req = Some n"
    and args: "PKO_Name req \<noteq> []" "PKO_Version req \<noteq> []" "PKO_Resource req \<noteq> []" "PKO_Data req \<noteq> []"
    and u: "ExtractUserInfo ctx = Some u" and tok: "ExtractToken ctx = Inr apikey"
    and sched: "env_Schedule env now u [] n st = (Inr s, st1)" and ns: "sr_Namespace s \<noteq> PKO_Namespace req"
    and add: "env_AddAssumedPod env now (ui_TenantID u) (sr_ClusterID s) (sr_Namespace s @ ''/'' @ PKO_Name req) n st1 = (Inr (), st2)"
  shows "PatchKubernetesObject env now ctx req st = (Inl (Status NotFound ''not found the namespace''), st2) \<and> st_k8s st2 = st_k8s st \<and>
    (\<exists>cls c. st_cache st2 (ui_TenantID u) = Some cls \<and> map_of cls (sr_ClusterID s) = Some c \<and>
      map_of (cc_AssumedGPUPodsByKey c) (sr_Namespace s @ ''/'' @ PKO_Name req) = Some \<lparr>ap_AllocatedCount = int32 n, ap_AddedAt = now\<rparr>)"
proof -
  have run: "PatchKubernetesObject env now ctx req st = (Inl (Status NotFound ''not found the namespace''), st2)"
    using args add by (simp add: PatchKubernetesObject_def u tok req sched ns)
  have k8s: "st_k8s st2 = st_k8s st" using sched add by (auto simp: env_Schedule_def env_AddAssumedPod_def split: prod.splits)
  have cwf: "cache_wf env st1" by (rule deployment.env_Schedule_wf [OF dep sched]) (use wf in \<open>simp add: server_wf_def cache_wf_def\<close>)
  then have ok: "clusters_table_ok (st_clusters st1)" "coherent (statusCodec env) (st_clusters st1) (st_cache st1)" by (simp_all add: cache_wf_def)
  have "AddAssumedPod (clusterDB env) (statusCodec env) now (ui_TenantID u) (sr_ClusterID s) (sr_Namespace s @ ''/'' @ PKO_Name req) n
      (st_clusters st1) (st_cache st1) = (Inr (), st_cache st2)"
    using add by (auto simp: env_AddAssumedPod_def split: prod.splits)
  then obtain cs1 cls c where "getCluster (clusterDB env) (statusCodec env) now (ui_TenantID u) (sr_ClusterID s) (st_clusters st1) (st_cache st1) = (Inr (Some c), cs1)"
    "coherent (statusCodec env) (st_clusters st1) cs1" "cs1 (ui_TenantID u) = Some cls" "map_of cls (sr_ClusterID s) = Some c"
    "st_cache st2 = put_cluster (ui_TenantID u) (sr_ClusterID s) (assume_pod now (sr_Namespace s @ ''/'' @ PKO_Name req) n c) cs1"
    by (rule AddAssumedPod_cases [OF deployment.cluster_laws [OF dep] ok n])
  then show ?thesis using run k8s by (auto simp: put_cluster_def assume_pod_def)
qed

theorem refused_patch_keeps_assumed_pod_witness:
  "let req = \<lparr>PKO_Namespace = ''other'', PKO_Name = ''pod'', PKO_Group = [], PKO_Version = ''v1'', PKO_Resource = ''pods'', PKO_Resources = Some 3, PKO_Data = ''x''\<rparr>;
       run = PatchKubernetesObject demo 3 demo_ctx req demo_reported
   in fst run = Inl (Status NotFound ''not found the namespace'') \<and> st_k8s (snd run) = st_k8s demo_reported"
proof -
  let ?req = "\<lparr>PKO_Namespace = ''other'', PKO_Name = ''pod'', PKO_Group = [], PKO_Version = ''v1'', PKO_Resource = ''pods'', PKO_Resources = Some 3, PKO_Data = ''x''\<rparr>"
  let ?sched = "env_Schedule demo 3 demo_user [] 3 demo_reported"
  let ?add = "env_AddAssumedPod demo 3 (ui_TenantID demo_user) (sr_ClusterID demo_sched) (sr_Namespace demo_sched @ ''/'' @ PKO_Name ?req) 3 (snd ?sched)"
  have sched: "?sched = (Inr demo_sched, snd ?sched)" by (rule prod_eqI) (code_simp, simp)
  have add: "?add = (Inr (), snd ?add)" by (rule prod_eqI) (code_simp, simp)
  have u: "ExtractUserInfo demo_ctx = Some demo_user" "ExtractToken demo_ctx = Inr ''apikey''" by (simp_all add: demo_ctx_def)
  have ns: "sr_Namespace demo_sched \<noteq> PKO_Namespace ?req" by (simp add: demo_eval)
  from refused_patch_keeps_assumed_pod [OF demo_deployment demo_wf(1) _ _ _ _ _ _ u sched ns add] show ?thesis by (simp add: Let_def)
qed

section \<open>Clusters\<close>



text \<open>C27. A round of the dispatcher gets its work done: when every call is delivered and nobody else calls, the database and the cluster do
  what they are asked to, and each queued job of the cluster can be dispatched, the round returns without an error; then each job to be
  created is running with the registered model and its Kubernetes job has been applied, each job to be canceled is canceled, and no other
  row has changed.\<close>

theorem dispatch_round_settles:
  fixes w :: "'k fleet" and c :: "'s Config"
  assumes "willing_kube K accepted" and "quiet net" and "\<not> Standalone c" and "reliable_job_db (jobDB env)"
    and "is_order (\<lambda>x y :: Job. collation env (jJobID x) (jJobID y))" and "jobs_wf (st_jobs (fl_server w))"
    and "extractClusterInfoFromContext (enableAuth env) ctx = Inr ci"
    and "\<forall>r \<in> set (st_jobs (fl_server w)). queued_here ci r \<longrightarrow> dispatchable net env svc c r"
  shows "\<exists>w'. processQueuedJobs (run_dispatcher net env ctx K svc c) w = (Inr (), w') \<and>
    (\<forall>r \<in> set (st_jobs (fl_server w)). if queued_here ci r then settled env svc (accepted (fl_kube w')) (st_jobs (fl_server w')) r
       else row_of jJobID (st_jobs (fl_server w')) (jJobID r) = Some r)"
proof -
  obtain w' rows where run: "processQueuedJobs (run_dispatcher net env ctx K svc c) w = (Inr (), w')"
    and rows: "set rows = {r \<in> set (st_jobs (fl_server w)). queued_here ci r}" and after: "progress env svc accepted (st_jobs (fl_server w)) rows w'"
    using willing_kube.jobs_round [OF assms] by blast
  note dist = jobs_wf_distinct [OF assms(6)]
  have "row_of jJobID (st_jobs (fl_server w')) (jJobID r) = Some r" if r: "r \<in> set (st_jobs (fl_server w))" "\<not> queued_here ci r" for r
  proof -
    have row: "row_of jJobID (st_jobs (fl_server w)) (jJobID r) = Some r" by (rule row_of_distinct [OF dist r(1)])
    have "jJobID r \<notin> jJobID ` set rows"
    proof
      assume "jJobID r \<in> jJobID ` set rows"
      then obtain q where "q \<in> set (st_jobs (fl_server w))" "queued_here ci q" "jJobID q = jJobID r" using rows by auto
      then show False using row_of_distinct [OF dist] row r(2) by (metis option.inject)
    qed
    then show ?thesis using after row by (simp add: progress_def)
  qed
  then show ?thesis using run rows after by (auto simp: progress_def)
qed

theorem dispatch_round_settles_witness:
  "\<exists>w'. processQueuedJobs (run_dispatcher demo_net demo demo_ctx sim_kube demo_services demo_config) demo_fleet = (Inr (), w') \<and>
     settled demo demo_services (fl_kube w') (st_jobs (fl_server w')) (hd (st_jobs demo_state))"
proof -
  let ?ci = "\<lparr>ci_ClusterID = ''c1'', ci_ClusterName = ''one'', ci_TenantID = ''ten''\<rparr>"
  let ?r = "hd (st_jobs demo_state)"
  have order: "is_order (\<lambda>x y :: Job. collation demo (jJobID x) (jJobID y))" by (simp add: is_order_def demo_def demo_env_def)
  have wf: "jobs_wf (st_jobs (fl_server demo_fleet))" using demo_wf(2) by (simp add: server_wf_def demo_fleet_def)
  have rows: "st_jobs demo_state = [?r]" "queued_here ?ci ?r" "jQueuedAction ?r = JobQueuedActionCreate" by (simp_all add: demo_eval queued_here_def)
  have eval: "case V1InternalJob (jobCodec demo) ?r of Inl _ \<Rightarrow> False | Inr ij \<Rightarrow> Job_Id (IJ_Job ij) = jJobID ?r \<and> jJobID ?r \<noteq> [] \<and>
      (case svc_pre demo_services ij of Inl _ \<Rightarrow> False | Inr p \<Rightarrow> OutputModelID p \<noteq> [] \<and>
        (case jobSpec (cfg_Job demo_config) (cfg_Workload demo_config) (IJ_Job ij) p of Inl _ \<Rightarrow> False | Inr _ \<Rightarrow> True))"
    by code_simp
  have "dispatchable demo_net demo demo_services demo_config ?r"
    using eval rows(3) unfolding dispatchable_def by (auto split: sum.splits)
  with rows have disp: "\<forall>r \<in> set (st_jobs (fl_server demo_fleet)). queued_here ?ci r \<longrightarrow> dispatchable demo_net demo demo_services demo_config r"
    by (metis demo_fleet_def empty_iff empty_set fleet.select_convs(1) set_ConsD)
  have "\<not> Standalone demo_config" by (simp add: demo_config_def)
  from dispatch_round_settles [OF sim_willing.willing_kube_axioms demo_quiet this demo_reliable(1) order wf demo_ci disp]
  obtain w' where "processQueuedJobs (run_dispatcher demo_net demo demo_ctx sim_kube demo_services demo_config) demo_fleet = (Inr (), w')"
    "\<forall>r \<in> set (st_jobs demo_state). if queued_here ?ci r then settled demo demo_services (fl_kube w') (st_jobs (fl_server w')) r
       else row_of jJobID (st_jobs (fl_server w')) (jJobID r) = Some r"
    by (auto simp: demo_fleet_def)
  moreover have "?r \<in> set (st_jobs demo_state)" using rows(1) by (metis list.set_intros(1))
  ultimately show ?thesis using rows(2) by auto
qed

text \<open>C28. The server schedules a fine-tuning job for as many GPUs as its Kubernetes job then asks for: the counts the server and the dispatcher
  derive from the same message agree, on errors too, and the specification the dispatcher builds limits its only container to that number.\<close>

theorem gpu_requests_agree:
  "(\<forall>n. job_gpu_count (Job_Resources job) = Inr n \<longleftrightarrow> getGpuCount job = Inr n) \<and>
   (\<forall>spec. jobSpec jcfg wcfg job presult = Inr spec \<longrightarrow>
      (\<exists>n. job_gpu_count (Job_Resources job) = Inr n \<and> 1 \<le> n \<and> template_gpus (js_Template spec) = [NewQuantity n]))"
proof -
  have agree: "job_gpu_count (Job_Resources job) = Inr n \<longleftrightarrow> getGpuCount job = Inr n" for n
    by (auto simp: job_gpu_count_def getGpuCount_def split: option.splits)
  moreover have "\<exists>n. job_gpu_count (Job_Resources job) = Inr n \<and> 1 \<le> n \<and> template_gpus (js_Template spec) = [NewQuantity n]"
    if spec: "jobSpec jcfg wcfg job presult = Inr spec" for spec
  proof -
    obtain n where "getGpuCount job = Inr n" "template_gpus (js_Template spec) = [NewQuantity n]" "1 \<le> n" by (rule jobSpec_gpus [OF spec])
    then show ?thesis using agree by blast
  qed
  ultimately show ?thesis by blast
qed

theorem gpu_requests_agree_witness:
  "\<exists>spec p. jobSpec demo_job_config demo_workload demo_job_proto p = Inr spec \<and> template_gpus (js_Template spec) = [NewQuantity 2]"
proof -
  let ?p = "projr (NoopPreProcessor_Process \<lparr>IJ_Job = demo_job_proto, IJ_OutputModelId = [], IJ_Suffix = [], IJ_State = 1, IJ_QueuedAction = 1\<rparr>)"
  have res: "Job_Resources demo_job_proto = Some 2" by code_simp
  have "\<exists>spec. jobSpec demo_job_config demo_workload demo_job_proto ?p = Inr spec"
    by (rule jobSpec_ok) (use res in \<open>simp_all add: demo_job_config_def demo_job_proto_def new_job_proto_def demo_job_request_def\<close>)
  then obtain spec where spec: "jobSpec demo_job_config demo_workload demo_job_proto ?p = Inr spec" ..
  with gpu_requests_agree [of demo_job_proto demo_job_config demo_workload ?p] obtain n where
    "job_gpu_count (Job_Resources demo_job_proto) = Inr n" "template_gpus (js_Template spec) = [NewQuantity n]" by blast
  with spec show ?thesis by (auto simp: res job_gpu_count_def)
qed

text \<open>C29. The loop that lists the objects of a base model ends exactly when some page fails or is not truncated, and then has the keys of all pages
  up to that one. Its request carries no continuation token, so when the service gives every equal request an equal truncated answer it never ends.\<close>

theorem model_listing_ends:
  "(list_pages L 0 [] = None \<longleftrightarrow> (\<forall>n. \<exists>c. L n = Inr (c, True))) \<and>
   (\<forall>k c. (\<forall>i < k. \<exists>c. L i = Inr (c, True)) \<longrightarrow> L k = Inr (c, False) \<longrightarrow>
      list_pages L 0 [] = Some (Inr (concat (map (\<lambda>i. fst (projr (L i))) [0..<k]) @ c))) \<and>
   (\<forall>p job mpath c. GetBaseModelPath (pp_modelClient p) (Job_Model (IJ_Job job)) = Inr mpath \<longrightarrow>
      (\<forall>n. ListObjectsPages (defaultS3Client p) n (defaultS3Bucket p) (mpath @ ''/'') = Inr (c, True)) \<longrightarrow> PreProcessor_Process p job = None)"
proof (intro conjI allI impI)
  show "list_pages L 0 [] = None \<longleftrightarrow> (\<forall>n. \<exists>c. L n = Inr (c, True))" using list_pages_None_iff [of L 0] by simp
  show "list_pages L 0 [] = Some (Inr (concat (map (\<lambda>i. fst (projr (L i))) [0..<k]) @ c))"
    if "\<forall>i < k. \<exists>c. L i = Inr (c, True)" "L k = Inr (c, False)" for k c
    using list_pages_stops [of k L 0 c "[]"] that by simp
  show "PreProcessor_Process p job = None"
    if "GetBaseModelPath (pp_modelClient p) (Job_Model (IJ_Job job)) = Inr mpath"
      "\<forall>n. ListObjectsPages (defaultS3Client p) n (defaultS3Bucket p) (mpath @ ''/'') = Inr (c, True)" for p job mpath c
    using that list_pages_None_iff [of "\<lambda>n. ListObjectsPages (defaultS3Client p) n (defaultS3Bucket p) (mpath @ ''/'')" 0 "[]"]
    by (simp add: PreProcessor_Process_def)
qed

theorem model_listing_ends_witness:
  "list_pages (\<lambda>n. ListObjectsPages demo_s3 n ''b'' ''m/'') 0 [] = Some (Inr [''m/a'', ''m/b'']) \<and>
   list_pages (\<lambda>n. Inr ([''x''], True)) 0 [] = None"
proof
  let ?L = "\<lambda>n. ListObjectsPages demo_s3 n ''b'' ''m/''"
  have "?L 1 = Inr ([''m/b''], False)" "\<forall>i < 1. \<exists>c. ?L i = Inr (c, True)" "[0..<1] = [0]" "fst (projr (?L 0)) = [''m/a'']"
    by (simp_all add: demo_s3_def)
  then show "list_pages ?L 0 [] = Some (Inr [''m/a'', ''m/b''])"
    using model_listing_ends [of ?L, THEN conjunct2, THEN conjunct1, rule_format, of 1 "[''m/b'']"] by simp
  show "list_pages (\<lambda>n. Inr ([''x''], True)) 0 [] = None"
    using model_listing_ends [of "\<lambda>n. Inr ([''x''], True)"] by simp
qed

text \<open>Paths of files: splitting an \<^verbatim>\<open>s3://bucket/key\<close> path and writing it are inverse to each other, for every bucket name without a slash and every
  key; every other string is refused. The URL of a file with such a path is signed for that bucket and key by the client configured for the
  bucket, provided that the key does not itself begin with the same \<^verbatim>\<open>s3://bucket/\<close>.\<close>

theorem s3_paths:
  "(splitS3Path s = Inr (bucket, key) \<longleftrightarrow> s = ''s3://'' @ bucket @ ''/'' @ key \<and> CHR ''/'' \<notin> set bucket) \<and>
   (pp_GetFilePath p f = Inr (''s3://'' @ bucket @ ''/'' @ key) \<and> CHR ''/'' \<notin> set bucket \<and> \<not> HasPrefix key (''s3://'' @ bucket @ ''/'') \<and>
    CheckObjectExists (case map_of (optionalS3Clients p) bucket of Some c \<Rightarrow> c | None \<Rightarrow> defaultS3Client p) bucket key = Inr True \<and>
    GeneratePresignedURL (case map_of (optionalS3Clients p) bucket of Some c \<Rightarrow> c | None \<Rightarrow> defaultS3Client p) bucket key preSignedURLExpire = Inr url
    \<longrightarrow> getPresignedURLForFile p f = Inr url)"
proof
  show "splitS3Path s = Inr (bucket, key) \<longleftrightarrow> s = ''s3://'' @ bucket @ ''/'' @ key \<and> CHR ''/'' \<notin> set bucket"
    using splitS3Path_path [of bucket key] splitS3Path_ok [of s bucket key] by blast
  show "pp_GetFilePath p f = Inr (''s3://'' @ bucket @ ''/'' @ key) \<and> CHR ''/'' \<notin> set bucket \<and> \<not> HasPrefix key (''s3://'' @ bucket @ ''/'') \<and>
    CheckObjectExists (case map_of (optionalS3Clients p) bucket of Some c \<Rightarrow> c | None \<Rightarrow> defaultS3Client p) bucket key = Inr True \<and>
    GeneratePresignedURL (case map_of (optionalS3Clients p) bucket of Some c \<Rightarrow> c | None \<Rightarrow> defaultS3Client p) bucket key preSignedURLExpire = Inr url
    \<longrightarrow> getPresignedURLForFile p f = Inr url"
  proof (intro impI, elim conjE)
    assume path: "pp_GetFilePath p f = Inr (''s3://'' @ bucket @ ''/'' @ key)" and b: "CHR ''/'' \<notin> set bucket"
      and k: "\<not> HasPrefix key (''s3://'' @ bucket @ ''/'')"
      and ok: "CheckObjectExists (case map_of (optionalS3Clients p) bucket of Some c \<Rightarrow> c | None \<Rightarrow> defaultS3Client p) bucket key = Inr True"
        "GeneratePresignedURL (case map_of (optionalS3Clients p) bucket of Some c \<Rightarrow> c | None \<Rightarrow> defaultS3Client p) bucket key preSignedURLExpire = Inr url"
    have "HasPrefix (''s3://'' @ bucket @ ''/'' @ key) ''s3://''" by (simp add: HasPrefix_def)
    then show "getPresignedURLForFile p f = Inr url"
      unfolding getPresignedURLForFile_def path using splitS3Path_path [OF b, of key] k ok
      by (simp add: TrimPrefix_def Let_def del: append_Cons)
  qed
qed

theorem s3_paths_witness:
  "splitS3Path ''s3://data/dir/x'' = Inr (''data'', ''dir/x'') \<and> getPresignedURLForFile demo_preprocessor ''dir/x'' = Inr ''data/dir/x''"
  using s3_paths [of "''s3://data/dir/x''" "''data''" "''dir/x''" demo_preprocessor "''dir/x''" "''data/dir/x''"]
  by (simp add: demo_preprocessor_def demo_s3_def HasPrefix_def)

text \<open>Nothing of the workload configuration is lost on the way into a pod specification: the affinity reads back as configured, node selector and
  tolerations are all there in order, and the containers, volumes and policies of the pod are as they were.\<close>

theorem workload_config_kept:
  assumes "ps_Affinity p = None" and "ps_NodeSelector p = []" and "ps_Tolerations p = []"
  shows "map_option read_affinity (ps_Affinity (applyWorkloadConfig p wc)) = wc_Affinity wc \<and>
    ps_NodeSelector (applyWorkloadConfig p wc) = wc_NodeSelector wc \<and>
    ps_Tolerations (applyWorkloadConfig p wc) = map toleration_AC (wc_Tolerations wc) \<and>
    (\<forall>tc \<in> set (wc_Tolerations wc). case_option [] id (tol_Key (toleration_AC tc)) = tc_Key tc \<and>
      case_option 0 id (tol_Seconds (toleration_AC tc)) = max 0 (tc_TolerationSeconds tc)) \<and>
    ps_Containers (applyWorkloadConfig p wc) = ps_Containers p \<and> ps_InitContainers (applyWorkloadConfig p wc) = ps_InitContainers p \<and>
    ps_Volumes (applyWorkloadConfig p wc) = ps_Volumes p \<and> ps_RestartPolicy (applyWorkloadConfig p wc) = ps_RestartPolicy p"
  using assms by (simp add: applyWorkloadConfig_sets) (auto simp: toleration_AC_def)

theorem workload_config_kept_witness:
  "map_option read_affinity (ps_Affinity (applyWorkloadConfig empty_PodSpec demo_workload)) = wc_Affinity demo_workload \<and>
   ps_NodeSelector (applyWorkloadConfig empty_PodSpec demo_workload) = [(''gpu'', ''yes'')]"
  using workload_config_kept [of empty_PodSpec demo_workload] by (simp add: empty_PodSpec_def demo_workload_def)

text \<open>C30. The report of a cluster: as long as no count is negative or leaves the 32-bit range, the reported nodes sum up to the GPUs of the nodes that are
  not cordoned and the reported pods to the limits of the running pods. And a running pod that uses GPUs is reported under its namespace
  and name, so that the pod the server has assumed for its job, whose key is a prefix of it, is recognised.\<close>

theorem reported_gpus:
  assumes lists: "k_ListNodes K w = (Inr nodes, w1)" "k_ListPods K None [] w1 = (Inr pods, w2)"
    and range: "\<forall>n \<in> set nodes. \<forall>q c. map_of (node_Allocatable n) nvidiaGPU = Some q \<longrightarrow> A q = Some c \<longrightarrow> is_int32 c"
      "\<forall>p \<in> set pods. (\<forall>l \<in> set (pod_Limits p). 0 \<le> container_gpus A l) \<and> sum_list (map (container_gpus A) (pod_Limits p)) < 2 ^ 31"
  shows "\<exists>status w'. buildClusterStaus K A w = (Inr status, w') \<and>
    sum_list (map GpuNode_AllocatableCount (CS_GpuNodes status)) =
      sum_list (map (\<lambda>n. container_gpus A (Some (node_Allocatable n))) (filter (\<lambda>n. \<not> node_Unschedulable n) nodes)) \<and>
    sum_list (map GpuPod_AllocatedCount (CS_GpuPods status)) =
      sum_list (map (\<lambda>p. sum_list (map (container_gpus A) (pod_Limits p))) (filter (\<lambda>p. pod_Phase p = ''Running'') pods)) \<and>
    (\<forall>p \<in> set pods. pod_Phase p = ''Running'' \<and> 0 < sum_list (map (container_gpus A) (pod_Limits p)) \<longrightarrow>
      (\<forall>key. prefix key (pod_Namespace p @ ''/'' @ pod_Name p) \<longrightarrow> nnHasPrefix (CS_GpuPods status) key))"
proof -
  obtain prs w3 where "catchE (bindE (k_ListNodePools K) (\<lambda>nps. ret (map toProvisionableResource nps))) (\<lambda>e. ret []) w2 = (Inr prs, w3)"
    by (cases "k_ListNodePools K w2"; cases "fst (k_ListNodePools K w2)") (auto simp: catchE_def bindE_def ret_def)
  then have "\<exists>status. buildClusterStaus K A w = (Inr status, w3) \<and> CS_GpuNodes status = List.map_filter (toGPUNode A) nodes \<and>
      CS_GpuPods status = List.map_filter (toGPUPod A) pods"
    using lists by (simp add: buildClusterStaus_def bindE_def ret_def)
  then obtain status where status: "buildClusterStaus K A w = (Inr status, w3)" "CS_GpuNodes status = List.map_filter (toGPUNode A) nodes"
    "CS_GpuPods status = List.map_filter (toGPUPod A) pods" by blast
  have "sum_list (map GpuNode_AllocatableCount (List.map_filter (toGPUNode A) nodes)) =
      sum_list (map (\<lambda>n. container_gpus A (Some (node_Allocatable n))) (filter (\<lambda>n. \<not> node_Unschedulable n) nodes))"
    using range(1) by (induction nodes) (auto simp: map_filter_simps toGPUNode_def container_gpus_def split: option.splits)
  moreover have "sum_list (map GpuPod_AllocatedCount (List.map_filter (toGPUPod A) pods)) =
      sum_list (map (\<lambda>p. sum_list (map (container_gpus A) (pod_Limits p))) (filter (\<lambda>p. pod_Phase p = ''Running'') pods))"
    using range(2) by (induction pods) (simp_all add: map_filter_simps toGPUPod_count)
  moreover have "nnHasPrefix (List.map_filter (toGPUPod A) pods) key"
    if p: "p \<in> set pods" "pod_Phase p = ''Running''" "0 < sum_list (map (container_gpus A) (pod_Limits p))"
      and key: "prefix key (pod_Namespace p @ ''/'' @ pod_Name p)" for p key
  proof -
    have "toGPUPod A p = Some \<lparr>GpuPod_ResourceName = nvidiaGPU, GpuPod_AllocatedCount = sum_list (map (container_gpus A) (pod_Limits p)),
        GpuPod_NamespacedName = pod_Namespace p @ ''/'' @ pod_Name p\<rparr>"
      using p range(2) by (simp add: toGPUPod_count)
    then show ?thesis using p(1) key by (force simp: nnHasPrefix_iff HasPrefix_iff_prefix map_filter_def)
  qed
  ultimately show ?thesis using status by auto
qed

theorem reported_gpus_witness:
  "\<exists>status w'. buildClusterStaus (sim_kube\<lparr>k_ListNodes := ret [demo_node], k_ListPods := (\<lambda>ns ls. ret [demo_pod])\<rparr>)
      (\<lambda>q. case q of NewQuantity n \<Rightarrow> Some n | _ \<Rightarrow> None) [] = (Inr status, w') \<and>
    sum_list (map GpuNode_AllocatableCount (CS_GpuNodes status)) = 4 \<and> nnHasPrefix (CS_GpuPods status) ''ns1/ftjob-xxx''"
proof -
  let ?A = "\<lambda>q. case q of NewQuantity n \<Rightarrow> Some n | _ \<Rightarrow> None"
  let ?K = "sim_kube\<lparr>k_ListNodes := ret [demo_node], k_ListPods := (\<lambda>ns ls. ret [demo_pod])\<rparr>"
  have "prefix ''ns1/ftjob-xxx'' (pod_Namespace demo_pod @ ''/'' @ pod_Name demo_pod)" by (simp add: demo_pod_def)
  moreover have "\<exists>status w'. buildClusterStaus ?K ?A [] = (Inr status, w') \<and>
    sum_list (map GpuNode_AllocatableCount (CS_GpuNodes status)) =
      sum_list (map (\<lambda>n. container_gpus ?A (Some (node_Allocatable n))) (filter (\<lambda>n. \<not> node_Unschedulable n) [demo_node])) \<and>
    sum_list (map GpuPod_AllocatedCount (CS_GpuPods status)) =
      sum_list (map (\<lambda>p. sum_list (map (container_gpus ?A) (pod_Limits p))) (filter (\<lambda>p. pod_Phase p = ''Running'') [demo_pod])) \<and>
    (\<forall>p \<in> set [demo_pod]. pod_Phase p = ''Running'' \<and> 0 < sum_list (map (container_gpus ?A) (pod_Limits p)) \<longrightarrow>
      (\<forall>key. prefix key (pod_Namespace p @ ''/'' @ pod_Name p) \<longrightarrow> nnHasPrefix (CS_GpuPods status) key))"
    by (rule reported_gpus) (auto simp: ret_def demo_node_def demo_pod_def container_gpus_def is_int32_def)
  ultimately show ?thesis by (auto simp: demo_node_def demo_pod_def container_gpus_def)
qed

text \<open>C31. Validation accepts exactly the valid configurations, and what it has accepted does not panic later: the only quantity that \<^verbatim>\<open>createNotebook\<close>
  parses with \<^verbatim>\<open>MustParse\<close> parses.\<close>

theorem validated_config:
  fixes c :: "'s Config"
  shows "(Validate ParseQuantity sender_Validate c = Inr () \<longleftrightarrow> valid_config ParseQuantity sender_Validate c) \<and>
    (Validate ParseQuantity sender_Validate c = Inr () \<longrightarrow>
      (\<forall>nb ref. let n = NewNotebookManager K ws (cfg_Notebook c) (cfg_Workload c) in
        \<forall>obj \<in> set (nb_deployment n nb # nb_owned_objects n nb ref). \<forall>q \<in> set (parsed_quantities obj). ParseQuantity q = Inr ()))"
proof -
  have "ParseQuantity q = Inr ()" if "Validate ParseQuantity sender_Validate c = Inr ()" "n = NewNotebookManager K ws (cfg_Notebook c) (cfg_Workload c)"
    "obj \<in> set (nb_deployment n nb # nb_owned_objects n nb ref)" "q \<in> set (parsed_quantities obj)" for n nb ref obj q
  proof -
    have "EnablePVC (cfg_Notebook c)" "q = StorageSize (cfg_Notebook c)"
      using nb_parsed_quantities [OF that(3,4)] by (simp_all add: that(2) NewNotebookManager_def)
    then show ?thesis using that(1) by (simp add: Validate_iff valid_config_def valid_notebook_def)
  qed
  then show ?thesis unfolding Let_def Validate_iff by blast
qed

theorem validated_config_witness:
  "valid_config (\<lambda>s. if s = ''1Gi'' then Inr () else Inl (Errorf ''bad'')) Inr demo_config \<and>
   list_all (\<lambda>obj. list_all (\<lambda>q. q = ''1Gi'') (parsed_quantities obj))
     (nb_owned_objects (NewNotebookManager sim_kube \<lparr>ws_ListQueuedInternalNotebooks = ret [], ws_UpdateNotebookState = (\<lambda>r. ret ())\<rparr>
      (cfg_Notebook demo_config) demo_workload) demo_notebook_proto (owner_reference (sim_applied (W_Apply [] (Apply_Secret (new_meta [] []))))))"
proof -
  let ?PQ = "\<lambda>s. if s = ''1Gi'' then Inr () else Inl (Errorf ''bad'')"
  have "Validate ?PQ Inr demo_config = Inr ()" by code_simp
  with validated_config [of ?PQ Inr demo_config sim_kube "\<lparr>ws_ListQueuedInternalNotebooks = ret [], ws_UpdateNotebookState = (\<lambda>r. ret ())\<rparr>"]
  show ?thesis unfolding list_all_iff by (force simp: Let_def demo_config_def split: if_splits)
qed



section \<open>The syncer\<close>



text \<open>C34. A deleted job is deleted in its worker cluster first. Whatever the network does, a \<^verbatim>\<open>Reconcile\<close> of a job that is being deleted either leaves the
  tenant's cluster as it is or has the deletion of the object in the recorded worker cluster as the last write of the server; while the worker
  cluster refuses, even because the object is already gone there, it fails and the job stays. When the calls are delivered and the worker
  cluster accepts, the finalizer is removed and the job is gone if it has no other.\<close>

theorem deletion_propagates:
  fixes w :: "'k fleet" and K :: "('k, batch_JobSpec, batch_JobStatus) objects"
  assumes store: "reliable_store K objs"
    and job: "objs (fl_kube w) nn = Some job" "sj_ManagedBy (so_Spec job) = Some fullJobControllerName" "isDeleted job" "ContainsFinalizer job fullJobControllerName"
      "annotation annoKeyClusterID job = cid" "cid \<noteq> []"
    and run: "JobController_Reconcile (run_JobController net env ctx K rec) cv V now nn w = (r, w')"
  shows "(fl_kube w' = fl_kube w \<or> (\<exists>past. st_k8s (fl_server w') = past @ [DeleteResource cid (snd nn) (fst nn) jobGVR])) \<and>
    (\<forall>e. k8sApply env (DeleteResource cid (snd nn) (fst nn) jobGVR) = Inl e \<longrightarrow> fl_kube w' = fl_kube w \<and> (\<exists>e'. r = Inl e')) \<and>
    (quiet net \<longrightarrow> (\<exists>st'. DeleteKubernetesObject env ctx (delete_request jobGVR nn cid) (fl_server w) = (Inr (), st')) \<longrightarrow>
       r = Inr no_requeue \<and> (if set (sm_Finalizers (so_Meta job)) = {fullJobControllerName} then objs (fl_kube w') nn = None
         else (\<exists>v. objs (fl_kube w') nn = Some (set_version v (RemoveFinalizer job fullJobControllerName)))))"
proof -
  have get: "oc_Get K nn (fl_kube w) = (Inr job, fl_kube w)" by (rule reliable_store.get_found [OF store job(1)])
  note run = run [unfolded JobController_Reconcile_def]
  have sub: "set (sm_Finalizers (so_Meta job)) \<subseteq> {fullJobControllerName} \<longleftrightarrow> set (sm_Finalizers (so_Meta job)) = {fullJobControllerName}"
    using job(4) by (auto simp: ContainsFinalizer_def)
  have ordered: "fl_kube w' = fl_kube w \<or> (\<exists>past. st_k8s (fl_server w') = past @ [DeleteResource cid (snd nn) (fst nn) jobGVR])"
    by (rule delete_ordered [OF get job(2-6) run])
  have "fl_kube w' = fl_kube w \<and> (\<exists>e'. r = Inl e')" if "k8sApply env (DeleteResource cid (snd nn) (fst nn) jobGVR) = Inl e" for e
    by (rule delete_refused [where managedBy = sj_ManagedBy, OF get job(2-6) that run])
  moreover have "r = Inr no_requeue \<and> (if set (sm_Finalizers (so_Meta job)) = {fullJobControllerName} then objs (fl_kube w') nn = None
      else (\<exists>v. objs (fl_kube w') nn = Some (set_version v (RemoveFinalizer job fullJobControllerName))))"
    if net: "quiet net" and ok: "DeleteKubernetesObject env ctx (delete_request jobGVR nn cid) (fl_server w) = (Inr (), st')" for st'
    using delete_round [where managedBy = sj_ManagedBy, OF store net job run] unfolding ok prod.case sum.case sub by (auto split: if_splits)
  ultimately show ?thesis using ordered by blast
qed

theorem deletion_propagates_witness:
  "case JobController_Reconcile (demo_syncer job_objects) demo_converter demo_Value 9 (''ns1'', ''sj'') (demo_tenant demo_deleted_job) of
     (r, w') \<Rightarrow> r = Inr no_requeue \<and> sim_lookup (fl_kube w') (''ns1'', ''sj'') = None"
proof (cases "JobController_Reconcile (demo_syncer job_objects) demo_converter demo_Value 9 (''ns1'', ''sj'') (demo_tenant demo_deleted_job)")
  case (Pair r w')
  have "\<exists>st'. DeleteKubernetesObject demo demo_ctx (delete_request jobGVR (''ns1'', ''sj'') ''c1'') (fl_server (demo_tenant demo_deleted_job)) = (Inr (), st')"
    by (simp add: DeleteKubernetesObject_def demo_def demo_env_def demo_ctx_def env_k8s_def delete_request_def jobGVR_def)
  then show ?thesis
    using deletion_propagates [OF sim_store.reliable_store_axioms demo_tenant_sel(2) demo_sync_job_predicates(5-8) _ Pair] demo_quiet Pair
    by (simp add: demo_sync_job_predicates(9))
qed

text \<open>C35. A job that is deleted between the read and the first write of a \<^verbatim>\<open>Reconcile\<close> is deployed all the same and never removed: the update that adds the
  finalizer ignores that the job does not exist, so the object is written to the worker cluster, recording it fails, and the next \<^verbatim>\<open>Reconcile\<close> finds no
  job and asks for nothing.\<close>

theorem deleted_job_leaks:
  fixes w :: "'k fleet" and K :: "('k, batch_JobSpec, batch_JobStatus) objects"
  assumes net: "quiet net" and get: "oc_Get K nn (fl_kube w) = (Inr job, k)" and key: "so_key job = nn"
    and job: "sj_ManagedBy (so_Spec job) = Some fullJobControllerName" "\<not> isDeleted job" "\<not> isDeployed job" "\<not> ContainsFinalizer job fullJobControllerName"
    and gone: "oc_Update K (AddFinalizer job fullJobControllerName) k = (Inl e, k)" "oc_IsNotFound K e" "\<And>base obj. oc_Patch K base obj k = (Inl e, k)"
      "oc_Get K nn k = (Inl e, k)"
    and prep: "prepareSyncPatchRequest cv (job_deployObj job) (job_totalGPUs V (so_Spec job)) jobGVR [] = Inr req"
    and server: "PatchKubernetesObject env (net_clock net (fl_rpcs w)) ctx req (fl_server w) = (Inr resp, st')"
  shows "\<exists>w'. JobController_Reconcile (run_JobController net env ctx K rec) cv V now nn w = (Inl e, w') \<and> fl_kube w' = k \<and>
    st_k8s (fl_server w') = st_k8s (fl_server w) @ [PatchResource (PKR_ClusterId resp) (snd nn) (fst nn) jobGVR (PKO_Data req)] \<and>
    JobController_Reconcile (run_JobController net env ctx K rec) cv V now nn w' = (Inr no_requeue, w')"
proof -
  have "so_Spec (AddFinalizer job fullJobControllerName) = so_Spec job" by (simp add: AddFinalizer_def)
  then have same: "prepareSyncPatchRequest cv (job_deployObj (AddFinalizer job fullJobControllerName)) (job_totalGPUs V (so_Spec (AddFinalizer job fullJobControllerName)))
      jobGVR [] = Inr req" using prep by (simp add: job_deployObj_copy)
  from deploy_of_deleted [where managedBy = sj_ManagedBy and gvr = jobGVR and now = now and kind = "''Job''" and failed = "job_failed now" and l = jobControllerName
      and prep = "\<lambda>job. prepareSyncPatchRequest cv (job_deployObj job) (job_totalGPUs V (so_Spec job)) jobGVR []" and rec = rec, OF net get job gone same server]
  obtain w' where "JobController_Reconcile (run_JobController net env ctx K rec) cv V now nn w = (Inl e, w')" "fl_server w' = st'" "fl_kube w' = k"
    "JobController_Reconcile (run_JobController net env ctx K rec) cv V now nn w' = (Inr no_requeue, w')"
    unfolding JobController_Reconcile_def by blast
  moreover have "st_k8s st' = st_k8s (fl_server w) @ [PatchResource (PKR_ClusterId resp) (snd nn) (fst nn) jobGVR (PKO_Data req)]"
    using PatchKubernetesObject_ok [OF server] prepared_address [OF prep] job_deployObj_key [of job] key by (simp add: prod_eq_iff)
  ultimately show ?thesis by blast
qed

theorem deleted_job_leaks_witness:
  "\<exists>w' past. JobController_Reconcile (demo_syncer late_objects) demo_converter demo_Value 9 (''ns1'', ''sj'') (demo_tenant demo_sync_job) = (Inl k8s_not_found, w') \<and>
    sim_lookup (fl_kube w') (''ns1'', ''sj'') = None \<and> st_k8s (fl_server w') = past @ [PatchResource ''c1'' ''sj'' ''ns1'' jobGVR ''{}'']"
proof -
  let ?k = "(2, Map.empty) :: job_world"
  have get: "oc_Get late_objects (''ns1'', ''sj'') (fl_kube (demo_tenant demo_sync_job)) = (Inr demo_sync_job, ?k)"
    using sim_store.get_found [OF demo_tenant_sel(1)] by (simp add: late_objects_def) (simp add: demo_tenant_def)
  have gone: "oc_Update late_objects obj ?k = (Inl k8s_not_found, ?k)" "oc_IsNotFound late_objects k8s_not_found"
    "oc_Patch late_objects base obj ?k = (Inl k8s_not_found, ?k)" "oc_Get late_objects nn ?k = (Inl k8s_not_found, ?k)" for base obj nn
    by (simp_all add: late_objects_def sim_objects_def sim_lookup_def)
  have server: "PatchKubernetesObject demo (net_clock demo_net (fl_rpcs (demo_tenant demo_sync_job))) demo_ctx demo_patch (fl_server (demo_tenant demo_sync_job)) =
      (Inr \<lparr>PKR_ClusterId = ''c1'', PKR_Uid = ''uid''\<rparr>, demo_patched)"
    unfolding demo_tenant_sel by (rule demo_patch_ok)
  have key: "so_key demo_sync_job = (''ns1'', ''sj'')" by (simp add: so_key_def demo_sync_job_def)
  from deleted_job_leaks [where rec = "\<lambda>nn r m k. k" and now = 9, OF demo_quiet get key demo_sync_job_predicates(1-4) gone demo_prepare server]
  obtain w' where "JobController_Reconcile (demo_syncer late_objects) demo_converter demo_Value 9 (''ns1'', ''sj'') (demo_tenant demo_sync_job) = (Inl k8s_not_found, w')"
    "fl_kube w' = ?k" "st_k8s (fl_server w') = st_k8s demo_state @ [PatchResource ''c1'' ''sj'' ''ns1'' jobGVR ''{}'']"
    by (auto simp: demo_tenant_sel demo_patch_def)
  then show ?thesis by (intro exI [of _ w'] exI [of _ "st_k8s demo_state"]) (simp add: sim_lookup_def)
qed

text \<open>C36. The status of a job in its worker cluster is copied to the tenant's cluster: after one \<^verbatim>\<open>Reconcile\<close> of the status syncer the job there has the status of the
  remote job and nothing else has changed, and a further one changes nothing.\<close>

theorem status_synced:
  fixes R L :: "('w, batch_JobSpec, batch_JobStatus) objects"
  assumes remote: "reliable_store R robjs" and locl: "reliable_store L lobjs"
    and apart: "\<And>base obj w. robjs (snd (oc_StatusPatch L base obj w)) = robjs w"
    and objs: "robjs w nn = Some robj" "\<not> isDeleted robj" "lobjs w nn = Some lobj"
  shows "\<exists>w' v. syncJobsFn nn R L w = (Inr no_requeue, w') \<and> robjs w' = robjs w \<and>
    lobjs w' = (lobjs w)(nn \<mapsto> set_version v (lobj\<lparr>so_Status := so_Status robj\<rparr>)) \<and> syncJobsFn nn R L w' = (Inr no_requeue, w')"
  unfolding syncJobsFn_def by (rule status_round [OF assms])

theorem status_synced_witness:
  "\<exists>w' job. syncJobsFn (''ns1'', ''sj'') (zoom snd (\<lambda>v w. (fst w, v)) job_objects) (zoom fst (\<lambda>v w. (v, snd w)) job_objects)
      (fl_kube (demo_tenant demo_sync_job), fl_kube (demo_tenant (demo_sync_job\<lparr>so_Status := \<lparr>sjs_Conditions = [], sjs_Other = ''done''\<rparr>\<rparr>))) = (Inr no_requeue, w') \<and>
    sim_lookup (fst w') (''ns1'', ''sj'') = Some job \<and> sjs_Other (so_Status job) = ''done''"
proof -
  let ?R = "zoom snd (\<lambda>v w. (fst w, v)) job_objects :: (job_world \<times> job_world, _, _) objects"
  let ?L = "zoom fst (\<lambda>v w. (v, snd w)) job_objects :: (job_world \<times> job_world, _, _) objects"
  let ?robj = "demo_sync_job\<lparr>so_Status := \<lparr>sjs_Conditions = [], sjs_Other = ''done''\<rparr>\<rparr>"
  let ?w = "(fl_kube (demo_tenant demo_sync_job), fl_kube (demo_tenant ?robj))"
  have remote: "reliable_store ?R (\<lambda>w. sim_lookup (snd w))" by (rule zoom_reliable [OF sim_store.reliable_store_axioms]) simp_all
  have locl: "reliable_store ?L (\<lambda>w. sim_lookup (fst w))" by (rule zoom_reliable [OF sim_store.reliable_store_axioms]) simp_all
  have apart: "sim_lookup (snd (snd (oc_StatusPatch ?L base obj w))) = sim_lookup (snd w)" for base obj w by (simp add: zoom_def split: prod.split)
  have robj: "sim_lookup (snd ?w) (''ns1'', ''sj'') = Some ?robj" "\<not> isDeleted ?robj"
    by (simp_all add: demo_tenant_def sim_lookup_def so_key_def demo_sync_job_def isDeleted_def)
  have lobj: "sim_lookup (fst ?w) (''ns1'', ''sj'') = Some demo_sync_job" using demo_tenant_sel(1) by simp
  obtain w' v where run: "syncJobsFn (''ns1'', ''sj'') ?R ?L ?w = (Inr no_requeue, w')"
    and obj: "sim_lookup (fst w') (''ns1'', ''sj'') = Some (set_version v (demo_sync_job\<lparr>so_Status := so_Status ?robj\<rparr>))"
    using status_synced [where w = ?w and robjs = "\<lambda>w. sim_lookup (snd w)" and lobjs = "\<lambda>w. sim_lookup (fst w)", OF remote locl apart robj lobj] by (elim exE conjE) (rule that, assumption, simp)
  show ?thesis by (intro exI conjI, rule run, rule obj) simp
qed

text \<open>C37. The GPUs the syncer asks the server for. A job asks for the sum of the limits of its containers modulo \<open>2 ^ 32\<close>, as a signed number, and for none when that is
  zero; as long as the sum is less than \<open>2 ^ 31\<close> this is the sum itself. A job set asks for the largest product of a container's limit and the number of
  instances of its job, as long as each of them is less than \<open>2 ^ 31\<close>.\<close>

theorem sync_gpu_requests:
  "(prepareSyncPatchRequest cv obj (job_totalGPUs V spec) gvr ms = Inr req \<longrightarrow>
      PKO_Resources req = (if limits_sum V spec mod 2 ^ 32 = 0 then None else Some (int32 (limits_sum V spec))) \<and>
      (0 < limits_sum V spec \<and> limits_sum V spec < 2 ^ 31 \<longrightarrow> PKO_Resources req = Some (limits_sum V spec))) \<and>
   (prepareSyncPatchRequest cv' obj' (calcMinJobSetGPUs V jspec) gvr ms' = Inr req' \<longrightarrow> list_all (\<lambda>n. 0 \<le> n \<and> n < 2 ^ 31) (jobset_counts V jspec) \<longrightarrow>
      PKO_Resources req' = (if foldl max 0 (jobset_counts V jspec) = 0 then None else Some (foldl max 0 (jobset_counts V jspec))))"
proof (intro conjI impI)
  let ?n = "limits_sum V spec"
  assume req: "prepareSyncPatchRequest cv obj (job_totalGPUs V spec) gvr ms = Inr req"
  then show r: "PKO_Resources req = (if ?n mod 2 ^ 32 = 0 then None else Some (int32 ?n))"
    unfolding job_totalGPUs_value by (rule gpu_request)
  assume n: "0 < ?n \<and> ?n < 2 ^ 31"
  then show "PKO_Resources req = Some ?n" using r by (simp add: int32_def)
next
  let ?cs = "jobset_counts V jspec"
  assume req: "prepareSyncPatchRequest cv' obj' (calcMinJobSetGPUs V jspec) gvr ms' = Inr req'" and cs: "list_all (\<lambda>n. 0 \<le> n \<and> n < 2 ^ 31) ?cs"
  have "0 \<le> foldl max 0 ?cs \<and> foldl max 0 ?cs < 2 ^ 31" by (rule foldl_max_bounds [OF _ _ cs]) simp_all
  moreover have "calcMinJobSetGPUs V jspec = word_of_int (foldl max 0 ?cs)" by (rule calcMinJobSetGPUs_value) (use cs in \<open>auto simp: list_all_iff\<close>)
  ultimately show "PKO_Resources req' = (if foldl max 0 ?cs = 0 then None else Some (foldl max 0 ?cs))"
    using gpu_request [of cv' obj' "foldl max 0 ?cs" gvr ms' req'] req by (simp add: int32_def)
qed

theorem sync_gpu_requests_witness:
  "PKO_Resources demo_patch = Some 1"
proof -
  have "limits_sum demo_Value (so_Spec demo_sync_job) = 1" by (simp add: limits_sum_def limit_value_def demo_sync_job_def)
  then show ?thesis
    using conjunct1 [OF sync_gpu_requests [of demo_converter "job_deployObj demo_sync_job" demo_Value "so_Spec demo_sync_job" jobGVR "[]" demo_patch]] demo_prepare by auto
qed



section \<open>Start-up, uploads and the Slurm prototype\<close>

text \<open>C39. Secrets survive a restart: a server that is started again with the same configuration has the data key of the first start, and reads the API keys that were stored
  under it. A server that is started again with KMS turned off reads an empty key in their place, without an error.\<close>

theorem secrets_survive_restart:
  assumes table: "data_key_table G" and ciph: "cipher enc dec"
    and kms: "\<And>dk e. kms_CreateDataKey kms = Inr (dk, e) \<Longrightarrow> kms_DecryptDataKey kms e = Inr dk"
      "\<And>b e. kms_DecryptDataKey kms b = Inl e \<Longrightarrow> \<not> errors_Is e ErrRecordNotFound"
    and dist: "distinct (map dkCreatedAt t)" and run: "run_dataKey G now c kms t = (Inr dk, t')" and set: "SetAPIKey enc apiKey dk n = Inr n'"
  shows "(\<forall>now' dk' t''. run_dataKey G now' c kms t' = (Inr dk', t'') \<longrightarrow> dk' = dk \<and> t'' = t' \<and> GetAPIKey dec dk' n' = Inr apiKey) \<and>
    (dk \<noteq> [] \<and> \<not> kms_Enable c' \<longrightarrow> (\<exists>dk' t''. run_dataKey G now' c' kms t' = (Inr dk', t'') \<and> GetAPIKey dec dk' n' = Inr []))"
proof -
  have "GetAPIKey dec dk n' = Inr apiKey" 
    using set cipher.dec_enc [OF ciph] cipher.enc_nonempty [OF ciph] by (auto simp: SetAPIKey_def GetAPIKey_def split: if_splits sum.splits)
  moreover have "dk' = dk \<and> t'' = t'" if "run_dataKey G now' c kms t' = (Inr dk', t'')" for now' dk' t''
    by (rule data_key_table.restart_same_key [OF table kms dist run that])
  moreover have "run_dataKey G now' c' kms t' = (Inr [], t') \<and> GetAPIKey dec [] n' = Inr []" if "dk \<noteq> []" "\<not> kms_Enable c'"
    using that set by (auto simp: run_dataKey_def GetAPIKey_def SetAPIKey_def split: sum.splits)
  ultimately show ?thesis by blast
qed

theorem secrets_survive_restart_witness:
  "\<exists>dk t n dk' t'. run_dataKey sql_dataKeys 1 demo_kms_config demo_kms [] = (Inr dk, t) \<and> SetAPIKey tag_enc ''secret'' dk demo_notebook = Inr n \<and>
    run_dataKey sql_dataKeys 2 demo_kms_config demo_kms t = (Inr dk', t') \<and> GetAPIKey tag_dec dk' n = Inr ''secret'' \<and> nAPIKey n = []"
proof -
  let ?t = "[\<lparr>dkID = 1, dkCreatedAt = 1, dkEncryptedDataKey = ''e''\<rparr>]"
  have run: "run_dataKey sql_dataKeys 1 demo_kms_config demo_kms [] = (Inr ''k'', ?t)"
    and again: "run_dataKey sql_dataKeys 2 demo_kms_config demo_kms ?t = (Inr ''k'', ?t)"
    by (simp_all add: run_dataKey_def GetDataKey_def CreateDataKey_def sql_gorm_def sort_by_def next_id_def dataKey_stamp_def demo_kms_def demo_kms_config_def Let_def)
  obtain n where set: "SetAPIKey tag_enc ''secret'' ''k'' demo_notebook = Inr n" and clear: "nAPIKey n = []" by (simp add: SetAPIKey_def tag_enc_def)
  have "GetAPIKey tag_dec ''k'' n = Inr ''secret''"
    using secrets_survive_restart [OF dk.data_key_table_axioms tag_cipher.cipher_axioms _ _ _ run set] again by (simp add: demo_kms_def)
  then show ?thesis using run set again clear by blast
qed

text \<open>C40. What a fine-tuning job can upload: with the form that pre-processing signs for the output model, the object store accepts only objects below the path under which the
  model was registered.\<close>

theorem uploads_confined:
  assumes "s3_service svc accepts" "PreProcessor_Process pp job = Some (Inr r)" "defaultS3Client pp = s3_Client svc"
  shows "\<exists>rpath values. RegisterModel (pp_modelClient pp) \<lparr>RM_BaseModel = Job_Model (IJ_Job job), RM_Suffix = IJ_Suffix job,
      RM_OrganizationId = Job_OrganizationId (IJ_Job job), RM_ProjectId = Job_ProjectId (IJ_Job job)\<rparr> = Inr (OutputModelID r, rpath) \<and>
    OutputModelPresignFlags r = Join (map (\<lambda>(k, v). ''-F '' @ [CHR 0x27] @ k @ ''='' @ v @ [CHR 0x27]) values) '' '' \<and>
    (\<forall>key. accepts values key \<longrightarrow> HasPrefix key (rpath @ ''/''))"
proof -
  obtain mpath paths where "sign_and_register pp job mpath paths = Inr r"
    using assms(2) by (auto simp: PreProcessor_Process_def split: sum.splits option.splits)
  from s3_service.output_confined [OF assms(1) this assms(3)] show ?thesis by blast
qed

theorem uploads_confined_witness:
  "\<exists>r values. PreProcessor_Process demo_uploader demo_internal_job = Some (Inr r) \<and> OutputModelID r = ''m'' \<and>
    OutputModelPresignFlags r = Join (map (\<lambda>(k, v). ''-F '' @ [CHR 0x27] @ k @ ''='' @ v @ [CHR 0x27]) values) '' '' \<and>
    \<not> sim_accepts values ''models/other/x''"
proof -
  have "case PreProcessor_Process demo_uploader demo_internal_job of Some (Inr r) \<Rightarrow> True | _ \<Rightarrow> False" by code_simp
  then obtain r where r: "PreProcessor_Process demo_uploader demo_internal_job = Some (Inr r)" by (auto split: option.splits sum.splits)
  have svc: "defaultS3Client demo_uploader = s3_Client sim_sdk" by (simp add: demo_uploader_def)
  have reg: "RegisterModel (pp_modelClient demo_uploader) q = Inr (''m'', ''models/m'')" for q by (simp add: demo_uploader_def demo_preprocessor_def)
  have "\<not> HasPrefix ''models/other/x'' (''models/m'' @ ''/'')" by code_simp
  then show ?thesis using uploads_confined [OF sim_s3.s3_service_axioms r svc] r unfolding reg by fastforce
qed

text \<open>The Slurm prototype distributes submissions in turn. With a validated configuration of \<open>n\<close> proxies, after any requests of which \<open>k\<close> were submissions, the next
  submission goes to proxy \<open>k mod n\<close>, whatever became of the others, and the next \<open>n\<close> submissions reach each proxy once. A submission that cannot be forwarded
  ends with a panic of the handler.\<close>

theorem slurm_round_robin:
  assumes valid: "slurm_Validate c = Inr ()" and run: "slurm_serves H J reqs (slurm_New c) w0 = Some (s, w)"
  shows "SlurmV0041PostJobSubmit H s wr r w =
      (let n = length (slurm_Proxies c); k = length (filter (\<lambda>q. fst q = ''SlurmV0041PostJobSubmit'') reqs)
       in case forward H (s_proxies (slurm_New c) ! (k mod n)) r ''POST'' ''/slurm/v0.0.41/job/submit'' w of
            (Inl e, _, w') \<Rightarrow> (Panicked (http_Error wr (Error e) 500), s\<lparr>jobSubmissionIndex := (k + 1) mod n\<rparr>, w')
          | (Inr resp, _, w') \<Rightarrow> (Returned (forwardResponse wr resp), s\<lparr>jobSubmissionIndex := (k + 1) mod n\<rparr>, w')) \<and>
    mset (fst (submitted_to (length (slurm_Proxies c)) s)) = mset (s_proxies (slurm_New c))"
proof -
  let ?k = "length (filter (\<lambda>q. fst q = ''SlurmV0041PostJobSubmit'') reqs)"
  have n: "length (s_proxies (slurm_New c)) = length (slurm_Proxies c)" and start: "jobSubmissionIndex (slurm_New c) = 0" by (simp_all add: slurm_New_def)
  have s: "slurm_ok s" "s_proxies s = s_proxies (slurm_New c)" "jobSubmissionIndex s = ?k mod length (slurm_Proxies c)"
    using serves_index [OF validated_ok [OF valid] run] by (simp_all add: n start)
  have "mset (fst (submitted_to (length (s_proxies s)) s)) = mset (s_proxies s)" unfolding submitted_nth [OF s(1)] by (rule rotation_mset)
  moreover have "nextProxy s = Some (s_proxies (slurm_New c) ! (?k mod length (slurm_Proxies c)), s\<lparr>jobSubmissionIndex := (?k + 1) mod length (slurm_Proxies c)\<rparr>)"
    unfolding nextProxy_ok [OF s(1)] by (simp add: s(2,3) n mod_Suc_eq)
  ultimately show ?thesis unfolding SlurmV0041PostJobSubmit_def Let_def by (simp add: s(2) n StatusInternalServerError_def cong: sum.case_cong)
qed

theorem slurm_round_robin_witness:
  "case slurm_serves demo_http demo_job_info [(''SlurmV0041PostJobSubmit'', fresh_writer, demo_submission)] (slurm_New demo_slurm) [] of None \<Rightarrow> False
   | Some (s, w) \<Rightarrow> (case SlurmV0041PostJobSubmit demo_http s fresh_writer demo_submission w of
       (Panicked _, _) \<Rightarrow> False | (Returned wr, _, w') \<Rightarrow> w' = [''a/slurm/v0.0.41/job/submit'', ''b/slurm/v0.0.41/job/submit''])"
proof -
  let ?s = "(slurm_New demo_slurm)\<lparr>jobSubmissionIndex := 1\<rparr>"
  let ?reqs = "[(''SlurmV0041PostJobSubmit'', fresh_writer, demo_submission)]"
  have valid: "slurm_Validate demo_slurm = Inr ()" by code_simp
  have run: "slurm_serves demo_http demo_job_info ?reqs (slurm_New demo_slurm) [] = Some (?s, [''a/slurm/v0.0.41/job/submit''])" by code_simp
  have proxies: "length (slurm_Proxies demo_slurm) = 2" by code_simp
  have fwd: "forward demo_http (s_proxies (slurm_New demo_slurm) ! Suc 0) demo_submission ''POST'' ''/slurm/v0.0.41/job/submit'' [''a/slurm/v0.0.41/job/submit''] =
    (Inr \<lparr>rs_StatusCode = 200, rs_Body = Inr ''ok''\<rparr>, demo_submission\<lparr>rq_Body := Inr []\<rparr>, [''a/slurm/v0.0.41/job/submit'', ''b/slurm/v0.0.41/job/submit''])"
    by code_simp
  from conjunct1 [OF slurm_round_robin [OF valid run, of fresh_writer demo_submission]] show ?thesis
    unfolding run by (simp add: proxies fwd Let_def)
qed

end
